(* ===== verification/Prelude.thy ===== *)
theory Prelude
  imports Main
begin

text \<open>
  Shared vocabulary of the development: Python strings as lists of Unicode code points,
  the exception classes of the program and the class hierarchy its \<open>except\<close> clauses
  rely on, the result type \<open>exc + 'a\<close> with its sequencing combinators, and the
  combinators for handlers that keep the state they reached when an exception leaves them.
  The collection \<open>res_simps\<close> opens a chain of checks that succeeded into the
  conjunction of the conditions it passed.
\<close>

section \<open>Collections\<close>

named_theorems res_simps \<open>inversion of successful checks\<close>

section \<open>Python strings\<close>

text \<open>A Python \<open>str\<close> is a sequence of code points; \<open>S\<close> embeds an ASCII literal.\<close>

type_synonym pystr = "nat list"

definition S :: "string \<Rightarrow> pystr" where
  "S s = List.map of_char s"

lemma S_inject [simp]: "S x = S y \<longleftrightarrow> x = y"
proof -
  have "inj (of_char :: char \<Rightarrow> nat)" by (rule inj_of_char)
  then have "inj (map (of_char :: char \<Rightarrow> nat))" by (rule inj_mapI)
  then show ?thesis by (simp add: S_def inj_eq)
qed

lemma length_S [simp]: "length (S s) = length s"
  by (simp add: S_def)

lemma S_Nil [simp]: "S [] = []"
  by (simp add: S_def)

lemma S_Cons: "S (c # s) = of_char c # S s"
  by (simp add: S_def)

lemma S_append: "S (a @ b) = S a @ S b"
  by (simp add: S_def)

lemma S_eq_Nil [simp]: "S s = [] \<longleftrightarrow> s = []"
  by (simp add: S_def)

section \<open>Exceptions\<close>

text \<open>
  The classes the program raises or catches, in the order of their declaration: the
  contract errors of \<open>contracts/errors.py\<close>, the kernel's and the store's own classes,
  and the built-in classes a dynamic Python operation can raise. \<open>ExternalError\<close> stands
  for whatever an injected object raises.
\<close>

datatype exc_class =
    ContractError | JsonDecodeError | SchemaError | SemanticError
  | ProofVerificationError | IdempotencyConflictError
  | IdentityError | LifecycleError | PolicyConfigurationError
  | EffectConfigurationError
  | DurableStoreError | OptimisticConcurrencyError | PreparedExecutionError
  | ExecutionAdmissionError
  | KeyError | TypeError | ValueError | AttributeError | RuntimeError | OverflowError
  | MigrationError | ExternalError

datatype exc = Exc exc_class string

text \<open>The direct base class, where the hierarchy has one that a handler names.\<close>

fun base_class :: "exc_class \<Rightarrow> exc_class option" where
  "base_class ContractError = Some ValueError"
| "base_class JsonDecodeError = Some ContractError"
| "base_class SchemaError = Some ContractError"
| "base_class SemanticError = Some ContractError"
| "base_class ProofVerificationError = Some SemanticError"
| "base_class IdempotencyConflictError = Some SemanticError"
| "base_class IdentityError = Some SemanticError"
| "base_class LifecycleError = Some SemanticError"
| "base_class PolicyConfigurationError = Some SemanticError"
| "base_class EffectConfigurationError = Some SemanticError"
| "base_class DurableStoreError = Some SemanticError"
| "base_class OptimisticConcurrencyError = Some DurableStoreError"
| "base_class PreparedExecutionError = Some DurableStoreError"
| "base_class ExecutionAdmissionError = Some SemanticError"
| "base_class MigrationError = Some RuntimeError"
| "base_class _ = None"

text \<open>\<open>isinstance\<close> on exception classes; no chain is longer than four links.\<close>

fun subclass_n :: "nat \<Rightarrow> exc_class \<Rightarrow> exc_class \<Rightarrow> bool" where
  "subclass_n 0 c d = (c = d)"
| "subclass_n (Suc n) c d =
     (c = d \<or> (case base_class c of None \<Rightarrow> False | Some b \<Rightarrow> subclass_n n b d))"

definition is_subclass :: "exc_class \<Rightarrow> exc_class \<Rightarrow> bool" where
  "is_subclass c d = subclass_n 4 c d"

fun catches :: "exc_class \<Rightarrow> exc \<Rightarrow> bool" where
  "catches d (Exc c m) = is_subclass c d"

section \<open>Results\<close>

type_synonym 'a res = "exc + 'a"

definition bindE :: "'a res \<Rightarrow> ('a \<Rightarrow> 'b res) \<Rightarrow> 'b res" where
  "bindE m f = (case m of Inl e \<Rightarrow> Inl e | Inr x \<Rightarrow> f x)"

text \<open>\<open>if c: raise cls(msg)\<close>, followed by the rest of the body.\<close>

definition reject_if :: "bool \<Rightarrow> exc_class \<Rightarrow> string \<Rightarrow> 'a res \<Rightarrow> 'a res" where
  "reject_if c cls msg k = (if c then Inl (Exc cls msg) else k)"

text \<open>\<open>for x in xs: f(x)\<close>, stopping at the first exception.\<close>

fun forE :: "'a list \<Rightarrow> ('a \<Rightarrow> unit res) \<Rightarrow> unit res" where
  "forE [] f = Inr ()"
| "forE (x # xs) f = bindE (f x) (\<lambda>_. forE xs f)"

text \<open>\<open>[f(x) for x in xs]\<close>, stopping at the first exception.\<close>

fun mapE :: "('a \<Rightarrow> 'b res) \<Rightarrow> 'a list \<Rightarrow> 'b list res" where
  "mapE f [] = Inr []"
| "mapE f (x # xs) = bindE (f x) (\<lambda>y. bindE (mapE f xs) (\<lambda>ys. Inr (y # ys)))"

text \<open>\<open>any(f(x) for x in xs)\<close>, stopping at the first true element or exception.\<close>

fun anyE :: "('a \<Rightarrow> bool res) \<Rightarrow> 'a list \<Rightarrow> bool res" where
  "anyE f [] = Inr False"
| "anyE f (x # xs) = bindE (f x) (\<lambda>b. if b then Inr True else anyE f xs)"

text \<open>Python's short-circuit \<open>or\<close> over operands that may raise.\<close>

fun orE :: "bool res list \<Rightarrow> bool res" where
  "orE [] = Inr False"
| "orE (m # ms) = bindE m (\<lambda>b. if b then Inr True else orE ms)"

lemma bindE_simps [simp]:
  "bindE (Inl e) f = Inl e"
  "bindE (Inr x) f = f x"
  by (simp_all add: bindE_def)

lemma bindE_Inr_iff [res_simps]: "bindE m f = Inr y \<longleftrightarrow> (\<exists>x. m = Inr x \<and> f x = Inr y)"
  by (cases m) auto

lemma bindE_Inl_iff: "bindE m f = Inl e \<longleftrightarrow> m = Inl e \<or> (\<exists>x. m = Inr x \<and> f x = Inl e)"
  by (cases m) auto

lemma bindE_assoc: "bindE (bindE m f) g = bindE m (\<lambda>x. bindE (f x) g)"
  by (cases m) auto

lemma reject_if_simps [simp]:
  "reject_if True c m k = Inl (Exc c m)"
  "reject_if False c m k = k"
  by (simp_all add: reject_if_def)

lemma reject_if_Inr_iff [res_simps]: "reject_if b c m k = Inr y \<longleftrightarrow> \<not> b \<and> k = Inr y"
  by (simp add: reject_if_def)

lemma forE_Inr_iff [res_simps]: "forE xs f = Inr u \<longleftrightarrow> (\<forall>x\<in>set xs. f x = Inr ())"
  by (induction xs) (auto simp: bindE_Inr_iff)

lemma mapE_Inr_iff [res_simps]: "mapE f xs = Inr ys \<longleftrightarrow> list_all2 (\<lambda>x y. f x = Inr y) xs ys"
proof (induction xs arbitrary: ys)
  case Nil
  then show ?case by auto
next
  case (Cons x xs)
  then show ?case by (cases ys) (auto simp: bindE_Inr_iff)
qed

lemma mapE_length: "mapE f xs = Inr ys \<Longrightarrow> length ys = length xs"
  by (auto simp: mapE_Inr_iff dest: list_all2_lengthD)

lemma mapE_Inr_map: "(\<And>x. x \<in> set xs \<Longrightarrow> f x = Inr (g x)) \<Longrightarrow> mapE f xs = Inr (map g xs)"
  by (induction xs) auto

lemma orE_False_iff [res_simps]: "orE ms = Inr False \<longleftrightarrow> (\<forall>m\<in>set ms. m = Inr False)"
  by (induction ms) (auto simp: bindE_Inr_iff split: if_splits)

lemma anyE_False_iff [res_simps]: "anyE f xs = Inr False \<longleftrightarrow> (\<forall>x\<in>set xs. f x = Inr False)"
  by (induction xs) (auto simp: bindE_Inr_iff split: if_splits)

text \<open>
  A run of guard statements: \<open>deny\<close> is \<open>if c: raise cls(msg)\<close>, \<open>denyE\<close> the same with a
  condition whose evaluation may raise, \<open>seqE\<close> executes statements in order, \<open>catchE\<close> is
  \<open>try m except cls: h\<close> for an expression.
\<close>

definition deny :: "bool \<Rightarrow> exc_class \<Rightarrow> string \<Rightarrow> unit res" where
  "deny c cls msg = (if c then Inl (Exc cls msg) else Inr ())"

definition denyE :: "bool res \<Rightarrow> exc_class \<Rightarrow> string \<Rightarrow> unit res" where
  "denyE m cls msg = bindE m (\<lambda>c. deny c cls msg)"

definition seqE :: "unit res list \<Rightarrow> unit res" where
  "seqE ms = forE ms (\<lambda>m. m)"

definition thenE :: "unit res \<Rightarrow> 'a res \<Rightarrow> 'a res" where
  "thenE m k = bindE m (\<lambda>_. k)"

definition catchE :: "exc_class \<Rightarrow> 'a res \<Rightarrow> 'a res \<Rightarrow> 'a res" where
  "catchE cls m h = (case m of Inl e \<Rightarrow> if catches cls e then h else Inl e | Inr x \<Rightarrow> Inr x)"

text \<open>\<open>if c: m\<close> for a statement.\<close>

definition whenE :: "bool \<Rightarrow> unit res \<Rightarrow> unit res" where
  "whenE c m = (if c then m else Inr ())"

lemma deny_Inr_iff [res_simps]: "deny c cls msg = Inr u \<longleftrightarrow> \<not> c"
  by (simp add: deny_def)

lemma denyE_Inr_iff [res_simps]: "denyE m cls msg = Inr u \<longleftrightarrow> m = Inr False"
  by (auto simp: denyE_def bindE_Inr_iff deny_Inr_iff)

lemma seqE_Inr_iff [res_simps]: "seqE ms = Inr u \<longleftrightarrow> (\<forall>m\<in>set ms. m = Inr ())"
  by (simp add: seqE_def forE_Inr_iff)

lemma thenE_Inr_iff [res_simps]: "thenE m k = Inr y \<longleftrightarrow> m = Inr () \<and> k = Inr y"
  by (auto simp: thenE_def bindE_Inr_iff)

lemma whenE_Inr_iff [res_simps]: "whenE c m = Inr u \<longleftrightarrow> (c \<longrightarrow> m = Inr ())"
  by (auto simp: whenE_def)

lemma whenE_simps [simp]: "whenE True m = m" "whenE False m = Inr ()"
  by (simp_all add: whenE_def)

lemma deny_simps [simp]: "deny False c m = Inr ()" "deny True c m = Inl (Exc c m)"
  by (simp_all add: deny_def)

lemma denyE_simps [simp]: "denyE (Inr b) c m = deny b c m" "denyE (Inl e) c m = Inl e"
  by (simp_all add: denyE_def)

lemma seqE_simps [simp]:
  "seqE [] = Inr ()" "seqE (Inr () # ms) = seqE ms" "seqE (Inl e # ms) = Inl e"
  by (simp_all add: seqE_def)

lemma thenE_simps [simp]: "thenE (Inr u) k = k" "thenE (Inl e) k = Inl e"
  by (simp_all add: thenE_def)

lemma catchE_simps [simp]:
  "catchE c (Inr x) h = Inr x" "catchE c (Inl e) h = (if catches c e then h else Inl e)"
  by (simp_all add: catchE_def)

lemma catchE_Inr_iff [res_simps]:
  "catchE c m h = Inr x \<longleftrightarrow> m = Inr x \<or> (\<exists>e. m = Inl e \<and> catches c e \<and> h = Inr x)"
  by (cases m) auto

section \<open>Stateful handlers\<close>

text \<open>
  A method runs on a state and returns a value or raises; what it wrote before it raised
  stays written, so the state is returned on both paths.
\<close>

type_synonym ('s, 'a) handler = "'s \<Rightarrow> 'a res \<times> 's"

definition bindH :: "('s, 'a) handler \<Rightarrow> ('a \<Rightarrow> ('s, 'b) handler) \<Rightarrow> ('s, 'b) handler" where
  "bindH m f = (\<lambda>s. case m s of (Inl e, s') \<Rightarrow> (Inl e, s') | (Inr x, s') \<Rightarrow> f x s')"

definition returnH :: "'a \<Rightarrow> ('s, 'a) handler" where
  "returnH x = (\<lambda>s. (Inr x, s))"

definition raiseH :: "exc_class \<Rightarrow> string \<Rightarrow> ('s, 'a) handler" where
  "raiseH c m = (\<lambda>s. (Inl (Exc c m), s))"

definition liftH :: "'a res \<Rightarrow> ('s, 'a) handler" where
  "liftH r = (\<lambda>s. (r, s))"

definition rejectH :: "bool \<Rightarrow> exc_class \<Rightarrow> string \<Rightarrow> ('s, 'a) handler \<Rightarrow> ('s, 'a) handler" where
  "rejectH b c m k = (\<lambda>s. if b then (Inl (Exc c m), s) else k s)"

definition getH :: "('s \<Rightarrow> 'a) \<Rightarrow> ('s, 'a) handler" where
  "getH f = (\<lambda>s. (Inr (f s), s))"

definition modifyH :: "('s \<Rightarrow> 's) \<Rightarrow> ('s, unit) handler" where
  "modifyH f = (\<lambda>s. (Inr (), f s))"

text \<open>\<open>try: m except Exception as e: h(e)\<close>.\<close>

definition catchH :: "('s, 'a) handler \<Rightarrow> (exc \<Rightarrow> ('s, 'a) handler) \<Rightarrow> ('s, 'a) handler" where
  "catchH m h = (\<lambda>s. case m s of (Inl e, s') \<Rightarrow> h e s' | (Inr x, s') \<Rightarrow> (Inr x, s'))"

text \<open>\<open>try: m\<close> with the outcome kept as a value, for a handler that continues differently.\<close>

definition attemptH :: "('s, 'a) handler \<Rightarrow> ('s, 'a res) handler" where
  "attemptH m = (\<lambda>s. case m s of (r, s') \<Rightarrow> (Inr r, s'))"

lemma attemptH_iff [res_simps]: "attemptH m s = (q, t) \<longleftrightarrow> (\<exists>r. m s = (r, t) \<and> q = Inr r)"
  by (auto simp: attemptH_def split: prod.splits)

lemma bindH_Inr_iff [res_simps]:
  "bindH m f s = (Inr y, t) \<longleftrightarrow> (\<exists>x s'. m s = (Inr x, s') \<and> f x s' = (Inr y, t))"
  by (auto simp: bindH_def split: prod.splits sum.splits)

lemma bindH_cases:
  assumes "bindH m f s = (r, t)"
  obtains (error) e where "m s = (Inl e, t)" "r = Inl e"
        | (ok) x s' where "m s = (Inr x, s')" "f x s' = (r, t)"
  using assms by (auto simp: bindH_def split: prod.splits sum.splits)

lemma bindH_lift_cases:
  assumes "bindH (liftH x) f s = (r, t)"
  obtains (error) e where "x = Inl e" "r = Inl e" "t = s" | (ok) v where "x = Inr v" "f v s = (r, t)"
  using assms by (cases x) (auto simp: bindH_def liftH_def)

lemma get_lift: "bindH (bindH (getH f) liftH) k s = bindH (liftH (f s)) k s"
  by (simp add: bindH_def getH_def liftH_def)

lemma returnH_iff [res_simps]: "returnH x s = (r, t) \<longleftrightarrow> r = Inr x \<and> t = s"
  by (auto simp: returnH_def)

lemma raiseH_iff [res_simps]: "raiseH c m s = (r, t) \<longleftrightarrow> r = Inl (Exc c m) \<and> t = s"
  by (auto simp: raiseH_def)

lemma liftH_iff [res_simps]: "liftH r s = (r', t) \<longleftrightarrow> r = r' \<and> t = s"
  by (auto simp: liftH_def)

lemma getH_iff [res_simps]: "getH f s = (r, t) \<longleftrightarrow> r = Inr (f s) \<and> t = s"
  by (auto simp: getH_def)

lemma modifyH_iff [res_simps]: "modifyH f s = (r, t) \<longleftrightarrow> r = Inr () \<and> t = f s"
  by (auto simp: modifyH_def)

lemma rejectH_Inr_iff [res_simps]:
  "rejectH b c m k s = (Inr y, t) \<longleftrightarrow> \<not> b \<and> k s = (Inr y, t)"
  by (auto simp: rejectH_def)

lemma catchH_cases:
  assumes "catchH m h s = (r, t)"
  obtains (normal) x where "m s = (Inr x, t)" "r = Inr x"
        | (caught) e s' where "m s = (Inl e, s')" "h e s' = (r, t)"
  using assms by (auto simp: catchH_def split: prod.splits sum.splits)

text \<open>
  A relation between the states before and after, closed under the combinators: the
  shape of every frame and monotonicity argument about handlers.
\<close>

definition keeps :: "('s \<Rightarrow> 's \<Rightarrow> bool) \<Rightarrow> ('s, 'a) handler \<Rightarrow> bool" where
  "keeps R m \<longleftrightarrow> (\<forall>s r t. m s = (r, t) \<longrightarrow> R s t)"

lemma keepsI: "(\<And>s r t. m s = (r, t) \<Longrightarrow> R s t) \<Longrightarrow> keeps R m"
  by (simp add: keeps_def)

lemma keepsD: "keeps R m \<Longrightarrow> m s = (r, t) \<Longrightarrow> R s t"
  by (simp add: keeps_def)

lemma keeps_bindH:
  assumes trans: "transp R" and m: "keeps R m" and f: "\<And>x. keeps R (f x)"
  shows "keeps R (bindH m f)"
proof (rule keepsI)
  fix s r t
  assume "bindH m f s = (r, t)"
  then show "R s t"
  proof (cases rule: bindH_cases)
    case (error e)
    then show ?thesis using m by (auto dest: keepsD)
  next
    case (ok x s')
    then have "R s s'" and "R s' t" using m f by (auto dest: keepsD)
    then show ?thesis using trans by (auto dest: transpD)
  qed
qed

lemma keeps_catchH:
  assumes trans: "transp R" and m: "keeps R m" and h: "\<And>e. keeps R (h e)"
  shows "keeps R (catchH m h)"
proof (rule keepsI)
  fix s r t
  assume "catchH m h s = (r, t)"
  then show "R s t"
  proof (cases rule: catchH_cases)
    case (normal x)
    then show ?thesis using m by (auto dest: keepsD)
  next
    case (caught e s')
    then have "R s s'" and "R s' t" using m h by (auto dest: keepsD)
    then show ?thesis using trans by (auto dest: transpD)
  qed
qed

lemma keeps_attemptH: "keeps R m \<Longrightarrow> keeps R (attemptH m)"
  by (auto simp: keeps_def attemptH_iff)

lemma keeps_pure:
  assumes "reflp R"
  shows "keeps R (returnH x)" "keeps R (raiseH c m)" "keeps R (liftH r)" "keeps R (getH f)"
  using assms by (auto simp: keeps_def res_simps dest: reflpD)

lemma keeps_rejectH: "reflp R \<Longrightarrow> keeps R k \<Longrightarrow> keeps R (rejectH b c m k)"
  by (auto simp: keeps_def rejectH_def dest: reflpD)

end
