(* ===== verification/Pyval.thy ===== *)
theory Pyval
  imports Complex_Main Prelude
begin

text \<open>
  The dynamic values the program computes with: JSON-like Python objects, the
  dictionary operations it uses, Python equality (which ignores the order of dictionary
  entries and identifies \<open>True\<close> with \<open>1\<close>) and the pre-order walk of
  \<open>contracts/validation.py\<close>.
\<close>

section \<open>Values\<close>

text \<open>
  A dictionary is an association list in insertion order with distinct keys. Floats are
  finite and compared by value; \<open>POther\<close> is a value of any other type (bytes, a set, a
  mapping with a key that is not a string), told apart by a tag.
\<close>

datatype pyval =
    PNone
  | PBool bool
  | PInt int
  | PFloat rat
  | PStr pystr
  | PList "pyval list"
  | PTuple "pyval list"
  | PDict "(pystr \<times> pyval) list"
  | POther nat

type_synonym dict = "(pystr \<times> pyval) list"

abbreviation PS :: "string \<Rightarrow> pyval" where
  "PS s \<equiv> PStr (S s)"

lemma size_dict_value: "(k, v) \<in> set kvs \<Longrightarrow> size v < Suc (size_list (size_prod (\<lambda>_. 0) size) kvs)"
proof (induction kvs)
  case Nil
  then show ?case by simp
next
  case (Cons kv kvs)
  then show ?case by (cases kv) auto
qed

lemma size_list_elem: "x \<in> set xs \<Longrightarrow> size x < Suc (size_list size xs)"
  by (induction xs) auto

section \<open>Well-formed values\<close>

text \<open>Dictionary keys are distinct and strings hold Unicode code points.\<close>

definition wf_str :: "pystr \<Rightarrow> bool" where
  "wf_str s \<longleftrightarrow> list_all (\<lambda>c. c \<le> 0x10FFFF) s"

function wf_val :: "pyval \<Rightarrow> bool" where
  "wf_val PNone = True"
| "wf_val (PBool b) = True"
| "wf_val (PInt i) = True"
| "wf_val (PFloat q) = True"
| "wf_val (PStr s) = wf_str s"
| "wf_val (PList xs) = (\<forall>x\<in>set xs. wf_val x)"
| "wf_val (PTuple xs) = (\<forall>x\<in>set xs. wf_val x)"
| "wf_val (PDict kvs) =
     (distinct (map fst kvs) \<and> (\<forall>kv\<in>set kvs. wf_str (fst kv) \<and> wf_val (snd kv)))"
| "wf_val (POther n) = True"
  by pat_completeness auto
termination
  by (relation "measure size") (auto dest: size_dict_value size_list_elem)

section \<open>Python equality\<close>

text \<open>\<open>bool\<close> is a subclass of \<open>int\<close>, so numbers compare by numeric value.\<close>

fun num_of :: "pyval \<Rightarrow> rat option" where
  "num_of (PBool b) = Some (if b then 1 else 0)"
| "num_of (PInt i) = Some (of_int i)"
| "num_of (PFloat q) = Some q"
| "num_of _ = None"

function (sequential) py_eq :: "pyval \<Rightarrow> pyval \<Rightarrow> bool" where
  "py_eq PNone PNone = True"
| "py_eq (PStr s) (PStr t) = (s = t)"
| "py_eq (PList xs) (PList ys) =
     (length xs = length ys \<and> (\<forall>p\<in>set (zip xs ys). py_eq (fst p) (snd p)))"
| "py_eq (PTuple xs) (PTuple ys) =
     (length xs = length ys \<and> (\<forall>p\<in>set (zip xs ys). py_eq (fst p) (snd p)))"
| "py_eq (PDict xs) (PDict ys) =
     (length xs = length ys \<and>
      (\<forall>p\<in>set xs. case map_of ys (fst p) of None \<Rightarrow> False | Some w \<Rightarrow> py_eq (snd p) w))"
| "py_eq (POther m) (POther n) = (m = n)"
| "py_eq v w = (num_of v \<noteq> None \<and> num_of v = num_of w)"
  by pat_completeness auto
termination
proof (relation "measure (\<lambda>(v, w). size v)", goal_cases)
  case 1
  then show ?case by simp
next
  case (2 xs ys p)
  then have "(fst p, snd p) \<in> set (zip xs ys)" by simp
  then have "fst p \<in> set xs" by (rule set_zip_leftD)
  then show ?case by (cases p) (auto dest: size_list_elem)
next
  case (3 xs ys p)
  then have "(fst p, snd p) \<in> set (zip xs ys)" by simp
  then have "fst p \<in> set xs" by (rule set_zip_leftD)
  then show ?case by (cases p) (auto dest: size_list_elem)
next
  case (4 xs ys p)
  then have "(fst p, snd p) \<in> set xs" by simp
  then have "size (snd p) < Suc (size_list (size_prod (\<lambda>_. 0) size) xs)"
    by (rule size_dict_value)
  then show ?case by simp
qed

lemma py_eq_PStr [simp]:
  "py_eq v (PStr s) \<longleftrightarrow> v = PStr s"
  "py_eq (PStr s) v \<longleftrightarrow> v = PStr s"
  by (cases v; auto)+

lemma py_eq_PNone [simp]:
  "py_eq v PNone \<longleftrightarrow> v = PNone"
  "py_eq PNone v \<longleftrightarrow> v = PNone"
  by (cases v; auto)+

lemma py_eq_refl [simp]: "wf_val v \<Longrightarrow> py_eq v v"
proof (induction v rule: wf_val.induct)
  case (6 xs)
  then show ?case by (fastforce simp: in_set_zip in_set_conv_nth)
next
  case (7 xs)
  then show ?case by (fastforce simp: in_set_zip in_set_conv_nth)
next
  case (8 kvs)
  then show ?case by (fastforce simp: map_of_eq_Some_iff)
qed auto

lemma py_eq_left:
  "py_eq (PList xs) y \<longleftrightarrow> (\<exists>ys. y = PList ys \<and> length xs = length ys \<and>
     (\<forall>p\<in>set (zip xs ys). py_eq (fst p) (snd p)))"
  "py_eq (PTuple xs) y \<longleftrightarrow> (\<exists>ys. y = PTuple ys \<and> length xs = length ys \<and>
     (\<forall>p\<in>set (zip xs ys). py_eq (fst p) (snd p)))"
  "py_eq (PDict kvs) y \<longleftrightarrow> (\<exists>d. y = PDict d \<and> length kvs = length d \<and>
     (\<forall>p\<in>set kvs. case map_of d (fst p) of None \<Rightarrow> False | Some w \<Rightarrow> py_eq (snd p) w))"
  "py_eq (POther n) y \<longleftrightarrow> y = POther n"
  by (cases y; simp; blast)+

lemma py_eq_num:
  "num_of x \<noteq> None \<Longrightarrow> py_eq x y \<longleftrightarrow> num_of x = num_of y"
  by (cases x; cases y; simp)

lemma num_step:
  assumes "py_eq x y" "num_of x \<noteq> None"
  shows "num_of y = num_of x"
  using assms py_eq_num [of x y] by simp

lemma num_trans:
  assumes "py_eq x y" "py_eq y z" "num_of x \<noteq> None"
  shows "py_eq x z"
proof -
  have "num_of y = num_of x" using assms(1,3) by (rule num_step)
  moreover have "num_of z = num_of y" using assms(2) by (rule num_step) (use calculation assms(3) in simp)
  ultimately show ?thesis using assms(3) py_eq_num [of x z] by simp
qed

lemma zip_trans:
  assumes "length xs = length ys" "length ys = length zs"
  shows "(\<And>x y z. x \<in> set xs \<Longrightarrow> P x y \<Longrightarrow> P y z \<Longrightarrow> P x z) \<Longrightarrow>
     \<forall>p\<in>set (zip xs ys). P (fst p) (snd p) \<Longrightarrow> \<forall>p\<in>set (zip ys zs). P (fst p) (snd p) \<Longrightarrow>
     \<forall>p\<in>set (zip xs zs). P (fst p) (snd p)"
  using assms
proof (induction xs ys zs rule: list_induct3)
  case (Cons x xs y ys z zs)
  have "P x z" using Cons.prems by auto
  moreover have "\<forall>p\<in>set (zip xs zs). P (fst p) (snd p)"
    by (rule Cons.IH) (use Cons.prems in auto)
  ultimately show ?case by simp
qed simp

lemma py_eq_trans: "py_eq x y \<Longrightarrow> py_eq y z \<Longrightarrow> py_eq x z"
proof (induction x arbitrary: y z rule: wf_val.induct)
  case (6 xs)
  obtain ys where y: "y = PList ys" "length xs = length ys"
      "\<forall>p\<in>set (zip xs ys). py_eq (fst p) (snd p)"
    using "6.prems"(1) unfolding py_eq_left by blast
  obtain zs where z: "z = PList zs" "length ys = length zs"
      "\<forall>p\<in>set (zip ys zs). py_eq (fst p) (snd p)"
    using "6.prems"(2) unfolding y(1) py_eq_left by blast
  have "\<forall>p\<in>set (zip xs zs). py_eq (fst p) (snd p)"
    by (rule zip_trans [OF y(2) z(2) "6.IH" y(3) z(3)])
  then show ?case unfolding py_eq_left using y(2) z(1,2) by simp
next
  case (7 xs)
  obtain ys where y: "y = PTuple ys" "length xs = length ys"
      "\<forall>p\<in>set (zip xs ys). py_eq (fst p) (snd p)"
    using "7.prems"(1) unfolding py_eq_left by blast
  obtain zs where z: "z = PTuple zs" "length ys = length zs"
      "\<forall>p\<in>set (zip ys zs). py_eq (fst p) (snd p)"
    using "7.prems"(2) unfolding y(1) py_eq_left by blast
  have "\<forall>p\<in>set (zip xs zs). py_eq (fst p) (snd p)"
    by (rule zip_trans [OF y(2) z(2) "7.IH" y(3) z(3)])
  then show ?case unfolding py_eq_left using y(2) z(1,2) by simp
next
  case (8 kvs)
  then obtain d e where y: "y = PDict d" "length kvs = length d"
      "\<forall>p\<in>set kvs. case map_of d (fst p) of None \<Rightarrow> False | Some w \<Rightarrow> py_eq (snd p) w"
    and z: "z = PDict e" "length d = length e"
      "\<forall>p\<in>set d. case map_of e (fst p) of None \<Rightarrow> False | Some w \<Rightarrow> py_eq (snd p) w"
    by (auto simp: py_eq_left)
  have "case map_of e (fst p) of None \<Rightarrow> False | Some w \<Rightarrow> py_eq (snd p) w" if p: "p \<in> set kvs" for p
  proof -
    obtain w where w: "map_of d (fst p) = Some w" "py_eq (snd p) w"
      using y(3) p by (auto split: option.splits)
    then have "(fst p, w) \<in> set d" by (auto dest: map_of_SomeD)
    then obtain u where "map_of e (fst p) = Some u" "py_eq w u"
      using z(3) by (force split: option.splits)
    then show ?thesis using "8.IH" [OF p] w by auto
  qed
  then show ?case using y z by (simp add: py_eq_left)
next
  case (2 b)
  show ?case by (rule num_trans [OF "2.prems"]) simp
next
  case (3 i)
  show ?case by (rule num_trans [OF "3.prems"]) simp
next
  case (4 q)
  show ?case by (rule num_trans [OF "4.prems"]) simp
qed (auto simp: py_eq_left)

section \<open>Dictionary operations\<close>

definition dhas :: "dict \<Rightarrow> string \<Rightarrow> bool" where
  "dhas d k \<longleftrightarrow> map_of d (S k) \<noteq> None"

text \<open>\<open>d.get(k)\<close>\<close>

definition dget :: "dict \<Rightarrow> string \<Rightarrow> pyval" where
  "dget d k = (case map_of d (S k) of None \<Rightarrow> PNone | Some v \<Rightarrow> v)"

text \<open>\<open>d[k]\<close>\<close>

definition ditem :: "dict \<Rightarrow> string \<Rightarrow> pyval res" where
  "ditem d k = (case map_of d (S k) of None \<Rightarrow> Inl (Exc KeyError k) | Some v \<Rightarrow> Inr v)"

text \<open>\<open>d[k] = v\<close> keeps the position of an existing key.\<close>

fun dset :: "dict \<Rightarrow> pystr \<Rightarrow> pyval \<Rightarrow> dict" where
  "dset [] k v = [(k, v)]"
| "dset ((k', v') # d) k v = (if k' = k then (k, v) # d else (k', v') # dset d k v)"

text \<open>\<open>d.pop(k, None)\<close>\<close>

definition dpop :: "dict \<Rightarrow> string \<Rightarrow> dict" where
  "dpop d k = filter (\<lambda>kv. fst kv \<noteq> S k) d"

definition dkeys :: "dict \<Rightarrow> pystr set" where
  "dkeys d = fst ` set d"

text \<open>\<open>v[k]\<close> and \<open>v.get(k)\<close> for a value whose type is not known.\<close>

fun item :: "pyval \<Rightarrow> string \<Rightarrow> pyval res" where
  "item (PDict d) k = ditem d k"
| "item _ k = Inl (Exc TypeError k)"

fun get_or :: "pyval \<Rightarrow> string \<Rightarrow> pyval \<Rightarrow> pyval res" where
  "get_or (PDict d) k dflt = Inr (case map_of d (S k) of None \<Rightarrow> dflt | Some v \<Rightarrow> v)"
| "get_or _ k dflt = Inl (Exc AttributeError k)"

text \<open>Truth value, as \<open>if v:\<close> and \<open>not v\<close> test it.\<close>

fun truthy :: "pyval \<Rightarrow> bool" where
  "truthy PNone = False"
| "truthy (PBool b) = b"
| "truthy (PInt i) = (i \<noteq> 0)"
| "truthy (PFloat q) = (q \<noteq> 0)"
| "truthy (PStr s) = (s \<noteq> [])"
| "truthy (PList xs) = (xs \<noteq> [])"
| "truthy (PTuple xs) = (xs \<noteq> [])"
| "truthy (PDict d) = (d \<noteq> [])"
| "truthy (POther n) = True"

text \<open>Iterating a value: the elements of a list or tuple, the keys of a dictionary.\<close>

fun elems :: "pyval \<Rightarrow> pyval list res" where
  "elems (PList xs) = Inr xs"
| "elems (PTuple xs) = Inr xs"
| "elems (PDict d) = Inr (map (\<lambda>kv. PStr (fst kv)) d)"
| "elems (PStr s) = Inr (map (\<lambda>c. PStr [c]) s)"
| "elems _ = Inl (Exc TypeError ''not iterable'')"

lemma ditem_Inr_iff [res_simps]: "ditem d k = Inr v \<longleftrightarrow> map_of d (S k) = Some v"
  by (auto simp: ditem_def split: option.splits)

lemma item_Inr_iff [res_simps]:
  "item w k = Inr v \<longleftrightarrow> (\<exists>d. w = PDict d \<and> map_of d (S k) = Some v)"
  by (cases w) (auto simp: ditem_Inr_iff)

lemma dget_Some: "map_of d (S k) = Some v \<Longrightarrow> dget d k = v"
  by (simp add: dget_def)

lemma map_of_dset [simp]: "map_of (dset d k v) = (map_of d)(k \<mapsto> v)"
  by (induction d k v rule: dset.induct) auto

lemma dget_dset [simp]: "dget (dset d k v) k' = (if S k' = k then v else dget d k')"
  by (simp add: dget_def)

lemma dhas_dset [simp]: "dhas (dset d k v) k' \<longleftrightarrow> S k' = k \<or> dhas d k'"
  by (simp add: dhas_def)

lemma map_of_dpop [simp]: "map_of (dpop d k) = (map_of d)(S k := None)"
proof -
  have "map_of (filter (\<lambda>kv. fst kv \<noteq> S k) d) x = ((map_of d)(S k := None)) x" for x
    by (induction d) auto
  then show ?thesis by (auto simp: dpop_def)
qed

lemma dget_dpop [simp]: "dget (dpop d k) k' = (if k' = k then PNone else dget d k')"
  by (simp add: dget_def)

lemma dpop_dset_same [simp]: "dpop (dset d (S k) v) k = dpop d k"
  by (induction d "S k" v rule: dset.induct) (auto simp: dpop_def)

lemma dpop_dset_other: "S k \<noteq> k' \<Longrightarrow> dpop (dset d k' v) k = dset (dpop d k) k' v"
  by (induction d k' v rule: dset.induct) (auto simp: dpop_def)

lemma dpop_commute: "dpop (dpop d k) k' = dpop (dpop d k') k"
  by (auto simp: dpop_def intro: filter_cong)

lemma dpop_dpop [simp]: "dpop (dpop d k) k = dpop d k"
  by (simp add: dpop_def)

lemma dkeys_map_of: "k \<in> dkeys d \<longleftrightarrow> map_of d k \<noteq> None"
  by (simp add: dkeys_def map_of_eq_None_iff)

section \<open>The pre-order walk\<close>

text \<open>
  \<open>_walk\<close> yields a value and then, for a dictionary or a list (not a tuple), the values
  below it. The Boolean tells the root apart: the code tests \<open>path == "/"\<close>, which is
  also the path of a root entry with the empty key.
\<close>

function walk :: "pyval \<Rightarrow> pyval list" where
  "walk (PDict kvs) = PDict kvs # concat (map (\<lambda>kv. walk (snd kv)) kvs)"
| "walk (PList xs) = PList xs # concat (map walk xs)"
| "walk PNone = [PNone]"
| "walk (PBool b) = [PBool b]"
| "walk (PInt i) = [PInt i]"
| "walk (PFloat q) = [PFloat q]"
| "walk (PStr s) = [PStr s]"
| "walk (PTuple xs) = [PTuple xs]"
| "walk (POther n) = [POther n]"
  by pat_completeness auto
termination
  by (relation "measure size") (auto dest: size_dict_value size_list_elem)

lemma walk_self [simp, intro]: "v \<in> set (walk v)"
  by (cases v) auto

lemma walk_dict_child: "map_of d k = Some v \<Longrightarrow> set (walk v) \<subseteq> set (walk (PDict d))"
  by (force dest: map_of_SomeD)

lemma walk_PDict_iff:
  "w \<in> set (walk (PDict d)) \<longleftrightarrow> w = PDict d \<or> (\<exists>kv\<in>set d. w \<in> set (walk (snd kv)))"
  by simp

lemma walk_PList_iff:
  "w \<in> set (walk (PList xs)) \<longleftrightarrow> w = PList xs \<or> (\<exists>x\<in>set xs. w \<in> set (walk x))"
  by simp

lemma walk_trans: "w \<in> set (walk v) \<Longrightarrow> u \<in> set (walk w) \<Longrightarrow> u \<in> set (walk v)"
proof (induction v arbitrary: w rule: walk.induct)
  case (1 kvs)
  show ?case
  proof (cases "w = PDict kvs")
    case True
    with "1.prems" show ?thesis by simp
  next
    case False
    with "1.prems"(1) obtain kv where kv: "kv \<in> set kvs" "w \<in> set (walk (snd kv))"
      unfolding walk_PDict_iff by blast
    then have "u \<in> set (walk (snd kv))" using "1.IH" "1.prems"(2) by blast
    with kv(1) show ?thesis unfolding walk_PDict_iff by blast
  qed
next
  case (2 xs)
  show ?case
  proof (cases "w = PList xs")
    case True
    with "2.prems" show ?thesis by simp
  next
    case False
    with "2.prems"(1) obtain x where x: "x \<in> set xs" "w \<in> set (walk x)"
      unfolding walk_PList_iff by blast
    then have "u \<in> set (walk x)" using "2.IH" "2.prems"(2) by blast
    with x(1) show ?thesis unfolding walk_PList_iff by blast
  qed
qed simp_all

end
