(* ===== verification/Canonical_Facts.thy ===== *)
theory Canonical_Facts
  imports Canonical
begin

text \<open>
  The canonical bytes as a fingerprint. \<open>norm_val\<close> sorts every dictionary by its UTF-16
  keys and forgets the difference between tuples and lists; two well-formed values have
  the same canonical bytes exactly when they have the same normal form. Injectivity is
  proved with decoders for single characters, prefix-freeness of every token, and an
  induction over the value with an arbitrary continuation that starts with a delimiter.
\<close>

section \<open>Characters decode\<close>

definition utf8_dec :: "nat list \<Rightarrow> nat \<times> nat list" where
  "utf8_dec bs = (case bs of [] \<Rightarrow> (0, [])
     | b # r \<Rightarrow>
       if b < 0x80 then (b, r)
       else if b < 0xE0 then ((b - 0xC0) * 64 + (r ! 0 - 0x80), drop 1 r)
       else if b < 0xF0 then
         ((b - 0xE0) * 4096 + (r ! 0 - 0x80) * 64 + (r ! 1 - 0x80), drop 2 r)
       else ((b - 0xF0) * 262144 + (r ! 0 - 0x80) * 4096 + (r ! 1 - 0x80) * 64 + (r ! 2 - 0x80),
             drop 3 r))"

lemma split64: "(c :: nat) div 64 * 64 + c mod 64 = c"
  by simp

lemma split4096: "(c :: nat) div 4096 * 4096 + c div 64 mod 64 * 64 + c mod 64 = c"
proof -
  have "c div 64 div 64 * 64 + c div 64 mod 64 = c div 64" by simp
  moreover have "c div 64 div 64 = c div 4096" by (simp add: div_mult2_eq [symmetric])
  ultimately have "(c div 4096 * 64 + c div 64 mod 64) * 64 + c mod 64 = c" by simp
  then show ?thesis by (simp add: algebra_simps)
qed

lemma split262144:
  "(c :: nat) div 262144 * 262144 + c div 4096 mod 64 * 4096 + c div 64 mod 64 * 64 + c mod 64 = c"
proof -
  have "c div 4096 div 64 * 64 + c div 4096 mod 64 = c div 4096" by simp
  moreover have "c div 4096 div 64 = c div 262144" by (simp add: div_mult2_eq [symmetric])
  ultimately have "(c div 262144 * 64 + c div 4096 mod 64) * 4096 = c div 4096 * 4096" by simp
  then show ?thesis using split4096 [of c] by (simp add: algebra_simps)
qed

lemma utf8_dec_char: "c \<le> 0x10FFFF \<Longrightarrow> utf8_dec (utf8_char c @ r) = (c, r)"
proof -
  assume c: "c \<le> 0x10FFFF"
  consider "c < 0x80" | "0x80 \<le> c" "c < 0x800" | "0x800 \<le> c" "c < 0x10000" | "0x10000 \<le> c"
    by linarith
  then show ?thesis
  proof cases
    case 1
    then show ?thesis by (simp add: utf8_dec_def utf8_char_def)
  next
    case 2
    then have "c div 64 < 32" by (simp add: div_less_iff_less_mult)
    with 2 show ?thesis by (simp add: utf8_dec_def utf8_char_def)
  next
    case 3
    then have "c div 4096 < 16" by (simp add: div_less_iff_less_mult)
    with 3 show ?thesis using split4096 [of c]
      by (simp add: utf8_dec_def utf8_char_def numeral_2_eq_2)
  next
    case 4
    with c show ?thesis using split262144 [of c]
      by (simp add: utf8_dec_def utf8_char_def numeral_2_eq_2 numeral_3_eq_3)
  qed
qed

definition unhex :: "nat \<Rightarrow> nat" where
  "unhex h = (if h < 58 then h - 48 else h - 87)"

lemma unhex_hex_digit [simp]: "n < 16 \<Longrightarrow> unhex (hex_digit n) = n"
  by (simp add: unhex_def hex_digit_def)

definition char_dec :: "nat list \<Rightarrow> nat \<times> nat list" where
  "char_dec bs = (case utf8_dec bs of (c, r) \<Rightarrow>
     if c \<noteq> 92 then (c, r)
     else if r ! 0 = 34 then (34, drop 1 r)
     else if r ! 0 = 92 then (92, drop 1 r)
     else if r ! 0 = 110 then (10, drop 1 r)
     else if r ! 0 = 114 then (13, drop 1 r)
     else if r ! 0 = 116 then (9, drop 1 r)
     else if r ! 0 = 102 then (12, drop 1 r)
     else if r ! 0 = 98 then (8, drop 1 r)
     else (16 * unhex (r ! 3) + unhex (r ! 4), drop 5 r))"

definition char_code :: "nat \<Rightarrow> nat list" where
  "char_code c = utf8_bytes (json_escape c)"

lemma utf8_bytes_simps [simp]:
  "utf8_bytes [] = []"
  "utf8_bytes (c # s) = utf8_char c @ utf8_bytes s"
  "utf8_bytes (s @ t) = utf8_bytes s @ utf8_bytes t"
  by (simp_all add: utf8_bytes_def)

lemma utf8_char_ascii [simp]: "c < 128 \<Longrightarrow> utf8_char c = [c]"
  by (simp add: utf8_char_def)

lemma hex_digit_ascii [simp]: "n < 16 \<Longrightarrow> hex_digit n < 128"
  by (simp add: hex_digit_def)

lemma char_dec_code: "c \<le> 0x10FFFF \<Longrightarrow> char_dec (char_code c @ r) = (c, r)"
proof -
  assume c: "c \<le> 0x10FFFF"
  consider (esc) "c \<in> {34, 92, 10, 13, 9, 12, 8}"
    | (ctl) "c < 32" "c \<notin> {34, 92, 10, 13, 9, 12, 8}"
    | (plain) "32 \<le> c" "c \<noteq> 34" "c \<noteq> 92"
    by fastforce
  then show ?thesis
  proof cases
    case esc
    then show ?thesis
      by (auto simp: char_code_def json_escape_def char_dec_def utf8_dec_def)
  next
    case ctl
    then have "c div 16 < 16" "c mod 16 < 16" by (auto simp: div_less_iff_less_mult)
    with ctl show ?thesis
      by (simp add: char_code_def json_escape_def char_dec_def utf8_dec_def)
  next
    case plain
    then show ?thesis using utf8_dec_char [OF c]
      by (simp add: char_code_def json_escape_def char_dec_def)
  qed
qed

lemma char_code_split:
  "c \<le> 0x10FFFF \<Longrightarrow> d \<le> 0x10FFFF \<Longrightarrow> char_code c @ r = char_code d @ s \<Longrightarrow> c = d \<and> r = s"
  by (metis char_dec_code prod.inject)

lemma char_code_nonempty: "char_code c \<noteq> []"
  by (simp add: char_code_def json_escape_def utf8_char_def)

lemma char_code_hd: "hd (char_code c) \<noteq> 34"
  by (auto simp: char_code_def json_escape_def utf8_char_def)

lemma utf8_escape: "utf8_bytes (concat (map json_escape s)) = concat (map char_code s)"
  by (induction s) (auto simp: char_code_def)

lemma body_split:
  assumes "wf_str s" "wf_str t"
    and "concat (map char_code s) @ 34 # r = concat (map char_code t) @ 34 # r'"
  shows "s = t \<and> r = r'"
  using assms
proof (induction s arbitrary: t)
  case Nil
  show ?case
  proof (cases t)
    case (Cons d t')
    with Nil.prems(3) have "hd (char_code d @ concat (map char_code t') @ 34 # r') = 34"
      by (metis append.assoc append_Nil concat.simps list.sel(1) list.simps(8) list.simps(9))
    then have "hd (char_code d) = 34" by (simp add: char_code_nonempty)
    with char_code_hd show ?thesis by blast
  qed (use Nil.prems in simp)
next
  case (Cons c s)
  show ?case
  proof (cases t)
    case Nil
    with Cons.prems(3) have "hd (char_code c @ concat (map char_code s) @ 34 # r) = 34" by simp
    then have "hd (char_code c) = 34" by (simp add: char_code_nonempty)
    with char_code_hd show ?thesis by blast
  next
    case (Cons d t')
    have valid: "c \<le> 0x10FFFF" "d \<le> 0x10FFFF" "wf_str s" "wf_str t'"
      using Cons.prems(1,2) Cons by (simp_all add: wf_str_def)
    have "char_code c @ (concat (map char_code s) @ 34 # r)
            = char_code d @ (concat (map char_code t') @ 34 # r')"
      using Cons.prems(3) Cons by simp
    then have "c = d \<and> concat (map char_code s) @ 34 # r = concat (map char_code t') @ 34 # r'"
      by (rule char_code_split [OF valid(1,2)])
    with Cons.IH [OF valid(3,4)] Cons show ?thesis by auto
  qed
qed

lemma quoted_split:
  "wf_str s \<Longrightarrow> wf_str t \<Longrightarrow> quoted s @ r = quoted t @ r' \<Longrightarrow> s = t \<and> r = r'"
  using body_split [of s t r r'] by (simp add: quoted_def utf8_escape)

section \<open>Integers decode\<close>

definition dval :: "nat list \<Rightarrow> nat" where
  "dval ds = foldl (\<lambda>a c. 10 * a + (c - 48)) 0 ds"

definition is_digit :: "nat \<Rightarrow> bool" where
  "is_digit c \<longleftrightarrow> 48 \<le> c \<and> c \<le> 57"

lemma dval_snoc: "dval (ds @ [c]) = 10 * dval ds + (c - 48)"
  by (simp add: dval_def)

lemma dval_digits10 [simp]: "dval (digits10 n) = n"
proof (induction n rule: digits10.induct)
  case (1 n)
  show ?case
  proof (cases "n < 10")
    case True
    then show ?thesis by (simp add: digits10.simps [of n] dval_def)
  next
    case False
    with 1 show ?thesis by (simp add: digits10.simps [of n] dval_snoc)
  qed
qed

lemma digits10_digits: "\<forall>c\<in>set (digits10 n). is_digit c"
proof (induction n rule: digits10.induct)
  case (1 n)
  then show ?case
    by (cases "n < 10") (auto simp: digits10.simps [of n] is_digit_def)
qed

lemma digits10_nonempty [simp]: "digits10 n \<noteq> []"
  by (subst digits10.simps) simp

lemma digits10_hd: "is_digit (hd (digits10 n))"
  using digits10_digits [of n] by (simp add: hd_in_set)

text \<open>What may follow a value inside a canonical text.\<close>

definition terminated :: "nat list \<Rightarrow> bool" where
  "terminated r \<longleftrightarrow> r = [] \<or> hd r \<in> {44, 93, 125}"

lemma takeWhile_digits: "terminated r \<Longrightarrow> takeWhile is_digit (digits10 n @ r) = digits10 n"
proof -
  assume "terminated r"
  then have "takeWhile is_digit r = []"
    by (cases r) (auto simp: terminated_def is_digit_def)
  then show ?thesis using digits10_digits [of n] by (simp add: takeWhile_append)
qed

lemma digits10_split:
  assumes "digits10 m @ r = digits10 n @ s" "terminated r" "terminated s"
  shows "m = n \<and> r = s"
proof -
  have "digits10 m = digits10 n"
    using assms takeWhile_digits by metis
  then have "m = n" by (metis dval_digits10)
  with assms(1) show ?thesis by simp
qed

lemma int_text_hd: "hd (int_text i) = 45 \<and> i < 0 \<or> is_digit (hd (int_text i)) \<and> 0 \<le> i"
  using digits10_hd by (auto simp: int_text_def)

lemma int_text_split:
  assumes "int_text i @ r = int_text j @ s" "terminated r" "terminated s"
  shows "i = j \<and> r = s"
proof (cases "i < 0")
  case True
  have "hd (int_text j @ s) = 45" using assms(1) True by (metis append_Cons int_text_def list.sel(1))
  then have "j < 0" using int_text_hd [of j] by (auto simp: int_text_def is_digit_def)
  with True assms show ?thesis
    using digits10_split [of "nat (- i)" r "nat (- j)" s] by (auto simp: int_text_def)
next
  case False
  have "is_digit (hd (int_text j @ s))"
    using assms(1) False int_text_hd [of i] by (metis digits10_nonempty hd_append2 int_text_def)
  then have "\<not> j < 0" by (auto simp: int_text_def is_digit_def)
  with False assms show ?thesis
    using digits10_split [of "nat i" r "nat j" s] by (auto simp: int_text_def)
qed

lemma int_text_nonempty [simp]: "int_text i \<noteq> []"
  by (simp add: int_text_def)

section \<open>Normal forms\<close>

abbreviation sort_entries :: "(pystr \<times> 'a) list \<Rightarrow> (pystr \<times> 'a) list" where
  "sort_entries \<equiv> sort_key (\<lambda>kv. utf16_bytes (fst kv))"

function norm_val :: "pyval \<Rightarrow> pyval" where
  "norm_val (PDict kvs) = PDict (sort_entries (map (\<lambda>kv. (fst kv, norm_val (snd kv))) kvs))"
| "norm_val (PList xs) = PList (map norm_val xs)"
| "norm_val (PTuple xs) = PList (map norm_val xs)"
| "norm_val PNone = PNone"
| "norm_val (PBool b) = PBool b"
| "norm_val (PInt i) = PInt i"
| "norm_val (PFloat q) = PFloat q"
| "norm_val (PStr s) = PStr s"
| "norm_val (POther n) = POther n"
  by pat_completeness auto
termination
  by (relation "measure size") (auto dest: size_dict_value size_list_elem)

lemma insort_key_map:
  "(\<And>x. f (g x) = h x) \<Longrightarrow> insort_key f (g x) (map g xs) = map g (insort_key h x xs)"
  by (induction xs) auto

lemma sort_key_map: "(\<And>x. f (g x) = h x) \<Longrightarrow> sort_key f (map g xs) = map g (sort_key h xs)"
  by (induction xs) (auto simp: insort_key_map)

lemma sort_entries_map:
  "sort_entries (map (\<lambda>kv. (fst kv, f (snd kv))) kvs)
     = map (\<lambda>kv. (fst kv, f (snd kv))) (sort_entries kvs)"
  by (rule sort_key_map) simp

lemma sort_key_idem [simp]: "sort_key f (sort_key f xs) = sort_key f xs"
  by (rule sort_key_id_if_sorted) simp

section \<open>Canonical texts split\<close>

definition parses :: "(pyval \<Rightarrow> nat list res) \<Rightarrow> (pyval \<Rightarrow> nat list res) \<Rightarrow> pyval \<Rightarrow> pyval \<Rightarrow> bool" where
  "parses f g v w \<longleftrightarrow> (\<forall>a b r s. f v = Inr a \<longrightarrow> g w = Inr b \<longrightarrow> terminated r \<longrightarrow> terminated s \<longrightarrow>
      a @ r = b @ s \<longrightarrow> norm_val v = norm_val w \<and> r = s)"

lemma comma_join_Cons: "comma_join (p # ps) = p @ concat (map ((#) 44) ps)"
  by (induction ps arbitrary: p) auto

lemma terminated_tail:
  "c \<in> {93, 125} \<Longrightarrow> terminated (concat (map ((#) 44) ps) @ c # r)"
  by (cases ps) (auto simp: terminated_def)

lemma tail_split:
  assumes split: "\<And>x y a b r s. x \<in> set xs \<Longrightarrow> y \<in> set ys \<Longrightarrow> f x = Inr a \<Longrightarrow> g y = Inr b \<Longrightarrow>
            terminated r \<Longrightarrow> terminated s \<Longrightarrow> a @ r = b @ s \<Longrightarrow> N x = N' y \<and> r = s"
    and c: "c \<in> {93, 125}"
    and "list_all2 (\<lambda>x a. f x = Inr a) xs as" "list_all2 (\<lambda>y b. g y = Inr b) ys bs"
    and "concat (map ((#) 44) as) @ c # r = concat (map ((#) 44) bs) @ c # s"
  shows "map N xs = map N' ys \<and> r = s"
  using assms
proof (induction xs arbitrary: ys as bs)
  case Nil
  then show ?case by (cases ys; cases bs) auto
next
  case (Cons x xs)
  from Cons.prems(3) obtain a as' where as: "as = a # as'" "f x = Inr a"
      "list_all2 (\<lambda>x a. f x = Inr a) xs as'"
    by (cases as) auto
  show ?case
  proof (cases ys)
    case Nil
    with Cons.prems(4,5) as c show ?thesis by auto
  next
    case (Cons y ys')
    with Cons.prems(4) obtain b bs' where bs: "bs = b # bs'" "g y = Inr b"
        "list_all2 (\<lambda>y b. g y = Inr b) ys' bs'"
      by (cases bs) auto
    let ?t = "\<lambda>ps r. concat (map ((#) 44) ps) @ c # r"
    have eq: "a @ ?t as' r = b @ ?t bs' s"
      using Cons.prems(5) as(1) bs(1) by simp
    have "N x = N' y \<and> ?t as' r = ?t bs' s"
      by (rule Cons.prems(1) [OF _ _ as(2) bs(2) _ _ eq])
         (use Cons c in \<open>auto intro: terminated_tail\<close>)
    moreover have "map N xs = map N' ys' \<and> r = s"
      by (rule Cons.IH [OF Cons.prems(1) c as(3) bs(3)])
         (use calculation Cons in auto)
    ultimately show ?thesis using Cons by simp
  qed
qed

lemma join_split:
  assumes split: "\<And>x y a b r s. x \<in> set xs \<Longrightarrow> y \<in> set ys \<Longrightarrow> f x = Inr a \<Longrightarrow> g y = Inr b \<Longrightarrow>
            terminated r \<Longrightarrow> terminated s \<Longrightarrow> a @ r = b @ s \<Longrightarrow> N x = N' y \<and> r = s"
    and hf: "\<And>x a. f x = Inr a \<Longrightarrow> a \<noteq> [] \<and> hd a \<noteq> c"
    and hg: "\<And>x a. g x = Inr a \<Longrightarrow> a \<noteq> [] \<and> hd a \<noteq> c"
    and c: "c \<in> {93, 125}"
    and as: "list_all2 (\<lambda>x a. f x = Inr a) xs as" and bs: "list_all2 (\<lambda>y b. g y = Inr b) ys bs"
    and eq: "comma_join as @ c # r = comma_join bs @ c # s"
  shows "map N xs = map N' ys \<and> r = s"
proof (cases as)
  case Nil
  show ?thesis
  proof (cases bs)
    case (Cons b bs')
    with bs hg have "b \<noteq> [] \<and> hd b \<noteq> c" by (cases ys) auto
    with Nil Cons eq show ?thesis by (cases b) (auto simp: comma_join_Cons)
  qed (use Nil as bs eq in auto)
next
  case (Cons a as')
  show ?thesis
  proof (cases bs)
    case Nil
    with Cons as hf have "a \<noteq> [] \<and> hd a \<noteq> c" by (cases xs) auto
    with Nil Cons eq show ?thesis by (cases a) (auto simp: comma_join_Cons)
  next
    case (Cons b bs')
    have "concat (map ((#) 44) as) @ c # r = concat (map ((#) 44) bs) @ c # s"
      using eq Cons \<open>as = a # as'\<close> by (simp add: comma_join_Cons)
    show ?thesis
      by (rule tail_split [where f = f and g = g, OF _ c as bs \<open>concat _ @ _ = _\<close>]) (rule split)
  qed
qed

section \<open>Equal bytes come from equal normal forms\<close>

lemma too_deep_Inr_iff [res_simps]: "too_deep d k = Inr a \<longleftrightarrow> d \<le> 128 \<and> k = Inr a"
  by (auto simp: too_deep_def res_simps)

text \<open>The first byte of a canonical text tells the type of the value.\<close>

fun head_ok :: "pyval \<Rightarrow> nat \<Rightarrow> bool" where
  "head_ok PNone h = (h = 110)"
| "head_ok (PBool b) h = (h = (if b then 116 else 102))"
| "head_ok (PInt i) h = (h = 45 \<or> is_digit h)"
| "head_ok (PStr s) h = (h = 34)"
| "head_ok (PDict d) h = (h = 123)"
| "head_ok (PList xs) h = (h = 91)"
| "head_ok (PTuple xs) h = (h = 91)"
| "head_ok _ h = False"

lemma canonicalize_head: "canonicalize d v = Inr a \<Longrightarrow> a \<noteq> [] \<and> head_ok v (hd a)"
  using int_text_hd
  by (cases v) (auto simp: res_simps S_def string_bytes_def quoted_def)

lemma canonicalize_hd_delim:
  "canonicalize d v = Inr a \<Longrightarrow> a \<noteq> [] \<and> hd a \<noteq> 93 \<and> hd a \<noteq> 125"
  using canonicalize_head [of d v a] by (cases v) (auto simp: is_digit_def)

text \<open>One entry of an object.\<close>

definition entry_bytes :: "nat \<Rightarrow> pystr \<times> pyval \<Rightarrow> nat list res" where
  "entry_bytes d = (\<lambda>kv. bindE (string_bytes (fst kv))
     (\<lambda>k. bindE (canonicalize d (snd kv)) (\<lambda>v. Inr (k @ 58 # v))))"

lemma entry_bytes_Inr:
  "entry_bytes d kv = Inr a \<longleftrightarrow>
     (\<exists>v. string_bytes (fst kv) = Inr (quoted (fst kv)) \<and> canonicalize d (snd kv) = Inr v \<and>
          a = quoted (fst kv) @ 58 # v)"
  by (auto simp: entry_bytes_def res_simps string_bytes_def)

lemma canonicalize_PDict_Inr:
  "canonicalize d (PDict kvs) = Inr a \<longleftrightarrow> d \<le> 128 \<and> (\<forall>kv\<in>set kvs. validate_unicode (fst kv) = Inr ()) \<and>
     (\<exists>ps. list_all2 (\<lambda>kv p. entry_bytes (Suc d) kv = Inr p) (sort_entries kvs) ps \<and>
           a = 123 # comma_join ps @ [125])"
  unfolding canonicalize.simps entry_bytes_def [symmetric] by (auto simp: res_simps)

lemma canonicalize_seq_Inr:
  "canonicalize d (PList xs) = Inr a \<longleftrightarrow> d \<le> 128 \<and>
     (\<exists>ps. list_all2 (\<lambda>x p. canonicalize (Suc d) x = Inr p) xs ps \<and> a = 91 # comma_join ps @ [93])"
  "canonicalize d (PTuple xs) = Inr a \<longleftrightarrow> d \<le> 128 \<and>
     (\<exists>ps. list_all2 (\<lambda>x p. canonicalize (Suc d) x = Inr p) xs ps \<and> a = 91 # comma_join ps @ [93])"
  by (auto simp: res_simps)

declare canonicalize.simps(6,7,8) [simp del]

fun seq_of :: "pyval \<Rightarrow> pyval list option" where
  "seq_of (PList xs) = Some xs"
| "seq_of (PTuple xs) = Some xs"
| "seq_of _ = None"

lemma seq_split:
  assumes IH: "\<And>x y. x \<in> set xs \<Longrightarrow> y \<in> set ys \<Longrightarrow>
      parses (canonicalize (Suc d)) (canonicalize (Suc e)) x y"
    and xs: "list_all2 (\<lambda>x p. canonicalize (Suc d) x = Inr p) xs as"
    and ys: "list_all2 (\<lambda>x p. canonicalize (Suc e) x = Inr p) ys bs"
    and eq: "(91 # comma_join as @ [93]) @ r = (91 # comma_join bs @ [93]) @ s"
  shows "map norm_val xs = map norm_val ys \<and> r = s"
proof (rule join_split [where f = "canonicalize (Suc d)" and g = "canonicalize (Suc e)" and c = 93,
        OF _ _ _ _ xs ys])
  show "comma_join as @ 93 # r = comma_join bs @ 93 # s" using eq by simp
next
  fix x y a b r s
  assume "x \<in> set xs" "y \<in> set ys" "canonicalize (Suc d) x = Inr a"
    "canonicalize (Suc e) y = Inr b" "terminated r" "terminated s" "a @ r = b @ s"
  then show "norm_val x = norm_val y \<and> r = s" using IH [of x y] unfolding parses_def by blast
qed (use canonicalize_hd_delim in blast)+

lemma entry_split:
  assumes IH: "parses (canonicalize (Suc d)) (canonicalize (Suc e)) (snd kv) (snd kw)"
    and wf: "wf_str (fst kv)" "wf_str (fst kw)"
    and a: "entry_bytes (Suc d) kv = Inr a" and b: "entry_bytes (Suc e) kw = Inr b"
    and ends: "terminated r" "terminated s" and eq: "a @ r = b @ s"
  shows "(fst kv, norm_val (snd kv)) = (fst kw, norm_val (snd kw)) \<and> r = s"
proof -
  obtain v w where v: "canonicalize (Suc d) (snd kv) = Inr v" "a = quoted (fst kv) @ 58 # v"
    and w: "canonicalize (Suc e) (snd kw) = Inr w" "b = quoted (fst kw) @ 58 # w"
    using a b by (auto simp: entry_bytes_Inr)
  from eq v(2) w(2) have "quoted (fst kv) @ (58 # v @ r) = quoted (fst kw) @ (58 # w @ s)" by simp
  then have "fst kv = fst kw \<and> 58 # v @ r = 58 # w @ s" by (rule quoted_split [OF wf])
  with IH v(1) w(1) ends show ?thesis by (auto simp: parses_def)
qed

lemma entry_hd: "entry_bytes d kv = Inr a \<Longrightarrow> a \<noteq> [] \<and> hd a \<noteq> 125"
  by (auto simp: entry_bytes_Inr quoted_def)

lemma dict_split:
  assumes IH: "\<And>kv kw. kv \<in> set xs \<Longrightarrow> kw \<in> set ys \<Longrightarrow>
      parses (canonicalize (Suc d)) (canonicalize (Suc e)) (snd kv) (snd kw)"
    and wf: "\<forall>kv\<in>set xs. wf_str (fst kv)" "\<forall>kv\<in>set ys. wf_str (fst kv)"
    and xs: "list_all2 (\<lambda>x p. entry_bytes (Suc d) x = Inr p) xs as"
    and ys: "list_all2 (\<lambda>x p. entry_bytes (Suc e) x = Inr p) ys bs"
    and eq: "(123 # comma_join as @ [125]) @ r = (123 # comma_join bs @ [125]) @ s"
  shows "map (\<lambda>kv. (fst kv, norm_val (snd kv))) xs = map (\<lambda>kv. (fst kv, norm_val (snd kv))) ys
         \<and> r = s"
proof (rule join_split [where f = "entry_bytes (Suc d)" and g = "entry_bytes (Suc e)" and c = 125,
        OF _ _ _ _ xs ys])
  show "comma_join as @ 125 # r = comma_join bs @ 125 # s" using eq by simp
next
  fix x y a b r s
  assume "x \<in> set xs" "y \<in> set ys" "entry_bytes (Suc d) x = Inr a" "entry_bytes (Suc e) y = Inr b"
    "terminated r" "terminated s" "a @ r = b @ s"
  then show "(fst x, norm_val (snd x)) = (fst y, norm_val (snd y)) \<and> r = s"
    using IH wf by (intro entry_split) auto
qed (use entry_hd in blast)+

lemma same_head:
  assumes "canonicalize d v = Inr a" "canonicalize e w = Inr b" "a @ r = b @ s"
  shows "\<exists>h. head_ok v h \<and> head_ok w h"
proof -
  have "a \<noteq> []" "b \<noteq> []" "head_ok v (hd a)" "head_ok w (hd b)"
    using assms canonicalize_head by blast+
  moreover have "hd a = hd b" using assms(3) calculation(1,2) by (metis hd_append2)
  ultimately show ?thesis by metis
qed

lemma parsesI:
  assumes "\<And>a b r s. canonicalize d v = Inr a \<Longrightarrow> canonicalize e w = Inr b \<Longrightarrow> terminated r \<Longrightarrow>
     terminated s \<Longrightarrow> a @ r = b @ s \<Longrightarrow> \<exists>h. head_ok v h \<and> head_ok w h \<Longrightarrow>
     norm_val v = norm_val w \<and> r = s"
  shows "parses (canonicalize d) (canonicalize e) v w"
  unfolding parses_def
proof (intro allI impI)
  fix a b r s
  assume *: "canonicalize d v = Inr a" "canonicalize e w = Inr b" "terminated r" "terminated s"
    "a @ r = b @ s"
  show "norm_val v = norm_val w \<and> r = s"
    by (rule assms [OF * same_head [OF *(1,2,5)]])
qed

lemma parses_scalar:
  assumes "wf_val v" "wf_val w" "\<And>kvs. v \<noteq> PDict kvs" "seq_of v = None"
  shows "parses (canonicalize d) (canonicalize e) v w"
proof (rule parsesI)
  fix a b r s
  assume c: "canonicalize d v = Inr a" "canonicalize e w = Inr b"
    and t: "terminated r" "terminated s" and eq: "a @ r = b @ s"
    and h: "\<exists>h. head_ok v h \<and> head_ok w h"
  show "norm_val v = norm_val w \<and> r = s"
  proof (cases v)
    case (PInt i)
    then obtain j where w: "w = PInt j"
      using h by (cases w) (auto simp: is_digit_def split: if_splits)
    show ?thesis using c t eq PInt w int_text_split [of i r j s] by (auto simp: res_simps)
  next
    case (PStr x)
    then obtain y where w: "w = PStr y"
      using h by (cases w) (auto simp: is_digit_def split: if_splits)
    show ?thesis using c eq PStr w assms(1,2) quoted_split [of x y r s]
      by (auto simp: res_simps string_bytes_def)
  next
    case (PBool x)
    then show ?thesis
      using c eq h by (cases w) (auto simp: res_simps is_digit_def split: if_splits)
  next
    case PNone
    then show ?thesis
      using c eq h by (cases w) (auto simp: res_simps is_digit_def split: if_splits)
  qed (use assms(3,4) h in auto)
qed

lemma parses_seq:
  assumes IH: "\<And>x y. x \<in> set xs \<Longrightarrow> wf_val y \<Longrightarrow>
      parses (canonicalize (Suc d)) (canonicalize (Suc e)) x y"
    and v: "v = PList xs \<or> v = PTuple xs" and wf: "wf_val w"
  shows "parses (canonicalize d) (canonicalize e) v w"
proof (rule parsesI)
  fix a b r s
  assume c: "canonicalize d v = Inr a" "canonicalize e w = Inr b"
    and eq: "a @ r = b @ s" and h: "\<exists>h. head_ok v h \<and> head_ok w h"
  from h v obtain ys where w: "w = PList ys \<or> w = PTuple ys"
    by (cases w) (auto simp: is_digit_def split: if_splits)
  obtain as where as: "list_all2 (\<lambda>x p. canonicalize (Suc d) x = Inr p) xs as"
      "a = 91 # comma_join as @ [93]"
    using c(1) v unfolding canonicalize_seq_Inr by (metis canonicalize_seq_Inr)
  obtain bs where bs: "list_all2 (\<lambda>x p. canonicalize (Suc e) x = Inr p) ys bs"
      "b = 91 # comma_join bs @ [93]"
    using c(2) w by (metis canonicalize_seq_Inr)
  have "wf_val y" if "y \<in> set ys" for y using wf w that by auto
  then have "map norm_val xs = map norm_val ys \<and> r = s"
    using seq_split [OF _ as(1) bs(1)] IH eq as(2) bs(2) by blast
  then show "norm_val v = norm_val w \<and> r = s" using v w by auto
qed

lemma parses_dict:
  assumes IH: "\<And>kv y. kv \<in> set kvs \<Longrightarrow> wf_val y \<Longrightarrow>
      parses (canonicalize (Suc d)) (canonicalize (Suc e)) (snd kv) y"
    and wfv: "wf_val (PDict kvs)" and wf: "wf_val w"
  shows "parses (canonicalize d) (canonicalize e) (PDict kvs) w"
proof (rule parsesI)
  fix a b r s
  assume c: "canonicalize d (PDict kvs) = Inr a" "canonicalize e w = Inr b"
    and eq: "a @ r = b @ s" and h: "\<exists>h. head_ok (PDict kvs) h \<and> head_ok w h"
  from h obtain kws where w: "w = PDict kws"
    by (cases w) (auto simp: is_digit_def split: if_splits)
  obtain as where as: "list_all2 (\<lambda>x p. entry_bytes (Suc d) x = Inr p) (sort_entries kvs) as"
      "a = 123 # comma_join as @ [125]"
    using c(1) unfolding canonicalize_PDict_Inr by blast
  obtain bs where bs: "list_all2 (\<lambda>x p. entry_bytes (Suc e) x = Inr p) (sort_entries kws) bs"
      "b = 123 # comma_join bs @ [125]"
    using c(2) unfolding w canonicalize_PDict_Inr by blast
  have "map (\<lambda>kv. (fst kv, norm_val (snd kv))) (sort_entries kvs)
          = map (\<lambda>kv. (fst kv, norm_val (snd kv))) (sort_entries kws) \<and> r = s"
  proof (rule dict_split [OF _ _ _ as(1) bs(1)])
    show "(123 # comma_join as @ [125]) @ r = (123 # comma_join bs @ [125]) @ s"
      using eq as(2) bs(2) by simp
  qed (use IH wfv wf w in auto)
  then show "norm_val (PDict kvs) = norm_val w \<and> r = s"
    using w by (simp add: sort_entries_map)
qed

lemma canonicalize_parses:
  "wf_val v \<Longrightarrow> wf_val w \<Longrightarrow> parses (canonicalize d) (canonicalize e) v w"
proof (induction v arbitrary: d e w rule: norm_val.induct)
  case (1 kvs)
  show ?case
  proof (rule parses_dict)
    show "parses (canonicalize (Suc d)) (canonicalize (Suc e)) (snd kv) y"
      if "kv \<in> set kvs" "wf_val y" for kv y
      using 1(1) [OF that(1) _ that(2)] 1(2) that(1) by simp
  qed (fact 1)+
next
  case (2 xs)
  show ?case
  proof (rule parses_seq [where xs = xs])
    show "parses (canonicalize (Suc d)) (canonicalize (Suc e)) x y"
      if "x \<in> set xs" "wf_val y" for x y
      using 2(1) [OF that(1) _ that(2)] 2(2) that(1) by simp
  qed (simp_all add: 2)
next
  case (3 xs)
  show ?case
  proof (rule parses_seq [where xs = xs])
    show "parses (canonicalize (Suc d)) (canonicalize (Suc e)) x y"
      if "x \<in> set xs" "wf_val y" for x y
      using 3(1) [OF that(1) _ that(2)] 3(2) that(1) by simp
  qed (simp_all add: 3)
qed (rule parses_scalar; simp; fail)+

lemma canonicalize_inject:
  assumes "wf_val v" "wf_val w" "canonicalize d v = Inr a" "canonicalize e w = Inr a"
  shows "norm_val v = norm_val w"
  using canonicalize_parses [OF assms(1,2), of d e] assms(3,4)
  by (auto simp: parses_def terminated_def)

section \<open>Normal forms have the same bytes\<close>

lemma entry_bytes_norm:
  assumes "\<And>e b. canonicalize e (norm_val (snd kv)) = Inr b \<longleftrightarrow> canonicalize e (snd kv) = Inr b"
  shows "entry_bytes d (fst kv, norm_val (snd kv)) = Inr p \<longleftrightarrow> entry_bytes d kv = Inr p"
  using assms by (simp add: entry_bytes_Inr)

lemma list_all2_cong_left:
  "(\<And>x y. x \<in> set xs \<Longrightarrow> P (f x) y \<longleftrightarrow> Q x y) \<Longrightarrow> list_all2 P (map f xs) ys \<longleftrightarrow> list_all2 Q xs ys"
  unfolding list_all2_map1 by (auto intro: list.rel_mono_strong)

lemma canonicalize_norm: "canonicalize d (norm_val v) = Inr a \<longleftrightarrow> canonicalize d v = Inr a"
proof (induction v arbitrary: d a rule: norm_val.induct)
  case (1 kvs)
  let ?N = "\<lambda>kv. (fst kv, norm_val (snd kv))"
  have "list_all2 (\<lambda>kv p. entry_bytes (Suc d) kv = Inr p) (map ?N (sort_entries kvs)) ps
      \<longleftrightarrow> list_all2 (\<lambda>kv p. entry_bytes (Suc d) kv = Inr p) (sort_entries kvs) ps" for ps
    by (rule list_all2_cong_left) (simp add: entry_bytes_norm 1)
  then have "canonicalize d (PDict (map ?N (sort_entries kvs))) = Inr a
      \<longleftrightarrow> canonicalize d (PDict kvs) = Inr a"
    unfolding canonicalize_PDict_Inr sort_entries_map sort_key_idem by simp
  then show ?case by (simp add: sort_entries_map)
next
  case (2 xs)
  have "list_all2 (\<lambda>x p. canonicalize (Suc d) x = Inr p) (map norm_val xs) ps
      \<longleftrightarrow> list_all2 (\<lambda>x p. canonicalize (Suc d) x = Inr p) xs ps" for ps
    by (rule list_all2_cong_left) (simp add: 2)
  then show ?case by (simp add: canonicalize_seq_Inr)
next
  case (3 xs)
  have "list_all2 (\<lambda>x p. canonicalize (Suc d) x = Inr p) (map norm_val xs) ps
      \<longleftrightarrow> list_all2 (\<lambda>x p. canonicalize (Suc d) x = Inr p) xs ps" for ps
    by (rule list_all2_cong_left) (simp add: 3)
  then show ?case by (simp add: canonicalize_seq_Inr)
qed simp_all

lemma norm_canonical_bytes:
  "norm_val v = norm_val w \<Longrightarrow> canonical_bytes v = Inr a \<Longrightarrow> canonical_bytes w = Inr a"
  unfolding canonical_bytes_def by (metis canonicalize_norm)

section \<open>Digests\<close>

lemma hex_digit_inj: "m < 16 \<Longrightarrow> n < 16 \<Longrightarrow> hex_digit m = hex_digit n \<Longrightarrow> m = n"
  by (metis unhex_hex_digit)

lemma hex_bytes_inj:
  "list_all (\<lambda>b. b < 256) xs \<Longrightarrow> list_all (\<lambda>b. b < 256) ys \<Longrightarrow> hex_bytes xs = hex_bytes ys \<Longrightarrow> xs = ys"
proof (induction xs arbitrary: ys)
  case Nil
  then show ?case by (cases ys) (auto simp: hex_bytes_def)
next
  case (Cons x xs)
  then obtain y ys' where ys: "ys = y # ys'" by (cases ys) (auto simp: hex_bytes_def)
  with Cons.prems have lt: "x div 16 < 16" "y div 16 < 16" "x mod 16 < 16" "y mod 16 < 16"
    and eq: "hex_digit (x div 16) = hex_digit (y div 16)" "hex_digit (x mod 16) = hex_digit (y mod 16)"
    and rest: "hex_bytes xs = hex_bytes ys'"
    by (auto simp: hex_bytes_def div_less_iff_less_mult)
  have "x div 16 = y div 16" "x mod 16 = y mod 16"
    using hex_digit_inj lt eq by blast+
  then have "x = y" by (metis div_mult_mod_eq)
  moreover have "xs = ys'" using Cons.IH Cons.prems(1,2) rest ys by simp
  ultimately show ?case using ys by simp
qed

lemma lower_hex_digit: "n < 16 \<Longrightarrow> lower_hex (hex_digit n)"
  by (auto simp: lower_hex_def hex_digit_def)

lemma hex_bytes_hex: "list_all (\<lambda>b. b < 256) bs \<Longrightarrow> list_all lower_hex (hex_bytes bs)"
  by (induction bs) (auto simp: hex_bytes_def lower_hex_digit div_less_iff_less_mult)

lemma length_hex_bytes: "length (hex_bytes bs) = 2 * length bs"
  by (induction bs) (auto simp: hex_bytes_def)

text \<open>The documented shape of a SHA-256 digest: 32 bytes.\<close>

definition digest_sized :: "(nat list \<Rightarrow> nat list) \<Rightarrow> bool" where
  "digest_sized H \<longleftrightarrow> (\<forall>bs. length (H bs) = 32 \<and> list_all (\<lambda>b. b < 256) (H bs))"

lemma sha256_digest_shape:
  assumes "digest_sized H" "sha256_digest H v = Inr x"
  shows "is_sha256_digest x"
  using assms
  by (auto simp: sha256_digest_def res_simps digest_sized_def sha256_bytes_def
      length_hex_bytes hex_bytes_hex)

lemma sha256_digest_inj:
  assumes "digest_sized H" "wf_val v" "wf_val w"
    and "sha256_digest H v = Inr x" "sha256_digest H w = Inr x"
    and free: "\<And>a b. canonical_bytes v = Inr a \<Longrightarrow> canonical_bytes w = Inr b \<Longrightarrow> H a = H b \<Longrightarrow> a = b"
  shows "norm_val v = norm_val w"
proof -
  obtain a b where ab: "canonical_bytes v = Inr a" "canonical_bytes w = Inr b"
    and "hex_bytes (H a) = hex_bytes (H b)"
    using assms(4,5) by (auto simp: sha256_digest_def res_simps sha256_bytes_def)
  moreover have "list_all (\<lambda>b. b < 256) (H a)" "list_all (\<lambda>b. b < 256) (H b)"
    using assms(1) by (simp_all add: digest_sized_def)
  ultimately have "H a = H b" using hex_bytes_inj by blast
  with free ab have "a = b" by blast
  with ab show ?thesis
    using canonicalize_inject assms(2,3) unfolding canonical_bytes_def by blast
qed

text \<open>Values with one normal form agree on every string field.\<close>

lemma map_of_sort_key: "distinct (map fst xs) \<Longrightarrow> map_of (sort_key f xs) = map_of xs"
proof -
  assume d: "distinct (map fst xs)"
  then have "distinct (map fst (sort_key f xs))" by (simp add: distinct_map)
  then show ?thesis using d by (simp add: map_of_inject_set)
qed

lemma norm_str: "norm_val v = PStr s \<longleftrightarrow> v = PStr s"
  by (cases v) auto

lemma norm_dict_field:
  assumes "norm_val (PDict a) = norm_val (PDict b)" "distinct (map fst a)" "distinct (map fst b)"
  shows "map_option norm_val (map_of a k) = map_option norm_val (map_of b k)"
proof -
  have m: "map_of (sort_entries (map (\<lambda>kv. (fst kv, norm_val (snd kv))) d)) k
             = map_option norm_val (map_of d k)" if "distinct (map fst d)" for d :: dict
  proof -
    have "distinct (map fst (map (\<lambda>kv. (fst kv, norm_val (snd kv))) d))"
      using that by (simp add: comp_def)
    then have "map_of (sort_entries (map (\<lambda>kv. (fst kv, norm_val (snd kv))) d)) k
        = map_of (map (\<lambda>kv. (fst kv, norm_val (snd kv))) d) k"
      by (simp only: map_of_sort_key)
    also have "\<dots> = map_option norm_val (map_of d k)" by (induction d) auto
    finally show ?thesis .
  qed
  show ?thesis using assms m [of a] m [of b] by simp
qed

lemma norm_dict_str:
  assumes "norm_val (PDict a) = norm_val (PDict b)" "distinct (map fst a)" "distinct (map fst b)"
    and "map_of a k = Some (PStr s)"
  shows "map_of b k = Some (PStr s)"
  using norm_dict_field [OF assms(1-3), of k] assms(4)
  by (cases "map_of b k") (auto simp: norm_str dest: sym)

end
