(* ===== verification/Schema.thy ===== *)
theory Schema
  imports Canonical
begin

text \<open>
  \<open>contracts/schema.py\<close>: the schema store and the validator of the supported Draft 2020-12
  subset. The files of the schema directory, the regular expressions they hold and the
  date and URL parsers of the standard library are fields of the store; everything the
  module itself decides is translated. Paths only occur in messages and are left out, and
  the cache of loaded documents is not modelled because the files do not change.
  \<open>validate\<close> recurses on the instance and on the schema at once and may follow \<open>$ref\<close>
  cycles; it ends because the depth grows with every call and is capped at 128.
\<close>

section \<open>The store\<close>

record schema_store =
  documents :: "pystr \<Rightarrow> pyval option"
  regex :: "pystr \<Rightarrow> bool \<Rightarrow> pystr \<Rightarrow> bool option"
  fromisoformat :: "pystr \<Rightarrow> bool option"
  urlsplit :: "pystr \<Rightarrow> pystr option"

text \<open>
  \<open>documents\<close>: the JSON value of a file, or \<open>None\<close> when it cannot be read or parsed.
  \<open>regex p full s\<close>: whether \<open>p\<close> matches \<open>s\<close> (all of it, or somewhere), \<open>None\<close> for
  \<open>re.error\<close>. \<open>fromisoformat\<close>: whether the parsed value has an offset, \<open>None\<close> for
  \<open>ValueError\<close>. \<open>urlsplit\<close>: the scheme, \<open>None\<close> for \<open>ValueError\<close>.
\<close>

section \<open>String helpers\<close>

definition starts_with :: "pystr \<Rightarrow> pystr \<Rightarrow> bool" where
  "starts_with p s \<longleftrightarrow> take (length p) s = p"

definition ends_with :: "pystr \<Rightarrow> pystr \<Rightarrow> bool" where
  "ends_with p s \<longleftrightarrow> length p \<le> length s \<and> drop (length s - length p) s = p"

fun has_sub :: "pystr \<Rightarrow> pystr \<Rightarrow> bool" where
  "has_sub p [] \<longleftrightarrow> p = []"
| "has_sub p (c # s) \<longleftrightarrow> starts_with p (c # s) \<or> has_sub p s"

fun split_on :: "nat \<Rightarrow> pystr \<Rightarrow> pystr list" where
  "split_on c [] = [[]]"
| "split_on c (x # s) =
     (if x = c then [] # split_on c s
      else case split_on c s of [] \<Rightarrow> [[x]] | p # ps \<Rightarrow> (x # p) # ps)"

text \<open>\<open>s.replace(ab, c)\<close> for a pattern of two characters.\<close>

fun replace2 :: "nat \<Rightarrow> nat \<Rightarrow> nat \<Rightarrow> pystr \<Rightarrow> pystr" where
  "replace2 a b c (x # y # s) =
     (if x = a \<and> y = b then c # replace2 a b c s else x # replace2 a b c (y # s))"
| "replace2 a b c s = s"

definition is_digit_char :: "nat \<Rightarrow> bool" where
  "is_digit_char c \<longleftrightarrow> 48 \<le> c \<and> c \<le> 57"

definition is_letter :: "nat \<Rightarrow> bool" where
  "is_letter c \<longleftrightarrow> (65 \<le> c \<and> c \<le> 90) \<or> (97 \<le> c \<and> c \<le> 122)"

definition is_hex_char :: "nat \<Rightarrow> bool" where
  "is_hex_char c \<longleftrightarrow> is_digit_char c \<or> (65 \<le> c \<and> c \<le> 70) \<or> (97 \<le> c \<and> c \<le> 102)"

section \<open>Keywords, equality, types and formats\<close>

definition DRAFT_2020_12 :: pyval where
  "DRAFT_2020_12 = PS ''https://json-schema.org/draft/2020-12/schema''"

definition SUPPORTED_KEYWORDS :: "pystr list" where
  "SUPPORTED_KEYWORDS = map S
    [''$defs'', ''$id'', ''$ref'', ''$schema'', ''additionalProperties'', ''allOf'', ''const'',
     ''description'', ''else'', ''enum'', ''format'', ''if'', ''items'', ''maxItems'',
     ''maxLength'', ''maxProperties'', ''maximum'', ''minItems'', ''minLength'',
     ''minProperties'', ''minimum'', ''not'', ''oneOf'', ''pattern'', ''properties'',
     ''propertyNames'', ''required'', ''then'', ''title'', ''type'', ''uniqueItems'']"

definition schema_fail :: "string \<Rightarrow> 'a res" where
  "schema_fail msg = Inl (Exc SchemaError msg)"

definition json_equal :: "pyval \<Rightarrow> pyval \<Rightarrow> bool" where
  "json_equal v w = (case (canonical_bytes v, canonical_bytes w) of
     (Inr a, Inr b) \<Rightarrow> a = b | _ \<Rightarrow> False)"

definition matches_type :: "pyval \<Rightarrow> pystr \<Rightarrow> bool" where
  "matches_type v t =
     (if t = S ''null'' then v = PNone
      else if t = S ''boolean'' then (case v of PBool _ \<Rightarrow> True | _ \<Rightarrow> False)
      else if t = S ''integer'' then (case v of PInt _ \<Rightarrow> True | _ \<Rightarrow> False)
      else if t = S ''string'' then (case v of PStr _ \<Rightarrow> True | _ \<Rightarrow> False)
      else if t = S ''array'' then (case v of PList _ \<Rightarrow> True | _ \<Rightarrow> False)
      else if t = S ''object'' then (case v of PDict _ \<Rightarrow> True | _ \<Rightarrow> False)
      else False)"

fun bad_percent :: "pystr \<Rightarrow> bool" where
  "bad_percent [] = False"
| "bad_percent (c # s) \<longleftrightarrow>
     (c = 37 \<and> \<not> (case s of a # b # _ \<Rightarrow> is_hex_char a \<and> is_hex_char b | _ \<Rightarrow> False)) \<or> bad_percent s"

definition scheme_ok :: "pystr \<Rightarrow> bool" where
  "scheme_ok s = (case s of [] \<Rightarrow> False
     | c # r \<Rightarrow> is_letter c \<and>
         list_all (\<lambda>x. is_letter x \<or> is_digit_char x \<or> x \<in> {43, 46, 45}) r)"

definition validate_format :: "schema_store \<Rightarrow> pystr \<Rightarrow> pyval \<Rightarrow> unit res" where
  "validate_format st s fmt =
     (if fmt = PS ''date-time'' then
        (case fromisoformat st (concat (map (\<lambda>c. if c = 90 then S ''+00:00'' else [c]) s)) of
           None \<Rightarrow> schema_fail ''invalid date-time''
         | Some offset \<Rightarrow> deny (\<not> offset) SchemaError ''date-time must include an offset'')
      else if fmt = PS ''uri'' then
        reject_if (\<exists>c\<in>set s. c \<le> 0x20) SchemaError ''URI contains whitespace or a control character''
          (reject_if (bad_percent s) SchemaError ''URI contains malformed percent encoding''
            (case urlsplit st s of
               None \<Rightarrow> schema_fail ''invalid URI''
             | Some scheme \<Rightarrow> deny (\<not> scheme_ok scheme) SchemaError ''URI must be absolute''))
      else schema_fail ''unsupported format'')"

section \<open>Loading\<close>

text \<open>\<open>Path(name).name != name\<close> for a POSIX path.\<close>

definition escapes_directory :: "pystr \<Rightarrow> bool" where
  "escapes_directory name \<longleftrightarrow> name = S ''.'' \<or> 47 \<in> set name"

definition load_json :: "schema_store \<Rightarrow> pystr \<Rightarrow> dict res" where
  "load_json st name =
     reject_if (escapes_directory name) SchemaError ''schema reference escapes canonical directory''
       (case documents st name of
          None \<Rightarrow> schema_fail ''cannot load canonical schema''
        | Some (PDict d) \<Rightarrow>
            reject_if (ends_with (S ''.schema.json'') name \<and> dget d ''$schema'' \<noteq> DRAFT_2020_12)
              SchemaError ''unsupported or missing JSON Schema dialect'' (Inr d)
        | Some _ \<Rightarrow> schema_fail ''canonical schema is not an object'')"

fun catalog_entries :: "pyval list \<Rightarrow> (pystr \<times> pystr) list \<Rightarrow> (pystr \<times> pystr) list res" where
  "catalog_entries [] acc = Inr acc"
| "catalog_entries (PDict e # es) acc =
     (case (dget e ''record_type'', dget e ''schema'') of
        (PStr rt, PStr sch) \<Rightarrow>
          reject_if (map_of acc rt \<noteq> None) SchemaError ''duplicate record_type''
            (catalog_entries es (acc @ [(rt, sch)]))
      | _ \<Rightarrow> schema_fail ''malformed contract mapping'')"
| "catalog_entries (_ # es) acc = schema_fail ''malformed contract entry''"

definition catalog :: "schema_store \<Rightarrow> (pystr \<times> pystr) list res" where
  "catalog st = bindE (load_json st (S ''catalog.json'')) (\<lambda>d.
     reject_if (dget d ''schema_version'' \<noteq> PS ''1.0'') SchemaError ''unsupported schema version''
       (case dget d ''contracts'' of
          PList es \<Rightarrow> catalog_entries es []
        | _ \<Rightarrow> schema_fail ''contracts must be an array''))"

definition schema_for :: "schema_store \<Rightarrow> pystr \<Rightarrow> (pystr \<times> dict) res" where
  "schema_for st rt = bindE (catalog st) (\<lambda>cat.
     case map_of cat rt of
       None \<Rightarrow> schema_fail ''unsupported record_type''
     | Some name \<Rightarrow> bindE (load_json st name) (\<lambda>d. Inr (name, d)))"

section \<open>References\<close>

fun follow :: "pystr list \<Rightarrow> pyval \<Rightarrow> pyval res" where
  "follow [] doc = Inr doc"
| "follow (t # ts) (PDict d) =
     (case map_of d (replace2 126 48 126 (replace2 126 49 47 t)) of
        None \<Rightarrow> schema_fail ''unresolved schema reference''
      | Some v \<Rightarrow> follow ts v)"
| "follow (t # ts) doc = schema_fail ''unresolved schema reference''"

definition resolve_ref :: "schema_store \<Rightarrow> pystr \<Rightarrow> pystr \<Rightarrow> (pystr \<times> pyval) res" where
  "resolve_ref st reference current =
     (let name = takeWhile (\<lambda>c. c \<noteq> 35) reference;
          fragment = drop 1 (dropWhile (\<lambda>c. c \<noteq> 35) reference);
          target = (if name \<noteq> [] then name else current)
      in reject_if (has_sub (S ''://'') target \<or> starts_with (S ''urn:'') target) SchemaError
           ''remote schema reference is forbidden''
           (bindE (load_json st target) (\<lambda>doc.
              if fragment = [] then Inr (target, PDict doc)
              else reject_if (hd fragment \<noteq> 47) SchemaError ''unsupported schema fragment''
                     (bindE (follow (split_on 47 (tl fragment)) (PDict doc))
                        (\<lambda>v. Inr (target, v))))))"

section \<open>Validation of a value\<close>

text \<open>A numeric keyword, with the default of \<open>schema.get(k, default)\<close>.\<close>

definition num_kw :: "dict \<Rightarrow> string \<Rightarrow> int \<Rightarrow> rat res" where
  "num_kw s k dflt = (case map_of s (S k) of
     None \<Rightarrow> Inr (of_int dflt)
   | Some v \<Rightarrow> (case num_of v of None \<Rightarrow> Inl (Exc TypeError k) | Some q \<Rightarrow> Inr q))"

definition in_bounds :: "dict \<Rightarrow> int \<Rightarrow> string \<Rightarrow> int \<Rightarrow> string \<Rightarrow> unit res" where
  "in_bounds s n lo dlo hi = seqE
     [bindE (num_kw s lo dlo) (\<lambda>q. deny (of_int n < q) SchemaError lo),
      bindE (num_kw s hi n) (\<lambda>q. deny (q < of_int n) SchemaError hi)]"

definition get_elems :: "dict \<Rightarrow> string \<Rightarrow> pyval list res" where
  "get_elems s k = (if dhas s k then elems (dget s k) else Inr [])"

definition get_items :: "dict \<Rightarrow> string \<Rightarrow> dict res" where
  "get_items s k = (case map_of s (S k) of
     None \<Rightarrow> Inr [] | Some (PDict d) \<Rightarrow> Inr d | Some _ \<Rightarrow> Inl (Exc AttributeError k))"

definition key_in :: "pyval \<Rightarrow> dict \<Rightarrow> bool res" where
  "key_in v d = (case v of
     PStr k \<Rightarrow> Inr (map_of d k \<noteq> None)
   | PList _ \<Rightarrow> Inl (Exc TypeError ''unhashable type'')
   | PDict _ \<Rightarrow> Inl (Exc TypeError ''unhashable type'')
   | _ \<Rightarrow> Inr False)"

definition type_names :: "pyval \<Rightarrow> pystr list res" where
  "type_names v = (case v of
     PStr t \<Rightarrow> Inr [t]
   | PList ts \<Rightarrow> mapE (\<lambda>t. case t of PStr n \<Rightarrow> Inr n | _ \<Rightarrow> schema_fail ''malformed type keyword'') ts
   | _ \<Rightarrow> schema_fail ''malformed type keyword'')"

fun unique_items :: "nat list list \<Rightarrow> pyval list \<Rightarrow> unit res" where
  "unique_items seen [] = Inr ()"
| "unique_items seen (x # xs) = bindE (canonical_bytes x) (\<lambda>b.
     reject_if (b \<in> set seen) SchemaError ''array item is not unique'' (unique_items (b # seen) xs))"

definition check_type :: "dict \<Rightarrow> pyval \<Rightarrow> unit res" where
  "check_type s v = (case dget s ''type'' of PNone \<Rightarrow> Inr ()
     | t \<Rightarrow> bindE (type_names t) (\<lambda>ts.
         deny (\<not> (\<exists>n\<in>set ts. matches_type v n)) SchemaError ''unexpected type''))"

definition check_const :: "dict \<Rightarrow> pyval \<Rightarrow> unit res" where
  "check_const s v = seqE
     [deny (dhas s ''const'' \<and> \<not> json_equal v (dget s ''const'')) SchemaError ''expected constant'',
      whenE (dhas s ''enum'') (bindE (elems (dget s ''enum'')) (\<lambda>es.
        deny (\<not> (\<exists>e\<in>set es. json_equal v e)) SchemaError ''value is not in enum''))]"

definition check_string :: "schema_store \<Rightarrow> dict \<Rightarrow> pystr \<Rightarrow> unit res" where
  "check_string st s x = seqE
     [in_bounds s (int (length x)) ''minLength'' 0 ''maxLength'',
      (case dget s ''pattern'' of
         PNone \<Rightarrow> Inr ()
       | PStr p \<Rightarrow> (case regex st p (starts_with (S ''^'') p \<and> ends_with (S ''$'') p) x of
           None \<Rightarrow> schema_fail ''invalid canonical regex''
         | Some m \<Rightarrow> deny (\<not> m) SchemaError ''string does not match pattern'')
       | _ \<Rightarrow> Inl (Exc TypeError ''pattern'')),
      whenE (dhas s ''format'') (validate_format st x (dget s ''format''))]"

definition check_int :: "dict \<Rightarrow> int \<Rightarrow> unit res" where
  "check_int s i = in_bounds s i ''minimum'' i ''maximum''"

definition check_array :: "dict \<Rightarrow> pyval list \<Rightarrow> unit res" where
  "check_array s xs = seqE
     [in_bounds s (int (length xs)) ''minItems'' 0 ''maxItems'',
      whenE (truthy (dget s ''uniqueItems'')) (unique_items [] xs)]"

definition check_object :: "dict \<Rightarrow> dict \<Rightarrow> unit res" where
  "check_object s d = seqE
     [in_bounds s (int (length d)) ''minProperties'' 0 ''maxProperties'',
      bindE (get_elems s ''required'') (\<lambda>ks. forE ks (\<lambda>k.
        denyE (bindE (key_in k d) (\<lambda>b. Inr (\<not> b))) SchemaError ''missing required property''))]"

definition check_local :: "schema_store \<Rightarrow> dict \<Rightarrow> pyval \<Rightarrow> unit res" where
  "check_local st s v = (case v of
     PStr x \<Rightarrow> check_string st s x
   | PInt i \<Rightarrow> check_int s i
   | PList xs \<Rightarrow> check_array s xs
   | PDict d \<Rightarrow> check_object s d
   | _ \<Rightarrow> Inr ())"

text \<open>The keys of an object that its \<open>properties\<close> keyword does not declare.\<close>

definition extras :: "dict \<Rightarrow> dict \<Rightarrow> dict" where
  "extras props d = filter (\<lambda>kv. map_of props (fst kv) = None) d"

text \<open>\<open>sum(1 for s in xs if f(s) does not raise SchemaError)\<close>; other exceptions propagate.\<close>

fun countE :: "('a \<Rightarrow> unit res) \<Rightarrow> 'a list \<Rightarrow> nat res" where
  "countE f [] = Inr 0"
| "countE f (x # xs) = bindE (catchE SchemaError (bindE (f x) (\<lambda>_. Inr 1)) (Inr 0))
     (\<lambda>n. bindE (countE f xs) (\<lambda>m. Inr (n + m)))"

lemma countE_cong [fundef_cong]:
  "xs = ys \<Longrightarrow> (\<And>x. x \<in> set ys \<Longrightarrow> f x = g x) \<Longrightarrow> countE f xs = countE g ys"
proof (induction xs arbitrary: ys)
  case (Cons x xs)
  then show ?case by (cases ys) auto
qed simp

function validate :: "schema_store \<Rightarrow> pyval \<Rightarrow> pyval \<Rightarrow> pystr \<Rightarrow> nat \<Rightarrow> unit res" where
  "validate st v schema name depth =
     (if depth > 128 then schema_fail ''maximum schema validation depth exceeded''
      else case schema of
        PBool b \<Rightarrow> deny (\<not> b) SchemaError ''value is rejected by false schema''
      | PDict s \<Rightarrow> seqE
         [deny (\<not> (\<forall>kv\<in>set s. fst kv \<in> set SUPPORTED_KEYWORDS)) SchemaError
            ''unsupported schema keywords'',
          (if dhas s ''$ref''
           then case dget s ''$ref'' of
              PStr r \<Rightarrow> bindE (resolve_ref st r name) (\<lambda>tgt.
                validate st v (snd tgt) (fst tgt) (Suc depth))
            | _ \<Rightarrow> schema_fail ''$ref must be a string''
           else Inr ()),
          bindE (get_elems s ''allOf'') (\<lambda>subs. forE subs (\<lambda>sub.
            validate st v sub name (Suc depth))),
          (if dhas s ''oneOf''
           then bindE (elems (dget s ''oneOf'')) (\<lambda>subs.
              bindE (countE (\<lambda>sub. validate st v sub name (Suc depth)) subs) (\<lambda>n.
                deny (n \<noteq> 1) SchemaError ''oneOf expected exactly one''))
           else Inr ()),
          (if dhas s ''not''
           then bindE (countE (\<lambda>sub. validate st v sub name (Suc depth)) [dget s ''not'']) (\<lambda>n.
                deny (n \<noteq> 0) SchemaError ''value matches a forbidden schema'')
           else Inr ()),
          (if dhas s ''if''
           then bindE (countE (\<lambda>sub. validate st v sub name (Suc depth)) [dget s ''if'']) (\<lambda>n.
                let branch = dget s (if n = 0 then ''else'' else ''then'')
                in if branch = PNone then Inr () else validate st v branch name (Suc depth))
           else Inr ()),
          check_type s v,
          check_const s v,
          check_local st s v,
          (case v of
             PList xs \<Rightarrow> (if dhas s ''items''
               then forE xs (\<lambda>x. validate st x (dget s ''items'') name (Suc depth)) else Inr ())
           | PDict d \<Rightarrow> seqE
              [(if dhas s ''propertyNames''
                then forE d (\<lambda>kv. validate st (PStr (fst kv)) (dget s ''propertyNames'') name (Suc depth))
                else Inr ()),
               bindE (get_items s ''properties'') (\<lambda>props.
                 forE props (\<lambda>p. case map_of d (fst p) of
                     None \<Rightarrow> Inr ()
                   | Some w \<Rightarrow> validate st w (snd p) name (Suc depth))),
               bindE (get_items s ''properties'') (\<lambda>props. case map_of s (S ''additionalProperties'') of
                   Some (PBool False) \<Rightarrow> deny (extras props d \<noteq> []) SchemaError
                     ''undeclared properties are forbidden''
                 | Some (PDict a) \<Rightarrow> forE (extras props d) (\<lambda>kv.
                     validate st (snd kv) (PDict a) name (Suc depth))
                 | _ \<Rightarrow> Inr ())]
           | _ \<Rightarrow> Inr ())]
      | _ \<Rightarrow> schema_fail ''schema node must be an object or boolean'')"
  by pat_completeness auto
termination
  by (relation "measure (\<lambda>(st, v, schema, name, depth). 129 - depth)") auto

declare validate.simps [simp del]

section \<open>Validation of a record\<close>

text \<open>\<open>[0-9]+(?:\.[0-9]+)*\<close>\<close>

definition dotted_numeric :: "pystr \<Rightarrow> bool" where
  "dotted_numeric s \<longleftrightarrow> list_all (\<lambda>p. p \<noteq> [] \<and> list_all is_digit_char p) (split_on 46 s)"

definition validate_schema_record :: "schema_store \<Rightarrow> pyval \<Rightarrow> pystr option \<Rightarrow> unit res" where
  "validate_schema_record st v record_type = (case v of
     PDict d \<Rightarrow>
       (case dget d ''schema_version'' of
          PStr version \<Rightarrow>
            reject_if (\<not> dotted_numeric version) SchemaError ''version must be numeric dotted text''
              (reject_if (hd (split_on 46 version) \<noteq> S ''1'') SchemaError ''unsupported major version''
                (case dget d ''record_type'' of
                   PStr rt \<Rightarrow>
                     reject_if (record_type \<noteq> None \<and> record_type \<noteq> Some rt) SchemaError
                       ''unexpected record_type''
                       (bindE (schema_for st rt) (\<lambda>ns.
                          validate st v (PDict (snd ns)) (fst ns) 0))
                 | _ \<Rightarrow> schema_fail ''record_type must be a string''))
        | _ \<Rightarrow> schema_fail ''version must be numeric dotted text'')
   | _ \<Rightarrow> schema_fail ''record must be an object'')"

section \<open>The static audit\<close>

definition audit_keywords :: "string list" where
  "audit_keywords =
     [''additionalProperties'', ''not'', ''if'', ''then'', ''else'', ''items'', ''propertyNames'']"

function audit_node :: "schema_store \<Rightarrow> pystr \<Rightarrow> pyval \<Rightarrow> unit res" where
  "audit_node st name schema = (case schema of
     PBool b \<Rightarrow> Inr ()
   | PDict s \<Rightarrow> seqE
      [deny (\<not> (\<forall>kv\<in>set s. fst kv \<in> set SUPPORTED_KEYWORDS)) SchemaError
         ''unsupported schema keywords'',
       (if dhas s ''$ref''
        then case dget s ''$ref'' of
           PStr r \<Rightarrow> bindE (resolve_ref st r name) (\<lambda>_. Inr ())
         | _ \<Rightarrow> schema_fail ''$ref must be a string''
        else Inr ()),
       forE audit_keywords (\<lambda>k. case map_of s (S k) of
           Some (PDict d) \<Rightarrow> audit_node st name (PDict d)
         | _ \<Rightarrow> Inr ()),
       forE [''allOf'', ''oneOf''] (\<lambda>k. case map_of s (S k) of
           None \<Rightarrow> Inr ()
         | Some (PList subs) \<Rightarrow> forE subs (\<lambda>sub. audit_node st name sub)
         | Some w \<Rightarrow> bindE (elems w) (\<lambda>subs. deny (subs \<noteq> []) SchemaError
             ''schema node must be an object or boolean'')),
       forE [''$defs'', ''properties''] (\<lambda>k. case map_of s (S k) of
           None \<Rightarrow> Inr ()
         | Some (PDict d) \<Rightarrow> forE d (\<lambda>kv. audit_node st name (snd kv))
         | Some w \<Rightarrow> Inl (Exc AttributeError ''items''))]
   | _ \<Rightarrow> schema_fail ''schema node must be an object or boolean'')"
  by pat_completeness auto
termination
proof (relation "measure (\<lambda>(st, name, schema). size schema)", goal_cases)
  case (2 st name schema s k w d)
  then have "(S k, PDict d) \<in> set s" by (auto dest: map_of_SomeD)
  then show ?case using 2 by (auto dest: size_dict_value)
next
  case (3 st name schema s k w subs sub)
  then have "(S k, PList subs) \<in> set s" "sub \<in> set subs" by (auto dest: map_of_SomeD)
  then show ?case using 3 by (fastforce dest: size_dict_value size_list_elem)
next
  case (4 st name schema s k w d kv)
  then have "(S k, PDict d) \<in> set s" "(fst kv, snd kv) \<in> set d" by (auto dest: map_of_SomeD)
  then show ?case using 4 by (fastforce dest: size_dict_value)
qed auto

declare audit_node.simps [simp del]

text \<open>The names are a set in the code; its order decides only which error comes first.\<close>

definition audit_catalog :: "schema_store \<Rightarrow> unit res" where
  "audit_catalog st = bindE (catalog st) (\<lambda>cat.
     forE (remdups (S ''definitions.schema.json'' # map snd cat)) (\<lambda>name.
       bindE (load_json st name) (\<lambda>d. audit_node st name (PDict d))))"

section \<open>What acceptance means\<close>

text \<open>The seven groups of keywords of an object schema, each checked on its own.\<close>

lemma validate_dict:
  assumes "validate st v (PDict s) name depth = Inr u"
  shows "depth \<le> 128" "\<forall>kv\<in>set s. fst kv \<in> set SUPPORTED_KEYWORDS"
    and "check_type s v = Inr ()" "check_const s v = Inr ()" "check_local st s v = Inr ()"
  using assms by (subst (asm) validate.simps; auto simp: res_simps schema_fail_def split: if_splits)+

lemma validate_fields:
  assumes "validate st (PDict d) (PDict s) name depth = Inr u"
  shows "bindE (get_items s ''properties'') (\<lambda>props.
           forE props (\<lambda>p. case map_of d (fst p) of
               None \<Rightarrow> Inr ()
             | Some w \<Rightarrow> validate st w (snd p) name (Suc depth))) = Inr ()"
    and "bindE (get_items s ''properties'') (\<lambda>props.
           case map_of s (S ''additionalProperties'') of
             Some (PBool False) \<Rightarrow> deny (extras props d \<noteq> []) SchemaError
               ''undeclared properties are forbidden''
           | Some (PDict a) \<Rightarrow> forE (extras props d) (\<lambda>kv.
               validate st (snd kv) (PDict a) name (Suc depth))
           | _ \<Rightarrow> Inr ()) = Inr ()"
  using assms
  by (subst (asm) validate.simps; simp only: pyval.case seqE_Inr_iff list.set ball_simps
      if_False insert_iff empty_iff schema_fail_def sum.distinct split: if_split_asm; simp)+

lemma validate_object:
  assumes "validate st (PDict d) (PDict s) name depth = Inr u"
    and "map_of s (S ''properties'') = Some (PDict props)"
  shows "(k, sub) \<in> set props \<Longrightarrow> map_of d k = Some w \<Longrightarrow> validate st w sub name (Suc depth) = Inr ()"
    and "map_of s (S ''additionalProperties'') = Some (PBool False) \<Longrightarrow> extras props d = []"
  using validate_fields [OF assms(1)] assms(2)
  by (auto simp: get_items_def forE_Inr_iff deny_Inr_iff dest: bspec split: option.splits)

lemma extras_Nil: "extras props d = [] \<longleftrightarrow> dkeys d \<subseteq> dkeys props"
  unfolding dkeys_def [of d] image_subset_iff dkeys_map_of extras_def filter_empty_conv by simp

lemma validate_required:
  assumes "validate st (PDict d) (PDict s) name depth = Inr u"
    and "map_of s (S ''required'') = Some (PList ks)" "PStr k \<in> set ks"
  shows "k \<in> dkeys d"
proof -
  have "check_object s d = Inr ()"
    using validate_dict(5) [OF assms(1)] by (simp add: check_local_def)
  then show ?thesis
    using assms(2,3)
    by (auto simp: check_object_def res_simps get_elems_def dhas_def dget_def key_in_def
        dkeys_map_of split: if_splits)
qed

end
