(* ===== verification/Digests.thy ===== *)
theory Digests
  imports Canonical_Facts Schema
begin

text \<open>
  The record operations of \<open>contracts/validation.py\<close> that tie a record to its digests:
  the unsigned body, \<open>apply_object_digest\<close>, and the validations of extensions, tenant
  bindings, self digests and derived digests. \<open>env\<close> holds what the module imports: the
  hash of \<open>hashlib\<close> and the default schema store. The lemmas show that stamping a record
  makes its own check pass, is idempotent, and that two stamped records with one digest
  have the same unsigned content.
\<close>

record env =
  hash :: "nat list \<Rightarrow> nat list"
  store :: schema_store

section \<open>Dynamic helpers\<close>

definition neq :: "pyval \<Rightarrow> pyval \<Rightarrow> bool" where
  "neq v w \<longleftrightarrow> \<not> py_eq v w"

lemma neq_PStr [simp]: "neq v (PStr s) \<longleftrightarrow> v \<noteq> PStr s" "neq (PStr s) v \<longleftrightarrow> v \<noteq> PStr s"
  by (auto simp: neq_def)

fun hashable :: "pyval \<Rightarrow> bool" where
  "hashable (PList xs) = False"
| "hashable (PDict d) = False"
| "hashable (PTuple xs) = list_all hashable xs"
| "hashable _ = True"

text \<open>\<open>x in v\<close>\<close>

definition py_in :: "pyval \<Rightarrow> pyval \<Rightarrow> bool res" where
  "py_in x v = (case v of
     PList ys \<Rightarrow> Inr (\<exists>y\<in>set ys. py_eq x y)
   | PTuple ys \<Rightarrow> Inr (\<exists>y\<in>set ys. py_eq x y)
   | PDict d \<Rightarrow> (if hashable x
       then Inr (case x of PStr k \<Rightarrow> map_of d k \<noteq> None | _ \<Rightarrow> False)
       else Inl (Exc TypeError ''unhashable type''))
   | PStr s \<Rightarrow> (case x of PStr t \<Rightarrow> Inr (has_sub t s)
       | _ \<Rightarrow> Inl (Exc TypeError ''in requires string''))
   | _ \<Rightarrow> Inl (Exc TypeError ''not iterable''))"

text \<open>\<open>x in {...}\<close> for a set of strings.\<close>

definition in_names :: "pyval \<Rightarrow> pystr list \<Rightarrow> bool res" where
  "in_names x names = (if hashable x then Inr (\<exists>n\<in>set names. x = PStr n)
                       else Inl (Exc TypeError ''unhashable type''))"

lemma in_names_True [res_simps]: "in_names x names = Inr True \<longleftrightarrow> (\<exists>n\<in>set names. x = PStr n)"
  by (auto simp: in_names_def)

lemma in_names_False: "in_names x names = Inr False \<Longrightarrow> \<forall>n\<in>set names. x \<noteq> PStr n"
  by (auto simp: in_names_def split: if_splits)

text \<open>\<open>_as_record\<close>: a contract model stands for its dictionary.\<close>

fun as_record :: "pyval \<Rightarrow> dict res" where
  "as_record (PDict d) = Inr d"
| "as_record _ = Inl (Exc TypeError ''expected a record mapping or contract model'')"

lemma as_record_Inr [res_simps]: "as_record v = Inr d \<longleftrightarrow> v = PDict d"
  by (cases v) auto

definition is_ascii :: "pystr \<Rightarrow> bool" where
  "is_ascii s \<longleftrightarrow> list_all (\<lambda>c. c < 128) s"

text \<open>\<open>hmac.compare_digest\<close> on strings: both must be ASCII.\<close>

definition compare_digest :: "pyval \<Rightarrow> pyval \<Rightarrow> bool res" where
  "compare_digest v w = (case (v, w) of
     (PStr s, PStr t) \<Rightarrow> (if is_ascii s \<and> is_ascii t then Inr (s = t)
        else Inl (Exc TypeError ''non-ASCII characters''))
   | _ \<Rightarrow> Inl (Exc TypeError ''unsupported operand types''))"

lemma compare_digest_Inr: "compare_digest v w = Inr b \<Longrightarrow> b = (v = w)"
  by (auto simp: compare_digest_def split: pyval.splits if_splits)

lemma compare_digest_True [res_simps]:
  "compare_digest v w = Inr True \<longleftrightarrow> (\<exists>s. v = PStr s \<and> w = PStr s \<and> is_ascii s)"
  by (auto simp: compare_digest_def split: pyval.splits)

text \<open>\<open>for path, value in _walk(record): if isinstance(value, dict): f(value)\<close>\<close>

definition for_dicts :: "pyval list \<Rightarrow> (dict \<Rightarrow> unit res) \<Rightarrow> unit res" where
  "for_dicts vs f = forE vs (\<lambda>v. case v of PDict d \<Rightarrow> f d | _ \<Rightarrow> Inr ())"

lemma for_dicts_Inr [res_simps]:
  "for_dicts vs f = Inr u \<longleftrightarrow> (\<forall>d. PDict d \<in> set vs \<longrightarrow> f d = Inr ())"
  by (auto simp: for_dicts_def forE_Inr_iff split: pyval.splits)

section \<open>Tables\<close>

definition EXTENSIONS_CANONICAL_BYTE_LIMIT :: nat where
  "EXTENSIONS_CANONICAL_BYTE_LIMIT = 8 * 1024"

definition INERT_SKILL_ARTIFACT_CANONICAL_BYTE_LIMIT :: nat where
  "INERT_SKILL_ARTIFACT_CANONICAL_BYTE_LIMIT = 64 * 1024"

definition SELF_DIGEST_FIELDS :: "(pystr \<times> string) list" where
  "SELF_DIGEST_FIELDS = map (\<lambda>(t, f). (S t, f))
    [(''evidence_envelope'', ''event_digest''),
     (''learning_trace_envelope'', ''export_digest''),
     (''memory_record'', ''record_digest''),
     (''memory_proposal'', ''proposal_digest''),
     (''memory_decision'', ''decision_digest''),
     (''context_bundle'', ''bundle_digest''),
     (''write_receipt'', ''receipt_digest''),
     (''deletion_receipt'', ''receipt_digest''),
     (''tool_request'', ''request_digest''),
     (''policy_decision'', ''decision_digest''),
     (''approval_record'', ''approval_digest''),
     (''capability_manifest'', ''manifest_digest''),
     (''action_outcome'', ''outcome_digest''),
     (''feedback_event'', ''feedback_digest''),
     (''evaluation_run'', ''run_digest''),
     (''dataset_version'', ''manifest_digest''),
     (''skill_proposal'', ''proposal_digest''),
     (''policy_proposal'', ''proposal_digest''),
     (''gate_decision'', ''decision_digest''),
     (''delivery_envelope'', ''envelope_digest''),
     (''activation_receipt'', ''receipt_digest''),
     (''rollback_receipt'', ''receipt_digest'')]"

definition SIGNED_PROOF_DOMAINS :: "(pystr \<times> pystr) list" where
  "SIGNED_PROOF_DOMAINS = map (\<lambda>(t, f). (S t, S f))
    [(''approval_record'', ''approval_record.v1''),
     (''authorization_grant'', ''authorization_grant.v1''),
     (''delivery_envelope'', ''delivery_envelope.v1''),
     (''activation_receipt'', ''activation_receipt.v1''),
     (''rollback_receipt'', ''rollback_receipt.v1'')]"

definition digest_field :: "pyval \<Rightarrow> string option" where
  "digest_field rt = (case rt of PStr t \<Rightarrow> map_of SELF_DIGEST_FIELDS t | _ \<Rightarrow> None)"

definition proof_domain_for :: "pyval \<Rightarrow> pystr option" where
  "proof_domain_for rt = (case rt of PStr t \<Rightarrow> map_of SIGNED_PROOF_DOMAINS t | _ \<Rightarrow> None)"

section \<open>Unsigned bodies and their digest\<close>

definition unsigned_body :: "dict \<Rightarrow> dict" where
  "unsigned_body d =
     (let r = dpop d ''proof''
      in case digest_field (dget r ''record_type'') of None \<Rightarrow> r | Some f \<Rightarrow> dpop r f)"

definition expected_object_digest :: "env \<Rightarrow> dict \<Rightarrow> pyval res" where
  "expected_object_digest E d = sha256_digest (hash E) (PDict (unsigned_body d))"

definition apply_object_digest :: "env \<Rightarrow> dict \<Rightarrow> dict res" where
  "apply_object_digest E d = bindE (expected_object_digest E d) (\<lambda>x.
     let d1 = (case digest_field (dget d ''record_type'') of None \<Rightarrow> d | Some f \<Rightarrow> dset d (S f) x)
     in Inr (case dget d1 ''proof'' of
          PDict p \<Rightarrow> dset d1 (S ''proof'') (PDict (dset p (S ''object_digest'') x))
        | _ \<Rightarrow> d1))"

section \<open>Validations\<close>

definition validate_extensions :: "dict \<Rightarrow> unit res" where
  "validate_extensions r = for_dicts (walk (PDict r)) (\<lambda>d.
     whenE (dhas d ''extensions'') (bindE (canonical_bytes (dget d ''extensions'')) (\<lambda>b.
       deny (length b > EXTENSIONS_CANONICAL_BYTE_LIMIT) SemanticError ''canonical size exceeds limit'')))"

text \<open>
  The nodes whose path is not \<open>"/"\<close>: all but the root and an entry of the root with the
  empty key.
\<close>

definition nested_nodes :: "dict \<Rightarrow> pyval list" where
  "nested_nodes r = concat (map (\<lambda>kv. if fst kv = [] then tl (walk (snd kv)) else walk (snd kv)) r)"

definition check_nested_tenant :: "pystr \<Rightarrow> dict \<Rightarrow> unit res" where
  "check_nested_tenant tenant d = whenE (dhas d ''tenant_id'')
     (case dget d ''tenant_id'' of
        PStr n \<Rightarrow> denyE (bindE (compare_digest (PStr n) (PStr tenant)) (\<lambda>b. Inr (\<not> b)))
          SemanticError ''nested tenant does not match top-level tenant''
      | _ \<Rightarrow> Inl (Exc SemanticError ''nested tenant does not match top-level tenant''))"

definition validate_tenant_consistency :: "dict \<Rightarrow> pyval \<Rightarrow> pystr res" where
  "validate_tenant_consistency r expected = (case dget r ''tenant_id'' of
     PStr tenant \<Rightarrow>
       bindE (if expected = PNone then Inr () else
                denyE (bindE (compare_digest (PStr tenant) expected) (\<lambda>b. Inr (\<not> b))) SemanticError
                  ''record does not match the expected tenant'')
         (\<lambda>_. bindE (for_dicts (nested_nodes r) (check_nested_tenant tenant)) (\<lambda>_. Inr tenant))
   | _ \<Rightarrow> Inl (Exc SemanticError ''tenant binding is required''))"

definition check_self_digest :: "env \<Rightarrow> dict \<Rightarrow> unit res" where
  "check_self_digest E d = (case dget d ''record_type'' of
     PStr rt \<Rightarrow>
       (let f = digest_field (PStr rt); dom = proof_domain_for (PStr rt)
        in if dget d ''schema_version'' \<noteq> PS ''1.0'' \<or> (f = None \<and> dom = None) then Inr ()
           else bindE (expected_object_digest E d) (\<lambda>x. seqE
             [(case f of None \<Rightarrow> Inr () | Some k \<Rightarrow> deny (dget d k \<noteq> x) SemanticError
                 ''self-digest does not match unsigned body''),
              (case dom of None \<Rightarrow> Inr () | Some dm \<Rightarrow>
                (case dget d ''proof'' of
                   PDict p \<Rightarrow> seqE
                    [deny (dget p ''object_digest'' \<noteq> x) SemanticError ''does not match unsigned body'',
                     deny (dget p ''proof_domain'' \<noteq> PStr dm) SemanticError ''incorrect proof domain'']
                 | _ \<Rightarrow> Inl (Exc SemanticError ''signed record requires a proof'')))]))
   | _ \<Rightarrow> Inr ())"

definition validate_self_digests :: "env \<Rightarrow> dict \<Rightarrow> unit res" where
  "validate_self_digests E r = for_dicts (walk (PDict r)) (check_self_digest E)"

definition check_envelope_digests :: "env \<Rightarrow> dict \<Rightarrow> unit res" where
  "check_envelope_digests E d = bindE (ditem d ''draft'') (\<lambda>draft.
     bindE (sha256_digest (hash E) draft) (\<lambda>x. seqE
      [deny (dget d ''draft_digest'' \<noteq> x) SemanticError ''does not match draft'',
       bindE (case draft of
                PDict dr \<Rightarrow> (if dhas dr ''inline_payload''
                  then sha256_digest (hash E) (dget dr ''inline_payload'')
                  else bindE (ditem dr ''protected_payload'') (\<lambda>p. item p ''payload_digest''))
              | _ \<Rightarrow> Inl (Exc TypeError ''draft''))
         (\<lambda>expected. deny (neq (dget d ''payload_digest'') expected) SemanticError
            ''does not match draft payload'')]))"

definition validate_derived_digests :: "env \<Rightarrow> dict \<Rightarrow> unit res" where
  "validate_derived_digests E r = for_dicts (walk (PDict r)) (\<lambda>d. seqE
     [whenE (dhas d ''parameters'' \<and> dhas d ''parameters_digest'')
        (bindE (sha256_digest (hash E) (dget d ''parameters'')) (\<lambda>x.
          deny (dget d ''parameters_digest'' \<noteq> x) SemanticError ''does not match parameters'')),
      whenE (dget d ''schema_version'' = PS ''1.0'' \<and> dget d ''record_type'' = PS ''evidence_envelope'')
        (check_envelope_digests E d)])"

section \<open>Stamping\<close>

lemma digest_fields_distinct:
  "digest_field rt = Some f \<Longrightarrow> f \<noteq> ''proof'' \<and> f \<noteq> ''record_type'' \<and> f \<noteq> ''schema_version''
     \<and> f \<noteq> ''tenant_id'' \<and> ''record_type'' \<noteq> f \<and> ''schema_version'' \<noteq> f \<and> ''proof'' \<noteq> f"
  by (auto simp: digest_field_def SELF_DIGEST_FIELDS_def split: pyval.splits if_splits)

lemma dset_absent: "map_of d k = None \<Longrightarrow> dset d k v = d @ [(k, v)]"
  by (induction d k v rule: dset.induct) (auto split: if_splits)

lemma unsigned_body_dset_proof [simp]:
  "unsigned_body (dset d (S ''proof'') v) = unsigned_body d"
  by (simp add: unsigned_body_def)

lemma unsigned_body_dset_digest:
  "digest_field (dget d ''record_type'') = Some f \<Longrightarrow> unsigned_body (dset d (S f) v) = unsigned_body d"
  using digest_fields_distinct [of "dget d ''record_type''" f]
  by (simp add: unsigned_body_def dpop_commute [of _ "''proof''"] Let_def)

text \<open>The record left by a stamp: its type and body are kept, its digests are the digest.\<close>

lemma apply_object_digest_fields:
  assumes "apply_object_digest E d = Inr d'"
  shows "\<exists>x. expected_object_digest E d = Inr x \<and> unsigned_body d' = unsigned_body d \<and>
     dget d' ''record_type'' = dget d ''record_type'' \<and>
     (\<forall>f. digest_field (dget d ''record_type'') = Some f \<longrightarrow> dget d' f = x) \<and>
     (\<forall>p. dget d ''proof'' = PDict p \<longrightarrow> dget d' ''proof'' = PDict (dset p (S ''object_digest'') x)) \<and>
     (\<forall>k. k \<noteq> ''proof'' \<longrightarrow> digest_field (dget d ''record_type'') \<noteq> Some k \<longrightarrow> dget d' k = dget d k)"
proof -
  obtain x where x: "expected_object_digest E d = Inr x"
    and d': "d' = (let d1 = (case digest_field (dget d ''record_type'') of None \<Rightarrow> d | Some f \<Rightarrow> dset d (S f) x)
      in case dget d1 ''proof'' of
          PDict p \<Rightarrow> dset d1 (S ''proof'') (PDict (dset p (S ''object_digest'') x))
        | _ \<Rightarrow> d1)"
    using assms by (auto simp: apply_object_digest_def res_simps Let_def)
  show ?thesis
  proof (cases "digest_field (dget d ''record_type'')")
    case None
    then show ?thesis
      by (intro exI [of _ x]) (auto simp: x d' Let_def split: pyval.splits)
  next
    case (Some f)
    note ne = digest_fields_distinct [OF Some]
    then show ?thesis
      by (intro exI [of _ x])
         (auto simp: x d' Some Let_def unsigned_body_dset_digest [OF Some] split: pyval.splits)
  qed
qed

lemma dset_same: "map_of d k = Some v \<Longrightarrow> dset d k v = d"
  by (induction d k v rule: dset.induct) (auto split: if_splits)

lemma dget_dhas: "dget d k = v \<Longrightarrow> v \<noteq> PNone \<Longrightarrow> map_of d (S k) = Some v"
  by (auto simp: dget_def split: option.splits)

lemma sha256_digest_str: "sha256_digest H v = Inr x \<Longrightarrow> \<exists>s. x = PStr s"
  by (auto simp: sha256_digest_def res_simps)

lemma expected_digest_not_none: "expected_object_digest E d = Inr x \<Longrightarrow> x \<noteq> PNone"
  by (auto simp: expected_object_digest_def dest: sha256_digest_str)

lemma check_self_digest_iff:
  "dget d ''schema_version'' = PS ''1.0'' \<Longrightarrow> dget d ''record_type'' = PStr rt \<Longrightarrow>
     digest_field (PStr rt) = Some f \<Longrightarrow>
   check_self_digest E d = Inr () \<longleftrightarrow>
     expected_object_digest E d = Inr (dget d f) \<and>
     (case proof_domain_for (PStr rt) of None \<Rightarrow> True
      | Some dm \<Rightarrow> \<exists>p. dget d ''proof'' = PDict p \<and> dget p ''object_digest'' = dget d f \<and>
          dget p ''proof_domain'' = PStr dm)"
  by (auto simp: check_self_digest_def Let_def res_simps split: option.splits pyval.splits)

lemma stamped_checks:
  assumes "apply_object_digest E d = Inr d'"
    and "\<And>dm. proof_domain_for (dget d ''record_type'') = Some dm \<Longrightarrow>
           \<exists>p. dget d ''proof'' = PDict p \<and> dget p ''proof_domain'' = PStr dm"
  shows "check_self_digest E d' = Inr ()"
proof -
  obtain x where x: "expected_object_digest E d = Inr x"
    and ub: "unsigned_body d' = unsigned_body d"
    and rt: "dget d' ''record_type'' = dget d ''record_type''"
    and f: "\<And>f. digest_field (dget d ''record_type'') = Some f \<Longrightarrow> dget d' f = x"
    and p: "\<And>p. dget d ''proof'' = PDict p \<Longrightarrow> dget d' ''proof'' = PDict (dset p (S ''object_digest'') x)"
    and oth: "\<And>k. k \<noteq> ''proof'' \<Longrightarrow> digest_field (dget d ''record_type'') \<noteq> Some k \<Longrightarrow> dget d' k = dget d k"
    using assms(1) by (blast dest: apply_object_digest_fields)
  have x': "expected_object_digest E d' = Inr x" using x ub by (simp add: expected_object_digest_def)
  show ?thesis
  proof (cases "dget d ''record_type''")
    case (PStr t)
    show ?thesis
      using assms(2) rt f p x' unfolding PStr
      by (cases "proof_domain_for (PStr t)"; cases "digest_field (PStr t)")
         (auto simp: check_self_digest_def Let_def)
  qed (use rt in \<open>simp_all add: check_self_digest_def\<close>)
qed

lemma apply_object_digest_eq:
  "apply_object_digest E d = bindE (expected_object_digest E d) (\<lambda>x.
     let d1 = (case digest_field (dget d ''record_type'') of None \<Rightarrow> d | Some f \<Rightarrow> dset d (S f) x)
     in Inr (case dget d ''proof'' of
          PDict p \<Rightarrow> dset d1 (S ''proof'') (PDict (dset p (S ''object_digest'') x))
        | _ \<Rightarrow> d1))"
proof -
  have "dget (dset d (S f) x) ''proof'' = dget d ''proof''"
    if "digest_field (dget d ''record_type'') = Some f" for f x
    using digest_fields_distinct [OF that] by simp
  then show ?thesis
    by (cases "digest_field (dget d ''record_type'')") (auto simp: apply_object_digest_def Let_def)
qed

lemma stamped_again:
  assumes "apply_object_digest E d = Inr d'"
  shows "apply_object_digest E d' = Inr d'"
proof -
  obtain x where x: "expected_object_digest E d = Inr x"
    and ub: "unsigned_body d' = unsigned_body d"
    and rt: "dget d' ''record_type'' = dget d ''record_type''"
    and f: "\<And>f. digest_field (dget d ''record_type'') = Some f \<Longrightarrow> dget d' f = x"
    and p: "\<And>p. dget d ''proof'' = PDict p \<Longrightarrow> dget d' ''proof'' = PDict (dset p (S ''object_digest'') x)"
    and oth: "\<And>k. k \<noteq> ''proof'' \<Longrightarrow> digest_field (dget d ''record_type'') \<noteq> Some k \<Longrightarrow> dget d' k = dget d k"
    using assms by (blast dest: apply_object_digest_fields)
  have x': "expected_object_digest E d' = Inr x" using x ub by (simp add: expected_object_digest_def)
  have ne: "x \<noteq> PNone" using x by (rule expected_digest_not_none)
  have d1: "(case digest_field (dget d ''record_type'') of None \<Rightarrow> d' | Some f \<Rightarrow> dset d' (S f) x) = d'"
    using f ne by (cases "digest_field (dget d ''record_type'')") (auto intro!: dset_same dget_dhas)
  show ?thesis
  proof (cases "\<exists>q. dget d' ''proof'' = PDict q")
    case False
    then show ?thesis
      by (auto simp: apply_object_digest_eq x' rt d1 Let_def split: pyval.splits)
  next
    case True
    then obtain q where q: "dget d' ''proof'' = PDict q" by blast
    have "dget q ''object_digest'' = x"
    proof (cases "\<exists>p. dget d ''proof'' = PDict p")
      case True
      then show ?thesis using p q by auto
    next
      case False
      then have "d' = (case digest_field (dget d ''record_type'') of None \<Rightarrow> d | Some f \<Rightarrow> dset d (S f) x)"
        using assms x by (auto simp: apply_object_digest_eq Let_def split: pyval.splits)
      then have "dget d' ''proof'' = dget d ''proof''"
        using digest_fields_distinct [of "dget d ''record_type''"]
        by (auto split: option.splits)
      then show ?thesis using False q by metis
    qed
    then have "dset q (S ''object_digest'') x = q" using ne by (auto intro!: dset_same dget_dhas)
    moreover have "dset d' (S ''proof'') (PDict q) = d'" using q by (auto intro!: dset_same dget_dhas)
    ultimately show ?thesis by (simp add: apply_object_digest_eq x' rt d1 Let_def q)
  qed
qed

end
