(* ===== verification/Timestamps.thy ===== *)
theory Timestamps
  imports Pyval
begin

text \<open>
  The \<open>datetime\<close> values of the program and the two conversions every component uses: the
  contract timestamp \<open>%Y-%m-%dT%H:%M:%S.%fZ\<close> read by \<open>strptime\<close> and the UTC
  millisecond text written by \<open>isoformat\<close>. An instant is a number of microseconds since
  the start of year 1; \<open>Naive\<close> is a \<open>datetime\<close> without a usable offset, which the
  clocks must not return. Digits are the ASCII digits. The section on round trips shows
  that reading a written timestamp gives the instant rounded down to its millisecond.
\<close>

section \<open>Instants\<close>

datatype pytime = Naive int | Aware int

type_synonym instant = int

section \<open>The proleptic Gregorian calendar\<close>

definition is_leap :: "int \<Rightarrow> bool" where
  "is_leap y \<longleftrightarrow> y mod 4 = 0 \<and> (y mod 100 \<noteq> 0 \<or> y mod 400 = 0)"

definition days_before_year :: "int \<Rightarrow> int" where
  "days_before_year y = (y - 1) * 365 + (y - 1) div 4 - (y - 1) div 100 + (y - 1) div 400"

text \<open>Days before a month, and the length of the month, given the leap day (0 or 1).\<close>

definition month_start :: "int \<Rightarrow> int \<Rightarrow> int" where
  "month_start leap m =
     (if m = 1 then 0 else if m = 2 then 31 else if m = 3 then 59 + leap
      else if m = 4 then 90 + leap else if m = 5 then 120 + leap else if m = 6 then 151 + leap
      else if m = 7 then 181 + leap else if m = 8 then 212 + leap else if m = 9 then 243 + leap
      else if m = 10 then 273 + leap else if m = 11 then 304 + leap
      else if m = 12 then 334 + leap else 365 + leap)"

definition leap_day :: "int \<Rightarrow> int" where
  "leap_day y = (if is_leap y then 1 else 0)"

definition days_in_month :: "int \<Rightarrow> int \<Rightarrow> int" where
  "days_in_month y m = month_start (leap_day y) (m + 1) - month_start (leap_day y) m"

definition ymd_to_ordinal :: "int \<Rightarrow> int \<Rightarrow> int \<Rightarrow> int" where
  "ymd_to_ordinal y m d = days_before_year y + month_start (leap_day y) m + d"

definition month_of :: "int \<Rightarrow> int \<Rightarrow> int" where
  "month_of leap n =
     (if n < 31 then 1 else if n < 59 + leap then 2 else if n < 90 + leap then 3
      else if n < 120 + leap then 4 else if n < 151 + leap then 5 else if n < 181 + leap then 6
      else if n < 212 + leap then 7 else if n < 243 + leap then 8 else if n < 273 + leap then 9
      else if n < 304 + leap then 10 else if n < 334 + leap then 11 else 12)"

text \<open>The year that holds a day, and the days of it before that day.\<close>

definition year_of :: "int \<Rightarrow> int \<times> int" where
  "year_of n0 =
     (let n400 = n0 div 146097; n = n0 mod 146097;
          n100 = n div 36524; n' = n mod 36524;
          n4 = n' div 1461; n'' = n' mod 1461;
          n1 = n'' div 365; n3 = n'' mod 365;
          y = n400 * 400 + n100 * 100 + n4 * 4 + n1 + 1
      in if n1 = 4 \<or> n100 = 4 then (y - 1, 365) else (y, n3))"

definition ordinal_to_ymd :: "int \<Rightarrow> int \<times> int \<times> int" where
  "ordinal_to_ymd ord =
     (case year_of (ord - 1) of (y, n) \<Rightarrow>
        let m = month_of (leap_day y) n
        in (y, m, n - month_start (leap_day y) m + 1))"

section \<open>Writing: \<open>_utc_millis\<close>\<close>

definition dec :: "int \<Rightarrow> int \<Rightarrow> nat" where
  "dec unit n = 48 + nat (n div unit mod 10)"

definition fmt2 :: "int \<Rightarrow> pystr" where
  "fmt2 n = [dec 10 n, dec 1 n]"

definition fmt3 :: "int \<Rightarrow> pystr" where
  "fmt3 n = [dec 100 n, dec 10 n, dec 1 n]"

definition fmt4 :: "int \<Rightarrow> pystr" where
  "fmt4 n = [dec 1000 n, dec 100 n, dec 10 n, dec 1 n]"

definition utc_millis_text :: "instant \<Rightarrow> pystr" where
  "utc_millis_text t =
     (let us = t mod 86400000000; sec = us div 1000000
      in case ordinal_to_ymd (t div 86400000000 + 1) of (y, m, d) \<Rightarrow>
        fmt4 y @ 45 # fmt2 m @ 45 # fmt2 d @ 84 #
        fmt2 (sec div 3600) @ 58 # fmt2 (sec div 60 mod 60) @ 58 # fmt2 (sec mod 60) @
        46 # fmt3 (us mod 1000000 div 1000) @ [90])"

text \<open>\<open>isoformat(timespec="microseconds")\<close> in UTC, with \<open>Z\<close> for the offset.\<close>

definition fmt6 :: "int \<Rightarrow> pystr" where
  "fmt6 n = [dec 100000 n, dec 10000 n, dec 1000 n, dec 100 n, dec 10 n, dec 1 n]"

definition utc_micros_text :: "instant \<Rightarrow> pystr" where
  "utc_micros_text t =
     (let us = t mod 86400000000; sec = us div 1000000
      in case ordinal_to_ymd (t div 86400000000 + 1) of (y, m, d) \<Rightarrow>
        fmt4 y @ 45 # fmt2 m @ 45 # fmt2 d @ 84 #
        fmt2 (sec div 3600) @ 58 # fmt2 (sec div 60 mod 60) @ 58 # fmt2 (sec mod 60) @
        46 # fmt6 (us mod 1000000) @ [90])"

section \<open>Reading: \<open>strptime\<close>\<close>

definition dig :: "nat \<Rightarrow> bool" where
  "dig c \<longleftrightarrow> 48 \<le> c \<and> c \<le> 57"

definition digv :: "nat \<Rightarrow> int" where
  "digv c = int c - 48"

text \<open>Backtracking over the alternatives of one field, in the order of the pattern.\<close>

fun try_alts :: "(int \<times> pystr) list \<Rightarrow> (int \<Rightarrow> pystr \<Rightarrow> 'a option) \<Rightarrow> 'a option" where
  "try_alts [] k = None"
| "try_alts ((v, r) # alts) k = (case k v r of None \<Rightarrow> try_alts alts k | Some x \<Rightarrow> Some x)"

definition two :: "(int \<Rightarrow> int \<Rightarrow> bool) \<Rightarrow> pystr \<Rightarrow> (int \<times> pystr) list" where
  "two ok s = (case s of a # b # r \<Rightarrow>
     if dig a \<and> dig b \<and> ok (digv a) (digv b) then [(10 * digv a + digv b, r)] else []
     | _ \<Rightarrow> [])"

definition one :: "(int \<Rightarrow> bool) \<Rightarrow> pystr \<Rightarrow> (int \<times> pystr) list" where
  "one ok s = (case s of a # r \<Rightarrow> if dig a \<and> ok (digv a) then [(digv a, r)] else [] | _ \<Rightarrow> [])"

definition alt_Y :: "pystr \<Rightarrow> (int \<times> pystr) list" where
  "alt_Y s = (case s of a # b # c # d # r \<Rightarrow>
     if dig a \<and> dig b \<and> dig c \<and> dig d
     then [(1000 * digv a + 100 * digv b + 10 * digv c + digv d, r)] else []
     | _ \<Rightarrow> [])"

definition alt_m :: "pystr \<Rightarrow> (int \<times> pystr) list" where
  "alt_m s = two (\<lambda>a b. a = 1 \<and> b \<le> 2) s @ two (\<lambda>a b. a = 0 \<and> 1 \<le> b) s @ one (\<lambda>a. 1 \<le> a) s"

definition alt_d :: "pystr \<Rightarrow> (int \<times> pystr) list" where
  "alt_d s = two (\<lambda>a b. a = 3 \<and> b \<le> 1) s @ two (\<lambda>a b. 1 \<le> a \<and> a \<le> 2) s
     @ two (\<lambda>a b. a = 0 \<and> 1 \<le> b) s @ one (\<lambda>a. 1 \<le> a) s
     @ (case s of c # r \<Rightarrow> if c = 32 then one (\<lambda>a. 1 \<le> a) r else [] | [] \<Rightarrow> [])"

definition alt_H :: "pystr \<Rightarrow> (int \<times> pystr) list" where
  "alt_H s = two (\<lambda>a b. a = 2 \<and> b \<le> 3) s @ two (\<lambda>a b. a \<le> 1) s @ one (\<lambda>a. True) s"

definition alt_M :: "pystr \<Rightarrow> (int \<times> pystr) list" where
  "alt_M s = two (\<lambda>a b. a \<le> 5) s @ one (\<lambda>a. True) s"

definition alt_S :: "pystr \<Rightarrow> (int \<times> pystr) list" where
  "alt_S s = two (\<lambda>a b. a = 6 \<and> b \<le> 1) s @ two (\<lambda>a b. a \<le> 5) s @ one (\<lambda>a. True) s"

text \<open>\<open>%f\<close>: one to six digits, as many as possible first, scaled to microseconds.\<close>

definition frac_value :: "pystr \<Rightarrow> int" where
  "frac_value ds = foldl (\<lambda>a c. 10 * a + digv c) 0 ds * 10 ^ (6 - length ds)"

definition alt_f :: "pystr \<Rightarrow> (int \<times> pystr) list" where
  "alt_f s = concat (map (\<lambda>n. if n \<le> length s \<and> list_all dig (take n s)
                            then [(frac_value (take n s), drop n s)] else [])
                         [6, 5, 4, 3, 2, 1])"

text \<open>A literal of the pattern; letters match in either case.\<close>

definition lit :: "nat list \<Rightarrow> pystr \<Rightarrow> (pystr \<Rightarrow> 'a option) \<Rightarrow> 'a option" where
  "lit cs s k = (case s of [] \<Rightarrow> None | c # r \<Rightarrow> if c \<in> set cs then k r else None)"

definition match_contract_time ::
  "pystr \<Rightarrow> ((int \<times> int \<times> int \<times> int \<times> int \<times> int \<times> int) \<times> pystr) option" where
  "match_contract_time s =
     try_alts (alt_Y s) (\<lambda>y s. lit [45] s (\<lambda>s.
     try_alts (alt_m s) (\<lambda>m s. lit [45] s (\<lambda>s.
     try_alts (alt_d s) (\<lambda>d s. lit [84, 116] s (\<lambda>s.
     try_alts (alt_H s) (\<lambda>h s. lit [58] s (\<lambda>s.
     try_alts (alt_M s) (\<lambda>mi s. lit [58] s (\<lambda>s.
     try_alts (alt_S s) (\<lambda>sec s. lit [46] s (\<lambda>s.
     try_alts (alt_f s) (\<lambda>f s. lit [90, 122] s (\<lambda>s.
       Some ((y, m, d, h, mi, sec, f), s)))))))))))))))"

definition strptime :: "pystr \<Rightarrow> instant option" where
  "strptime s = (case match_contract_time s of
     None \<Rightarrow> None
   | Some ((y, m, d, h, mi, sec, f), rest) \<Rightarrow>
       if rest \<noteq> [] then None
       else if \<not> (1 \<le> y \<and> y \<le> 9999 \<and> 1 \<le> d \<and> d \<le> days_in_month y m \<and> sec \<le> 59) then None
       else Some (((ymd_to_ordinal y m d - 1) * 86400 + h * 3600 + mi * 60 + sec) * 1000000 + f))"

text \<open>
  \<open>_parse_timestamp\<close>, \<open>_parse_contract_time\<close> and \<open>_contract_time\<close> differ in the
  class they turn \<open>TypeError\<close> and \<open>ValueError\<close> into.
\<close>

definition parse_time_as :: "exc_class \<Rightarrow> string \<Rightarrow> pyval \<Rightarrow> instant res" where
  "parse_time_as cls msg v = (case v of
     PStr s \<Rightarrow> (case strptime s of None \<Rightarrow> Inl (Exc cls msg) | Some t \<Rightarrow> Inr t)
   | _ \<Rightarrow> Inl (Exc cls msg))"

definition parse_timestamp :: "pyval \<Rightarrow> instant res" where
  "parse_timestamp = parse_time_as SemanticError ''invalid UTC millisecond timestamp''"

section \<open>The calendar inverts\<close>

lemma leap_day_range: "0 \<le> leap_day y" "leap_day y \<le> 1"
  by (auto simp: leap_day_def)

lemma days_before_year_parts:
  fixes a b c e :: int
  assumes "0 \<le> a" "0 \<le> b" "b \<le> 3" "0 \<le> c" "c \<le> 24" "0 \<le> e" "e \<le> 3"
  shows "days_before_year (400 * a + 100 * b + 4 * c + e + 1)
           = 146097 * a + 36524 * b + 1461 * c + 365 * e"
proof -
  let ?k = "400 * a + 100 * b + 4 * c + e"
  have "?k div 4 = 100 * a + 25 * b + c"
    by (rule int_div_pos_eq [of _ _ _ e]) (use assms in auto)
  moreover have "?k div 100 = 4 * a + b"
    by (rule int_div_pos_eq [of _ _ _ "4 * c + e"]) (use assms in auto)
  moreover have "?k div 400 = a"
    by (rule int_div_pos_eq [of _ _ _ "100 * b + 4 * c + e"]) (use assms in auto)
  ultimately show ?thesis by (simp add: days_before_year_def)
qed

lemma year_of_correct:
  assumes "0 \<le> n0" "year_of n0 = (y, n)"
  shows "days_before_year y + n = n0 \<and> 0 \<le> n \<and> n < 365 + leap_day y \<and> 1 \<le> y"
proof -
  define a where "a = n0 div 146097"
  define n1 where "n1 = n0 mod 146097"
  define b where "b = n1 div 36524"
  define n2 where "n2 = n1 mod 36524"
  define c where "c = n2 div 1461"
  define n3 where "n3 = n2 mod 1461"
  define e where "e = n3 div 365"
  define n4 where "n4 = n3 mod 365"
  note defs = a_def n1_def b_def n2_def c_def n3_def e_def n4_def
  have n0: "n0 = 146097 * a + n1" "0 \<le> n1" "n1 < 146097" "0 \<le> a"
    using assms(1) by (simp_all add: defs)
  have n1: "n1 = 36524 * b + n2" "0 \<le> n2" "n2 < 36524" by (simp_all add: defs)
  have n2: "n2 = 1461 * c + n3" "0 \<le> n3" "n3 < 1461" by (simp_all add: defs)
  have n3: "n3 = 365 * e + n4" "0 \<le> n4" "n4 < 365" by (simp_all add: defs)
  have bounds: "0 \<le> b" "b \<le> 4" "0 \<le> c" "c \<le> 24" "0 \<le> e" "e \<le> 4"
    using n0 n1 n2 n3 by auto
  have res: "(y, n) = (if e = 4 \<or> b = 4 then (a * 400 + b * 100 + c * 4 + e, 365)
       else (a * 400 + b * 100 + c * 4 + e + 1, n4))"
    using assms(2) by (auto simp: year_of_def Let_def defs split: if_splits)
  consider (four) "b = 4" | (end4) "b \<noteq> 4" "e = 4" | (plain) "b \<le> 3" "e \<le> 3"
    using bounds by linarith
  then show ?thesis
  proof cases
    case four
    then have z: "n2 = 0" "c = 0" "e = 0" using n0 n1 n2 n3 bounds by linarith+
    have y: "y = 400 * a + 100 * 3 + 4 * 24 + 3 + 1" "n = 365" using res four z by simp_all
    have "days_before_year y = 146097 * a + 36524 * 3 + 1461 * 24 + 365 * 3"
      unfolding y(1) using n0(4) by (intro days_before_year_parts) auto
    moreover have "is_leap (400 * (a + 1))" by (simp add: is_leap_def)
    then have "is_leap y" using y(1) by (simp add: algebra_simps)
    ultimately show ?thesis using n0 n1 n2 n3 z four y by (simp add: leap_day_def)
  next
    case end4
    then have z: "n4 = 0" "c \<le> 23" "b \<le> 3" using n0 n1 n2 n3 bounds by linarith+
    have y: "y = 400 * a + 100 * b + 4 * c + 3 + 1" "n = 365" using res end4 by simp_all
    have "days_before_year y = 146097 * a + 36524 * b + 1461 * c + 365 * 3"
      unfolding y(1) using n0(4) z bounds by (intro days_before_year_parts) auto
    moreover have "y mod 4 = 0"
      by (rule int_mod_pos_eq [of _ _ "100 * a + 25 * b + c + 1"]) (use y in auto)
    moreover have "y mod 100 = 4 * c + 4"
      by (rule int_mod_pos_eq [of _ _ "4 * a + b"]) (use y z bounds in auto)
    then have "y mod 100 \<noteq> 0" using bounds by simp
    ultimately have "is_leap y" "days_before_year y = 146097 * a + 36524 * b + 1461 * c + 365 * 3"
      by (simp_all add: is_leap_def)
    then show ?thesis using n0 n1 n2 n3 z end4 y bounds by (simp add: leap_day_def)
  next
    case plain
    have y: "y = 400 * a + 100 * b + 4 * c + e + 1" "n = n4" using res plain by simp_all
    have "days_before_year y = 146097 * a + 36524 * b + 1461 * c + 365 * e"
      unfolding y(1) using n0(4) plain bounds by (intro days_before_year_parts) auto
    then show ?thesis
      using n0 n1 n2 n3 y bounds leap_day_range [of y] by simp
  qed
qed

lemma month_of_correct:
  assumes "0 \<le> n" "n < 365 + l" "0 \<le> l" "l \<le> 1"
  shows "1 \<le> month_of l n \<and> month_of l n \<le> 12 \<and> month_start l (month_of l n) \<le> n
         \<and> n < month_start l (month_of l n + 1)"
  using assms by (simp add: month_of_def month_start_def)

lemma year_bound: "10000 \<le> y \<Longrightarrow> 3652059 \<le> days_before_year y"
proof (cases "y = 10000")
  case False
  define k where "k = y - 1"
  assume "10000 \<le> y"
  with False have k: "10000 \<le> k" by (simp add: k_def)
  have "k = 4 * (k div 4) + k mod 4" "k = 100 * (k div 100) + k mod 100" by simp_all
  moreover have "k mod 4 < 4" "0 \<le> k mod 100" "0 \<le> k div 400" using k by simp_all
  ultimately have "3652059 \<le> k * 365 + k div 4 - k div 100 + k div 400" using k by linarith
  then show ?thesis by (simp add: days_before_year_def k_def)
qed (simp add: days_before_year_def)

lemma ordinal_to_ymd_correct:
  assumes "1 \<le> ord" "ord \<le> 3652059" "ordinal_to_ymd ord = (y, m, d)"
  shows "ymd_to_ordinal y m d = ord \<and> 1 \<le> y \<and> y \<le> 9999 \<and> 1 \<le> m \<and> m \<le> 12
         \<and> 1 \<le> d \<and> d \<le> days_in_month y m"
proof -
  obtain n where yo: "year_of (ord - 1) = (y, n)"
    and m: "m = month_of (leap_day y) n" and d: "d = n - month_start (leap_day y) m + 1"
    using assms(3) by (auto simp: ordinal_to_ymd_def Let_def split: prod.splits)
  have y: "days_before_year y + n = ord - 1" "0 \<le> n" "n < 365 + leap_day y" "1 \<le> y"
    using year_of_correct [OF _ yo] assms(1) by auto
  have "y \<le> 9999"
  proof (rule ccontr)
    assume "\<not> y \<le> 9999"
    then have "3652059 \<le> days_before_year y" by (intro year_bound) simp
    with y assms(2) show False by linarith
  qed
  then show ?thesis
    using month_of_correct [OF y(2,3) leap_day_range] y m d
    by (simp add: ymd_to_ordinal_def days_in_month_def)
qed

lemma days_in_month_le: "1 \<le> m \<Longrightarrow> m \<le> 12 \<Longrightarrow> days_in_month y m \<le> 31"
  using leap_day_range [of y] by (simp add: days_in_month_def month_start_def)

section \<open>Fields parse back\<close>

lemma div_steps:
  fixes n :: int
  shows "n = 10 * (n div 10) + n mod 10" "n div 10 = 10 * (n div 100) + n div 10 mod 10"
    and "n div 100 = 10 * (n div 1000) + n div 100 mod 10"
proof -
  show "n = 10 * (n div 10) + n mod 10" by (rule mult_div_mod_eq [symmetric])
  have "n div 10 = 10 * (n div 10 div 10) + n div 10 mod 10" by (rule mult_div_mod_eq [symmetric])
  moreover have "n div 10 div 10 = n div 100" using zdiv_zmult2_eq [of 10 n 10] by simp
  ultimately show "n div 10 = 10 * (n div 100) + n div 10 mod 10" by simp
  have "n div 100 = 10 * (n div 100 div 10) + n div 100 mod 10"
    by (rule mult_div_mod_eq [symmetric])
  moreover have "n div 100 div 10 = n div 1000" using zdiv_zmult2_eq [of 10 n 100] by simp
  ultimately show "n div 100 = 10 * (n div 1000) + n div 100 mod 10" by simp
qed

lemma digits3:
  assumes "0 \<le> n" "n \<le> 999"
  shows "100 * (n div 100 mod 10) + 10 * (n div 10 mod 10) + n mod 10 = (n :: int)"
proof -
  have "n div 1000 = 0" using assms by (simp add: div_pos_pos_trivial)
  then show ?thesis using div_steps [of n] by linarith
qed

lemma digits4:
  assumes "0 \<le> n" "n \<le> 9999"
  shows "1000 * (n div 1000 mod 10) + 100 * (n div 100 mod 10) + 10 * (n div 10 mod 10) + n mod 10
           = (n :: int)"
proof -
  have "n div 1000 < 10" "0 \<le> n div 1000" using assms by auto
  then have "n div 1000 mod 10 = n div 1000" by (intro mod_pos_pos_trivial) auto
  then show ?thesis using div_steps [of n] by linarith
qed

lemma sixty_parts: "(s :: int) div 3600 * 3600 + s div 60 mod 60 * 60 + s mod 60 = s"
proof -
  have "s div 60 = 60 * (s div 60 div 60) + s div 60 mod 60" by (rule mult_div_mod_eq [symmetric])
  moreover have "s div 60 div 60 = s div 3600" using zdiv_zmult2_eq [of 60 s 60] by simp
  moreover have "s = 60 * (s div 60) + s mod 60" by (rule mult_div_mod_eq [symmetric])
  ultimately show ?thesis by linarith
qed

text \<open>The two digits of a number below 100, without division.\<close>

lemma tens:
  fixes n :: int
  obtains q r where "n = 10 * q + r" "0 \<le> r" "r \<le> 9" "n div 10 = q" "n mod 10 = r"
proof
  show "n = 10 * (n div 10) + n mod 10" by (rule mult_div_mod_eq [symmetric])
  have "n mod 10 < 10" by simp
  then show "n mod 10 \<le> 9" by linarith
qed simp_all

lemma dec_dig: "dig (dec u n)"
proof -
  have "0 \<le> n div u mod 10 \<and> n div u mod 10 < 10" by simp
  then show ?thesis by (simp add: dig_def dec_def)
qed

lemma digv_dec [simp]: "digv (dec u n) = n div u mod 10"
  by (simp add: digv_def dec_def)

lemma try_alts_append:
  "try_alts (xs @ ys) k = (case try_alts xs k of None \<Rightarrow> try_alts ys k | Some x \<Rightarrow> Some x)"
  by (induction xs k rule: try_alts.induct) (auto split: option.splits)

lemma try_two:
  assumes "0 \<le> n" "n < 100" "k n r = Some x"
  shows "try_alts (two ok (fmt2 n @ r)) k = (if ok (n div 10) (n mod 10) then Some x else None)"
proof -
  have "0 \<le> n div 10" "n div 10 < 10" using assms by auto
  then have "n div 10 mod 10 = n div 10" by (intro mod_pos_pos_trivial) auto
  moreover have "10 * (n div 10) + n mod 10 = n" by (rule mult_div_mod_eq)
  ultimately show ?thesis using assms by (simp add: two_def fmt2_def dec_dig)
qed

lemma try_Y:
  assumes "0 \<le> y" "y \<le> 9999" "k y r = Some x"
  shows "try_alts (alt_Y (fmt4 y @ r)) k = Some x"
proof -
  have "1000 * (y div 1000 mod 10) + 100 * (y div 100 mod 10) + 10 * (y div 10 mod 10) + y mod 10 = y"
    using assms(1,2) by (rule digits4)
  moreover have "alt_Y (fmt4 y @ r) = [(1000 * (y div 1000 mod 10) + 100 * (y div 100 mod 10)
      + 10 * (y div 10 mod 10) + y mod 10, r)]"
    by (simp add: alt_Y_def fmt4_def dec_dig)
  ultimately have "alt_Y (fmt4 y @ r) = [(y, r)]" by (simp only:)
  then show ?thesis using assms(3) by simp
qed

lemma try_m:
  assumes "1 \<le> m" "m \<le> 12" "k m r = Some x"
  shows "try_alts (alt_m (fmt2 m @ r)) k = Some x"
proof -
  have "m div 10 = 1 \<and> m mod 10 \<le> 2 \<or> m div 10 = 0 \<and> 1 \<le> m mod 10"
    by (rule tens [of m]) (use assms(1,2) in arith)
  then show ?thesis
    using assms by (auto simp: alt_m_def try_alts_append try_two)
qed

lemma try_d:
  assumes "1 \<le> m" "m \<le> 31" "k m r = Some x"
  shows "try_alts (alt_d (fmt2 m @ r)) k = Some x"
proof -
  have "m div 10 = 3 \<and> m mod 10 \<le> 1 \<or> 1 \<le> m div 10 \<and> m div 10 \<le> 2 \<or> m div 10 = 0 \<and> 1 \<le> m mod 10"
    by (rule tens [of m]) (use assms(1,2) in arith)
  then show ?thesis
    using assms by (auto simp: alt_d_def try_alts_append try_two)
qed

lemma try_H:
  assumes "0 \<le> m" "m \<le> 23" "k m r = Some x"
  shows "try_alts (alt_H (fmt2 m @ r)) k = Some x"
proof -
  have "m div 10 = 2 \<and> m mod 10 \<le> 3 \<or> m div 10 \<le> 1"
    by (rule tens [of m]) (use assms(1,2) in arith)
  then show ?thesis
    using assms by (auto simp: alt_H_def try_alts_append try_two)
qed

lemma try_M:
  assumes "0 \<le> m" "m \<le> 59" "k m r = Some x"
  shows "try_alts (alt_M (fmt2 m @ r)) k = Some x"
    and "try_alts (alt_S (fmt2 m @ r)) k = Some x"
proof -
  have "m div 10 \<le> 5" using assms(1,2) by simp
  then show "try_alts (alt_M (fmt2 m @ r)) k = Some x" "try_alts (alt_S (fmt2 m @ r)) k = Some x"
    using assms by (auto simp: alt_M_def alt_S_def try_alts_append try_two)
qed

lemma nodig: "\<not> dig 90"
  by (simp add: dig_def)

lemma try_f:
  assumes "0 \<le> ms" "ms \<le> 999" "k (ms * 1000) [90] = Some x"
  shows "try_alts (alt_f (fmt3 ms @ [90])) k = Some x"
proof -
  have "100 * (ms div 100 mod 10) + 10 * (ms div 10 mod 10) + ms mod 10 = ms"
    using assms(1,2) by (rule digits3)
  moreover have "frac_value (fmt3 ms)
      = (100 * (ms div 100 mod 10) + 10 * (ms div 10 mod 10) + ms mod 10) * 1000"
    by (simp add: frac_value_def fmt3_def algebra_simps)
  ultimately have "frac_value (fmt3 ms) = ms * 1000" by (simp only:)
  moreover have "alt_f (fmt3 ms @ [90]) = (frac_value (fmt3 ms), [90])
      # concat (map (\<lambda>n. [(frac_value (take n (fmt3 ms)), drop n (fmt3 ms) @ [90])]) [2, 1])"
    by (simp add: alt_f_def fmt3_def dec_dig nodig)
  ultimately show ?thesis using assms(3) by simp
qed

lemma lit_Cons [simp]: "lit cs (c # r) k = (if c \<in> set cs then k r else None)"
  by (simp add: lit_def)

lemma lit_hit: "c \<in> set cs \<Longrightarrow> k r = Some x \<Longrightarrow> lit cs (c # r) k = Some x"
  by simp

section \<open>Round trip\<close>

text \<open>The instants whose UTC year is between 1 and 9999.\<close>

definition representable :: "instant \<Rightarrow> bool" where
  "representable t \<longleftrightarrow> 0 \<le> t \<and> t < 3652059 * 86400000000"

lemma match_written:
  assumes "0 \<le> y" "y \<le> 9999" "1 \<le> m" "m \<le> 12" "1 \<le> d" "d \<le> 31" "0 \<le> h" "h \<le> 23"
    and "0 \<le> mi" "mi \<le> 59" "0 \<le> s" "s \<le> 59" "0 \<le> ms" "ms \<le> 999"
  shows "match_contract_time (fmt4 y @ 45 # fmt2 m @ 45 # fmt2 d @ 84 # fmt2 h @ 58 # fmt2 mi @ 58 #
           fmt2 s @ 46 # fmt3 ms @ [90]) = Some ((y, m, d, h, mi, s, ms * 1000), [])"
  unfolding match_contract_time_def
  by (rule try_Y try_m try_d try_H try_M try_f assms lit_hit | simp only: list.set insert_iff simp_thms)+

lemma regroup:
  assumes "h * 3600 + m * 60 + s = (sec :: int)" "x * 1000 + z = w" "sec * 1000000 + w = us"
    and "A * 86400000000 + us = t"
  shows "(A * 86400 + h * 3600 + m * 60 + s) * 1000000 + x * 1000 = t - z"
  using assms by (simp add: algebra_simps)

lemma strptime_utc_millis:
  assumes "representable t"
  shows "strptime (utc_millis_text t) = Some (t - t mod 1000)"
proof -
  obtain y m d where ymd: "ordinal_to_ymd (t div 86400000000 + 1) = (y, m, d)"
    by (cases "ordinal_to_ymd (t div 86400000000 + 1)") auto
  have "1 \<le> t div 86400000000 + 1" "t div 86400000000 + 1 \<le> 3652059"
    using assms by (auto simp: representable_def)
  note cal = ordinal_to_ymd_correct [OF this ymd]
  define us where "us = t mod 86400000000"
  define sec where "sec = us div 1000000"
  have us: "0 \<le> us" "us < 86400000000" by (simp_all add: us_def)
  have sec: "0 \<le> sec" "sec < 86400" using us by (auto simp: sec_def)
  have "match_contract_time (utc_millis_text t)
      = Some ((y, m, d, sec div 3600, sec div 60 mod 60, sec mod 60,
               us mod 1000000 div 1000 * 1000), [])"
    unfolding utc_millis_text_def Let_def ymd us_def [symmetric] sec_def [symmetric] prod.case
    using cal days_in_month_le [of m y] us sec
    by (intro match_written) auto
  moreover have "sec mod 60 < 60" by simp
  then have "sec mod 60 \<le> 59" by linarith
  moreover have "(((t div 86400000000 + 1 - 1) * 86400 + sec div 3600 * 3600 + sec div 60 mod 60 * 60
      + sec mod 60) * 1000000 + us mod 1000000 div 1000 * 1000) = t - t mod 1000"
  proof -
    have "us mod 1000000 div 1000 * 1000 + us mod 1000000 mod 1000 = us mod 1000000"
      "sec * 1000000 + us mod 1000000 = us" "t div 86400000000 * 86400000000 + us = t"
      unfolding sec_def us_def by (rule div_mult_mod_eq)+
    moreover have "us mod 1000000 mod 1000 = t mod 1000"
      by (simp add: us_def mod_mod_cancel)
    ultimately show ?thesis
      using regroup [OF sixty_parts [of sec]] unfolding add_diff_cancel_right' by (simp only:)
  qed
  ultimately show ?thesis using cal
    by (simp only: strptime_def option.case prod.case not_True_eq_False simp_thms if_False
        HOL.refl not_not)
qed

end
