(* ===== verification/Validation.thy ===== *)
theory Validation
  imports Digests Timestamps
begin

text \<open>
  The remaining single-record checks of \<open>contracts/validation.py\<close> (constraint support,
  chronology, memory bindings), \<open>validate_record\<close>, which runs all of them, and the contract
  models and wire decoding of \<open>contracts/models.py\<close> and \<open>contracts/json_codec.py\<close>. The
  last section opens a successful validation into the facts the components rely on.
\<close>

section \<open>Constraint registry\<close>

record constraint_registry =
  supported :: "(pystr \<times> pystr list) list"

definition accepts :: "constraint_registry \<Rightarrow> pyval \<Rightarrow> pyval \<Rightarrow> bool res" where
  "accepts R cid cver =
     (if \<not> hashable cid then Inl (Exc TypeError ''unhashable type'')
      else in_names cver (case cid of
         PStr c \<Rightarrow> (case map_of (supported R) c of None \<Rightarrow> [] | Some vs \<Rightarrow> vs) | _ \<Rightarrow> []))"

definition is_constraint :: "dict \<Rightarrow> bool" where
  "is_constraint d \<longleftrightarrow> set (map fst d) = set (map S
     [''constraint_id'', ''constraint_version'', ''parameters'', ''parameters_digest''])"

definition validate_constraint_support :: "dict \<Rightarrow> constraint_registry \<Rightarrow> unit res" where
  "validate_constraint_support r R = for_dicts (walk (PDict r)) (\<lambda>d.
     whenE (is_constraint d)
       (denyE (bindE (accepts R (dget d ''constraint_id'') (dget d ''constraint_version''))
                 (\<lambda>b. Inr (\<not> b))) SemanticError ''unsupported constraint''))"

section \<open>Chronology\<close>

definition require_order :: "pyval \<Rightarrow> string \<Rightarrow> string \<Rightarrow> bool \<Rightarrow> unit res" where
  "require_order v f g strict =
     bindE (py_in (PS f) v) (\<lambda>a. if \<not> a then Inr () else
     bindE (py_in (PS g) v) (\<lambda>b. if \<not> b then Inr () else
     bindE (item v f) (\<lambda>x. if x = PNone then Inr () else
     bindE (item v g) (\<lambda>y. if y = PNone then Inr () else
     bindE (parse_timestamp x) (\<lambda>left.
     bindE (parse_timestamp y) (\<lambda>right.
       deny (\<not> (if strict then left < right else left \<le> right)) SemanticError
         ''timestamps are out of order''))))))"

definition rt_of :: "dict \<Rightarrow> pyval" where
  "rt_of d = dget d ''record_type''"

definition validate_chronology :: "dict \<Rightarrow> unit res" where
  "validate_chronology r = seqE
     [for_dicts (walk (PDict r)) (\<lambda>d. whenE (rt_of d = PS ''memory_scope'')
        (require_order (PDict d) ''derived_at'' ''valid_until'' False)),
      (if rt_of r = PS ''actor_context'' then
         bindE (ditem r ''auth'') (\<lambda>auth.
         bindE (bindE (item auth ''verified_at'') parse_timestamp) (\<lambda>verified.
         bindE (bindE (ditem r ''issued_at'') parse_timestamp) (\<lambda>issued. seqE
           [deny (verified > issued) SemanticError ''auth.verified_at must not be after issued_at'',
            require_order (PDict r) ''issued_at'' ''expires_at'' True])))
       else if rt_of r = PS ''evidence_envelope'' then
         bindE (bindE (bindE (ditem r ''draft'') (\<lambda>x. item x ''occurred_at'')) parse_timestamp) (\<lambda>occurred.
         bindE (bindE (ditem r ''recorded_at'') parse_timestamp) (\<lambda>recorded.
           deny (occurred > recorded) SemanticError ''draft.occurred_at must not be after recorded_at''))
       else if rt_of r = PS ''memory_query'' \<and> dhas r ''temporal_bound'' then
         require_order (dget r ''temporal_bound'') ''from'' ''until'' False
       else if rt_of r = PS ''memory_record'' then seqE
         [require_order (PDict r) ''effective_from'' ''effective_until'' False,
          require_order (PDict r) ''effective_from'' ''expires_at'' False]
       else if rt_of r = PS ''approval_record'' then seqE
         [require_order (PDict r) ''issued_at'' ''expires_at'' True,
          require_order (PDict r) ''issued_at'' ''revoked_at'' False]
       else bindE (in_names (rt_of r) (map S [''authorization_grant'', ''delivery_envelope'',
                     ''activation_receipt'', ''rollback_receipt''])) (\<lambda>signed.
         if signed then require_order (PDict r) ''issued_at'' ''expires_at'' True
         else bindE (in_names (rt_of r) (map S [''memory_proposal'', ''skill_proposal'',
                     ''policy_proposal''])) (\<lambda>proposal.
         if proposal then require_order (PDict r) ''created_at'' ''expires_at'' True
         else if rt_of r = PS ''evaluation_run'' then seqE
           [require_order (PDict r) ''created_at'' ''started_at'' False,
            require_order (PDict r) ''started_at'' ''completed_at'' False]
         else if rt_of r = PS ''dataset_version'' then
           require_order (PDict r) ''created_at'' ''published_at'' False
         else Inr ())))]"

section \<open>Memory bindings\<close>

definition validate_memory_bindings :: "dict \<Rightarrow> unit res" where
  "validate_memory_bindings r = for_dicts (walk (PDict r)) (\<lambda>d.
     if dget d ''schema_version'' \<noteq> PS ''1.0'' then Inr ()
     else if rt_of d = PS ''memory_record'' then
       bindE (get_or (PDict d) ''scope'' (PDict [])) (\<lambda>scope.
       bindE (get_or scope ''selection'' (PDict [])) (\<lambda>selection.
       bindE (get_or selection ''level'' PNone) (\<lambda>level.
         deny (neq (dget d ''visibility'') level) SemanticError
           ''must equal the memory scope selection level'')))
     else if rt_of d = PS ''memory_proposal'' then
       bindE (get_or (PDict d) ''proposed_record'' (PDict [])) (\<lambda>proposed.
       bindE (get_or proposed ''scope'' PNone) (\<lambda>scope. seqE
         [deny (neq (dget d ''target_scope'') scope) SemanticError
            ''must exactly equal proposed_record scope'',
          bindE (get_or proposed ''lifecycle_state'' PNone) (\<lambda>state.
            deny (state \<noteq> PS ''candidate'') SemanticError ''proposal payload must remain candidate'')]))
     else Inr ())"

section \<open>Validation of one record\<close>

definition validate_record_in ::
  "env \<Rightarrow> schema_store \<Rightarrow> pyval \<Rightarrow> bool \<Rightarrow> pyval \<Rightarrow> unit res" where
  "validate_record_in E st expected verify_self_digests v = bindE (as_record v) (\<lambda>d. seqE
     [bindE (canonical_bytes (PDict d)) (\<lambda>_. Inr ()),
      validate_schema_record st (PDict d) None,
      bindE (validate_tenant_consistency d expected) (\<lambda>_. Inr ()),
      validate_extensions d,
      validate_chronology d,
      validate_memory_bindings d,
      validate_derived_digests E d,
      whenE verify_self_digests (validate_self_digests E d)])"

abbreviation validate_record :: "env \<Rightarrow> pyval \<Rightarrow> pyval \<Rightarrow> unit res" where
  "validate_record E expected v \<equiv> validate_record_in E (store E) expected True v"

section \<open>Wire decoding and contract models\<close>

text \<open>
  \<open>_object_pairs\<close> builds a dictionary and refuses a repeated key. The JSON scanner of the
  standard library is the parameter of \<open>strict_json_loads\<close>: it yields the value with the
  hooks applied bottom-up, here a tree whose objects are still lists of pairs.
\<close>

datatype wire =
    WNull | WBool bool | WInt int | WFloat | WConstant | WStr pystr
  | WArray "wire list" | WObject "(pystr \<times> wire) list"

definition object_pairs :: "(pystr \<times> pyval) list \<Rightarrow> dict res" where
  "object_pairs ps = foldl (\<lambda>acc (k, v). bindE acc (\<lambda>d.
     reject_if (map_of d k \<noteq> None) JsonDecodeError ''duplicate object key is forbidden''
       (Inr (dset d k v)))) (Inr []) ps"

lemma size_wire_pair: "kv \<in> set kvs \<Longrightarrow> size (snd kv) < Suc (size_list (size_prod (\<lambda>_. 0) size) kvs)"
proof (induction kvs)
  case (Cons a kvs)
  then show ?case by (cases a) auto
qed simp

lemma size_wire_elem: "w \<in> set ws \<Longrightarrow> size w < Suc (size_list size (ws :: wire list))"
  by (induction ws) auto

function wire_value :: "wire \<Rightarrow> pyval res" where
  "wire_value WNull = Inr PNone"
| "wire_value (WBool b) = Inr (PBool b)"
| "wire_value (WInt i) = Inr (PInt i)"
| "wire_value WFloat = Inl (Exc JsonDecodeError ''floating-point token is forbidden'')"
| "wire_value WConstant = Inl (Exc JsonDecodeError ''non-finite number token is forbidden'')"
| "wire_value (WStr s) = Inr (PStr s)"
| "wire_value (WArray ws) = bindE (mapE wire_value ws) (\<lambda>vs. Inr (PList vs))"
| "wire_value (WObject kvs) =
     bindE (mapE (\<lambda>kv. bindE (wire_value (snd kv)) (\<lambda>v. Inr (fst kv, v))) kvs)
       (\<lambda>ps. bindE (object_pairs ps) (\<lambda>d. Inr (PDict d)))"
  by pat_completeness auto
termination
  by (relation "measure size") (auto dest: size_wire_pair size_wire_elem)

text \<open>
  \<open>strict_json_loads\<close> on bytes: \<open>decode\<close> is strict UTF-8 decoding and \<open>scan\<close> the scanner,
  \<open>None\<close> for \<open>JSONDecodeError\<close> or \<open>RecursionError\<close>.
\<close>

definition strict_json_loads ::
  "(nat list \<Rightarrow> pystr option) \<Rightarrow> (pystr \<Rightarrow> wire option) \<Rightarrow> nat list \<Rightarrow> pyval res" where
  "strict_json_loads decode scan payload = (case decode payload of
     None \<Rightarrow> Inl (Exc JsonDecodeError ''invalid UTF-8'')
   | Some text \<Rightarrow> (case scan text of
       None \<Rightarrow> Inl (Exc JsonDecodeError ''invalid JSON'')
     | Some w \<Rightarrow> bindE (wire_value w) (\<lambda>v.
         thenE (catchE SemanticError (bindE (canonical_bytes v) (\<lambda>_. Inr ()))
                  (Inl (Exc JsonDecodeError ''not canonical'')))
               (Inr v))))"

definition MODEL_RECORD_TYPES :: "pystr list" where
  "MODEL_RECORD_TYPES = map S
    [''actor_context'', ''memory_scope'', ''evidence_draft'', ''evidence_envelope'',
     ''learning_trace_envelope'', ''memory_query'', ''memory_record'', ''memory_proposal'',
     ''memory_decision'', ''context_bundle'', ''write_receipt'', ''deletion_receipt'',
     ''tool_request'', ''policy_decision'', ''approval_record'', ''authorization_grant'',
     ''capability_manifest'', ''action_outcome'', ''feedback_event'', ''evaluation_run'',
     ''dataset_version'', ''skill_proposal'', ''policy_proposal'', ''gate_decision'',
     ''delivery_envelope'', ''activation_receipt'', ''rollback_receipt'']"

text \<open>\<open>ContractModel.__init__\<close>: the model of a record type keeps a validated copy.\<close>

definition contract_model ::
  "env \<Rightarrow> schema_store \<Rightarrow> pystr \<Rightarrow> pyval \<Rightarrow> bool \<Rightarrow> dict \<Rightarrow> dict res" where
  "contract_model E st rt expected verify d =
     reject_if (dget d ''record_type'' \<noteq> PStr rt) SemanticError ''record_type does not match the model''
       (bindE (validate_record_in E st expected verify (PDict d)) (\<lambda>_. Inr d))"

definition model_from_bytes ::
  "(nat list \<Rightarrow> pystr option) \<Rightarrow> (pystr \<Rightarrow> wire option) \<Rightarrow> env \<Rightarrow> schema_store \<Rightarrow> pystr \<Rightarrow> pyval
     \<Rightarrow> bool \<Rightarrow> nat list \<Rightarrow> dict res" where
  "model_from_bytes decode scan E st rt expected verify payload =
     bindE (strict_json_loads decode scan payload) (\<lambda>v. case v of
       PDict d \<Rightarrow> contract_model E st rt expected verify d
     | _ \<Rightarrow> Inl (Exc SemanticError ''wire record must decode to an object''))"

definition model_for :: "pystr \<Rightarrow> pystr res" where
  "model_for rt = (if rt \<in> set MODEL_RECORD_TYPES then Inr rt
                   else Inl (Exc SemanticError ''unsupported record_type''))"

definition parse_model ::
  "(nat list \<Rightarrow> pystr option) \<Rightarrow> (pystr \<Rightarrow> wire option) \<Rightarrow> env \<Rightarrow> schema_store \<Rightarrow> pyval
     \<Rightarrow> bool \<Rightarrow> nat list \<Rightarrow> dict res" where
  "parse_model decode scan E st expected verify payload =
     bindE (strict_json_loads decode scan payload) (\<lambda>v. case v of
       PDict d \<Rightarrow> (case dget d ''record_type'' of
          PStr rt \<Rightarrow> bindE (model_for rt) (\<lambda>m. contract_model E st m expected verify d)
        | _ \<Rightarrow> Inl (Exc SemanticError ''wire record requires a string record_type''))
     | _ \<Rightarrow> Inl (Exc SemanticError ''wire record requires a string record_type''))"

text \<open>\<open>canonical_bytes\<close>, \<open>canonical_digest\<close> and \<open>__getitem__\<close> of a model.\<close>

definition model_canonical_bytes :: "dict \<Rightarrow> nat list res" where
  "model_canonical_bytes d = canonical_bytes (PDict d)"

definition model_canonical_digest :: "env \<Rightarrow> dict \<Rightarrow> pyval res" where
  "model_canonical_digest E d = sha256_digest (hash E) (PDict d)"

definition model_getitem :: "dict \<Rightarrow> string \<Rightarrow> pyval res" where
  "model_getitem d k = ditem d k"

section \<open>What a validated record satisfies\<close>

lemma validate_record_in_Inr:
  "validate_record_in E st expected vs v = Inr u \<longleftrightarrow>
     (\<exists>d. v = PDict d \<and> (\<exists>b. canonical_bytes (PDict d) = Inr b) \<and>
        validate_schema_record st (PDict d) None = Inr () \<and>
        (\<exists>t. validate_tenant_consistency d expected = Inr t) \<and> validate_extensions d = Inr () \<and>
        validate_chronology d = Inr () \<and> validate_memory_bindings d = Inr () \<and>
        validate_derived_digests E d = Inr () \<and> (vs \<longrightarrow> validate_self_digests E d = Inr ()))"
  by (auto simp: validate_record_in_def res_simps)

lemma set_tl_walk: "w \<in> set (walk v) \<Longrightarrow> w = v \<or> w \<in> set (tl (walk v))"
  by (cases v) auto

lemma check_nested_tenant_Inr:
  "check_nested_tenant t d = Inr u \<Longrightarrow> dhas d ''tenant_id'' \<Longrightarrow> dget d ''tenant_id'' = PStr t"
  by (cases "dget d ''tenant_id''")
     (auto simp: check_nested_tenant_def res_simps dest!: compare_digest_Inr)

text \<open>Every dictionary below the root, but the one under the empty key, has the tenant.\<close>

lemma tenant_consistent:
  assumes "validate_tenant_consistency d expected = Inr t"
  shows "dget d ''tenant_id'' = PStr t" "expected = PNone \<or> expected = PStr t"
    and "for_dicts (nested_nodes d) (check_nested_tenant t) = Inr ()"
  using assms
  by (cases "dget d ''tenant_id''"; force simp: validate_tenant_consistency_def res_simps
      split: if_splits dest!: compare_digest_Inr)+

lemma tenant_nested:
  "validate_tenant_consistency d expected = Inr t \<Longrightarrow> PDict n \<in> set (nested_nodes d) \<Longrightarrow>
     dhas n ''tenant_id'' \<Longrightarrow> dget n ''tenant_id'' = PStr t"
  using tenant_consistent(3) [of d expected t] check_nested_tenant_Inr [of t n]
  by (auto simp: for_dicts_Inr)

lemma require_order_dict:
  assumes "require_order (PDict d) f g strict = Inr ()" "dget d f \<noteq> PNone" "dget d g \<noteq> PNone"
  shows "\<exists>a b. parse_timestamp (dget d f) = Inr a \<and> parse_timestamp (dget d g) = Inr b \<and>
           (if strict then a < b else a \<le> b)"
  using assms by (auto simp: require_order_def py_in_def res_simps dget_def
      split: option.splits if_splits)

lemma self_digests_root:
  "validate_self_digests E d = Inr () \<Longrightarrow> check_self_digest E d = Inr ()"
  by (simp add: validate_self_digests_def for_dicts_Inr)

end
