(* ===== verification/Scopes.thy ===== *)
theory Scopes
  imports Validation
begin

text \<open>
  Scope narrowing and memory promotion of \<open>contracts/validation.py\<close>. A memory scope is
  accepted under an actor context, or under another scope, when it names the same tenant
  and actor, carries the parent's digest, lies in the parent's validity window and selects
  nothing the parent does not allow. The abstract reading of a chain of accepted scopes is
  \<open>derives\<close>: the last section shows that authority can only shrink along it.
\<close>

section \<open>Narrowing one scope\<close>

definition time_item :: "dict \<Rightarrow> string \<Rightarrow> instant res" where
  "time_item d k = bindE (ditem d k) parse_timestamp"

definition membership_fields :: "(string \<times> string \<times> string) list" where
  "membership_fields =
     [(''user'', ''user_id'', ''user_id''),
      (''team'', ''team_id'', ''team_ids''),
      (''organization'', ''organization_id'', ''organization_ids''),
      (''project'', ''project_id'', ''project_ids''),
      (''workspace'', ''workspace_id'', ''workspace_ids'')]"

definition membership_lookup :: "pyval \<Rightarrow> (string \<times> string) res" where
  "membership_lookup level =
     (if \<not> hashable level then Inl (Exc TypeError ''unhashable type'')
      else case find (\<lambda>m. level = PS (fst m)) membership_fields of
        None \<Rightarrow> Inl (Exc KeyError ''level'')
      | Some m \<Rightarrow> Inr (snd m))"

definition check_membership :: "dict \<Rightarrow> pyval \<Rightarrow> pyval \<Rightarrow> unit res" where
  "check_membership selection level authority =
     bindE (membership_lookup level) (\<lambda>(selected, field).
     bindE (get_or authority field PNone) (\<lambda>memberships.
     bindE (ditem selection selected) (\<lambda>sid.
       deny (\<not> (case memberships of PList ms \<Rightarrow> (\<exists>m\<in>set ms. py_eq sid m) | _ \<Rightarrow> py_eq sid memberships))
         SemanticError ''scope selection is not present in ActorContext'')))"

text \<open>The selection of a scope whose parent is an actor context.\<close>

definition check_selection :: "pyval \<Rightarrow> dict \<Rightarrow> unit res" where
  "check_selection selection authority =
     bindE (item selection ''level'') (\<lambda>level.
     bindE (ditem authority ''scope_authority'') (\<lambda>sa.
       if level = PS ''public'' then
         bindE (item sa ''public_allowed'') (\<lambda>pub.
           deny (pub \<noteq> PBool True) SemanticError ''public scope selection is not authorized'')
       else bindE (item sa ''allowed_levels'') (\<lambda>levels.
         bindE (py_in level levels) (\<lambda>ok.
         reject_if (\<not> ok) SemanticError ''scope selection level is not explicitly authorized''
          (if level = PS ''actor'' then Inr ()
           else if level = PS ''session'' then
             bindE (item selection ''session_id'') (\<lambda>sid.
             bindE (ditem authority ''session_id'') (\<lambda>asid.
               deny (neq sid asid) SemanticError ''scope session_id does not match ActorContext session''))
           else case selection of
               PDict sel \<Rightarrow> check_membership sel level sa
             | _ \<Rightarrow> Inl (Exc TypeError ''selection''))))))"

definition check_parent :: "env \<Rightarrow> dict \<Rightarrow> dict \<Rightarrow> unit res" where
  "check_parent E child authority = seqE
     [deny (rt_of child \<noteq> PS ''memory_scope'') SemanticError ''child must be a memory_scope'',
      deny (neq (dget child ''tenant_id'') (dget authority ''tenant_id'')) SemanticError
        ''scope tenant does not match parent authority'',
      deny (neq (dget child ''actor_id'') (dget authority ''actor_id'')) SemanticError
        ''scope actor does not match parent authority'',
      denyE (bindE (in_names (rt_of authority) (map S [''actor_context'', ''memory_scope'']))
               (\<lambda>b. Inr (\<not> b))) SemanticError ''parent must be actor_context or memory_scope'',
      deny (neq (dget child ''parent_record_type'') (rt_of authority)) SemanticError
        ''scope parent_record_type does not identify its immediate parent'',
      bindE (sha256_digest (hash E) (PDict authority)) (\<lambda>x.
        deny (dget child ''parent_digest'' \<noteq> x) SemanticError
          ''scope parent_digest does not match its immediate parent'')]"

definition scope_window :: "dict \<Rightarrow> (instant \<times> instant) res" where
  "scope_window child = bindE (time_item child ''derived_at'') (\<lambda>derived.
     bindE (time_item child ''valid_until'') (\<lambda>until.
       reject_if (derived > until) SemanticError ''scope derived_at must not be after valid_until''
         (Inr (derived, until))))"

definition validate_scope_narrowing :: "env \<Rightarrow> pyval \<Rightarrow> pyval \<Rightarrow> unit res" where
  "validate_scope_narrowing E scope parent =
     bindE (as_record scope) (\<lambda>child.
     bindE (as_record parent) (\<lambda>authority.
     bindE (check_parent E child authority) (\<lambda>_.
     bindE (scope_window child) (\<lambda>(derived, until).
     bindE (ditem child ''selection'') (\<lambda>selection.
       if rt_of authority = PS ''memory_scope'' then
         bindE (time_item authority ''derived_at'') (\<lambda>pd.
         bindE (time_item authority ''valid_until'') (\<lambda>pu. seqE
          [deny (\<not> (pd \<le> derived \<and> derived \<le> until \<and> until \<le> pu)) SemanticError
             ''child scope validity must be bounded by its parent scope'',
           deny (neq selection (dget authority ''selection'')) SemanticError
             ''child selection must exactly equal parent selection without a topology resolver'']))
       else
         bindE (time_item authority ''issued_at'') (\<lambda>ai.
         bindE (time_item authority ''expires_at'') (\<lambda>ae. seqE
          [deny (\<not> (ai \<le> derived \<and> derived \<le> until \<and> until \<le> ae)) SemanticError
             ''scope validity must be bounded by its ActorContext'',
           check_selection selection authority])))))))"

section \<open>Memory promotion\<close>

definition record_ref :: "string \<Rightarrow> pyval \<Rightarrow> pyval \<Rightarrow> pyval" where
  "record_ref rt rid dg = PDict
     [(S ''record_type'', PS rt), (S ''record_id'', rid), (S ''record_digest'', dg)]"

text \<open>\<open>d.get(k)\<close> of a value whose type is not known.\<close>

abbreviation get :: "pyval \<Rightarrow> string \<Rightarrow> pyval res" where
  "get v k \<equiv> get_or v k PNone"

definition duties_fail :: "dict \<Rightarrow> dict \<Rightarrow> bool res" where
  "duties_fail approval actor =
     bindE (get_or (PDict approval) ''separation_of_duties'' (PDict [])) (\<lambda>duties.
     bindE (get duties ''required'') (\<lambda>required.
       if \<not> truthy required then Inr False
       else bindE (get duties ''satisfied'') (\<lambda>satisfied.
         Inr (\<not> truthy satisfied \<or>
              py_eq (dget approval ''approver_actor_id'') (dget actor ''actor_id'')))))"

text \<open>The bindings an approval must have to the proposal, the policy and the tenant.\<close>

definition approval_unbound :: "dict \<Rightarrow> dict \<Rightarrow> dict \<Rightarrow> dict \<Rightarrow> bool" where
  "approval_unbound approval actor proposal policy \<longleftrightarrow>
     neq (dget approval ''tenant_id'') (dget actor ''tenant_id'') \<or>
     neq (dget approval ''request_id'') (dget proposal ''proposal_id'') \<or>
     neq (dget approval ''request_digest'') (dget proposal ''proposal_digest'') \<or>
     neq (dget approval ''policy_decision_id'') (dget policy ''decision_id'') \<or>
     neq (dget approval ''policy_decision_digest'') (dget policy ''decision_digest'') \<or>
     dget approval ''disposition'' \<noteq> PS ''approved'' \<or>
     dhas approval ''revoked_at'' \<or>
     neq (dget approval ''constraints'') (dget policy ''constraints'')"

definition validate_memory_promotion_bindings ::
  "env \<Rightarrow> pyval \<Rightarrow> pyval \<Rightarrow> pyval \<Rightarrow> pyval \<Rightarrow> pyval list \<Rightarrow> unit res" where
  "validate_memory_promotion_bindings E actor_context proposal memory_decision policy_decision approvals =
     bindE (as_record actor_context) (\<lambda>actor.
     bindE (validate_record E PNone (PDict actor)) (\<lambda>_.
     bindE (as_record proposal) (\<lambda>cand.
     bindE (as_record memory_decision) (\<lambda>decision.
     bindE (as_record policy_decision) (\<lambda>policy.
     bindE (get_or (PDict cand) ''proposed_record'' (PDict [])) (\<lambda>proposed.
     bindE (get proposed ''scope'') (\<lambda>pscope.
     reject_if (neq (dget cand ''target_scope'') pscope) SemanticError
       ''memory proposal target scope is not the proposed record scope''
     (bindE (ditem cand ''target_scope'') (\<lambda>target.
     bindE (validate_scope_narrowing E target (PDict actor)) (\<lambda>_.
     bindE (ditem cand ''proposed_record'') (\<lambda>pr.
     bindE (get pr ''tenant_id'') (\<lambda>ptenant.
     reject_if (neq ptenant (dget actor ''tenant_id'')) SemanticError
       ''memory proposal record tenant is not actor-scoped''
     (bindE (ditem cand ''proposal_id'') (\<lambda>pid.
     bindE (ditem cand ''proposal_digest'') (\<lambda>pdig.
     reject_if (neq (dget decision ''proposal_ref'') (record_ref ''memory_proposal'' pid pdig)) SemanticError
       ''memory decision does not bind the exact proposal''
     (bindE (sha256_digest (hash E) (PDict actor)) (\<lambda>adig.
     reject_if (dget decision ''actor_context_digest'' \<noteq> adig) SemanticError
       ''memory decision does not bind the exact actor context''
     (bindE (ditem policy ''decision_id'') (\<lambda>did.
     bindE (ditem policy ''decision_digest'') (\<lambda>ddig. seqE
      [deny (neq (dget decision ''policy_refs'') (PList [record_ref ''policy_decision'' did ddig]))
         SemanticError ''memory decision must reference only the supplied policy'',
       deny (neq (dget policy ''tenant_id'') (dget actor ''tenant_id'') \<or>
             neq (dget policy ''request_id'') (dget cand ''proposal_id'') \<or>
             neq (dget policy ''request_digest'') (dget cand ''proposal_digest''))
         SemanticError ''policy decision does not bind the exact proposal'',
       denyE (bindE (in_names (dget policy ''decision'') (map S [''authorize'', ''require_approval'']))
                (\<lambda>b. Inr (\<not> b))) SemanticError ''policy decision does not authorize promotion'',
       deny (dget policy ''isolation_profile'' \<noteq> PS ''no_effect'') SemanticError
         ''memory promotion requires no_effect isolation'',
       deny (dget decision ''disposition'' \<noteq> PS ''accept'') SemanticError
         ''memory decision does not accept the proposal'',
       deny (neq (dget decision ''constraints'') (dget policy ''constraints'')) SemanticError
         ''memory decision constraints do not exactly match policy'',
       bindE (mapE as_record approvals) (\<lambda>supplied. seqE
        [deny (dget policy ''decision'' = PS ''authorize'' \<and> supplied \<noteq> []) SemanticError
           ''authorize promotion cannot carry approvals'',
         deny (dget policy ''decision'' = PS ''require_approval'' \<and> supplied = []) SemanticError
           ''approval-required promotion has no approval'',
         forE supplied (\<lambda>approval. seqE
          [deny (approval_unbound approval actor cand policy) SemanticError
             ''approval does not bind the exact proposal and policy'',
           denyE (duties_fail approval actor) SemanticError
             ''approval does not satisfy separation of duties''])])]))))))))))))))))))))"

section \<open>Authority only shrinks\<close>

text \<open>The validity window an authority grants: the field names depend on its type.\<close>

definition authority_window :: "dict \<Rightarrow> (instant \<times> instant) res" where
  "authority_window a =
     (if rt_of a = PS ''memory_scope''
      then bindE (time_item a ''derived_at'') (\<lambda>x. bindE (time_item a ''valid_until'') (\<lambda>y. Inr (x, y)))
      else bindE (time_item a ''issued_at'') (\<lambda>x. bindE (time_item a ''expires_at'') (\<lambda>y. Inr (x, y))))"

text \<open>One accepted step, seen from outside.\<close>

definition within_authority :: "dict \<Rightarrow> dict \<Rightarrow> bool" where
  "within_authority c a \<longleftrightarrow>
     py_eq (dget c ''tenant_id'') (dget a ''tenant_id'') \<and>
     py_eq (dget c ''actor_id'') (dget a ''actor_id'') \<and>
     (\<exists>d u p q. authority_window c = Inr (d, u) \<and> authority_window a = Inr (p, q) \<and>
        p \<le> d \<and> d \<le> u \<and> u \<le> q)"

lemma narrowing_inv:
  assumes "validate_scope_narrowing E (PDict c) (PDict a) = Inr ()"
  shows "rt_of c = PS ''memory_scope''" "within_authority c a"
    and "sha256_digest (hash E) (PDict a) = Inr (dget c ''parent_digest'')"
    and "rt_of a = PS ''memory_scope'' \<or> rt_of a = PS ''actor_context''"
    and "rt_of a = PS ''memory_scope'' \<Longrightarrow> py_eq (dget c ''selection'') (dget a ''selection'')"
    and "rt_of a = PS ''actor_context'' \<Longrightarrow> check_selection (dget c ''selection'') a = Inr ()"
  using assms
  by (auto simp: validate_scope_narrowing_def check_parent_def scope_window_def res_simps neq_def
      within_authority_def authority_window_def dget_Some rt_of_def split: if_splits)

text \<open>\<open>derives E c a\<close>: a chain of accepted scopes leads from \<open>c\<close> up to the actor context \<open>a\<close>.\<close>

inductive derives :: "env \<Rightarrow> dict \<Rightarrow> dict \<Rightarrow> bool" for E where
  direct: "validate_scope_narrowing E (PDict c) (PDict a) = Inr () \<Longrightarrow>
     rt_of a = PS ''actor_context'' \<Longrightarrow> derives E c a"
| step: "validate_scope_narrowing E (PDict c) (PDict p) = Inr () \<Longrightarrow>
     rt_of p = PS ''memory_scope'' \<Longrightarrow> derives E p a \<Longrightarrow> derives E c a"

inductive_cases derivesE: "derives E c a"

lemma window_trans:
  assumes "within_authority c p" "within_authority p a"
  shows "within_authority c a"
proof -
  obtain d u p1 q1 where 1: "py_eq (dget c ''tenant_id'') (dget p ''tenant_id'')"
      "py_eq (dget c ''actor_id'') (dget p ''actor_id'')" "authority_window c = Inr (d, u)"
      "authority_window p = Inr (p1, q1)" "p1 \<le> d" "d \<le> u" "u \<le> q1"
    using assms(1) unfolding within_authority_def by blast
  obtain p2 q2 where 2: "py_eq (dget p ''tenant_id'') (dget a ''tenant_id'')"
      "py_eq (dget p ''actor_id'') (dget a ''actor_id'')" "authority_window a = Inr (p2, q2)"
      "p2 \<le> p1" "q1 \<le> q2"
    using assms(2) 1(4) unfolding within_authority_def by auto
  have "p2 \<le> d" "u \<le> q2" using 1 2 by linarith+
  then show ?thesis
    using 1 2 py_eq_trans unfolding within_authority_def by blast
qed

lemma derives_within: "derives E c a \<Longrightarrow> within_authority c a"
  by (induction rule: derives.induct) (auto intro: narrowing_inv(2) window_trans)

lemma derives_selection:
  "derives E c a \<Longrightarrow> \<exists>sel. check_selection sel a = Inr () \<and>
     (py_eq (dget c ''selection'') sel \<or> dget c ''selection'' = sel)"
proof (induction rule: derives.induct)
  case (direct c a)
  then show ?case using narrowing_inv(6) by blast
next
  case (step c p a)
  then obtain sel where "check_selection sel a = Inr ()"
      "py_eq (dget p ''selection'') sel \<or> dget p ''selection'' = sel" by blast
  moreover have "py_eq (dget c ''selection'') (dget p ''selection'')"
    using step.hyps(1,2) by (rule narrowing_inv(5))
  ultimately show ?case by (auto intro: py_eq_trans)
qed

end
