(* ===== verification/Bindings.thy ===== *)
theory Bindings
  imports Scopes
begin

text \<open>
  The cross-record bindings of \<open>contracts/validation.py\<close> that need no proof: policy and
  request, approval and policy, activation receipt and delivery, rollback and activation;
  and the classification of idempotency bindings into new, replay and conflict.
\<close>

section \<open>Same fields\<close>

definition require_same :: "dict \<Rightarrow> dict \<Rightarrow> string list \<Rightarrow> unit res" where
  "require_same l r fs = forE fs (\<lambda>f.
     deny (neq (dget l f) (dget r f)) SemanticError ''cross-record binding mismatch'')"

lemma require_same_Inr [res_simps]:
  "require_same l r fs = Inr u \<longleftrightarrow> (\<forall>f\<in>set fs. py_eq (dget l f) (dget r f))"
  by (auto simp: require_same_def forE_Inr_iff deny_Inr_iff neq_def)

definition same_field :: "dict \<Rightarrow> string \<Rightarrow> dict \<Rightarrow> string \<Rightarrow> string \<Rightarrow> unit res" where
  "same_field l f r g msg = deny (neq (dget l f) (dget r g)) SemanticError msg"

lemma same_field_Inr [res_simps]: "same_field l f r g msg = Inr u \<longleftrightarrow> py_eq (dget l f) (dget r g)"
  by (simp add: same_field_def deny_Inr_iff neq_def)

section \<open>Policy, request and approval\<close>

definition validate_policy_request_binding :: "pyval \<Rightarrow> pyval \<Rightarrow> unit res" where
  "validate_policy_request_binding policy request =
     bindE (as_record policy) (\<lambda>p. bindE (as_record request) (\<lambda>r.
       require_same p r [''tenant_id'', ''request_id'', ''request_digest'']))"

definition validate_approval_binding :: "pyval \<Rightarrow> pyval \<Rightarrow> pyval \<Rightarrow> unit res" where
  "validate_approval_binding approval policy request =
     bindE (as_record approval) (\<lambda>a. bindE (as_record policy) (\<lambda>p. bindE (as_record request) (\<lambda>r. seqE
      [validate_policy_request_binding (PDict p) (PDict r),
       require_same a r [''tenant_id'', ''request_id'', ''request_digest''],
       same_field a ''policy_decision_id'' p ''decision_id''
         ''approval policy_decision_id does not bind the decision'',
       same_field a ''policy_decision_digest'' p ''decision_digest''
         ''approval policy_decision_digest does not bind the decision''])))"

section \<open>Activation and rollback\<close>

definition artifact_fields :: "string list" where
  "artifact_fields =
     [''tenant_id'', ''artifact_type'', ''artifact_id'', ''artifact_revision'', ''artifact_digest'']"

definition validate_activation_delivery_binding :: "pyval \<Rightarrow> pyval \<Rightarrow> unit res" where
  "validate_activation_delivery_binding receipt delivery =
     bindE (as_record receipt) (\<lambda>r. bindE (as_record delivery) (\<lambda>d. seqE
      [require_same r d artifact_fields,
       same_field r ''delivery_id'' d ''delivery_id'' ''activation receipt delivery_id mismatch'',
       same_field r ''delivery_digest'' d ''envelope_digest'' ''activation receipt delivery_digest mismatch'',
       same_field r ''target_scope'' d ''target_scope'' ''activation receipt target_scope mismatch'',
       deny (dget d ''lifecycle_state'' \<noteq> PS ''delivered'') SemanticError
         ''activation requires a delivered delivery envelope'',
       bindE (time_item r ''issued_at'') (\<lambda>ai.
       bindE (time_item d ''issued_at'') (\<lambda>di.
       bindE (time_item d ''expires_at'') (\<lambda>de.
         deny (\<not> (di \<le> ai \<and> ai \<le> de)) SemanticError
           ''activation issue time is outside the delivery validity window'')))]))"

definition validate_rollback_activation_binding :: "pyval \<Rightarrow> pyval \<Rightarrow> unit res" where
  "validate_rollback_activation_binding rollback activation =
     bindE (as_record rollback) (\<lambda>r. bindE (as_record activation) (\<lambda>a. seqE
      [require_same r a artifact_fields,
       bindE (get_or (PDict r) ''activation_receipt_ref'' (PDict [])) (\<lambda>reference.
       bindE (get reference ''record_id'') (\<lambda>rid.
       bindE (get reference ''record_digest'') (\<lambda>rdg. seqE
         [deny (neq rid (dget a ''receipt_id'')) SemanticError ''rollback activation receipt ID mismatch'',
          deny (neq rdg (dget a ''receipt_digest'')) SemanticError
            ''rollback activation receipt digest mismatch'']))),
       same_field r ''target_scope'' a ''target_scope'' ''rollback receipt target_scope mismatch'',
       bindE (time_item r ''issued_at'') (\<lambda>ri.
       bindE (time_item a ''issued_at'') (\<lambda>ai.
         deny (ri < ai) SemanticError ''rollback issue time cannot be before activation''))]))"

section \<open>Idempotency\<close>

datatype idempotency_result = NEW | REPLAY

text \<open>
  The regular expressions of the module, written out: a lowercase UUIDv7 and an
  idempotency key.
\<close>

definition lower_hex_run :: "pystr \<Rightarrow> bool" where
  "lower_hex_run s \<longleftrightarrow> list_all lower_hex s"

definition is_uuid7_text :: "pystr \<Rightarrow> bool" where
  "is_uuid7_text s \<longleftrightarrow> length s = 36 \<and>
     (\<forall>i<36. if i \<in> {8, 13, 18, 23} then s ! i = 45
            else if i = 14 then s ! i = 55
            else if i = 19 then s ! i \<in> {56, 57, 97, 98}
            else lower_hex (s ! i))"

definition key_char :: "nat \<Rightarrow> bool" where
  "key_char c \<longleftrightarrow> is_letter c \<or> is_digit_char c \<or> c \<in> {46, 95, 58, 45}"

definition idempotency_key_text :: "pystr \<Rightarrow> bool" where
  "idempotency_key_text s \<longleftrightarrow> 16 \<le> length s \<and> length s \<le> 128 \<and>
     (is_letter (hd s) \<or> is_digit_char (hd s)) \<and> list_all key_char (tl s)"

definition validate_idempotency_binding :: "dict \<Rightarrow> unit res" where
  "validate_idempotency_binding b = seqE
     [deny (set (map fst b) \<noteq> set (map S [''tenant_id'', ''idempotency_key'', ''operation_digest'']))
        SemanticError ''idempotency binding must contain exactly the canonical fields'',
      deny (\<not> (case dget b ''tenant_id'' of PStr t \<Rightarrow> is_uuid7_text t | _ \<Rightarrow> False)) SemanticError
        ''idempotency tenant_id is not a lowercase UUIDv7'',
      deny (\<not> (case dget b ''idempotency_key'' of PStr k \<Rightarrow> idempotency_key_text k | _ \<Rightarrow> False))
        SemanticError ''idempotency_key is malformed'',
      bindE (require_sha256_digest (dget b ''operation_digest'')) (\<lambda>_. Inr ())]"

definition compare_idempotency_bindings :: "dict option \<Rightarrow> dict \<Rightarrow> idempotency_result res" where
  "compare_idempotency_bindings existing incoming =
     bindE (validate_idempotency_binding incoming) (\<lambda>_. case existing of
       None \<Rightarrow> Inr NEW
     | Some e \<Rightarrow> bindE (validate_idempotency_binding e) (\<lambda>_.
         if neq (dget e ''tenant_id'') (dget incoming ''tenant_id'') \<or>
            neq (dget e ''idempotency_key'') (dget incoming ''idempotency_key'') then Inr NEW
         else reject_if (neq (dget e ''operation_digest'') (dget incoming ''operation_digest''))
                IdempotencyConflictError ''idempotency key is already bound to another operation''
              (reject_if (neq (PDict e) (PDict incoming)) IdempotencyConflictError
                ''idempotency binding changed outside operation digest'' (Inr REPLAY))))"

section \<open>Accepted bindings\<close>

lemma policy_request_inv:
  "validate_policy_request_binding (PDict p) (PDict r) = Inr u \<Longrightarrow> f \<in> {''tenant_id'', ''request_id'', ''request_digest''}
     \<Longrightarrow> py_eq (dget p f) (dget r f)"
  by (auto simp: validate_policy_request_binding_def res_simps)

lemma approval_binding_inv:
  assumes "validate_approval_binding (PDict a) (PDict p) (PDict r) = Inr u"
  shows "f \<in> {''tenant_id'', ''request_id'', ''request_digest''} \<Longrightarrow>
           py_eq (dget a f) (dget r f) \<and> py_eq (dget p f) (dget r f)"
    and "py_eq (dget a ''policy_decision_id'') (dget p ''decision_id'')"
    and "py_eq (dget a ''policy_decision_digest'') (dget p ''decision_digest'')"
  using assms by (auto simp: validate_approval_binding_def validate_policy_request_binding_def res_simps)

lemma activation_inv:
  assumes "validate_activation_delivery_binding (PDict r) (PDict d) = Inr u"
  shows "\<forall>f\<in>set artifact_fields. py_eq (dget r f) (dget d f)"
    and "py_eq (dget r ''delivery_id'') (dget d ''delivery_id'')"
    and "py_eq (dget r ''delivery_digest'') (dget d ''envelope_digest'')"
    and "py_eq (dget r ''target_scope'') (dget d ''target_scope'')"
    and "dget d ''lifecycle_state'' = PS ''delivered''"
    and "\<exists>ai di de. time_item r ''issued_at'' = Inr ai \<and> time_item d ''issued_at'' = Inr di \<and>
           time_item d ''expires_at'' = Inr de \<and> di \<le> ai \<and> ai \<le> de"
  using assms by (auto simp: validate_activation_delivery_binding_def res_simps)

text \<open>A valid binding has the three canonical fields, all strings, and no other.\<close>

lemma idempotency_binding_inv:
  assumes "validate_idempotency_binding b = Inr u"
  shows "dkeys b = set (map S [''tenant_id'', ''idempotency_key'', ''operation_digest''])"
    and "\<exists>t. dget b ''tenant_id'' = PStr t \<and> is_uuid7_text t"
    and "\<exists>k. dget b ''idempotency_key'' = PStr k \<and> idempotency_key_text k"
    and "\<exists>o'. dget b ''operation_digest'' = PStr o' \<and> is_sha256_digest (PStr o')"
proof -
  show "dkeys b = set (map S [''tenant_id'', ''idempotency_key'', ''operation_digest''])"
    using assms by (simp add: validate_idempotency_binding_def res_simps dkeys_def)
  show "\<exists>t. dget b ''tenant_id'' = PStr t \<and> is_uuid7_text t"
    using assms by (cases "dget b ''tenant_id''") (auto simp: validate_idempotency_binding_def res_simps)
  show "\<exists>k. dget b ''idempotency_key'' = PStr k \<and> idempotency_key_text k"
    using assms
    by (cases "dget b ''idempotency_key''") (auto simp: validate_idempotency_binding_def res_simps)
  show "\<exists>o'. dget b ''operation_digest'' = PStr o' \<and> is_sha256_digest (PStr o')"
    using assms
    by (cases "dget b ''operation_digest''")
       (auto simp: validate_idempotency_binding_def require_sha256_digest_def res_simps)
qed

lemma valid_bindings_equal:
  assumes "validate_idempotency_binding a = Inr u" "validate_idempotency_binding b = Inr v"
    and "distinct (map fst a)" "distinct (map fst b)"
    and "\<forall>f\<in>{''tenant_id'', ''idempotency_key'', ''operation_digest''}. dget a f = dget b f"
  shows "py_eq (PDict a) (PDict b)"
proof -
  note ka = idempotency_binding_inv(1) [OF assms(1)] and kb = idempotency_binding_inv(1) [OF assms(2)]
  have len: "length a = card (dkeys a)" "length b = card (dkeys b)"
    using assms(3,4) distinct_card by (fastforce simp: dkeys_def)+
  have "case map_of b (fst p) of None \<Rightarrow> False | Some w \<Rightarrow> py_eq (snd p) w" if p: "p \<in> set a" for p
  proof -
    have "fst p \<in> dkeys a" using p by (auto simp: dkeys_def)
    then obtain f where f: "fst p = S f" "f \<in> {''tenant_id'', ''idempotency_key'', ''operation_digest''}"
      using ka by auto
    have "map_of a (fst p) = Some (snd p)" using assms(3) p by (intro map_of_is_SomeI) auto
    then have "map_of a (S f) = Some (snd p)" by (simp only: f(1))
    then have "dget a f = snd p" by (rule dget_Some)
    moreover have "\<exists>w. map_of b (S f) = Some w" using kb f(2) dkeys_map_of [of "S f" b] by auto
    moreover have "\<exists>s. dget a f = PStr s"
      using f(2) idempotency_binding_inv(2-4) [OF assms(1)] by auto
    ultimately show ?thesis using assms(5) f by (auto simp: dget_Some)
  qed
  then show ?thesis using len ka kb by simp
qed

end
