(* ===== verification/Trust.thy ===== *)
theory Trust
  imports Bindings "HOL-Library.Product_Lexorder"
begin

text \<open>
  The proof and trust decisions of \<open>contracts/validation.py\<close>: trust contexts, accepted
  trust snapshots and their digest, first acceptance and recorded acceptance of a signed
  record, runtime receipts, the rollback lifecycle and the activity of a learning artifact.
  The cryptographic verifier is the argument \<open>V\<close>, from the eight values it is called with
  to the value it returns. Dataclass fields have their annotated types, a \<open>timedelta\<close> is
  its number of microseconds, and sums of a time and a skew do not overflow.
\<close>

section \<open>Data\<close>

record trusted_key =
  tk_issuer :: pystr
  tk_key_id :: pystr
  tk_algorithms :: "pystr list"
  tk_valid_from :: pytime
  tk_valid_until :: "pytime option"
  tk_revoked_at :: "pytime option"

record retroactive_key_invalidation =
  ri_issuer :: pystr
  ri_key_id :: pystr
  ri_invalid_from :: pytime

record accepted_trust_snapshot =
  sn_trust_policy_version :: pystr
  sn_issuer :: pyval
  sn_key_id :: pyval
  sn_algorithm :: pyval
  sn_proof_domain :: pyval
  sn_allowed_algorithms :: "pystr list"
  sn_allowed_proof_domains :: "pystr list"
  sn_expected_issuers :: "pystr list"
  sn_allowed_domain_issuers :: "(pystr \<times> pystr) list"
  sn_key_algorithms :: "pystr list"
  sn_key_valid_from :: pytime
  sn_key_valid_until :: "pytime option"
  sn_key_revoked_at :: "pytime option"
  sn_clock_skew_microseconds :: int

record historical_acceptance =
  ha_canonical_record_digest :: pyval
  ha_issued_at :: instant
  ha_accepted_at :: pytime
  ha_accepted_trust :: accepted_trust_snapshot
  ha_accepted_trust_digest :: pyval
  ha_ledger_position :: int

record trust_context =
  tc_now :: pytime
  tc_trusted_keys :: "trusted_key list"
  tc_allowed_algorithms :: "pystr list"
  tc_allowed_proof_domains :: "pystr list"
  tc_expected_issuers :: "pystr list"
  tc_allowed_domain_issuers :: "(pystr \<times> pystr) list"
  tc_trust_policy_version :: pystr
  tc_clock_skew :: int
  tc_historical_acceptances :: "historical_acceptance list"
  tc_retroactive_invalidations :: "retroactive_key_invalidation list"

record proof_call =
  pc_issuer :: pyval
  pc_key_id :: pyval
  pc_algorithm :: pyval
  pc_proof_domain :: pyval
  pc_object_digest :: pyval
  pc_nonce :: pyval
  pc_detached_proof :: pyval
  pc_unsigned_bytes :: "nat list"

type_synonym verifier = "proof_call \<Rightarrow> pyval res"

abbreviation proof_fail :: "bool \<Rightarrow> string \<Rightarrow> unit res" where
  "proof_fail c msg \<equiv> deny c ProofVerificationError msg"

section \<open>Times\<close>

fun aware :: "pytime \<Rightarrow> instant res" where
  "aware (Aware t) = Inr t"
| "aware (Naive t) = Inl (Exc ProofVerificationError ''must be timezone-aware'')"

lemma aware_Inr [res_simps]: "aware p = Inr t \<longleftrightarrow> p = Aware t"
  by (cases p) auto

fun aware_option :: "pytime option \<Rightarrow> instant option res" where
  "aware_option None = Inr None"
| "aware_option (Some p) = bindE (aware p) (\<lambda>t. Inr (Some t))"

lemma aware_option_Inr [res_simps]: "aware_option p = Inr q \<longleftrightarrow> p = map_option Aware q"
  by (cases p; cases q) (auto simp: aware_Inr bindE_Inr_iff)

fun canonical_timestamp :: "pytime option \<Rightarrow> pyval res" where
  "canonical_timestamp None = Inr PNone"
| "canonical_timestamp (Some p) = bindE (aware p) (\<lambda>t. Inr (PStr (utc_micros_text t)))"

section \<open>Snapshots\<close>

abbreviation str_tuple :: "pystr list \<Rightarrow> pyval" where
  "str_tuple xs \<equiv> PTuple (map PStr xs)"

definition snapshot_payload :: "accepted_trust_snapshot \<Rightarrow> pyval res" where
  "snapshot_payload s =
     bindE (canonical_timestamp (Some (sn_key_valid_from s))) (\<lambda>vf.
     bindE (canonical_timestamp (sn_key_valid_until s)) (\<lambda>vu.
     bindE (canonical_timestamp (sn_key_revoked_at s)) (\<lambda>rv.
     Inr (PDict
      [(S ''trust_policy_version'', PStr (sn_trust_policy_version s)),
       (S ''proof'', PDict
         [(S ''issuer'', sn_issuer s), (S ''key_id'', sn_key_id s),
          (S ''algorithm'', sn_algorithm s), (S ''proof_domain'', sn_proof_domain s)]),
       (S ''policy'', PDict
         [(S ''allowed_algorithms'', str_tuple (sn_allowed_algorithms s)),
          (S ''allowed_proof_domains'', str_tuple (sn_allowed_proof_domains s)),
          (S ''expected_issuers'', str_tuple (sn_expected_issuers s)),
          (S ''allowed_domain_issuers'',
             PTuple (map (\<lambda>(d, i). PTuple [PStr d, PStr i]) (sn_allowed_domain_issuers s))),
          (S ''clock_skew_microseconds'', PInt (sn_clock_skew_microseconds s))]),
       (S ''key'', PDict
         [(S ''algorithms'', str_tuple (sn_key_algorithms s)),
          (S ''valid_from'', vf), (S ''valid_until'', vu), (S ''revoked_at'', rv)])]))))"

definition accepted_trust_snapshot_digest :: "env \<Rightarrow> accepted_trust_snapshot \<Rightarrow> pyval res" where
  "accepted_trust_snapshot_digest E s = bindE (snapshot_payload s) (sha256_digest (hash E))"

definition clock_skew_microseconds :: "int \<Rightarrow> int res" where
  "clock_skew_microseconds skew =
     reject_if (skew < 0) ProofVerificationError ''clock skew is invalid''
       (reject_if (skew > MAX_SAFE_INTEGER) ProofVerificationError
         ''clock skew exceeds canonical integer range'' (Inr skew))"

definition sorted_set :: "'a::linorder list \<Rightarrow> 'a list" where
  "sorted_set xs = sort (remdups xs)"

definition require_normalized_strings :: "pystr list \<Rightarrow> unit res" where
  "require_normalized_strings vs =
     proof_fail ((\<exists>v\<in>set vs. v = []) \<or> vs \<noteq> sorted_set vs) ''accepted trust snapshot is not canonical''"

definition require_normalized_domain_issuers :: "(pystr \<times> pystr) list \<Rightarrow> unit res" where
  "require_normalized_domain_issuers vs =
     proof_fail ((\<exists>v\<in>set vs. fst v = [] \<or> snd v = []) \<or> vs \<noteq> sorted_set vs)
       ''accepted trust snapshot allowed_domain_issuers is not canonical''"

section \<open>Retroactive invalidation\<close>

definition enforce_retroactive_invalidation ::
  "pyval \<Rightarrow> instant \<Rightarrow> trust_context \<Rightarrow> unit res" where
  "enforce_retroactive_invalidation prf issued T =
     (if tc_retroactive_invalidations T = [] then Inr () else
      bindE (item prf ''issuer'') (\<lambda>iss.
      bindE (if \<exists>i\<in>set (tc_retroactive_invalidations T). PStr (ri_issuer i) = iss
             then item prf ''key_id'' else Inr PNone) (\<lambda>kid.
      case filter (\<lambda>i. PStr (ri_issuer i) = iss \<and> PStr (ri_key_id i) = kid)
             (tc_retroactive_invalidations T) of
        [] \<Rightarrow> Inr ()
      | [i] \<Rightarrow> bindE (aware (ri_invalid_from i)) (\<lambda>from.
          proof_fail (issued \<ge> from) ''falls within a retroactive key revocation boundary'')
      | _ \<Rightarrow> proof_fail True ''proof key has duplicate retroactive invalidations'')))"

section \<open>First acceptance\<close>

definition trusted_key_of :: "pyval \<Rightarrow> trust_context \<Rightarrow> trusted_key res" where
  "trusted_key_of prf T =
     bindE (if tc_trusted_keys T = [] then Inr PNone else item prf ''issuer'') (\<lambda>iss.
     bindE (if \<exists>k\<in>set (tc_trusted_keys T). PStr (tk_issuer k) = iss
            then item prf ''key_id'' else Inr PNone) (\<lambda>kid.
     case filter (\<lambda>k. PStr (tk_issuer k) = iss \<and> PStr (tk_key_id k) = kid) (tc_trusted_keys T) of
       [k] \<Rightarrow> Inr k
     | _ \<Rightarrow> Inl (Exc ProofVerificationError ''proof key is not uniquely trusted'')))"

definition accepted_trust_of :: "pyval \<Rightarrow> trust_context \<Rightarrow> trusted_key \<Rightarrow> accepted_trust_snapshot res" where
  "accepted_trust_of prf T k =
     bindE (item prf ''issuer'') (\<lambda>iss.
     bindE (item prf ''key_id'') (\<lambda>kid.
     bindE (item prf ''algorithm'') (\<lambda>alg.
     bindE (item prf ''proof_domain'') (\<lambda>dmn.
     bindE (aware (tk_valid_from k)) (\<lambda>vf.
     bindE (aware_option (tk_valid_until k)) (\<lambda>vu.
     bindE (aware_option (tk_revoked_at k)) (\<lambda>rv.
     bindE (clock_skew_microseconds (tc_clock_skew T)) (\<lambda>skew.
     Inr \<lparr> sn_trust_policy_version = tc_trust_policy_version T,
           sn_issuer = iss, sn_key_id = kid, sn_algorithm = alg, sn_proof_domain = dmn,
           sn_allowed_algorithms = sorted_set (tc_allowed_algorithms T),
           sn_allowed_proof_domains = sorted_set (tc_allowed_proof_domains T),
           sn_expected_issuers = sorted_set (tc_expected_issuers T),
           sn_allowed_domain_issuers = sorted_set (tc_allowed_domain_issuers T),
           sn_key_algorithms = sorted_set (tk_algorithms k),
           sn_key_valid_from = Aware vf,
           sn_key_valid_until = map_option Aware vu,
           sn_key_revoked_at = map_option Aware rv,
           sn_clock_skew_microseconds = skew \<rparr>))))))))"

definition above :: "instant option \<Rightarrow> instant \<Rightarrow> bool" where
  "above limit t \<longleftrightarrow> (case limit of None \<Rightarrow> False | Some l \<Rightarrow> t > l)"

definition key_window_ok :: "instant \<Rightarrow> instant \<Rightarrow> instant \<Rightarrow> int \<Rightarrow> trusted_key \<Rightarrow> unit res" where
  "key_window_ok now issued expires skew k =
     bindE (aware (tk_valid_from k)) (\<lambda>vf.
     bindE (aware_option (tk_valid_until k)) (\<lambda>vu.
     bindE (aware_option (tk_revoked_at k)) (\<lambda>rv. seqE
      [proof_fail (case vu of None \<Rightarrow> False | Some u \<Rightarrow> u < vf) ''key validity window is inverted'',
       proof_fail (now > expires + skew) ''expired before first acceptance'',
       proof_fail (issued > now + skew) ''issuance time is in the future'',
       proof_fail (issued < vf - skew) ''predates key validity'',
       proof_fail (above (map_option (\<lambda>u. u + skew) vu) issued) ''postdates key validity'',
       proof_fail (case rv of None \<Rightarrow> False | Some r \<Rightarrow> r \<le> now) ''key is revoked for first acceptance''])))"

definition in_pairs :: "pystr \<Rightarrow> pyval \<Rightarrow> (pystr \<times> pystr) list \<Rightarrow> bool res" where
  "in_pairs d v ps = (if hashable v then Inr (\<exists>p\<in>set ps. fst p = d \<and> v = PStr (snd p))
                      else Inl (Exc TypeError ''unhashable type''))"

definition notE :: "bool res \<Rightarrow> bool res" where
  "notE m = bindE m (\<lambda>b. Inr (\<not> b))"

lemma notE_Inr [res_simps]: "notE m = Inr b \<longleftrightarrow> m = Inr (\<not> b)"
  by (auto simp: notE_def bindE_Inr_iff)

lemma in_pairs_True [res_simps]:
  "in_pairs d v ps = Inr True \<longleftrightarrow> (\<exists>i. v = PStr i \<and> (d, i) \<in> set ps)"
  by (force simp: in_pairs_def)

definition first_acceptance ::
  "pyval \<Rightarrow> pystr \<Rightarrow> instant \<Rightarrow> instant \<Rightarrow> instant \<Rightarrow> trust_context \<Rightarrow> accepted_trust_snapshot res" where
  "first_acceptance prf dmn now issued expires T =
     bindE (proof_fail (tc_trust_policy_version T = []) ''current trust policy version is missing'') (\<lambda>_.
     bindE (clock_skew_microseconds (tc_clock_skew T)) (\<lambda>skew.
     bindE (proof_fail (dmn \<notin> set (tc_allowed_proof_domains T)) ''proof domain is not allowed'') (\<lambda>_.
     bindE (item prf ''issuer'') (\<lambda>iss.
     bindE (denyE (notE (in_names iss (tc_expected_issuers T))) ProofVerificationError
              ''proof issuer is not allowed'') (\<lambda>_.
     bindE (denyE (notE (in_pairs dmn iss (tc_allowed_domain_issuers T))) ProofVerificationError
              ''proof issuer is not allowed for the proof domain'') (\<lambda>_.
     bindE (item prf ''algorithm'') (\<lambda>alg.
     bindE (denyE (notE (in_names alg (tc_allowed_algorithms T))) ProofVerificationError
              ''proof algorithm is not allowed'') (\<lambda>_.
     bindE (trusted_key_of prf T) (\<lambda>k.
     bindE (denyE (notE (in_names alg (tk_algorithms k))) ProofVerificationError
              ''proof algorithm is not allowed for the key'') (\<lambda>_.
     bindE (key_window_ok now issued expires (tc_clock_skew T) k) (\<lambda>_.
       accepted_trust_of prf T k)))))))))))"

section \<open>Recorded acceptance\<close>

definition validate_historical_acceptance ::
  "env \<Rightarrow> historical_acceptance \<Rightarrow> pyval \<Rightarrow> pyval \<Rightarrow> instant \<Rightarrow> instant \<Rightarrow> unit res" where
  "validate_historical_acceptance E h cdigest prf issued expires =
     (let s = ha_accepted_trust h; skew = sn_clock_skew_microseconds s in
      bindE (seqE
       [proof_fail (ha_ledger_position h < 0) ''historical acceptance metadata is incomplete'',
        proof_fail (neq (ha_canonical_record_digest h) cdigest)
          ''historical acceptance does not exactly match the record'',
        proof_fail (ha_issued_at h \<noteq> issued)
          ''historical acceptance does not exactly match issuance time'']) (\<lambda>_.
      bindE (aware (ha_accepted_at h)) (\<lambda>accepted.
      bindE (accepted_trust_snapshot_digest E s) (\<lambda>x.
      bindE (seqE
       [proof_fail (neq (ha_accepted_trust_digest h) x)
          ''historical acceptance trust snapshot digest is invalid'',
        proof_fail (sn_trust_policy_version s = []) ''historical acceptance trust policy is missing'',
        require_normalized_strings (sn_allowed_algorithms s),
        require_normalized_strings (sn_allowed_proof_domains s),
        require_normalized_strings (sn_expected_issuers s),
        require_normalized_domain_issuers (sn_allowed_domain_issuers s),
        require_normalized_strings (sn_key_algorithms s)]) (\<lambda>_.
      bindE (item prf ''issuer'') (\<lambda>iss.
      bindE (item prf ''key_id'') (\<lambda>kid.
      bindE (item prf ''algorithm'') (\<lambda>alg.
      bindE (item prf ''proof_domain'') (\<lambda>dmn.
      bindE (seqE
       [proof_fail (neq (sn_issuer s) iss \<or> neq (sn_key_id s) kid \<or> neq (sn_algorithm s) alg \<or>
                    neq (sn_proof_domain s) dmn)
          ''historical acceptance does not exactly match proof trust'',
        proof_fail (sn_algorithm s \<notin> set (map PStr (sn_allowed_algorithms s)))
          ''historical trust snapshot disallows the proof algorithm'',
        proof_fail (sn_proof_domain s \<notin> set (map PStr (sn_allowed_proof_domains s)))
          ''historical trust snapshot disallows the proof domain'',
        proof_fail (sn_issuer s \<notin> set (map PStr (sn_expected_issuers s)))
          ''historical trust snapshot disallows the proof issuer'',
        proof_fail ((sn_proof_domain s, sn_issuer s) \<notin>
                      set (map (\<lambda>(d, i). (PStr d, PStr i)) (sn_allowed_domain_issuers s)))
          ''historical trust snapshot disallows the domain issuer'',
        proof_fail (sn_algorithm s \<notin> set (map PStr (sn_key_algorithms s)))
          ''historical trust snapshot disallows the key algorithm'',
        proof_fail (skew < 0 \<or> skew > MAX_SAFE_INTEGER)
          ''historical trust snapshot clock skew is invalid'']) (\<lambda>_.
      bindE (aware (sn_key_valid_from s)) (\<lambda>vf.
      bindE (aware_option (sn_key_valid_until s)) (\<lambda>vu.
      bindE (aware_option (sn_key_revoked_at s)) (\<lambda>rv. seqE
       [proof_fail (issued > accepted + skew \<or> accepted > expires + skew)
          ''historical first-acceptance time is outside signed-record validity'',
        proof_fail (issued < vf - skew) ''historical signed record predates accepted key validity'',
        proof_fail (case vu of None \<Rightarrow> False | Some u \<Rightarrow> u < vf)
          ''historical trust snapshot key validity is inverted'',
        proof_fail (above (map_option (\<lambda>u. u + skew) vu) issued)
          ''historical signed record postdates accepted key validity'',
        proof_fail (case rv of None \<Rightarrow> False | Some r \<Rightarrow> r \<le> accepted)
          ''historical trust snapshot records a revoked key''])))))))))))))"

section \<open>Verification of a signed record\<close>

definition call_verifier :: "verifier \<Rightarrow> dict \<Rightarrow> pyval \<Rightarrow> unit res" where
  "call_verifier V r prf =
     bindE (item prf ''issuer'') (\<lambda>iss.
     bindE (item prf ''key_id'') (\<lambda>kid.
     bindE (item prf ''algorithm'') (\<lambda>alg.
     bindE (item prf ''proof_domain'') (\<lambda>pd.
     bindE (item prf ''object_digest'') (\<lambda>od.
     bindE (item prf ''nonce'') (\<lambda>nonce.
     bindE (item prf ''detached_proof'') (\<lambda>sig.
     bindE (canonical_bytes (PDict (unsigned_body r))) (\<lambda>body.
     bindE (V \<lparr> pc_issuer = iss, pc_key_id = kid, pc_algorithm = alg, pc_proof_domain = pd,
               pc_object_digest = od, pc_nonce = nonce, pc_detached_proof = sig,
               pc_unsigned_bytes = body \<rparr>) (\<lambda>verified.
       proof_fail (verified \<noteq> PBool True) ''detached proof verification failed'')))))))))"

definition verify_signed_record_in ::
  "env \<Rightarrow> verifier \<Rightarrow> trust_context \<Rightarrow> pyval \<Rightarrow> schema_store \<Rightarrow> bool \<Rightarrow> pyval \<Rightarrow> historical_acceptance res" where
  "verify_signed_record_in E V T expected st allow_historical signed =
     bindE (as_record signed) (\<lambda>r.
     bindE (aware (tc_now T)) (\<lambda>now.
     bindE (denyE (notE (in_names (rt_of r) (map fst SIGNED_PROOF_DOMAINS))) ProofVerificationError
              ''record type does not define a signed proof domain'') (\<lambda>_.
     bindE (validate_record_in E st expected True (PDict r)) (\<lambda>_.
     bindE (ditem r ''proof'') (\<lambda>prf.
     bindE (case proof_domain_for (rt_of r) of None \<Rightarrow> Inl (Exc KeyError ''record_type'') | Some d \<Rightarrow> Inr d) (\<lambda>dmn.
     bindE (item prf ''proof_domain'') (\<lambda>pd.
     bindE (proof_fail (pd \<noteq> PStr dmn) ''proof domain does not match the signed record type'') (\<lambda>_.
     bindE (time_item r ''issued_at'') (\<lambda>issued.
     bindE (time_item r ''expires_at'') (\<lambda>expires.
     bindE (enforce_retroactive_invalidation prf issued T) (\<lambda>_.
     bindE (sha256_digest (hash E) (PDict r)) (\<lambda>cdigest.
     let matches = (if allow_historical
           then filter (\<lambda>h. py_eq (ha_canonical_record_digest h) cdigest) (tc_historical_acceptances T)
           else [])
     in bindE (proof_fail (length matches > 1) ''signed record has duplicate historical acceptances'') (\<lambda>_.
     case matches of
       [] \<Rightarrow>
         bindE (first_acceptance prf dmn now issued expires T) (\<lambda>accepted.
         bindE (call_verifier V r prf) (\<lambda>_.
         bindE (accepted_trust_snapshot_digest E accepted) (\<lambda>x.
         Inr \<lparr> ha_canonical_record_digest = cdigest, ha_issued_at = issued,
               ha_accepted_at = tc_now T, ha_accepted_trust = accepted,
               ha_accepted_trust_digest = x, ha_ledger_position = -1 \<rparr>)))
     | h # _ \<Rightarrow>
         bindE (validate_historical_acceptance E h cdigest prf issued expires) (\<lambda>_.
         bindE (call_verifier V r prf) (\<lambda>_. Inr h)))))))))))))))"

text \<open>The public entry point, with the default schema store.\<close>

definition verify_signed_record ::
  "env \<Rightarrow> verifier \<Rightarrow> trust_context \<Rightarrow> pyval \<Rightarrow> bool \<Rightarrow> pyval \<Rightarrow> historical_acceptance res" where
  "verify_signed_record E V T expected allow_historical signed =
     verify_signed_record_in E V T expected (store E) allow_historical signed"

definition verify_runtime_receipt ::
  "env \<Rightarrow> verifier \<Rightarrow> trust_context \<Rightarrow> pyval \<Rightarrow> pyval \<Rightarrow> historical_acceptance res" where
  "verify_runtime_receipt E V T expected receipt =
     bindE (as_record receipt) (\<lambda>r.
     bindE (denyE (notE (in_names (rt_of r) (map S [''activation_receipt'', ''rollback_receipt''])))
              ProofVerificationError ''only runtime activation/rollback receipts are accepted'') (\<lambda>_.
     bindE (proof_fail (dget r ''issuer_role'' \<noteq> PS ''runtime_authority'')
              ''receipt issuer_role is not runtime_authority'') (\<lambda>_.
       verify_signed_record_in E V T expected (store E) True (PDict r))))"

definition acceptances_of :: "trust_context \<Rightarrow> pyval \<Rightarrow> historical_acceptance list" where
  "acceptances_of T x = filter (\<lambda>h. py_eq (ha_canonical_record_digest h) x) (tc_historical_acceptances T)"

definition validate_rollback_lifecycle ::
  "env \<Rightarrow> verifier \<Rightarrow> trust_context \<Rightarrow> pyval \<Rightarrow> pyval \<Rightarrow> pyval \<Rightarrow> unit res" where
  "validate_rollback_lifecycle E V T expected rollback activation =
     bindE (as_record rollback) (\<lambda>r.
     bindE (as_record activation) (\<lambda>a.
     bindE (proof_fail (rt_of r \<noteq> PS ''rollback_receipt'')
              ''rollback lifecycle requires a rollback receipt'') (\<lambda>_.
     bindE (proof_fail (rt_of a \<noteq> PS ''activation_receipt'')
              ''rollback lifecycle requires an activation receipt'') (\<lambda>_.
     bindE (sha256_digest (hash E) (PDict a)) (\<lambda>adg.
     bindE (sha256_digest (hash E) (PDict r)) (\<lambda>rdg.
     bindE (seqE
       [proof_fail (length (acceptances_of T adg) \<noteq> 1)
          ''rollback lifecycle requires exactly one historical activation acceptance'',
        proof_fail (length (acceptances_of T rdg) \<noteq> 1)
          ''rollback lifecycle requires exactly one historical rollback acceptance'']) (\<lambda>_.
     bindE (verify_runtime_receipt E V T expected (PDict a)) (\<lambda>ah.
     bindE (verify_runtime_receipt E V T expected (PDict r)) (\<lambda>rh.
     bindE (validate_rollback_activation_binding (PDict r) (PDict a)) (\<lambda>_. seqE
       [proof_fail (ha_ledger_position ah < 0 \<or> ha_ledger_position rh < 0)
          ''rollback lifecycle ledger positions are malformed'',
        proof_fail (ha_ledger_position ah \<ge> ha_ledger_position rh)
          ''historical activation acceptance must precede rollback acceptance'']))))))))))"

definition artifact_active_body ::
  "env \<Rightarrow> verifier \<Rightarrow> trust_context \<Rightarrow> pyval \<Rightarrow> pyval \<Rightarrow> pyval \<Rightarrow> bool res" where
  "artifact_active_body E V T expected delivery receipt =
     bindE (as_record delivery) (\<lambda>d.
     bindE (as_record receipt) (\<lambda>r.
     if rt_of d \<noteq> PS ''delivery_envelope'' then Inr False
     else if dget d ''lifecycle_state'' \<noteq> PS ''delivered'' then Inr False
     else if rt_of r \<noteq> PS ''activation_receipt'' then Inr False
     else bindE (verify_signed_record E V T expected True (PDict d)) (\<lambda>dh.
          bindE (verify_runtime_receipt E V T expected (PDict r)) (\<lambda>rh.
          if \<not> (0 \<le> ha_ledger_position dh \<and> ha_ledger_position dh < ha_ledger_position rh)
          then Inr False
          else bindE (validate_activation_delivery_binding (PDict r) (PDict d)) (\<lambda>_. Inr True)))))"

definition learning_artifact_is_active ::
  "env \<Rightarrow> verifier \<Rightarrow> trust_context \<Rightarrow> pyval \<Rightarrow> pyval \<Rightarrow> pyval option \<Rightarrow> bool res" where
  "learning_artifact_is_active E V T expected delivery receipt = (case receipt of
     None \<Rightarrow> Inr False
   | Some rc \<Rightarrow> catchE ContractError
       (catchE TypeError (artifact_active_body E V T expected delivery rc) (Inr False)) (Inr False))"

section \<open>What acceptance means\<close>

lemma call_verifier_inv:
  assumes "call_verifier V r prf = Inr u"
  shows "\<exists>p c. prf = PDict p \<and> V c = Inr (PBool True) \<and>
     canonical_bytes (PDict (unsigned_body r)) = Inr (pc_unsigned_bytes c) \<and>
     pc_issuer c = dget p ''issuer'' \<and> pc_key_id c = dget p ''key_id'' \<and>
     pc_algorithm c = dget p ''algorithm'' \<and> pc_proof_domain c = dget p ''proof_domain'' \<and>
     pc_object_digest c = dget p ''object_digest'' \<and> pc_nonce c = dget p ''nonce'' \<and>
     pc_detached_proof c = dget p ''detached_proof''"
proof -
  obtain p iss kid alg pd od nonce sig body where p: "prf = PDict p"
    "map_of p (S ''issuer'') = Some iss" "map_of p (S ''key_id'') = Some kid"
    "map_of p (S ''algorithm'') = Some alg" "map_of p (S ''proof_domain'') = Some pd"
    "map_of p (S ''object_digest'') = Some od" "map_of p (S ''nonce'') = Some nonce"
    "map_of p (S ''detached_proof'') = Some sig" "canonical_bytes (PDict (unsigned_body r)) = Inr body"
    and v: "V \<lparr> pc_issuer = iss, pc_key_id = kid, pc_algorithm = alg, pc_proof_domain = pd,
               pc_object_digest = od, pc_nonce = nonce, pc_detached_proof = sig,
               pc_unsigned_bytes = body \<rparr> = Inr (PBool True)"
    using assms by (auto simp: call_verifier_def res_simps)
  show ?thesis
    by (intro exI [of _ p] exI conjI, rule p(1), rule v) (simp_all add: p dget_Some)
qed

lemma single_case: "(case xs of [] \<Rightarrow> Inl e | [k] \<Rightarrow> Inr k | k # x # y \<Rightarrow> Inl e) = Inr k \<longleftrightarrow> xs = [k]"
  by (auto split: list.splits)

lemma trusted_key_inv:
  assumes "trusted_key_of (PDict p) T = Inr k"
  shows "k \<in> set (tc_trusted_keys T)" "dget p ''issuer'' = PStr (tk_issuer k)"
    and "dget p ''key_id'' = PStr (tk_key_id k)"
    and "filter (\<lambda>k'. tk_issuer k' = tk_issuer k \<and> tk_key_id k' = tk_key_id k) (tc_trusted_keys T) = [k]"
proof -
  obtain iss kid where f: "filter (\<lambda>k. PStr (tk_issuer k) = iss \<and> PStr (tk_key_id k) = kid)
      (tc_trusted_keys T) = [k]"
    and iss: "tc_trusted_keys T \<noteq> [] \<longrightarrow> map_of p (S ''issuer'') = Some iss"
    and kid: "(\<exists>k\<in>set (tc_trusted_keys T). PStr (tk_issuer k) = iss) \<longrightarrow> map_of p (S ''key_id'') = Some kid"
    using assms unfolding trusted_key_of_def bindE_Inr_iff single_case
    by (auto simp: res_simps split: if_splits)
  have "k \<in> set (filter (\<lambda>k. PStr (tk_issuer k) = iss \<and> PStr (tk_key_id k) = kid) (tc_trusted_keys T))"
    using f by simp
  then have k: "k \<in> set (tc_trusted_keys T)" "iss = PStr (tk_issuer k)" "kid = PStr (tk_key_id k)"
    by auto
  show "k \<in> set (tc_trusted_keys T)" by (rule k(1))
  show "dget p ''issuer'' = PStr (tk_issuer k)" using iss k by (auto intro!: dget_Some)
  show "dget p ''key_id'' = PStr (tk_key_id k)" using kid k by (auto intro!: dget_Some)
  show "filter (\<lambda>k'. tk_issuer k' = tk_issuer k \<and> tk_key_id k' = tk_key_id k) (tc_trusted_keys T) = [k]"
    using f k by simp
qed

text \<open>The facts a successful verification passed, in the order the code tests them.\<close>

lemma verify_inv:
  assumes "verify_signed_record_in E V T expected st allow signed = Inr h"
  obtains d p now dmn issued expires cdigest where
    "signed = PDict d" "tc_now T = Aware now" "validate_record_in E st expected True (PDict d) = Inr ()"
    "map_of d (S ''proof'') = Some (PDict p)" "proof_domain_for (rt_of d) = Some dmn"
    "dget p ''proof_domain'' = PStr dmn"
    "time_item d ''issued_at'' = Inr issued" "time_item d ''expires_at'' = Inr expires"
    "enforce_retroactive_invalidation (PDict p) issued T = Inr ()"
    "sha256_digest (hash E) (PDict d) = Inr cdigest"
    "call_verifier V d (PDict p) = Inr ()"
    "(\<exists>a x. first_acceptance (PDict p) dmn now issued expires T = Inr a \<and>
        (allow \<longrightarrow> acceptances_of T cdigest = []) \<and>
        accepted_trust_snapshot_digest E a = Inr x \<and>
        h = \<lparr> ha_canonical_record_digest = cdigest, ha_issued_at = issued,
               ha_accepted_at = tc_now T, ha_accepted_trust = a,
               ha_accepted_trust_digest = x, ha_ledger_position = -1 \<rparr>) \<or>
     (allow \<and> acceptances_of T cdigest = [h] \<and>
        validate_historical_acceptance E h cdigest (PDict p) issued expires = Inr ())"
proof -
  obtain d now pf dmn pd issued expires cdigest where
    d: "signed = PDict d" "tc_now T = Aware now" "validate_record_in E st expected True (PDict d) = Inr ()"
    "map_of d (S ''proof'') = Some pf" "proof_domain_for (rt_of d) = Some dmn"
    "item pf ''proof_domain'' = Inr pd" "pd = PStr dmn"
    "time_item d ''issued_at'' = Inr issued" "time_item d ''expires_at'' = Inr expires"
    "enforce_retroactive_invalidation pf issued T = Inr ()"
    "sha256_digest (hash E) (PDict d) = Inr cdigest"
    and rest: "(let matches = (if allow then acceptances_of T cdigest else [])
      in bindE (proof_fail (length matches > 1) ''signed record has duplicate historical acceptances'') (\<lambda>_.
     case matches of
       [] \<Rightarrow>
         bindE (first_acceptance pf dmn now issued expires T) (\<lambda>accepted.
         bindE (call_verifier V d pf) (\<lambda>_.
         bindE (accepted_trust_snapshot_digest E accepted) (\<lambda>x.
         Inr \<lparr> ha_canonical_record_digest = cdigest, ha_issued_at = issued,
               ha_accepted_at = tc_now T, ha_accepted_trust = accepted,
               ha_accepted_trust_digest = x, ha_ledger_position = -1 \<rparr>)))
     | h # _ \<Rightarrow>
         bindE (validate_historical_acceptance E h cdigest pf issued expires) (\<lambda>_.
         bindE (call_verifier V d pf) (\<lambda>_. Inr h)))) = Inr h"
    using assms unfolding verify_signed_record_in_def bindE_Inr_iff acceptances_of_def [symmetric]
    by (auto simp: as_record_Inr aware_Inr ditem_Inr_iff deny_Inr_iff split: option.splits)
  obtain p where p: "pf = PDict p" "dget p ''proof_domain'' = PStr dmn"
    using d(6,7) by (auto simp: item_Inr_iff dget_Some)
  show thesis
  proof (rule that [OF d(1-3) _ d(5) p(2) d(8,9) _ d(11)])
    show "map_of d (S ''proof'') = Some (PDict p)" using d(4) p(1) by simp
    show "enforce_retroactive_invalidation (PDict p) issued T = Inr ()" using d(10) p(1) by simp
    show "call_verifier V d (PDict p) = Inr ()"
      using rest unfolding p(1) Let_def bindE_Inr_iff
      by (cases allow; cases "acceptances_of T cdigest") (auto simp: bindE_Inr_iff)
    show "(\<exists>a x. first_acceptance (PDict p) dmn now issued expires T = Inr a \<and>
        (allow \<longrightarrow> acceptances_of T cdigest = []) \<and>
        accepted_trust_snapshot_digest E a = Inr x \<and>
        h = \<lparr> ha_canonical_record_digest = cdigest, ha_issued_at = issued,
               ha_accepted_at = tc_now T, ha_accepted_trust = a,
               ha_accepted_trust_digest = x, ha_ledger_position = -1 \<rparr>) \<or>
     (allow \<and> acceptances_of T cdigest = [h] \<and>
        validate_historical_acceptance E h cdigest (PDict p) issued expires = Inr ())"
      using rest unfolding p(1) Let_def bindE_Inr_iff
      by (cases allow; cases "acceptances_of T cdigest") (auto simp: bindE_Inr_iff deny_Inr_iff)
  qed
qed

text \<open>First acceptance: the issuer, domain, algorithm and key are trusted now.\<close>

lemma first_acceptance_inv:
  assumes "first_acceptance (PDict p) dmn now issued expires T = Inr a"
  obtains k iss alg where
    "k \<in> set (tc_trusted_keys T)" "iss = tk_issuer k" "dget p ''issuer'' = PStr iss"
    "dget p ''key_id'' = PStr (tk_key_id k)" "dget p ''algorithm'' = PStr alg"
    "dmn \<in> set (tc_allowed_proof_domains T)" "iss \<in> set (tc_expected_issuers T)"
    "(dmn, iss) \<in> set (tc_allowed_domain_issuers T)" "alg \<in> set (tc_allowed_algorithms T)"
    "alg \<in> set (tk_algorithms k)" "0 \<le> tc_clock_skew T"
    "key_window_ok now issued expires (tc_clock_skew T) k = Inr ()"
    "accepted_trust_of (PDict p) T k = Inr a"
proof -
  obtain iss alg k where
    b: "dmn \<in> set (tc_allowed_proof_domains T)" "map_of p (S ''issuer'') = Some (PStr iss)"
    "iss \<in> set (tc_expected_issuers T)" "(dmn, iss) \<in> set (tc_allowed_domain_issuers T)"
    "map_of p (S ''algorithm'') = Some (PStr alg)" "alg \<in> set (tc_allowed_algorithms T)"
    "trusted_key_of (PDict p) T = Inr k" "alg \<in> set (tk_algorithms k)"
    "0 \<le> tc_clock_skew T"
    "key_window_ok now issued expires (tc_clock_skew T) k = Inr ()"
    "accepted_trust_of (PDict p) T k = Inr a"
    using assms unfolding first_acceptance_def clock_skew_microseconds_def
    by (auto simp: res_simps)
  note k = trusted_key_inv [OF b(7)]
  have "iss = tk_issuer k" using k(2) b(2) by (simp add: dget_Some)
  then show thesis
    using b k by (intro that [of k iss alg]) (auto simp: dget_Some)
qed

lemma key_window_inv:
  assumes "key_window_ok now issued expires skew k = Inr ()"
  shows "now \<le> expires + skew" "issued \<le> now + skew"
    and "\<exists>vf. tk_valid_from k = Aware vf \<and> vf - skew \<le> issued"
    and "\<And>r. tk_revoked_at k = Some (Aware r) \<Longrightarrow> now < r"
    and "\<And>u. tk_valid_until k = Some (Aware u) \<Longrightarrow> issued \<le> u + skew"
  using assms by (auto simp: key_window_ok_def res_simps above_def split: option.splits)

end
