(* ===== verification/Grants.thy ===== *)
theory Grants
  imports Trust
begin

text \<open>
  \<open>validate_grant_binding\<close> of \<open>contracts/validation.py\<close>: an authorization grant is accepted
  against its request, its policy decision and the approvals it references. The section on
  soundness shows what every accepted grant satisfies.
\<close>

section \<open>Constraint bindings\<close>

type_synonym bindings = "((pyval \<times> pyval) \<times> pyval) list"

definition key_eq :: "pyval \<times> pyval \<Rightarrow> pyval \<times> pyval \<Rightarrow> bool" where
  "key_eq a b \<longleftrightarrow> py_eq (fst a) (fst b) \<and> py_eq (snd a) (snd b)"

definition bindings_get :: "bindings \<Rightarrow> pyval \<times> pyval \<Rightarrow> pyval" where
  "bindings_get bs k = (case find (\<lambda>b. key_eq (fst b) k) bs of None \<Rightarrow> PNone | Some b \<Rightarrow> snd b)"

definition constraint_key :: "pyval \<Rightarrow> (pyval \<times> pyval) res" where
  "constraint_key c = bindE (item c ''constraint_id'') (\<lambda>i. bindE (item c ''constraint_version'') (\<lambda>v.
     if hashable i \<and> hashable v then Inr (i, v) else Inl (Exc TypeError ''unhashable type'')))"

fun collect_bindings :: "pyval list \<Rightarrow> bindings \<Rightarrow> bindings res" where
  "collect_bindings [] acc = Inr acc"
| "collect_bindings (c # cs) acc = bindE (constraint_key c) (\<lambda>k.
     reject_if (\<exists>b\<in>set acc. key_eq (fst b) k) SemanticError ''duplicate constraint binding''
       (bindE (item c ''parameters_digest'') (\<lambda>x. collect_bindings cs (acc @ [(k, x)]))))"

definition constraint_bindings :: "dict \<Rightarrow> bindings res" where
  "constraint_bindings source = bindE (get_elems source ''constraints'') (\<lambda>cs. collect_bindings cs [])"

definition covers_bindings :: "bindings \<Rightarrow> bindings \<Rightarrow> string \<Rightarrow> unit res" where
  "covers_bindings g bs msg = forE bs (\<lambda>b. deny (neq (bindings_get g (fst b)) (snd b)) SemanticError msg)"

section \<open>Supplied approvals\<close>

fun supply_approvals :: "pyval list \<Rightarrow> (pyval \<times> dict) list \<Rightarrow> (pyval \<times> dict) list res" where
  "supply_approvals [] acc = Inr acc"
| "supply_approvals (v # vs) acc = bindE (as_record v) (\<lambda>a.
     bindE (ditem a ''approval_id'') (\<lambda>i.
     if \<not> hashable i then Inl (Exc TypeError ''unhashable type'')
     else reject_if (\<exists>s\<in>set acc. py_eq (fst s) i) SemanticError ''duplicate supplied approval ID''
       (supply_approvals vs (acc @ [(i, a)]))))"

definition find_approval :: "(pyval \<times> dict) list \<Rightarrow> pyval \<Rightarrow> dict option res" where
  "find_approval supl i =
     (if \<not> hashable i then Inl (Exc TypeError ''unhashable type'')
      else Inr (map_option snd (find (\<lambda>s. py_eq (fst s) i) supl)))"

text \<open>One reference of the grant to a supplied approval.\<close>

definition check_approval_ref ::
  "env \<Rightarrow> verifier \<Rightarrow> trust_context \<Rightarrow> constraint_registry \<Rightarrow> dict \<Rightarrow> dict \<Rightarrow> dict \<Rightarrow> bindings
     \<Rightarrow> pyval \<Rightarrow> dict \<Rightarrow> unit res" where
  "check_approval_ref E V T R grant request policy gcs reference approval = seqE
    [validate_approval_binding (PDict approval) (PDict policy) (PDict request),
     validate_constraint_support approval R,
     bindE (item reference ''record_digest'') (\<lambda>rd.
       deny (neq (dget approval ''approval_digest'') rd) SemanticError
         ''grant approval reference digest mismatch''),
     deny (dget approval ''disposition'' \<noteq> PS ''approved'') SemanticError
       ''grant references a non-approved approval'',
     bindE (get_or (PDict approval) ''separation_of_duties'' (PDict [])) (\<lambda>duties.
     bindE (get duties ''required'') (\<lambda>required. if \<not> truthy required then Inr () else
     bindE (get duties ''satisfied'') (\<lambda>satisfied.
       deny (\<not> truthy satisfied) SemanticError
         ''grant references an approval that failed separation of duties''))),
     bindE (time_item grant ''issued_at'') (\<lambda>gi. bindE (time_item approval ''expires_at'') (\<lambda>ae.
       deny (gi > ae) SemanticError ''grant was issued after its approval expired'')),
     bindE (time_item approval ''issued_at'') (\<lambda>ai. bindE (time_item grant ''issued_at'') (\<lambda>gi.
       deny (ai > gi) SemanticError ''grant predates its approval'')),
     bindE (time_item grant ''expires_at'') (\<lambda>ge. bindE (time_item approval ''expires_at'') (\<lambda>ae.
       deny (ge > ae) SemanticError ''grant outlives its approval'')),
     bindE (constraint_bindings approval) (\<lambda>acs.
       covers_bindings gcs acs ''grant omits or changes approval constraint''),
     bindE (ditem grant ''tenant_id'') (\<lambda>tenant.
     bindE (verify_signed_record E V T tenant False (PDict approval)) (\<lambda>_. Inr ()))]"

definition grant_request_fields :: "string list" where
  "grant_request_fields = [''tenant_id'', ''actor_id'', ''run_id'', ''request_id'',
     ''request_digest'', ''tool_id'', ''tool_version'']"

text \<open>The checks of the grant against the request and the policy alone.\<close>

definition grant_checks :: "constraint_registry \<Rightarrow> dict \<Rightarrow> dict \<Rightarrow> dict \<Rightarrow> unit res" where
  "grant_checks R g r p = seqE
      [validate_policy_request_binding (PDict p) (PDict r),
       validate_constraint_support p R,
       validate_constraint_support g R,
       require_same g r grant_request_fields,
       same_field g ''policy_decision_id'' p ''decision_id''
         ''grant policy_decision_id does not bind the decision'',
       same_field g ''policy_decision_digest'' p ''decision_digest''
         ''grant policy_decision_digest does not bind the decision'',
       denyE (notE (in_names (dget p ''decision'') (map S [''authorize'', ''require_approval''])))
         SemanticError ''grant cannot be issued for this policy disposition'',
       deny (dget p ''isolation_profile'' = PS ''no_effect'') SemanticError
         ''no-effect policy cannot issue a grant'',
       same_field g ''isolation_profile'' p ''isolation_profile''
         ''grant isolation_profile does not exactly match policy decision'',
       bindE (time_item r ''requested_at'') (\<lambda>rq. bindE (time_item p ''decided_at'') (\<lambda>pd.
         deny (rq > pd) SemanticError ''policy decision predates its request'')),
       bindE (time_item p ''decided_at'') (\<lambda>pd. bindE (time_item g ''issued_at'') (\<lambda>gi.
         deny (pd > gi) SemanticError ''grant predates its policy decision''))]"

definition validate_grant_binding ::
  "env \<Rightarrow> verifier \<Rightarrow> trust_context \<Rightarrow> constraint_registry \<Rightarrow> pyval \<Rightarrow> pyval \<Rightarrow> pyval \<Rightarrow> pyval list
     \<Rightarrow> unit res" where
  "validate_grant_binding E V T R grant request policy approvals =
     bindE (as_record grant) (\<lambda>g. bindE (as_record request) (\<lambda>r. bindE (as_record policy) (\<lambda>p.
     bindE (grant_checks R g r p) (\<lambda>_.
     bindE (constraint_bindings g) (\<lambda>gcs.
     bindE (constraint_bindings p) (\<lambda>pcs.
     bindE (covers_bindings gcs pcs ''grant omits or changes policy constraint'') (\<lambda>_.
     bindE (supply_approvals approvals []) (\<lambda>supl.
     bindE (deny (dget p ''decision'' = PS ''require_approval'' \<and> \<not> truthy (dget g ''approval_refs''))
       SemanticError ''approval-required policy needs at least one bound approval'') (\<lambda>_.
     bindE (get_elems g ''approval_refs'') (\<lambda>refs.
     bindE (forE refs (\<lambda>reference.
       bindE (item reference ''record_id'') (\<lambda>i.
       bindE (find_approval supl i) (\<lambda>found. case found of
         None \<Rightarrow> Inl (Exc SemanticError ''grant approval reference has no supplied approval'')
       | Some approval \<Rightarrow> check_approval_ref E V T R g r p gcs reference approval)))) (\<lambda>_.
     bindE (ditem g ''tenant_id'') (\<lambda>tenant.
     bindE (verify_signed_record E V T tenant False (PDict g)) (\<lambda>_. Inr ())))))))))))))"

section \<open>Soundness\<close>

lemma grant_checks_inv:
  assumes "grant_checks R g r p = Inr u"
  shows "\<forall>f\<in>set grant_request_fields. py_eq (dget g f) (dget r f)"
    and "validate_policy_request_binding (PDict p) (PDict r) = Inr ()"
    and "py_eq (dget g ''policy_decision_id'') (dget p ''decision_id'')"
    and "py_eq (dget g ''policy_decision_digest'') (dget p ''decision_digest'')"
    and "dget p ''decision'' = PS ''authorize'' \<or> dget p ''decision'' = PS ''require_approval''"
    and "dget p ''isolation_profile'' \<noteq> PS ''no_effect''"
    and "py_eq (dget g ''isolation_profile'') (dget p ''isolation_profile'')"
    and "\<exists>pd gi. time_item p ''decided_at'' = Inr pd \<and> time_item g ''issued_at'' = Inr gi \<and> pd \<le> gi"
    and "validate_constraint_support g R = Inr ()"
  using assms unfolding grant_checks_def seqE_Inr_iff
  by (auto simp: require_same_Inr same_field_Inr denyE_Inr_iff deny_Inr_iff notE_Inr in_names_True
      bindE_Inr_iff)

lemma approval_ref_inv:
  assumes "check_approval_ref E V T R g r p gcs rf a = Inr u"
  shows "validate_approval_binding (PDict a) (PDict p) (PDict r) = Inr ()"
    and "dget a ''disposition'' = PS ''approved''"
    and "\<exists>x. item rf ''record_digest'' = Inr x \<and> py_eq (dget a ''approval_digest'') x"
    and "\<exists>ai gi ge ae. time_item a ''issued_at'' = Inr ai \<and> time_item g ''issued_at'' = Inr gi \<and>
           time_item g ''expires_at'' = Inr ge \<and> time_item a ''expires_at'' = Inr ae \<and>
           ai \<le> gi \<and> gi \<le> ae \<and> ge \<le> ae"
    and "\<exists>h. verify_signed_record E V T (dget g ''tenant_id'') False (PDict a) = Inr h"
  using assms unfolding check_approval_ref_def seqE_Inr_iff
  by (auto simp: bindE_Inr_iff deny_Inr_iff neq_def ditem_Inr_iff dget_Some)

lemma grant_inv:
  assumes "validate_grant_binding E V T R (PDict g) (PDict r) (PDict p) approvals = Inr u"
  shows "grant_checks R g r p = Inr ()"
    and "\<exists>h. verify_signed_record E V T (dget g ''tenant_id'') False (PDict g) = Inr h"
    and "dget p ''decision'' = PS ''require_approval'' \<Longrightarrow> truthy (dget g ''approval_refs'')"
    and "\<exists>gcs pcs supl refs. constraint_bindings g = Inr gcs \<and> constraint_bindings p = Inr pcs \<and>
      (\<forall>b\<in>set pcs. py_eq (bindings_get gcs (fst b)) (snd b)) \<and>
      supply_approvals approvals [] = Inr supl \<and> get_elems g ''approval_refs'' = Inr refs \<and>
      (\<forall>rf\<in>set refs. \<exists>i a. item rf ''record_id'' = Inr i \<and> find_approval supl i = Inr (Some a) \<and>
         check_approval_ref E V T R g r p gcs rf a = Inr ())"
proof -
  note inv = assms [unfolded validate_grant_binding_def as_record.simps bindE_simps]
  show "grant_checks R g r p = Inr ()" using inv by (auto simp: bindE_Inr_iff)
  show "\<exists>h. verify_signed_record E V T (dget g ''tenant_id'') False (PDict g) = Inr h"
    using inv by (auto simp: bindE_Inr_iff ditem_Inr_iff dget_Some)
  show "dget p ''decision'' = PS ''require_approval'' \<Longrightarrow> truthy (dget g ''approval_refs'')"
    using inv by (auto simp: bindE_Inr_iff deny_Inr_iff)
  obtain gcs pcs supl refs where 1: "constraint_bindings g = Inr gcs" "constraint_bindings p = Inr pcs"
      "covers_bindings gcs pcs ''grant omits or changes policy constraint'' = Inr ()"
      "supply_approvals approvals [] = Inr supl" "get_elems g ''approval_refs'' = Inr refs"
      and 2: "forE refs (\<lambda>reference.
       bindE (item reference ''record_id'') (\<lambda>i.
       bindE (find_approval supl i) (\<lambda>found. case found of
         None \<Rightarrow> Inl (Exc SemanticError ''grant approval reference has no supplied approval'')
       | Some approval \<Rightarrow> check_approval_ref E V T R g r p gcs reference approval))) = Inr ()"
    using inv unfolding bindE_Inr_iff by auto
  have "\<forall>b\<in>set pcs. py_eq (bindings_get gcs (fst b)) (snd b)"
    using 1(3) by (simp add: covers_bindings_def forE_Inr_iff deny_Inr_iff neq_def)
  moreover have "\<exists>i a. item rf ''record_id'' = Inr i \<and> find_approval supl i = Inr (Some a) \<and>
         check_approval_ref E V T R g r p gcs rf a = Inr ()" if "rf \<in> set refs" for rf
    using bspec [OF iffD1 [OF forE_Inr_iff 2] that]
    by (auto simp: bindE_Inr_iff split: option.splits)
  ultimately show "\<exists>gcs pcs supl refs. constraint_bindings g = Inr gcs \<and> constraint_bindings p = Inr pcs \<and>
      (\<forall>b\<in>set pcs. py_eq (bindings_get gcs (fst b)) (snd b)) \<and>
      supply_approvals approvals [] = Inr supl \<and> get_elems g ''approval_refs'' = Inr refs \<and>
      (\<forall>rf\<in>set refs. \<exists>i a. item rf ''record_id'' = Inr i \<and> find_approval supl i = Inr (Some a) \<and>
         check_approval_ref E V T R g r p gcs rf a = Inr ())"
    using 1 by blast
qed

end
