(* ===== verification/Policy.thy ===== *)
theory Policy
  imports Grants
begin

text \<open>
  The local policy of \<open>kernel/core.py\<close>: \<open>PolicyRule\<close> and \<open>PolicySet\<close> with the checks of
  their constructors, first-match evaluation with the mandatory deny fallback, and
  \<open>_merge_constraints\<close>. A frozenset is a list without regard to order or repetition.
\<close>

section \<open>Rules\<close>

record policy_rule =
  rule_id :: pystr
  rule_decision :: pystr
  rule_effect_classes :: "pyval list"
  rule_tool_ids :: "pyval list"
  rule_isolation_profile :: pystr
  rule_constraints :: "pyval list"

text \<open>\<open>[a-z][a-z0-9_.-]{2,127}\<close>\<close>

definition lower_letter :: "nat \<Rightarrow> bool" where
  "lower_letter c \<longleftrightarrow> 97 \<le> c \<and> c \<le> 122"

definition rule_name :: "pystr \<Rightarrow> bool" where
  "rule_name s \<longleftrightarrow> 3 \<le> length s \<and> length s \<le> 128 \<and> lower_letter (hd s) \<and>
     list_all (\<lambda>c. lower_letter c \<or> is_digit_char c \<or> c \<in> {95, 46, 45}) (tl s)"

definition config_fail :: "bool \<Rightarrow> string \<Rightarrow> unit res" where
  "config_fail c msg = deny c PolicyConfigurationError msg"

definition executable_profiles :: "pystr list" where
  "executable_profiles = map S [''none'', ''process'', ''container'', ''microvm'', ''network_restricted'']"

text \<open>\<open>PolicyRule.__post_init__\<close>\<close>

definition check_rule :: "policy_rule \<Rightarrow> unit res" where
  "check_rule r = seqE
    [config_fail (\<not> rule_name (rule_id r)) ''policy rule_id is malformed'',
     config_fail (rule_decision r \<notin> set (map S [''authorize'', ''deny'', ''require_approval'']))
       ''policy rule decision is unsupported'',
     config_fail (rule_effect_classes r = []) ''policy rule must cover at least one effect class'',
     config_fail (rule_decision r \<in> set (map S [''authorize'', ''require_approval'']) \<and>
                  rule_isolation_profile r \<notin> set executable_profiles)
       ''authorize and require_approval rules need a supported executable isolation profile'',
     config_fail (rule_decision r = S ''deny'' \<and> rule_isolation_profile r \<noteq> S ''no_effect'')
       ''deny rules must use no_effect isolation'',
     forE (rule_constraints r) (\<lambda>c. config_fail (\<not> (case c of PDict _ \<Rightarrow> True | _ \<Rightarrow> False))
       ''policy constraint must be a mapping'')]"

text \<open>\<open>frozenset(v)\<close>\<close>

definition frozenset :: "pyval \<Rightarrow> pyval list res" where
  "frozenset v = bindE (elems v) (\<lambda>xs.
     if list_all hashable xs then Inr xs else Inl (Exc TypeError ''unhashable type''))"

definition member :: "pyval \<Rightarrow> pyval list \<Rightarrow> bool" where
  "member x xs \<longleftrightarrow> (\<exists>y\<in>set xs. py_eq x y)"

definition rule_matches :: "policy_rule \<Rightarrow> dict \<Rightarrow> bool res" where
  "rule_matches r request = bindE (bindE (ditem request ''effect_classes'') frozenset) (\<lambda>requested.
     if \<not> (\<forall>x\<in>set requested. member x (rule_effect_classes r)) then Inr False
     else if rule_tool_ids r = [] then Inr True
     else bindE (ditem request ''tool_id'') (\<lambda>t.
       if hashable t then Inr (member t (rule_tool_ids r))
       else Inl (Exc TypeError ''unhashable type'')))"

section \<open>Policy sets\<close>

record policy_set =
  policy_rules :: "policy_rule list"
  policy_version :: pystr

text \<open>\<open>PolicySet.__post_init__\<close>\<close>

definition check_policy_set :: "policy_set \<Rightarrow> unit res" where
  "check_policy_set P = seqE
    [config_fail (policy_rules P = []) ''policy set requires at least one rule'',
     config_fail (\<not> rule_name (policy_version P)) ''policy version is malformed'',
     config_fail (\<not> distinct (map rule_id (policy_rules P))) ''policy rule IDs must be unique'']"

definition default_deny :: "policy_set \<Rightarrow> pyval list \<Rightarrow> policy_rule res" where
  "default_deny P requested =
     (let r = \<lparr> rule_id = policy_version P @ S ''.default_deny'', rule_decision = S ''deny'',
                rule_effect_classes = requested, rule_tool_ids = [],
                rule_isolation_profile = S ''no_effect'', rule_constraints = [] \<rparr>
      in bindE (check_rule r) (\<lambda>_. Inr r))"

fun first_match :: "policy_rule list \<Rightarrow> dict \<Rightarrow> policy_rule option res" where
  "first_match [] request = Inr None"
| "first_match (r # rs) request = bindE (rule_matches r request) (\<lambda>b.
     if b then Inr (Some r) else first_match rs request)"

definition evaluate :: "policy_set \<Rightarrow> dict \<Rightarrow> policy_rule res" where
  "evaluate P request = bindE (first_match (policy_rules P) request) (\<lambda>m. case m of
     Some r \<Rightarrow> Inr r
   | None \<Rightarrow> bindE (bindE (ditem request ''effect_classes'') frozenset) (default_deny P))"

section \<open>Merging constraints\<close>

type_synonym merged = "((pyval \<times> pyval) \<times> pyval) list"

text \<open>An equal key keeps its place and takes the new value.\<close>

fun merge_put :: "merged \<Rightarrow> pyval \<times> pyval \<Rightarrow> pyval \<Rightarrow> merged" where
  "merge_put [] k v = [(k, v)]"
| "merge_put ((k', v') # m) k v = (if key_eq k' k then (k', v) # m else (k', v') # merge_put m k v)"

fun merge_all :: "pyval list \<Rightarrow> merged \<Rightarrow> merged res" where
  "merge_all [] m = Inr m"
| "merge_all (c # cs) m = bindE (constraint_key c) (\<lambda>k.
     let existing = bindings_get m k
     in reject_if (existing \<noteq> PNone \<and> neq existing c) LifecycleError ''conflicting constraint binding''
          (merge_all cs (merge_put m k c)))"

fun merge_records :: "dict list \<Rightarrow> merged \<Rightarrow> merged res" where
  "merge_records [] m = Inr m"
| "merge_records (r # rs) m = bindE (get_elems r ''constraints'') (\<lambda>cs.
     bindE (merge_all cs m) (merge_records rs))"

definition merge_constraints :: "dict list \<Rightarrow> pyval list res" where
  "merge_constraints rs = bindE (merge_records rs []) (\<lambda>m. Inr (map snd m))"

section \<open>Default deny\<close>

lemma evaluate_cases:
  assumes "evaluate P request = Inr r"
  shows "(r \<in> set (policy_rules P) \<and> rule_matches r request = Inr True) \<or>
         (rule_decision r = S ''deny'' \<and> rule_isolation_profile r = S ''no_effect'' \<and>
          (\<forall>q\<in>set (policy_rules P). rule_matches q request = Inr False))"
proof -
  have some: "first_match rs request = Inr (Some q) \<Longrightarrow> q \<in> set rs \<and> rule_matches q request = Inr True" for rs q
    by (induction rs) (auto simp: bindE_Inr_iff split: if_splits)
  have none: "first_match rs request = Inr None \<Longrightarrow> \<forall>q\<in>set rs. rule_matches q request = Inr False" for rs
    by (induction rs) (auto simp: bindE_Inr_iff split: if_splits)
  obtain m where m: "first_match (policy_rules P) request = Inr m"
    using assms by (auto simp: evaluate_def bindE_Inr_iff)
  show ?thesis
  proof (cases m)
    case None
    then show ?thesis
      using assms m none [of "policy_rules P"]
      by (auto simp: evaluate_def bindE_Inr_iff default_deny_def Let_def)
  next
    case (Some q)
    then show ?thesis using assms m some [of "policy_rules P" q] by (auto simp: evaluate_def)
  qed
qed

text \<open>Every rule before the one returned does not match.\<close>

lemma first_match_split:
  "first_match rs request = Inr (Some q) \<Longrightarrow>
     \<exists>us vs. rs = us @ q # vs \<and> rule_matches q request = Inr True \<and>
       (\<forall>u\<in>set us. rule_matches u request = Inr False)"
proof (induction rs)
  case (Cons r rs)
  then obtain b where b: "rule_matches r request = Inr b" by (auto simp: bindE_Inr_iff)
  show ?case
  proof (cases b)
    case True
    then have "q = r" using Cons.prems b by simp
    then show ?thesis using b True by (intro exI [of _ "[]"] exI [of _ rs]) simp
  next
    case False
    then obtain us vs where "rs = us @ q # vs" "rule_matches q request = Inr True"
        "\<forall>u\<in>set us. rule_matches u request = Inr False"
      using Cons b by auto
    then show ?thesis using b False by (intro exI [of _ "r # us"] exI [of _ vs]) simp
  qed
qed simp

text \<open>Rules that pass their constructor never pair an executable decision with no isolation.\<close>

lemma checked_rule_isolation:
  "check_rule r = Inr () \<Longrightarrow> rule_decision r \<noteq> S ''deny'' \<Longrightarrow> rule_isolation_profile r \<in> set executable_profiles"
  by (auto simp: check_rule_def res_simps config_fail_def)

section \<open>Merging keeps every binding and invents none\<close>

definition str_key :: "pyval \<times> pyval \<Rightarrow> bool" where
  "str_key k \<longleftrightarrow> (\<exists>a b. k = (PStr a, PStr b))"

lemma str_key_eq: "str_key k \<Longrightarrow> key_eq k' k \<longleftrightarrow> k' = k" "str_key k \<Longrightarrow> key_eq k k' \<longleftrightarrow> k' = k"
  by (cases k'; auto simp: str_key_def key_eq_def)+

lemma bindings_get_Cons:
  "bindings_get ((k', v) # m) k = (if key_eq k' k then v else bindings_get m k)"
  by (simp add: bindings_get_def)

lemma get_merge_put_same: "str_key k \<Longrightarrow> bindings_get (merge_put m k v) k = v"
  by (induction m k v rule: merge_put.induct) (auto simp: bindings_get_Cons str_key_eq bindings_get_def)

lemma get_merge_put_other:
  "str_key k \<Longrightarrow> str_key j \<Longrightarrow> j \<noteq> k \<Longrightarrow> bindings_get (merge_put m j v) k = bindings_get m k"
  by (induction m j v rule: merge_put.induct) (auto simp: bindings_get_Cons str_key_eq bindings_get_def)

text \<open>The constraints of a source, with string identifiers and versions.\<close>

definition str_constraint :: "pyval \<Rightarrow> bool" where
  "str_constraint c \<longleftrightarrow> (\<exists>k. constraint_key c = Inr k \<and> str_key k)"

definition same_binding :: "pyval \<Rightarrow> pyval \<Rightarrow> bool" where
  "same_binding v w \<longleftrightarrow> v = w \<or> py_eq v w"

lemma same_binding_trans: "same_binding u v \<Longrightarrow> same_binding v w \<Longrightarrow> same_binding u w"
  by (auto simp: same_binding_def intro: py_eq_trans)

lemma constraint_key_not_none: "constraint_key c = Inr k \<Longrightarrow> c \<noteq> PNone"
  by (auto simp: constraint_key_def bindE_Inr_iff item_Inr_iff)

lemma merge_all_keeps:
  "merge_all cs m = Inr m' \<Longrightarrow> \<forall>c\<in>set cs. str_constraint c \<Longrightarrow> str_key k \<Longrightarrow> bindings_get m k \<noteq> PNone \<Longrightarrow>
     same_binding (bindings_get m k) (bindings_get m' k) \<and> bindings_get m' k \<noteq> PNone"
proof (induction cs arbitrary: m)
  case (Cons c cs)
  then obtain j where j: "constraint_key c = Inr j" "str_key j" by (auto simp: str_constraint_def)
  have ok: "bindings_get m j = PNone \<or> py_eq (bindings_get m j) c"
    and rest: "merge_all cs (merge_put m j c) = Inr m'"
    using Cons.prems(1) j(1) by (auto simp: Let_def reject_if_Inr_iff neq_def)
  have "same_binding (bindings_get m k) (bindings_get (merge_put m j c) k)
      \<and> bindings_get (merge_put m j c) k \<noteq> PNone"
  proof (cases "j = k")
    case True
    then show ?thesis
      using ok Cons.prems(3,4) constraint_key_not_none [OF j(1)]
      by (auto simp: get_merge_put_same same_binding_def)
  next
    case False
    then show ?thesis
      using Cons.prems(3,4) j(2) by (simp add: get_merge_put_other same_binding_def)
  qed
  moreover have "same_binding (bindings_get (merge_put m j c) k) (bindings_get m' k) \<and> bindings_get m' k \<noteq> PNone"
    if "bindings_get (merge_put m j c) k \<noteq> PNone"
    using Cons.IH [OF rest] Cons.prems(2,3) that by auto
  ultimately show ?case using same_binding_trans by blast
qed (auto simp: same_binding_def)

lemma merge_all_covers:
  "merge_all cs m = Inr m' \<Longrightarrow> \<forall>c\<in>set cs. str_constraint c \<Longrightarrow> c \<in> set cs \<Longrightarrow> constraint_key c = Inr k \<Longrightarrow>
     same_binding c (bindings_get m' k) \<and> bindings_get m' k \<noteq> PNone"
proof (induction cs arbitrary: m)
  case (Cons a cs)
  then obtain j where j: "constraint_key a = Inr j" "str_key j" by (auto simp: str_constraint_def)
  have rest: "merge_all cs (merge_put m j a) = Inr m'"
    using Cons.prems(1) j(1) by (auto simp: Let_def reject_if_Inr_iff)
  show ?case
  proof (cases "a = c")
    case True
    then have "bindings_get (merge_put m j a) k = c" "k = j"
      using j Cons.prems(4) by (auto simp: get_merge_put_same)
    then show ?thesis
      using merge_all_keeps [OF rest, of k] Cons.prems(2) j constraint_key_not_none [OF Cons.prems(4)]
      by simp
  next
    case False
    then show ?thesis using Cons.IH [OF rest] Cons.prems by auto
  qed
qed simp

lemma merge_records_keeps:
  "merge_records rs m = Inr m' \<Longrightarrow>
   \<forall>r\<in>set rs. \<forall>cs. get_elems r ''constraints'' = Inr cs \<longrightarrow> (\<forall>c\<in>set cs. str_constraint c) \<Longrightarrow>
   str_key k \<Longrightarrow> bindings_get m k \<noteq> PNone \<Longrightarrow>
     same_binding (bindings_get m k) (bindings_get m' k) \<and> bindings_get m' k \<noteq> PNone"
proof (induction rs arbitrary: m)
  case (Cons r rs)
  then obtain cs m1 where 1: "get_elems r ''constraints'' = Inr cs" "merge_all cs m = Inr m1"
      "merge_records rs m1 = Inr m'" by (auto simp: bindE_Inr_iff)
  have "same_binding (bindings_get m k) (bindings_get m1 k) \<and> bindings_get m1 k \<noteq> PNone"
    using merge_all_keeps [OF 1(2)] Cons.prems 1(1) by auto
  then show ?case using Cons.IH [OF 1(3)] Cons.prems same_binding_trans by auto
qed (auto simp: same_binding_def)

lemma merge_records_covers:
  "merge_records rs m = Inr m' \<Longrightarrow>
   \<forall>r\<in>set rs. \<forall>cs. get_elems r ''constraints'' = Inr cs \<longrightarrow> (\<forall>c\<in>set cs. str_constraint c) \<Longrightarrow>
   r \<in> set rs \<Longrightarrow> get_elems r ''constraints'' = Inr cs \<Longrightarrow> c \<in> set cs \<Longrightarrow> constraint_key c = Inr k \<Longrightarrow>
     same_binding c (bindings_get m' k) \<and> bindings_get m' k \<noteq> PNone"
proof (induction rs arbitrary: m)
  case (Cons q rs)
  then obtain ds m1 where 1: "get_elems q ''constraints'' = Inr ds" "merge_all ds m = Inr m1"
      "merge_records rs m1 = Inr m'" by (auto simp: bindE_Inr_iff)
  show ?case
  proof (cases "r = q")
    case True
    then have ds: "ds = cs" using 1(1) Cons.prems(4) by simp
    have "same_binding c (bindings_get m1 k) \<and> bindings_get m1 k \<noteq> PNone"
      using merge_all_covers [OF 1(2)] Cons.prems 1(1) ds by auto
    moreover have "str_key k"
      using Cons.prems(2,5,6) 1(1) ds by (force simp: str_constraint_def)
    ultimately show ?thesis
      using merge_records_keeps [OF 1(3), of k] Cons.prems(2) by (auto intro: same_binding_trans)
  next
    case False
    then show ?thesis using Cons.IH [OF 1(3)] Cons.prems by auto
  qed
qed simp

lemma bindings_get_set: "bindings_get m k \<noteq> PNone \<Longrightarrow> bindings_get m k \<in> snd ` set m"
  by (induction m) (auto simp: bindings_get_Cons, auto simp: bindings_get_def)

lemma merge_put_set: "snd ` set (merge_put m k v) \<subseteq> insert v (snd ` set m)"
  by (induction m k v rule: merge_put.induct) auto

lemma merge_all_set: "merge_all cs m = Inr m' \<Longrightarrow> snd ` set m' \<subseteq> set cs \<union> snd ` set m"
proof (induction cs arbitrary: m)
  case (Cons c cs)
  then obtain k where "merge_all cs (merge_put m k c) = Inr m'"
    by (auto simp: bindE_Inr_iff Let_def reject_if_Inr_iff)
  then have "snd ` set m' \<subseteq> set cs \<union> snd ` set (merge_put m k c)" by (rule Cons.IH)
  also have "\<dots> \<subseteq> set (c # cs) \<union> snd ` set m" using merge_put_set [of m k c] by auto
  finally show ?case .
qed simp

lemma merge_records_set:
  "merge_records rs m = Inr m' \<Longrightarrow> v \<in> snd ` set m' \<Longrightarrow>
     v \<in> snd ` set m \<or> (\<exists>r\<in>set rs. \<exists>cs. get_elems r ''constraints'' = Inr cs \<and> v \<in> set cs)"
proof (induction rs arbitrary: m)
  case (Cons r rs)
  then obtain cs m1 where 1: "get_elems r ''constraints'' = Inr cs" "merge_all cs m = Inr m1"
      "merge_records rs m1 = Inr m'" by (auto simp: bindE_Inr_iff)
  have "v \<in> snd ` set m1 \<or> (\<exists>q\<in>set rs. \<exists>cs. get_elems q ''constraints'' = Inr cs \<and> v \<in> set cs)"
    by (rule Cons.IH [OF 1(3) Cons.prems(2)])
  then show ?case
  proof
    assume "v \<in> snd ` set m1"
    then have "v \<in> set cs \<or> v \<in> snd ` set m" using merge_all_set [OF 1(2)] by blast
    then show ?thesis using 1(1) by auto
  qed auto
qed simp

end
