(* ===== verification/Ledger.thy ===== *)
theory Ledger
  imports Policy
begin

text \<open>
  The in-memory evidence ledger of \<open>kernel/core.py\<close>. Injected callables (the clock, the id
  factory and, in the later theories, verifiers, issuers and executors) are functions of
  the number of external calls made so far, \<open>tick\<close>: they may answer differently every
  time. The ledger keeps one list of envelopes per tenant. The invariant \<open>chain_ok\<close> says
  that the list is numbered, linked by digests, ordered in time and made of valid records;
  every append keeps it and only adds at the end.
\<close>

section \<open>Injected callables\<close>

record ports =
  p_env :: env
  p_clock :: "nat \<Rightarrow> pytime res"
  p_ids :: "nat \<Rightarrow> pystr res"

record world =
  tick :: nat

definition ext :: "(nat \<Rightarrow> 'b res) \<Rightarrow> ('z world_scheme, 'b) handler" where
  "ext f = (\<lambda>s. (f (tick s), s\<lparr> tick := Suc (tick s) \<rparr>))"

definition new_id :: "'p ports_scheme \<Rightarrow> ('z world_scheme, pyval) handler" where
  "new_id P = bindH (ext (p_ids P)) (\<lambda>i. returnH (PStr i))"

text \<open>\<open>_utc_millis\<close> of \<open>kernel/core.py\<close>.\<close>

definition utc_millis :: "pytime \<Rightarrow> pystr res" where
  "utc_millis t = (case t of
     Naive n \<Rightarrow> Inl (Exc ValueError ''kernel clock must return a timezone-aware timestamp'')
   | Aware i \<Rightarrow> Inr (utc_millis_text i))"

section \<open>The ledger\<close>

record ledger_state = world +
  by_tenant :: "(pyval \<times> dict list) list"

definition events_of :: "'z ledger_state_scheme \<Rightarrow> pyval \<Rightarrow> dict list" where
  "events_of s tenant = (case map_of (by_tenant s) tenant of None \<Rightarrow> [] | Some es \<Rightarrow> es)"

definition put_events :: "pyval \<Rightarrow> dict list \<Rightarrow> 'z ledger_state_scheme \<Rightarrow> 'z ledger_state_scheme" where
  "put_events tenant es s = s\<lparr> by_tenant := AList.update tenant es (by_tenant s) \<rparr>"

text \<open>\<open>now < events[-1]["recorded_at"]\<close>: strings compare by code point.\<close>

definition text_before :: "pystr \<Rightarrow> pyval \<Rightarrow> bool res" where
  "text_before t v = (case v of PStr s \<Rightarrow> Inr (t < s) | _ \<Rightarrow> Inl (Exc TypeError ''str < other''))"

definition evidence_draft ::
  "pyval \<Rightarrow> pyval \<Rightarrow> string \<Rightarrow> pyval \<Rightarrow> pystr \<Rightarrow> nat \<Rightarrow> pyval \<Rightarrow> dict \<Rightarrow> dict" where
  "evidence_draft tenant run kind event_id now count opdg payload =
    [(S ''schema_version'', PS ''1.0''),
     (S ''record_type'', PS ''evidence_draft''),
     (S ''tenant_id'', tenant),
     (S ''event_id'', event_id),
     (S ''run_id'', run),
     (S ''event_kind'', PS kind),
     (S ''occurred_at'', PStr now),
     (S ''idempotency'', PDict
       [(S ''tenant_id'', tenant),
        (S ''idempotency_key'', PStr (S ''kernel.'' @ S kind @ S ''.'' @ digits10 (count + 1))),
        (S ''operation_digest'', opdg)]),
     (S ''classification'', PS ''internal''),
     (S ''redaction_status'', PS ''redacted''),
     (S ''inline_payload'', PDict payload)]"

definition evidence_envelope ::
  "pyval \<Rightarrow> pyval \<Rightarrow> dict \<Rightarrow> pyval \<Rightarrow> pystr \<Rightarrow> nat \<Rightarrow> pyval \<Rightarrow> pyval \<Rightarrow> dict \<Rightarrow> dict" where
  "evidence_envelope tenant envelope_id draft draft_dg now count payload_dg prior policy_ref =
    [(S ''schema_version'', PS ''1.0''),
     (S ''record_type'', PS ''evidence_envelope''),
     (S ''tenant_id'', tenant),
     (S ''envelope_id'', envelope_id),
     (S ''draft'', PDict draft),
     (S ''draft_digest'', draft_dg),
     (S ''recorded_at'', PStr now),
     (S ''sequence_number'', PInt (int count)),
     (S ''payload_digest'', payload_dg),
     (S ''prior_event_digest'', prior),
     (S ''policy_refs'', PList [PDict policy_ref]),
     (S ''storage_writer_id'', PS ''kernel.in_memory.v1'')]"

definition prior_digest :: "dict list \<Rightarrow> pyval res" where
  "prior_digest es = (if es = [] then Inr PNone else ditem (last es) ''event_digest'')"

text \<open>The envelope the next event gets; it only reads the clock, the ids and the prior events.\<close>

definition build_envelope ::
  "'p ports_scheme \<Rightarrow> pyval \<Rightarrow> pyval \<Rightarrow> string \<Rightarrow> dict \<Rightarrow> dict \<Rightarrow> dict list \<Rightarrow> ('z world_scheme, dict) handler" where
  "build_envelope P tenant run kind policy_ref payload events =
     (let H = hash (p_env P) in
      bindH (ext (p_clock P)) (\<lambda>t.
      bindH (liftH (utc_millis t)) (\<lambda>now.
      bindH (liftH (if events = [] then Inr False
               else bindE (ditem (last events) ''recorded_at'') (text_before now))) (\<lambda>early.
      rejectH early LifecycleError ''evidence time cannot precede the prior tenant event''
     (bindH (new_id P) (\<lambda>event_id.
      bindH (liftH (sha256_digest H (PDict payload))) (\<lambda>opdg.
      let draft = evidence_draft tenant run kind event_id now (length events) opdg payload in
      bindH (new_id P) (\<lambda>envelope_id.
      bindH (liftH (sha256_digest H (PDict draft))) (\<lambda>draft_dg.
      bindH (liftH (sha256_digest H (PDict payload))) (\<lambda>payload_dg.
      bindH (liftH (prior_digest events)) (\<lambda>prior.
      liftH (bindE (apply_object_digest (p_env P)
               (evidence_envelope tenant envelope_id draft draft_dg now (length events) payload_dg
                 prior policy_ref))
               (contract_model (p_env P) (store (p_env P)) (S ''evidence_envelope'') tenant True)))))))))))))"

definition ledger_append ::
  "'p ports_scheme \<Rightarrow> pyval \<Rightarrow> pyval \<Rightarrow> string \<Rightarrow> dict \<Rightarrow> dict \<Rightarrow> ('z ledger_state_scheme, dict) handler" where
  "ledger_append P tenant run kind policy_ref payload =
     rejectH (\<not> hashable tenant) TypeError ''unhashable type''
     (bindH (modifyH (\<lambda>s. put_events tenant (events_of s tenant) s)) (\<lambda>_.
      bindH (getH (\<lambda>s. events_of s tenant)) (\<lambda>events.
      bindH (build_envelope P tenant run kind policy_ref payload events) (\<lambda>parsed.
      bindH (modifyH (put_events tenant (events @ [parsed]))) (\<lambda>_.
      returnH parsed)))))"

definition events_for_actor :: "'z ledger_state_scheme \<Rightarrow> pyval \<Rightarrow> pyval \<Rightarrow> dict list res" where
  "events_for_actor s tenant actor =
     bindE (mapE (\<lambda>e. bindE (bindE (ditem e ''draft'') (\<lambda>d. item d ''inline_payload''))
              (\<lambda>p. bindE (get p ''actor_id'') (\<lambda>a. Inr (py_eq a actor, e)))) (events_of s tenant))
       (\<lambda>xs. Inr (map snd (filter fst xs)))"

section \<open>The chain invariant\<close>

definition event_ok :: "env \<Rightarrow> pyval \<Rightarrow> dict list \<Rightarrow> nat \<Rightarrow> bool" where
  "event_ok E tenant es i \<longleftrightarrow>
     dget (es ! i) ''tenant_id'' = tenant \<and>
     dget (es ! i) ''sequence_number'' = PInt (int i) \<and>
     dget (es ! i) ''prior_event_digest'' = (if i = 0 then PNone else dget (es ! (i - 1)) ''event_digest'') \<and>
     (\<exists>t. dget (es ! i) ''recorded_at'' = PStr t \<and>
        (i \<noteq> 0 \<longrightarrow> (\<exists>u. dget (es ! (i - 1)) ''recorded_at'' = PStr u \<and> u \<le> t))) \<and>
     validate_record E tenant (PDict (es ! i)) = Inr ()"

definition chain_ok :: "env \<Rightarrow> pyval \<Rightarrow> dict list \<Rightarrow> bool" where
  "chain_ok E tenant es \<longleftrightarrow> (\<forall>i<length es. event_ok E tenant es i)"

definition ledger_ok :: "env \<Rightarrow> 'z ledger_state_scheme \<Rightarrow> bool" where
  "ledger_ok E s \<longleftrightarrow> (\<forall>tenant. chain_ok E tenant (events_of s tenant))"

section \<open>Frames\<close>

text \<open>Handlers that read injected callables change the call counter and nothing else.\<close>

definition only_tick :: "'z world_scheme \<Rightarrow> 'z world_scheme \<Rightarrow> bool" where
  "only_tick s t \<longleftrightarrow> (\<exists>n. t = s\<lparr> tick := n \<rparr>)"

lemma only_tick_refl: "reflp only_tick"
proof (rule reflpI)
  show "only_tick s s" for s :: "'z world_scheme"
    unfolding only_tick_def by (rule exI [of _ "tick s"]) simp
qed

lemma only_tick_trans: "transp only_tick"
  by (rule transpI) (auto simp: only_tick_def)

lemma keeps_ext: "keeps only_tick (ext f)"
  by (rule keepsI) (auto simp: ext_def only_tick_def)

lemmas tick_frame = keeps_bindH [OF only_tick_trans] keeps_pure [OF only_tick_refl]
  keeps_rejectH [OF only_tick_refl] keeps_ext

lemma keeps_new_id: "keeps only_tick (new_id P)"
  unfolding new_id_def by (intro tick_frame)

lemma keeps_build: "keeps only_tick (build_envelope P tenant run kind policy_ref payload events)"
  unfolding build_envelope_def Let_def by (intro tick_frame keeps_new_id)

lemma events_of_put [simp]:
  "events_of (put_events tenant es s) x = (if x = tenant then es else events_of s x)"
  by (simp add: events_of_def put_events_def update_conv')

lemma events_of_tick [simp]: "events_of (s\<lparr> tick := n \<rparr>) = events_of s"
  by (simp add: events_of_def fun_eq_iff)

text \<open>What an append does to the state: one new event, or none and an exception.\<close>

definition ledger_step :: "pyval \<Rightarrow> 'z ledger_state_scheme \<Rightarrow> dict list \<Rightarrow> 'z ledger_state_scheme \<Rightarrow> bool" where
  "ledger_step tenant s new t \<longleftrightarrow>
     events_of t = (events_of s)(tenant := events_of s tenant @ new) \<and>
     t = s\<lparr> tick := tick t, by_tenant := by_tenant t \<rparr>"

lemma ledger_append_cases:
  fixes s :: "'z ledger_state_scheme"
  assumes "ledger_append P tenant run kind policy_ref payload s = (r, t)"
  obtains (ok) e and s' :: "'z ledger_state_scheme" where "r = Inr e" "ledger_step tenant s [e] t"
      "build_envelope P tenant run kind policy_ref payload (events_of s tenant) s' = (Inr e, s'\<lparr> tick := tick t \<rparr>)"
    | (failed) e where "r = Inl e" "ledger_step tenant s [] t"
proof (cases "hashable tenant")
  case False
  then have "r = Inl (Exc TypeError ''unhashable type'')" "t = s"
    using assms by (auto simp: ledger_append_def rejectH_def)
  then show thesis by (intro failed) (auto simp: ledger_step_def)
next
  case True
  define s0 where "s0 = put_events tenant (events_of s tenant) s"
  obtain r1 s1 where b: "build_envelope P tenant run kind policy_ref payload (events_of s tenant) s0 = (r1, s1)"
    by (cases "build_envelope P tenant run kind policy_ref payload (events_of s tenant) s0") auto
  then obtain n where s1: "s1 = s0\<lparr> tick := n \<rparr>"
    using keeps_build by (fastforce dest: keepsD simp: only_tick_def)
  have run: "(r, t) = (case r1 of Inl e \<Rightarrow> (Inl e, s1)
      | Inr e \<Rightarrow> (Inr e, put_events tenant (events_of s tenant @ [e]) s1))"
    using assms True b
    by (auto simp: ledger_append_def rejectH_def bindH_def modifyH_def getH_def returnH_def s0_def
        split: sum.splits)
  show thesis
  proof (cases r1)
    case (Inl e)
    with run s1 have "r = Inl e" "t = s0\<lparr> tick := n \<rparr>" by auto
    then show thesis
      by (intro failed [of e])
         (auto simp: ledger_step_def s0_def put_events_def [of _ _ s] events_of_def
            update_conv' fun_eq_iff split: option.splits)
  next
    case (Inr e)
    with run s1 have "r = Inr e" and t: "t = put_events tenant (events_of s tenant @ [e]) (s0\<lparr> tick := n \<rparr>)"
      by auto
    moreover have "tick t = n" by (simp add: t put_events_def)
    moreover have "ledger_step tenant s [e] t"
      by (simp add: ledger_step_def t fun_eq_iff s0_def)
         (auto simp: put_events_def)
    ultimately show thesis using b s1 Inr by (intro ok [of e s0]) auto
  qed
qed

section \<open>Every append keeps the chain\<close>

lemma ext_Inr: "ext f s = (Inr x, t) \<longleftrightarrow> f (tick s) = Inr x \<and> t = s\<lparr> tick := Suc (tick s) \<rparr>"
  by (auto simp: ext_def)

lemma utc_millis_Inr: "utc_millis p = Inr now \<longleftrightarrow> (\<exists>i. p = Aware i \<and> now = utc_millis_text i)"
  by (cases p) (auto simp: utc_millis_def)

lemma envelope_digest_field: "digest_field (PS ''evidence_envelope'') = Some ''event_digest''"
  by (simp add: digest_field_def SELF_DIGEST_FIELDS_def)

text \<open>The record an append returns.\<close>

definition event_of ::
  "pyval \<Rightarrow> string \<Rightarrow> dict \<Rightarrow> dict \<Rightarrow> dict list \<Rightarrow> pystr \<Rightarrow> dict \<Rightarrow> bool" where
  "event_of tenant kind policy_ref payload events now e \<longleftrightarrow>
     dget e ''tenant_id'' = tenant \<and> dget e ''record_type'' = PS ''evidence_envelope'' \<and>
     dget e ''schema_version'' = PS ''1.0'' \<and>
     dget e ''sequence_number'' = PInt (int (length events)) \<and>
     prior_digest events = Inr (dget e ''prior_event_digest'') \<and>
     dget e ''recorded_at'' = PStr now \<and>
     dget e ''policy_refs'' = PList [PDict policy_ref] \<and>
     (\<exists>dr. dget e ''draft'' = PDict dr \<and> dget dr ''event_kind'' = PS kind \<and>
        dget dr ''inline_payload'' = PDict payload)"

lemma build_envelope_inv:
  assumes "build_envelope P tenant run kind policy_ref payload events s = (Inr e, t)"
  shows "\<exists>now. event_of tenant kind policy_ref payload events now e \<and>
     (events \<noteq> [] \<longrightarrow> (\<exists>u. dget (last events) ''recorded_at'' = PStr u \<and> u \<le> now))"
    and "validate_record (p_env P) tenant (PDict e) = Inr ()"
    and "\<exists>i. p_clock P (tick s) = Inr (Aware i) \<and> dget e ''recorded_at'' = PStr (utc_millis_text i)"
proof -
  obtain i event_id opdg envelope_id draft_dg payload_dg prior env0 where
    now: "p_clock P (tick s) = Inr (Aware i)"
    and early: "(if events = [] then Inr False
               else bindE (ditem (last events) ''recorded_at'') (text_before (utc_millis_text i))) = Inr False"
    and prior: "prior_digest events = Inr prior"
    and st: "apply_object_digest (p_env P) (evidence_envelope tenant envelope_id
        (evidence_draft tenant run kind event_id (utc_millis_text i) (length events) opdg payload)
        draft_dg (utc_millis_text i) (length events) payload_dg prior policy_ref) = Inr env0"
    and model: "contract_model (p_env P) (store (p_env P)) (S ''evidence_envelope'') tenant True env0 = Inr e"
    using assms unfolding build_envelope_def Let_def
    by (auto simp: bindH_Inr_iff ext_Inr liftH_iff rejectH_Inr_iff utc_millis_Inr bindE_Inr_iff)
  let ?env = "evidence_envelope tenant envelope_id
        (evidence_draft tenant run kind event_id (utc_millis_text i) (length events) opdg payload)
        draft_dg (utc_millis_text i) (length events) payload_dg prior policy_ref"
  have e: "env0 = e" and val: "validate_record (p_env P) tenant (PDict e) = Inr ()"
    using model by (auto simp: contract_model_def bindE_Inr_iff reject_if_Inr_iff)
  have rt: "dget ?env ''record_type'' = PS ''evidence_envelope''"
    by (simp add: evidence_envelope_def dget_def)
  have kept: "dget e k = dget ?env k" if "k \<noteq> ''proof''" "k \<noteq> ''event_digest''" for k
    using apply_object_digest_fields [OF st] that unfolding rt envelope_digest_field e by auto
  show "validate_record (p_env P) tenant (PDict e) = Inr ()" by (rule val)
  show "\<exists>now. event_of tenant kind policy_ref payload events now e \<and>
     (events \<noteq> [] \<longrightarrow> (\<exists>u. dget (last events) ''recorded_at'' = PStr u \<and> u \<le> now))"
  proof (rule exI, rule conjI)
    show "event_of tenant kind policy_ref payload events (utc_millis_text i) e"
      unfolding event_of_def using prior
      by (simp add: kept) (simp add: evidence_envelope_def evidence_draft_def dget_def)
    show "events \<noteq> [] \<longrightarrow> (\<exists>u. dget (last events) ''recorded_at'' = PStr u \<and> u \<le> utc_millis_text i)"
    proof
      assume ne: "events \<noteq> []"
      obtain v where "map_of (last events) (S ''recorded_at'') = Some v"
          "text_before (utc_millis_text i) v = Inr False"
        using early ne by (auto simp: bindE_Inr_iff ditem_Inr_iff)
      then show "\<exists>u. dget (last events) ''recorded_at'' = PStr u \<and> u \<le> utc_millis_text i"
        by (cases v) (auto simp: text_before_def dget_Some)
    qed
  qed
  show "\<exists>i. p_clock P (tick s) = Inr (Aware i) \<and> dget e ''recorded_at'' = PStr (utc_millis_text i)"
    using now by (simp add: kept) (simp add: evidence_envelope_def dget_def)
qed

lemma prior_digest_last: "prior_digest es = Inr x \<Longrightarrow> es \<noteq> [] \<Longrightarrow> x = dget (last es) ''event_digest''"
  by (auto simp: prior_digest_def ditem_Inr_iff dget_Some)

lemma chain_snoc:
  assumes "chain_ok E tenant es"
    and "event_of tenant kind policy_ref payload es now e"
    and "es \<noteq> [] \<longrightarrow> (\<exists>u. dget (last es) ''recorded_at'' = PStr u \<and> u \<le> now)"
    and "validate_record E tenant (PDict e) = Inr ()"
  shows "chain_ok E tenant (es @ [e])"
  unfolding chain_ok_def
proof (intro allI impI)
  fix i assume i: "i < length (es @ [e])"
  show "event_ok E tenant (es @ [e]) i"
  proof (cases "i < length es")
    case True
    then have "event_ok E tenant es i" using assms(1) by (simp add: chain_ok_def)
    moreover have "i - Suc 0 < length es" using True by simp
    ultimately show ?thesis using True by (simp add: event_ok_def nth_append)
  next
    case False
    then have [simp]: "i = length es" using i by simp
    have "es \<noteq> [] \<Longrightarrow> (es @ [e]) ! (length es - 1) = last es"
      by (simp add: nth_append last_conv_nth)
    then show ?thesis
      using assms(2-4) prior_digest_last [of es "dget e ''prior_event_digest''"]
      by (cases "es = []") (auto simp: event_ok_def event_of_def prior_digest_def)
  qed
qed

lemma ledger_append_ok:
  assumes "ledger_ok (p_env P) s" "ledger_append P tenant run kind policy_ref payload s = (r, t)"
  shows "ledger_ok (p_env P) t"
  using assms(2)
proof (cases rule: ledger_append_cases)
  case (ok e s')
  note b = build_envelope_inv [OF ok(3)]
  have "chain_ok (p_env P) tenant (events_of s tenant @ [e])"
    using assms(1) b by (auto simp: ledger_ok_def intro: chain_snoc)
  then show ?thesis using assms(1) ok(2) by (simp add: ledger_ok_def ledger_step_def)
next
  case (failed e)
  then show ?thesis using assms(1) by (simp add: ledger_ok_def ledger_step_def)
qed

end
