(* ===== verification/Evaluation.thy ===== *)
theory Evaluation
  imports Canonical "HOL-Library.Code_Target_Numeral"
begin

text \<open>
  Code equations that make concrete runs of the model affordable: on text in the printable
  ASCII range, without quote and backslash, a JSON string is the text between quotes, and
  the order of the UTF-16 encodings is the order of the texts.
\<close>

definition plain :: "nat \<Rightarrow> bool" where
  "plain c \<longleftrightarrow> 34 < c \<and> c < 92 \<or> 92 < c \<and> c < 128 \<or> c = 32"

lemma plain_char:
  assumes "plain c"
  shows "json_escape c = [c]" "utf8_char c = [c]" "utf16_char c = [0, c]"
    "\<not> (0xD800 \<le> c \<and> c \<le> 0xDFFF)" "c \<noteq> 0xFFFD"
  using assms by (auto simp: plain_def json_escape_def utf8_char_def utf16_char_def)

lemma plain_text:
  assumes "list_all plain s"
  shows "validate_unicode s = Inr ()" "quoted s = 34 # s @ [34]"
proof -
  show "validate_unicode s = Inr ()" using assms
    by (induction s) (use plain_char(4,5) in \<open>auto simp: reject_if_def\<close>)
  have "concat (map json_escape s) = s" "utf8_bytes s = s" using assms
    by (induction s) (simp_all add: plain_char utf8_bytes_def)
  then show "quoted s = 34 # s @ [34]" by (simp add: quoted_def)
qed

lemma string_bytes_code [code]:
  "string_bytes s = (if list_all plain s then Inr (34 # s @ [34])
     else bindE (validate_unicode s) (\<lambda>_. Inr (quoted s)))"
  by (simp add: string_bytes_def plain_text)

lemma utf16_order:
  "list_all plain s \<Longrightarrow> list_all plain t \<Longrightarrow> utf16_bytes s \<le> utf16_bytes t \<longleftrightarrow> s \<le> t"
proof (induction s arbitrary: t)
  case Nil
  then show ?case by (simp add: utf16_bytes_def)
next
  case (Cons c s)
  then show ?case by (cases t) (auto simp: utf16_bytes_def plain_char)
qed

lemma sort_key_order:
  fixes f :: "'a \<Rightarrow> 'b::linorder" and g :: "'a \<Rightarrow> 'c::linorder"
  assumes "\<And>x y. x \<in> set xs \<Longrightarrow> y \<in> set xs \<Longrightarrow> f x \<le> f y \<longleftrightarrow> g x \<le> g y"
  shows "sort_key f xs = sort_key g xs"
  using assms
proof (induction xs)
  case (Cons x xs)
  have "insort_key f x ys = insort_key g x ys" if "set ys \<subseteq> set xs" for ys
    using that Cons.prems by (induction ys) auto
  then show ?case using Cons by simp
qed simp

definition by_utf16 :: "(pystr \<times> 'a) list \<Rightarrow> (pystr \<times> 'a) list" where
  "by_utf16 kvs = sort_key (\<lambda>kv. utf16_bytes (fst kv)) kvs"

lemma by_utf16_code [code]:
  "by_utf16 kvs = (if list_all (\<lambda>kv. list_all plain (fst kv)) kvs then sort_key fst kvs
     else sort_key (\<lambda>kv. utf16_bytes (fst kv)) kvs)"
  unfolding by_utf16_def by (auto simp: list_all_iff utf16_order intro: sort_key_order)

lemmas by_utf16_unfold [code_unfold] = by_utf16_def [symmetric]

end
