(* ===== verification/Examples.thy ===== *)
theory Examples
  imports Ledger Evaluation
begin

text \<open>
  Concrete records for the witnesses: an environment with a fixed 32-byte hash and a schema
  store whose schemas accept everything, and a small governed exchange in it.
\<close>

definition demo_hash :: "nat list \<Rightarrow> nat list" where
  "demo_hash bs = replicate 31 7 @ [length bs mod 256]"

definition any_record :: "string \<Rightarrow> pyval" where
  "any_record t = PDict [(S ''record_type'', PS t), (S ''schema'', PS ''any.json'')]"

definition demo_documents :: "pystr \<Rightarrow> pyval option" where
  "demo_documents name =
     (if name = S ''catalog.json'' then Some (PDict
        [(S ''schema_version'', PS ''1.0''),
         (S ''contracts'', PList (map any_record
           [''actor_context'', ''memory_scope'', ''tool_request'', ''policy_decision'',
            ''approval_record'', ''authorization_grant'', ''evidence_envelope'', ''action_outcome'']))])
      else if name = S ''any.json'' then Some (PDict []) else None)"

definition demo_store :: schema_store where
  "demo_store = \<lparr> documents = demo_documents, regex = (\<lambda>_ _ _. Some True),
     fromisoformat = (\<lambda>_. Some True), urlsplit = Some \<rparr>"

definition demo_env :: env where
  "demo_env = \<lparr> hash = demo_hash, store = demo_store \<rparr>"

definition stamped :: "dict \<Rightarrow> dict" where
  "stamped d = (case apply_object_digest demo_env d of Inr d' \<Rightarrow> d' | Inl e \<Rightarrow> [])"

definition demo_actor :: dict where
  "demo_actor =
    [(S ''schema_version'', PS ''1.0''), (S ''record_type'', PS ''actor_context''),
     (S ''tenant_id'', PS ''t1''), (S ''actor_id'', PS ''a1''),
     (S ''auth'', PDict [(S ''verified_at'', PS ''2026-01-01T00:00:00.000Z'')]),
     (S ''issued_at'', PS ''2026-01-01T00:00:00.000Z''),
     (S ''expires_at'', PS ''2026-01-01T01:00:00.000Z'')]"

definition demo_request :: dict where
  "demo_request =
    [(S ''schema_version'', PS ''1.0''), (S ''record_type'', PS ''tool_request''),
     (S ''tenant_id'', PS ''t1''), (S ''actor_id'', PS ''a1''), (S ''run_id'', PS ''r1''),
     (S ''request_id'', PS ''q1''), (S ''tool_id'', PS ''tool''), (S ''tool_version'', PS ''1''),
     (S ''requested_at'', PS ''2026-01-01T00:10:00.000Z'')]"

lemma demo_request_type: "proof_domain_for (dget demo_request ''record_type'') = None"
  by code_simp

lemma stamped_request: "apply_object_digest demo_env demo_request = Inr (stamped demo_request)"
  by code_simp

lemma demo_request_checks:
  "check_self_digest demo_env (stamped demo_request) = Inr ()"
  "dget (stamped demo_request) ''schema_version'' = PS ''1.0''"
  "dget (stamped demo_request) ''record_type'' = PStr (S ''tool_request'')"
  "digest_field (PStr (S ''tool_request'')) = Some ''request_digest''"
  "wf_val (PDict (unsigned_body (stamped demo_request)))"
  by code_simp+

lemma demo_hash_sized: "digest_sized (hash demo_env)"
proof -
  have "length (demo_hash bs) = 32 \<and> (\<forall>b \<in> set (demo_hash bs). b < 256)" for bs
    unfolding demo_hash_def by auto
  then show ?thesis unfolding digest_sized_def demo_env_def list_all_iff by simp
qed

end
