(* ===== verification/Record_Facts.thy ===== *)
theory Record_Facts
  imports Validation
begin

text \<open>
  Facts about decoding and validating one record: what the strict decoder can produce, where
  the tenant check reaches, and that a schema that refers to itself is refused.
\<close>

section \<open>Values the decoder builds\<close>

text \<open>Objects with distinct keys, no float, no tuple and no other Python object, throughout.\<close>

function json_value :: "pyval \<Rightarrow> bool" where
  "json_value PNone = True"
| "json_value (PBool b) = True"
| "json_value (PInt i) = True"
| "json_value (PFloat q) = False"
| "json_value (PStr s) = True"
| "json_value (PList xs) = (\<forall>x\<in>set xs. json_value x)"
| "json_value (PTuple xs) = False"
| "json_value (PDict kvs) = (distinct (map fst kvs) \<and> (\<forall>kv\<in>set kvs. json_value (snd kv)))"
| "json_value (POther n) = False"
  by pat_completeness auto
termination
  by (relation "measure size") (auto dest: size_dict_value size_list_elem)

lemma dset_fresh: "map_of d k = None \<Longrightarrow> dset d k v = d @ [(k, v)]"
  by (induction d k v rule: dset.induct) (auto split: if_splits)

lemma object_pairs_Inr: "object_pairs ps = Inr d \<longleftrightarrow> distinct (map fst ps) \<and> d = ps"
proof (induction ps arbitrary: d rule: rev_induct)
  case Nil
  then show ?case by (auto simp: object_pairs_def)
next
  case (snoc p ps)
  obtain k v where p: "p = (k, v)" by (cases p)
  have step: "object_pairs (ps @ [p]) = bindE (object_pairs ps) (\<lambda>d.
      reject_if (map_of d k \<noteq> None) JsonDecodeError ''duplicate object key is forbidden'' (Inr (dset d k v)))"
    by (simp add: object_pairs_def p)
  have none: "map_of ps k = None \<longleftrightarrow> k \<notin> fst ` set ps" by (rule map_of_eq_None_iff)
  show ?case
    unfolding step bindE_Inr_iff snoc.IH reject_if_Inr_iff
    using none dset_fresh [of ps k v] by (auto simp: p)
qed

lemma wire_value_json: "wire_value w = Inr v \<Longrightarrow> json_value v"
proof (induction w arbitrary: v rule: wire_value.induct)
  case (7 ws)
  then obtain vs where vs: "list_all2 (\<lambda>w v. wire_value w = Inr v) ws vs" "v = PList vs"
    by (auto simp: bindE_Inr_iff mapE_Inr_iff)
  have "json_value x" if x: "x \<in> set vs" for x
  proof -
    obtain i where "i < length vs" "x = vs ! i" using x by (auto simp: in_set_conv_nth)
    then have "ws ! i \<in> set ws" "wire_value (ws ! i) = Inr x" using vs(1) by (auto simp: list_all2_conv_all_nth)
    then show ?thesis by (rule "7.IH")
  qed
  then show ?case using vs(2) by simp
next
  case (8 kvs)
  then obtain ps where ps: "list_all2 (\<lambda>kv p. bindE (wire_value (snd kv)) (\<lambda>v. Inr (fst kv, v)) = Inr p) kvs ps"
      "object_pairs ps = Inr ps" "v = PDict ps" "distinct (map fst ps)"
    by (auto simp: bindE_Inr_iff mapE_Inr_iff object_pairs_Inr)
  have "json_value (snd p)" if p: "p \<in> set ps" for p
  proof -
    obtain i where i: "i < length ps" "p = ps ! i" using p by (auto simp: in_set_conv_nth)
    then obtain x where "kvs ! i \<in> set kvs" "wire_value (snd (kvs ! i)) = Inr x" "p = (fst (kvs ! i), x)"
      using ps(1) by (fastforce simp: list_all2_conv_all_nth bindE_Inr_iff)
    then have "kvs ! i \<in> set kvs" "wire_value (snd (kvs ! i)) = Inr (snd p)" by simp_all
    then show ?thesis by (rule "8.IH")
  qed
  then show ?case using ps by simp
qed auto

text \<open>A wire tree that means one value: no repeated key, float or constant at any depth.\<close>

fun unambiguous :: "wire \<Rightarrow> bool" where
  "unambiguous WFloat = False"
| "unambiguous WConstant = False"
| "unambiguous (WArray ws) = (\<forall>w\<in>set ws. unambiguous w)"
| "unambiguous (WObject kvs) = (distinct (map fst kvs) \<and> (\<forall>kv\<in>set kvs. unambiguous (snd kv)))"
| "unambiguous _ = True"

lemma mapE_Inl: "mapE f xs = Inl e \<Longrightarrow> \<exists>x\<in>set xs. f x = Inl e"
  by (induction xs) (auto simp: bindE_Inl_iff)

lemma object_pairs_keys:
  assumes "object_pairs ps = Inl e"
  shows "\<not> distinct (map fst ps) \<and> (\<exists>m. e = Exc JsonDecodeError m)"
  using assms
proof (induction ps rule: rev_induct)
  case (snoc p ps)
  have step: "object_pairs (ps @ [p]) = bindE (object_pairs ps) (\<lambda>d.
     reject_if (map_of d (fst p) \<noteq> None) JsonDecodeError ''duplicate object key is forbidden''
       (Inr (dset d (fst p) (snd p))))"
    by (simp add: object_pairs_def case_prod_unfold)
  show ?case
  proof (cases "object_pairs ps")
    case (Inl e')
    then show ?thesis using snoc step by auto
  next
    case (Inr d)
    then have "d = ps" by (simp add: object_pairs_Inr)
    then have "map_of ps (fst p) \<noteq> None" "\<exists>m. e = Exc JsonDecodeError m"
      using snoc.prems step Inr by (auto simp: reject_if_def split: if_splits)
    then show ?thesis by (auto simp: map_of_eq_None_iff)
  qed
qed (simp add: object_pairs_def)

text \<open>
  Decoding succeeds on the unambiguous trees and raises \<open>JsonDecodeError\<close> on all others.
\<close>

lemma wire_value_error: "wire_value w = Inl e \<Longrightarrow> \<not> unambiguous w \<and> (\<exists>m. e = Exc JsonDecodeError m)"
proof (induction w arbitrary: e rule: wire_value.induct)
  case (7 ws)
  then have "mapE wire_value ws = Inl e" by (auto simp: bindE_Inl_iff)
  from mapE_Inl [OF this] show ?case using "7.IH" by fastforce
next
  case (8 kvs)
  let ?f = "\<lambda>kv. bindE (wire_value (snd kv)) (\<lambda>v. Inr (fst kv, v))"
  consider "mapE ?f kvs = Inl e" | ps where "mapE ?f kvs = Inr ps" "object_pairs ps = Inl e"
    using "8.prems" by (auto simp: bindE_Inl_iff)
  then show ?case
  proof cases
    case 1
    then obtain kv where "kv \<in> set kvs" "wire_value (snd kv) = Inl e"
      using mapE_Inl by (fastforce simp: bindE_Inl_iff)
    from "8.IH" [OF this] this(1) show ?thesis by auto
  next
    case 2
    have "map fst ps = map fst kvs" using 2(1) unfolding mapE_Inr_iff
      by (induction rule: list_all2_induct) (auto simp: bindE_Inr_iff)
    then show ?thesis using object_pairs_keys [OF 2(2)] by simp
  qed
qed simp_all

lemma list_all2_in: "list_all2 P xs ys \<Longrightarrow> x \<in> set xs \<Longrightarrow> \<exists>y\<in>set ys. P x y"
  by (induction rule: list_all2_induct) auto

lemma unambiguous_value: "unambiguous w \<Longrightarrow> \<exists>v. wire_value w = Inr v"
  using wire_value_error by (cases "wire_value w") blast+

lemma wire_value_unambiguous: "wire_value w = Inr v \<Longrightarrow> unambiguous w"
proof (induction w arbitrary: v rule: wire_value.induct)
  case (7 ws)
  then obtain vs where vs: "list_all2 (\<lambda>w v. wire_value w = Inr v) ws vs"
    by (auto simp: bindE_Inr_iff mapE_Inr_iff)
  have "unambiguous w" if "w \<in> set ws" for w
    using list_all2_in [OF vs that] "7.IH" [OF that] by blast
  then show ?case by simp
next
  case (8 kvs)
  then obtain ps where ps: "list_all2 (\<lambda>kv p. bindE (wire_value (snd kv)) (\<lambda>v. Inr (fst kv, v)) = Inr p) kvs ps"
      "distinct (map fst ps)"
    by (auto simp: bindE_Inr_iff mapE_Inr_iff object_pairs_Inr)
  have "map fst ps = map fst kvs"
    using ps(1) by (induction rule: list_all2_induct) (auto simp: bindE_Inr_iff)
  moreover have "unambiguous (snd kv)" if "kv \<in> set kvs" for kv
    using list_all2_in [OF ps(1) that] "8.IH" [OF that] by (auto simp: bindE_Inr_iff)
  ultimately show ?case using ps(2) by simp
qed simp_all

lemma ambiguous_refused:
  assumes "\<not> unambiguous w"
  shows "\<exists>m. wire_value w = Inl (Exc JsonDecodeError m)"
  using assms wire_value_unambiguous wire_value_error by (cases "wire_value w") blast+

section \<open>Tenants below the root\<close>

lemma nested_walk:
  assumes "w \<in> set (walk (PDict d))"
  shows "w = PDict d \<or> w \<in> set (nested_nodes d) \<or> (S [], w) \<in> set d"
proof (cases "w = PDict d")
  case False
  then obtain kv where kv: "kv \<in> set d" "w \<in> set (walk (snd kv))"
    using assms unfolding walk_PDict_iff by blast
  show ?thesis
  proof (cases "fst kv = []")
    case True
    then have "w = snd kv \<or> w \<in> set (nested_nodes d)"
      using kv set_tl_walk [OF kv(2)] by (auto simp: nested_nodes_def)
    then show ?thesis using kv(1) True by (cases kv) auto
  next
    case False
    then show ?thesis using kv by (auto simp: nested_nodes_def)
  qed
qed simp

section \<open>Schemas that refer to themselves\<close>

text \<open>
  A set of schema nodes, each with the document it stands in, that a reference never leaves:
  following references inside it exhausts the depth, whatever else the nodes say.
\<close>

definition reference_cycle :: "schema_store \<Rightarrow> (pystr \<times> dict) set \<Rightarrow> bool" where
  "reference_cycle st C \<longleftrightarrow> (\<forall>node\<in>C. \<exists>r n' s'. dget (snd node) ''$ref'' = PStr r \<and>
     resolve_ref st r (fst node) = Inr (n', PDict s') \<and> (n', s') \<in> C)"

lemma cycle_refused:
  assumes "reference_cycle st C"
  shows "(n, s) \<in> C \<Longrightarrow> \<exists>msg. validate st v (PDict s) n depth = Inl (Exc SchemaError msg)"
proof (induction "129 - depth" arbitrary: depth n s)
  case 0
  then show ?case by (subst validate.simps) (simp add: schema_fail_def)
next
  case (Suc k)
  obtain r n' s' where ref: "dget s ''$ref'' = PStr r" "resolve_ref st r n = Inr (n', PDict s')" "(n', s') \<in> C"
    using assms Suc.prems by (fastforce simp: reference_cycle_def)
  have "k = 129 - Suc depth" using Suc.hyps(2) by simp
  from Suc.hyps(1) [OF this ref(3)]
  obtain msg where deeper: "validate st v (PDict s') n' (Suc depth) = Inl (Exc SchemaError msg)" by blast
  have "dhas s ''$ref''" using ref(1) by (auto simp: dhas_def dget_def split: option.splits)
  moreover have "\<not> 128 < depth" using Suc.hyps(2) by simp
  ultimately show ?case
    by (subst validate.simps) (simp add: ref(1,2) deeper seqE_def deny_def del: validate.simps)
qed

end
