(* ===== verification/Contract_Properties.thy ===== *)
theory Contract_Properties
  imports Examples Record_Facts
begin

section \<open>Canonical bytes and digests\<close>

text \<open>
  C20: the canonical bytes are a fingerprint of the value: two well-formed values that can
  be canonicalised have the same bytes exactly when they are the same value up to the order
  of dictionary entries and the difference between tuples and lists.
\<close>

theorem canonical_fingerprint:
  assumes "wf_val v" "wf_val w" "canonical_bytes v = Inr a" "canonical_bytes w = Inr b"
  shows "a = b \<longleftrightarrow> norm_val v = norm_val w"
  using assms canonicalize_inject [of v w 0 a 0] norm_canonical_bytes [of v w a]
  by (auto simp: canonical_bytes_def)

theorem canonical_fingerprint_witness:
  "([123, 34, 97, 34, 58, 49, 125] = [123, 34, 97, 34, 58, 49, 125 :: nat]) =
     (norm_val (PDict [(S ''a'', PInt 1)]) = norm_val (PDict [(S ''a'', PInt 1)]))"
  by (rule canonical_fingerprint) (code_simp+)

text \<open>
  C19: stamping a record with \<open>apply_object_digest\<close> makes its own digest check pass, when a
  signed record already carries a proof of its domain.
\<close>

theorem stamp_validates:
  assumes "apply_object_digest E d = Inr d'"
    and "\<forall>dm. proof_domain_for (dget d ''record_type'') = Some dm \<longrightarrow>
           (\<exists>p. dget d ''proof'' = PDict p \<and> dget p ''proof_domain'' = PStr dm)"
  shows "check_self_digest E d' = Inr () \<and> unsigned_body d' = unsigned_body d \<and>
         apply_object_digest E d' = Inr d'"
  using stamped_checks [OF assms(1)] stamped_again [OF assms(1)] apply_object_digest_fields [OF assms(1)]
    assms(2) by blast

theorem stamp_validates_witness:
  "check_self_digest demo_env (stamped demo_request) = Inr () \<and>
   unsigned_body (stamped demo_request) = unsigned_body demo_request \<and>
   apply_object_digest demo_env (stamped demo_request) = Inr (stamped demo_request)"
  by (rule stamp_validates [OF stamped_request]) (simp add: demo_request_type)

text \<open>
  C18: a stored digest binds the record. If two records of one type pass their digest check
  with the same digest, and the hash does not collide on their two canonical texts, then
  their unsigned bodies are equal up to the order of entries.
\<close>

theorem self_digest_binds:
  assumes "check_self_digest E a = Inr ()" "check_self_digest E b = Inr ()"
    and "dget a ''schema_version'' = PS ''1.0''" "dget b ''schema_version'' = PS ''1.0''"
    and "dget a ''record_type'' = PStr rt" "dget b ''record_type'' = PStr rt"
    and "digest_field (PStr rt) = Some f" "dget a f = dget b f"
    and "digest_sized (hash E)" "wf_val (PDict (unsigned_body a))" "wf_val (PDict (unsigned_body b))"
    and "\<forall>x y. canonical_bytes (PDict (unsigned_body a)) = Inr x \<longrightarrow>
           canonical_bytes (PDict (unsigned_body b)) = Inr y \<longrightarrow> hash E x = hash E y \<longrightarrow> x = y"
  shows "norm_val (PDict (unsigned_body a)) = norm_val (PDict (unsigned_body b))"
proof -
  have "expected_object_digest E a = Inr (dget a f)" "expected_object_digest E b = Inr (dget a f)"
    using check_self_digest_iff [OF assms(3,5,7)] check_self_digest_iff [OF assms(4,6,7)] assms(1,2,8)
    by auto
  then show ?thesis
    using sha256_digest_inj [OF assms(9-11)] assms(12) unfolding expected_object_digest_def by blast
qed

theorem self_digest_binds_witness:
  "norm_val (PDict (unsigned_body (stamped demo_request))) = norm_val (PDict (unsigned_body (stamped demo_request)))"
  by (rule self_digest_binds [OF demo_request_checks(1,1,2,2,3,3,4) refl demo_hash_sized demo_request_checks(5,5)])
     simp

section \<open>Timestamps\<close>

text \<open>
  C26: reading a timestamp the kernel wrote gives the instant rounded down to its
  millisecond, for every instant of the years 1 to 9999.
\<close>

theorem timestamp_roundtrip:
  assumes "representable t"
  shows "parse_timestamp (PStr (utc_millis_text t)) = Inr (t - t mod 1000)"
  using strptime_utc_millis [OF assms] by (simp add: parse_timestamp_def parse_time_as_def)

theorem timestamp_roundtrip_witness:
  "parse_timestamp (PStr (utc_millis_text 63902908800123456)) = Inr 63902908800123000"
  using timestamp_roundtrip [of 63902908800123456] by (simp add: representable_def)

section \<open>Decoding\<close>

text \<open>
  C22: strict decoding only returns values of the canonical domain: objects have distinct
  keys, no floating-point number appears, and the value has canonical bytes.
\<close>

theorem decoding_strict:
  assumes "strict_json_loads decode scan payload = Inr v"
  shows "json_value v \<and> (\<exists>b. canonical_bytes v = Inr b)"
proof -
  obtain w where "wire_value w = Inr v" "catchE SemanticError (bindE (canonical_bytes v) (\<lambda>_. Inr ()))
      (Inl (Exc JsonDecodeError ''not canonical'')) = Inr ()"
    using assms by (auto simp: strict_json_loads_def bindE_Inr_iff thenE_Inr_iff split: option.splits)
  then show ?thesis using wire_value_json by (auto simp: catchE_Inr_iff bindE_Inr_iff)
qed

lemma decoding_strict_witness:
  "json_value (PDict [(S ''a'', PList [PInt 1])]) \<and>
   (\<exists>b. canonical_bytes (PDict [(S ''a'', PList [PInt 1])]) = Inr b)"
proof -
  have "strict_json_loads Some (\<lambda>_. Some (WObject [(S ''a'', WArray [WInt 1])])) []
      = Inr (PDict [(S ''a'', PList [PInt 1])])" by code_simp
  then show ?thesis by (rule decoding_strict)
qed

text \<open>
  C23: a wire payload whose JSON tree repeats a key in some object, or holds a float or a
  non-finite constant, at any depth, is refused with \<open>JsonDecodeError\<close> by the decoder and by
  both parsers of records, before any check of the record; and a payload that is decoded has
  no such position.
\<close>

theorem ambiguous_wire_refused:
  assumes "decode payload = Some chars" "scan chars = Some w"
  shows "if unambiguous w then \<exists>v. wire_value w = Inr v
    else \<exists>m. strict_json_loads decode scan payload = Inl (Exc JsonDecodeError m) \<and>
       parse_model decode scan E st expected verify payload = Inl (Exc JsonDecodeError m) \<and>
       model_from_bytes decode scan E st rt expected verify payload = Inl (Exc JsonDecodeError m)"
proof (cases "unambiguous w")
  case True
  then show ?thesis using unambiguous_value by simp
next
  case False
  from ambiguous_refused [OF this] obtain m where "wire_value w = Inl (Exc JsonDecodeError m)" by blast
  then have "strict_json_loads decode scan payload = Inl (Exc JsonDecodeError m)"
    using assms by (simp add: strict_json_loads_def)
  then show ?thesis using False by (simp add: parse_model_def model_from_bytes_def)
qed

text \<open>A record whose nested list holds an object that repeats a key.\<close>

definition nested_duplicate :: wire where
  "nested_duplicate = WObject [(S ''record_type'', WStr (S ''tool_request'')),
     (S ''arguments'', WObject [(S ''steps'', WArray [WObject [(S ''a'', WNull), (S ''a'', WInt 1)]])])]"

lemma ambiguous_wire_refused_witness:
  "\<exists>m. strict_json_loads Some (\<lambda>_. Some nested_duplicate) [] = Inl (Exc JsonDecodeError m) \<and>
     parse_model Some (\<lambda>_. Some nested_duplicate) demo_env demo_store PNone True [] = Inl (Exc JsonDecodeError m) \<and>
     model_from_bytes Some (\<lambda>_. Some nested_duplicate) demo_env demo_store (S ''tool_request'') PNone True []
       = Inl (Exc JsonDecodeError m)"
proof -
  have "\<not> unambiguous nested_duplicate" by (simp add: nested_duplicate_def)
  then show ?thesis
    using ambiguous_wire_refused [of Some "[]" "[]" "\<lambda>_. Some nested_duplicate" nested_duplicate] by simp
qed

section \<open>Validated records\<close>

text \<open>
  C21: a validated record is of one tenant throughout: every dictionary in it that names a
  tenant names the same one, the expected one if there was one. (The dictionary stored under
  the empty key at the root is the exception: the code takes its path for the root's.)
\<close>

theorem one_tenant:
  assumes "validate_record E expected (PDict d) = Inr ()"
  shows "\<exists>t. dget d ''tenant_id'' = PStr t \<and> (expected = PNone \<or> expected = PStr t) \<and>
     (\<forall>n. PDict n \<in> set (walk (PDict d)) \<longrightarrow> dhas n ''tenant_id'' \<longrightarrow> (S [], PDict n) \<notin> set d \<longrightarrow>
        dget n ''tenant_id'' = PStr t)"
proof -
  obtain t where t: "validate_tenant_consistency d expected = Inr t"
    using assms by (auto simp: validate_record_in_Inr)
  have "dget n ''tenant_id'' = PStr t"
    if n: "PDict n \<in> set (walk (PDict d))" "dhas n ''tenant_id''" "(S [], PDict n) \<notin> set d" for n
    using nested_walk [OF n(1)] n(2,3) tenant_nested [OF t] tenant_consistent(1) [OF t] by auto
  then show ?thesis using tenant_consistent(1,2) [OF t] by blast
qed

lemma one_tenant_witness:
  "\<exists>t. dget (stamped demo_request) ''tenant_id'' = PStr t \<and> (PS ''t1'' = PNone \<or> PS ''t1'' = PStr t)"
proof -
  have "validate_record demo_env (PS ''t1'') (PDict (stamped demo_request)) = Inr ()" by code_simp
  from one_tenant [OF this] show ?thesis by (elim exE conjE) (intro exI conjI, assumption+)
qed

section \<open>Schemas\<close>

text \<open>
  C24: an object accepted by a schema that closes its properties has every required key, no
  key the schema does not declare, and each value is accepted by the schema of its key.
\<close>

theorem schema_closed:
  assumes "validate st (PDict d) (PDict s) name depth = Inr ()"
    and "map_of s (S ''properties'') = Some (PDict props)"
    and "map_of s (S ''additionalProperties'') = Some (PBool False)"
    and "map_of s (S ''required'') = Some (PList (map PStr ks))"
  shows "set ks \<subseteq> dkeys d \<and> dkeys d \<subseteq> dkeys props \<and>
     (\<forall>(k, sub)\<in>set props. \<forall>w. map_of d k = Some w \<longrightarrow> validate st w sub name (Suc depth) = Inr ())"
proof -
  have "k \<in> dkeys d" if "k \<in> set ks" for k
    by (rule validate_required [OF assms(1,4)]) (use that in simp)
  moreover have "extras props d = []" by (rule validate_object(2) [OF assms(1,2,3)])
  ultimately show ?thesis using validate_object(1) [OF assms(1,2)] extras_Nil by blast
qed

lemma schema_closed_witness:
  "set [S ''a''] \<subseteq> dkeys [(S ''a'', PInt 1)]"
proof -
  let ?s = "[(S ''properties'', PDict [(S ''a'', PDict [(S ''type'', PS ''integer'')])]),
     (S ''additionalProperties'', PBool False), (S ''required'', PList (map PStr [S ''a'']))]"
  have "validate demo_store (PDict [(S ''a'', PInt 1)]) (PDict ?s) [] 0 = Inr ()"
    "map_of ?s (S ''properties'') = Some (PDict [(S ''a'', PDict [(S ''type'', PS ''integer'')])])"
    "map_of ?s (S ''additionalProperties'') = Some (PBool False)"
    "map_of ?s (S ''required'') = Some (PList (map PStr [S ''a'']))"
    by code_simp+
  from schema_closed [OF this] show ?thesis by blast
qed

text \<open>
  C25: a cycle of references is refused. When every node of a set of schema objects has a
  \<open>$ref\<close> that resolves, in its own document, to a node of the set, validation against any of
  them ends with a \<open>SchemaError\<close> for every value, whatever other keywords the nodes have: the
  code neither loops nor accepts.
\<close>

theorem cyclic_schema_refused:
  assumes "\<forall>node\<in>C. \<exists>r n' s'. dget (snd node) ''$ref'' = PStr r \<and>
      resolve_ref st r (fst node) = Inr (n', PDict s') \<and> (n', s') \<in> C"
    and "(n, s) \<in> C"
  shows "\<exists>msg. validate st v (PDict s) n depth = Inl (Exc SchemaError msg)"
  using cycle_refused [OF _ assms(2)] assms(1) unfolding reference_cycle_def by blast

text \<open>Two documents whose root schemas refer to each other.\<close>

definition chase_a :: dict where
  "chase_a = [(S ''$ref'', PS ''b.json''), (S ''type'', PS ''object'')]"

definition chase_b :: dict where
  "chase_b = [(S ''$ref'', PS ''a.json'')]"

definition cyclic_store :: schema_store where
  "cyclic_store = demo_store\<lparr> documents := (\<lambda>n. if n = S ''a.json'' then Some (PDict chase_a)
     else if n = S ''b.json'' then Some (PDict chase_b) else None) \<rparr>"

lemma cyclic_schema_refused_witness:
  "\<exists>msg. validate cyclic_store (PDict []) (PDict chase_a) (S ''a.json'') 0 = Inl (Exc SchemaError msg)"
proof (rule cyclic_schema_refused)
  have "resolve_ref cyclic_store (S ''b.json'') (S ''a.json'') = Inr (S ''b.json'', PDict chase_b)"
    "resolve_ref cyclic_store (S ''a.json'') (S ''b.json'') = Inr (S ''a.json'', PDict chase_a)"
    by code_simp+
  then show "\<forall>node\<in>{(S ''a.json'', chase_a), (S ''b.json'', chase_b)}. \<exists>r n' s'.
      dget (snd node) ''$ref'' = PStr r \<and> resolve_ref cyclic_store r (fst node) = Inr (n', PDict s') \<and>
      (n', s') \<in> {(S ''a.json'', chase_a), (S ''b.json'', chase_b)}"
    by (auto simp: chase_a_def chase_b_def dget_def)
qed simp

end
