(* ===== verification/Store_Port.thy ===== *)
theory Store_Port
  imports Ledger
begin

text \<open>
  The persistence port of \<open>persistence/store.py\<close> as the kernel sees it: the immutable
  snapshots \<open>StoredLifecycle\<close> and \<open>StoredEffectExecution\<close>, the operations of the protocol
  \<open>DurableEffectStore\<close> as a record of functions over a database state of their own type,
  and the digest that binds a durable execution to every authority input. A snapshot method
  copies deeply; on values it is the identity, except for the flag it replaces.
\<close>

section \<open>Stored snapshots\<close>

record stored_lifecycle =
  sl_actor :: dict
  sl_request :: dict
  sl_policy :: dict
  sl_state :: pystr
  sl_version :: int
  sl_evidence :: "dict list"
  sl_approval :: "dict option"
  sl_grant :: "dict option"

record stored_effect =
  se_actor :: dict
  se_request :: dict
  se_policy :: dict
  se_approvals :: "dict list"
  se_grant :: dict
  se_binding_digest :: pyval
  se_state :: pystr
  se_version :: int
  se_intent_evidence :: dict
  se_outcome :: "dict option"
  se_outcome_evidence :: "dict option"
  se_attempt :: "pystr option"
  se_generation :: "int option"
  se_lease_expires_at :: "pytime option"
  se_last_renewed_at :: "pytime option"
  se_created :: bool

definition effect_snapshot :: "stored_effect \<Rightarrow> bool option \<Rightarrow> stored_effect" where
  "effect_snapshot s created =
     s\<lparr> se_created := (case created of None \<Rightarrow> se_created s | Some b \<Rightarrow> b) \<rparr>"

section \<open>The protocol\<close>

record 'd durable_store =
  ds_lookup :: "dict \<Rightarrow> pyval \<Rightarrow> ('d, stored_effect option) handler"
  ds_prepare :: "dict \<Rightarrow> dict \<Rightarrow> dict \<Rightarrow> dict list \<Rightarrow> dict \<Rightarrow> dict \<Rightarrow> dict \<Rightarrow> ('d, stored_effect) handler"
  ds_complete :: "dict \<Rightarrow> pyval \<Rightarrow> int \<Rightarrow> dict \<Rightarrow> dict \<Rightarrow> dict \<Rightarrow> pystr \<Rightarrow> pystr option \<Rightarrow> int option
                    \<Rightarrow> ('d, stored_effect) handler"
  ds_renew_lease :: "dict \<Rightarrow> pyval \<Rightarrow> pystr option \<Rightarrow> int option \<Rightarrow> ('d, stored_effect) handler"
  ds_recover_expired :: "dict \<Rightarrow> pyval \<Rightarrow> dict \<Rightarrow> dict \<Rightarrow> dict \<Rightarrow> ('d, stored_effect) handler"
  ds_load_lifecycle :: "dict \<Rightarrow> pyval \<Rightarrow> ('d, stored_lifecycle option) handler"
  ds_persist_submission :: "dict \<Rightarrow> dict \<Rightarrow> dict \<Rightarrow> pystr \<Rightarrow> dict \<Rightarrow> ('d, stored_lifecycle) handler"
  ds_persist_approval :: "dict \<Rightarrow> pyval \<Rightarrow> int option \<Rightarrow> dict \<Rightarrow> dict \<Rightarrow> ('d, stored_lifecycle) handler"
  ds_persist_grant :: "dict \<Rightarrow> pyval \<Rightarrow> int option \<Rightarrow> dict \<Rightarrow> dict \<Rightarrow> ('d, stored_lifecycle) handler"
  ds_events :: "dict \<Rightarrow> pyval option \<Rightarrow> ('d, dict list) handler"

section \<open>The execution binding\<close>

definition execution_binding_digest ::
  "env \<Rightarrow> dict \<Rightarrow> dict \<Rightarrow> dict \<Rightarrow> dict list \<Rightarrow> dict \<Rightarrow> pyval res" where
  "execution_binding_digest E actor request policy approvals grant =
     bindE (sha256_digest (hash E) (PDict actor)) (\<lambda>actor_dg.
     bindE (ditem request ''request_digest'') (\<lambda>request_dg.
     bindE (ditem policy ''decision_digest'') (\<lambda>policy_dg.
     bindE (mapE (\<lambda>a. ditem a ''approval_digest'') approvals) (\<lambda>approval_dgs.
     bindE (ditem grant ''constraints'') (\<lambda>constraints.
     bindE (ditem grant ''isolation_profile'') (\<lambda>isolation.
     bindE (sha256_digest (hash E) (PDict grant)) (\<lambda>grant_dg.
     bindE (ditem request ''tenant_id'') (\<lambda>tenant.
     bindE (ditem request ''actor_id'') (\<lambda>actor_id.
     bindE (ditem request ''run_id'') (\<lambda>run.
     bindE (ditem request ''idempotency'') (\<lambda>idem.
     bindE (ditem grant ''expires_at'') (\<lambda>expires.
       sha256_digest (hash E) (PDict
        [(S ''actor_context_digest'', actor_dg),
         (S ''request_digest'', request_dg),
         (S ''policy_decision_digest'', policy_dg),
         (S ''approval_digests'', PList approval_dgs),
         (S ''constraints'', constraints),
         (S ''isolation_profile'', isolation),
         (S ''grant_digest'', grant_dg),
         (S ''tenant_id'', tenant),
         (S ''actor_id'', actor_id),
         (S ''run_id'', run),
         (S ''idempotency'', idem),
         (S ''expires_at'', expires)])))))))))))))"

end
