(* ===== verification/Broker.thy ===== *)
theory Broker
  imports Store_Port
begin

text \<open>
  The effect broker of \<open>kernel/effects.py\<close>: the capabilities of an executor, the authority
  checks before a dispatch, the invocation of the executor with its compensation, the
  action outcome, and the two dispatch paths (in process and through the durable store)
  with recovery. The executor, the clock, the ids, the trust factory and the verifier are
  injected callables. \<open>trace\<close> is a ghost field: it records every call of the executor's
  two methods and nothing reads it. The broker lock makes a dispatch one atomic step.
\<close>

section \<open>Executors\<close>

record executor =
  x_effect_classes :: "pyval list"
  x_isolation_profiles :: "pyval list"
  x_constraints :: constraint_registry
  x_execute :: "nat \<Rightarrow> dict \<Rightarrow> dict \<Rightarrow> pyval res"
  x_revert :: "nat \<Rightarrow> dict \<Rightarrow> dict \<Rightarrow> dict \<Rightarrow> unit res"

text \<open>\<open>ExecutorCapabilities.validate\<close>; the text of a refusal is not modelled.\<close>

definition capabilities_validate :: "executor \<Rightarrow> dict \<Rightarrow> dict \<Rightarrow> unit res" where
  "capabilities_validate X request grant =
     bindE (bindE (ditem request ''effect_classes'') frozenset) (\<lambda>requested.
     reject_if (\<exists>x\<in>set requested. \<not> member x (x_effect_classes X)) EffectConfigurationError
       ''executor does not support effect classes''
    (bindE (ditem grant ''isolation_profile'') (\<lambda>profile.
     reject_if (\<not> hashable profile) TypeError ''unhashable type''
    (reject_if (\<not> member profile (x_isolation_profiles X)) EffectConfigurationError
       ''executor does not support isolation profile''
    (bindE (bindE (ditem grant ''constraints'') elems) (\<lambda>constraints. forE constraints (\<lambda>c.
       bindE (item c ''constraint_id'') (\<lambda>cid.
       bindE (item c ''constraint_version'') (\<lambda>cver.
         denyE (notE (accepts (x_constraints X) cid cver)) EffectConfigurationError
           ''executor does not support constraint'')))))))))"

section \<open>State\<close>

record broker_execution =
  be_outcome :: dict
  be_intent :: dict
  be_outcome_evidence :: dict
  be_replayed :: bool

definition execution_snapshot :: "broker_execution \<Rightarrow> bool option \<Rightarrow> broker_execution" where
  "execution_snapshot x replayed =
     x\<lparr> be_replayed := (case replayed of None \<Rightarrow> be_replayed x | Some b \<Rightarrow> b) \<rparr>"

record stored_execution =
  st_idempotency :: dict
  st_request_digest :: pyval
  st_policy_digest :: pyval
  st_grant_digest :: pyval
  st_execution :: broker_execution

text \<open>
  What the broker asked of the executor: a call, a revert that returned, and a revert that
  raised, after which the effect may still stand.
\<close>

datatype effect_event =
    Executed dict dict
  | Reverted dict dict dict
  | RevertFailed dict dict dict

record 'd broker = ports +
  b_executor :: executor
  b_registry :: constraint_registry
  b_grant_verifier :: "nat \<Rightarrow> verifier"
  b_grant_trust :: "nat \<Rightarrow> instant \<Rightarrow> trust_context option res"
  b_durable :: "'d durable_store option"
  b_heartbeats :: "nat \<Rightarrow> nat"

record 'd broker_state = ledger_state +
  consumed_grants :: "(pyval \<times> pyval \<times> pyval) list"
  results :: "((pyval \<times> pyval) \<times> stored_execution) list"
  db :: 'd
  trace :: "effect_event list"

text \<open>A database operation of the durable port, run on the \<open>db\<close> field.\<close>

definition dbH :: "('d, 'a) handler \<Rightarrow> (('d, 'z) broker_state_scheme, 'a) handler" where
  "dbH m = (\<lambda>s. case m (db s) of (r, d) \<Rightarrow> (r, s\<lparr> db := d \<rparr>))"

definition log_effect :: "effect_event \<Rightarrow> (('d, 'z) broker_state_scheme, unit) handler" where
  "log_effect e = modifyH (\<lambda>s. s\<lparr> trace := trace s @ [e] \<rparr>)"

section \<open>Times and references\<close>

fun aware_utc :: "pytime \<Rightarrow> instant res" where
  "aware_utc (Aware t) = Inr t"
| "aware_utc (Naive t) = Inl (Exc EffectConfigurationError ''effect clock must be timezone-aware'')"

definition effect_time :: "dict \<Rightarrow> string \<Rightarrow> instant res" where
  "effect_time d k = bindE (ditem d k)
     (parse_time_as EffectConfigurationError ''effect contract timestamp is invalid'')"

definition effect_ref :: "string \<Rightarrow> dict \<Rightarrow> string \<Rightarrow> string \<Rightarrow> dict res" where
  "effect_ref rt d id_key dg_key =
     bindE (ditem d id_key) (\<lambda>i. bindE (ditem d dg_key) (\<lambda>dg.
       Inr [(S ''record_type'', PS rt), (S ''record_id'', i), (S ''record_digest'', dg)]))"

text \<open>\<open>d[k]\<close> where the next statement subscripts the value with a string.\<close>

definition mapping_item :: "dict \<Rightarrow> string \<Rightarrow> dict res" where
  "mapping_item d k = bindE (ditem d k) (\<lambda>v. case v of
     PDict b \<Rightarrow> Inr b | _ \<Rightarrow> Inl (Exc TypeError ''indices must be integers''))"

section \<open>Authority\<close>

definition effect_scope_checks :: "env \<Rightarrow> dict \<Rightarrow> dict \<Rightarrow> dict \<Rightarrow> unit res" where
  "effect_scope_checks E actor request grant = seqE
    [denyE (orE [bindE (ditem actor ''tenant_id'') (\<lambda>a. bindE (ditem request ''tenant_id'') (\<lambda>b. Inr (neq a b))),
                 bindE (ditem actor ''actor_id'') (\<lambda>a. bindE (ditem request ''actor_id'') (\<lambda>b. Inr (neq a b)))])
       EffectConfigurationError ''broker request scope does not match the verified actor context'',
     denyE (bindE (ditem request ''actor_context_digest'') (\<lambda>a.
            bindE (sha256_digest (hash E) (PDict actor)) (\<lambda>b. Inr (neq a b))))
       EffectConfigurationError ''broker request does not bind the verified actor context'',
     denyE (bindE (ditem grant ''idempotency'') (\<lambda>a. bindE (ditem request ''idempotency'') (\<lambda>b. Inr (neq a b))))
       IdempotencyConflictError ''authorization grant idempotency must exactly match the request'']"

text \<open>\<open>not issued <= now < expires\<close> evaluates the second bound only when the first holds.\<close>

definition effect_window_checks :: "dict \<Rightarrow> dict \<Rightarrow> instant \<Rightarrow> unit res" where
  "effect_window_checks actor grant now = seqE
    [bindE (effect_time actor ''expires_at'') (\<lambda>e. deny (now \<ge> e) EffectConfigurationError
       ''verified actor context expired before dispatch''),
     denyE (bindE (effect_time grant ''issued_at'') (\<lambda>i.
        if \<not> i \<le> now then Inr True
        else bindE (effect_time grant ''expires_at'') (\<lambda>e. Inr (\<not> now < e))))
       EffectConfigurationError ''authorization grant is not currently valid'']"

text \<open>\<open>not isinstance(trust, TrustContext) or trust.now != now\<close>\<close>

definition current_trust :: "exc_class \<Rightarrow> instant \<Rightarrow> trust_context option \<Rightarrow> trust_context res" where
  "current_trust cls now t = (case t of
     None \<Rightarrow> Inl (Exc cls ''trust factory must return the current trust context'')
   | Some T \<Rightarrow> reject_if (tc_now T \<noteq> Aware now) cls
       ''trust factory must return the current trust context'' (Inr T))"

definition validate_authority ::
  "('d, 'p) broker_scheme \<Rightarrow> dict \<Rightarrow> dict \<Rightarrow> dict \<Rightarrow> dict list \<Rightarrow> dict \<Rightarrow> ('z world_scheme, unit) handler" where
  "validate_authority B actor request policy approvals grant =
     bindH (liftH (effect_scope_checks (p_env B) actor request grant)) (\<lambda>_.
     bindH (bindH (ext (p_clock B)) (\<lambda>t. liftH (aware_utc t))) (\<lambda>now.
     bindH (liftH (effect_window_checks actor grant now)) (\<lambda>_.
     bindH (ext (\<lambda>n. b_grant_trust B n now)) (\<lambda>t.
     bindH (liftH (current_trust EffectConfigurationError now t)) (\<lambda>T.
       ext (\<lambda>n. validate_grant_binding (p_env B) (b_grant_verifier B n) T (b_registry B)
              (PDict grant) (PDict request) (PDict policy) (map PDict approvals)))))))"

section \<open>The executor\<close>

definition revert_synthetic ::
  "executor \<Rightarrow> dict \<Rightarrow> dict \<Rightarrow> dict \<Rightarrow> (('d, 'z) broker_state_scheme, unit) handler" where
  "revert_synthetic X request grant result =
     bindH (attemptH (ext (\<lambda>n. x_revert X n request grant result))) (\<lambda>answer. case answer of
       Inr _ \<Rightarrow> log_effect (Reverted request grant result)
     | Inl _ \<Rightarrow> bindH (log_effect (RevertFailed request grant result)) (\<lambda>_.
         raiseH EffectConfigurationError ''synthetic executor could not revert an unrecordable effect''))"

definition indeterminate_result :: dict where
  "indeterminate_result = [(S ''error'', PS ''executor_result_indeterminate'')]"

definition indeterminate ::
  "executor \<Rightarrow> dict \<Rightarrow> dict \<Rightarrow> (('d, 'z) broker_state_scheme, string \<times> dict \<times> bool) handler" where
  "indeterminate X request grant =
     bindH (revert_synthetic X request grant indeterminate_result) (\<lambda>_.
       returnH (''indeterminate'', indeterminate_result, False))"

definition executor_result :: "pyval \<Rightarrow> dict res" where
  "executor_result raw = (case raw of
     PDict d \<Rightarrow> bindE (canonical_bytes (PDict d)) (\<lambda>_. Inr d)
   | _ \<Rightarrow> Inl (Exc TypeError ''executor result must be a mapping''))"

definition call_executor ::
  "executor \<Rightarrow> dict \<Rightarrow> dict \<Rightarrow> (('d, 'z) broker_state_scheme, pyval) handler" where
  "call_executor X request grant =
     bindH (log_effect (Executed request grant)) (\<lambda>_. ext (\<lambda>n. x_execute X n request grant))"

definition invoke_executor ::
  "executor \<Rightarrow> dict \<Rightarrow> dict \<Rightarrow> (('d, 'z) broker_state_scheme, string \<times> dict \<times> bool) handler" where
  "invoke_executor X request grant =
     bindH (attemptH (call_executor X request grant)) (\<lambda>raw. case raw of
       Inl _ \<Rightarrow> indeterminate X request grant
     | Inr v \<Rightarrow> (case executor_result v of
         Inl _ \<Rightarrow> indeterminate X request grant
       | Inr d \<Rightarrow> returnH (''succeeded'', d, True)))"

text \<open>\<open>except Exception: if effect_active: self._revert_synthetic(...); raise\<close>\<close>

definition revert_and_raise ::
  "executor \<Rightarrow> dict \<Rightarrow> dict \<Rightarrow> dict \<Rightarrow> bool \<Rightarrow> exc \<Rightarrow> (('d, 'z) broker_state_scheme, 'a) handler" where
  "revert_and_raise X request grant result active e =
     bindH (if active then revert_synthetic X request grant result else returnH ())
       (\<lambda>_. liftH (Inl e))"

section \<open>The action outcome\<close>

definition outcome_scope :: "env \<Rightarrow> pyval \<Rightarrow> dict \<Rightarrow> pystr \<Rightarrow> dict res" where
  "outcome_scope E scope_id actor now =
     bindE (ditem actor ''tenant_id'') (\<lambda>tenant.
     bindE (ditem actor ''actor_id'') (\<lambda>actor_id.
     bindE (sha256_digest (hash E) (PDict actor)) (\<lambda>parent.
     bindE (ditem actor ''expires_at'') (\<lambda>until.
     Inr [(S ''schema_version'', PS ''1.0''),
          (S ''record_type'', PS ''memory_scope''),
          (S ''scope_id'', scope_id),
          (S ''tenant_id'', tenant),
          (S ''actor_id'', actor_id),
          (S ''parent_record_type'', PS ''actor_context''),
          (S ''parent_digest'', parent),
          (S ''selection'', PDict [(S ''level'', PS ''actor'')]),
          (S ''derived_at'', PStr now),
          (S ''valid_until'', until)]))))"

definition provenance_digest :: "env \<Rightarrow> dict \<Rightarrow> dict \<Rightarrow> dict \<Rightarrow> pyval res" where
  "provenance_digest E grant intent result =
     bindE (sha256_digest (hash E) (PDict grant)) (\<lambda>grant_dg.
     bindE (ditem intent ''event_digest'') (\<lambda>event_dg.
       sha256_digest (hash E) (PDict
        [(S ''authorization_grant_digest'', grant_dg),
         (S ''intent_evidence_digest'', event_dg),
         (S ''result_payload'', PDict result)])))"

definition outcome_record ::
  "env \<Rightarrow> pyval \<Rightarrow> dict \<Rightarrow> dict \<Rightarrow> dict \<Rightarrow> dict list \<Rightarrow> dict \<Rightarrow> dict \<Rightarrow> string \<Rightarrow> dict \<Rightarrow> pystr \<Rightarrow> dict res" where
  "outcome_record E outcome_id scope request policy approvals grant intent status result now =
     bindE (ditem request ''tenant_id'') (\<lambda>tenant.
     bindE (ditem request ''run_id'') (\<lambda>run.
     bindE (effect_ref ''tool_request'' request ''request_id'' ''request_digest'') (\<lambda>request_ref.
     bindE (effect_ref ''evidence_envelope'' intent ''envelope_id'' ''event_digest'') (\<lambda>intent_ref.
     bindE (provenance_digest E grant intent result) (\<lambda>provenance.
     bindE (effect_ref ''policy_decision'' policy ''decision_id'' ''decision_digest'') (\<lambda>policy_ref.
     bindE (mapE (\<lambda>a. effect_ref ''approval_record'' a ''approval_id'' ''approval_digest'') approvals) (\<lambda>reviewers.
     bindE (ditem request ''idempotency'') (\<lambda>idem.
     Inr [(S ''schema_version'', PS ''1.0''),
          (S ''record_type'', PS ''action_outcome''),
          (S ''tenant_id'', tenant),
          (S ''outcome_id'', outcome_id),
          (S ''target_scope'', PDict scope),
          (S ''run_id'', run),
          (S ''request_ref'', PDict request_ref),
          (S ''status'', PS status),
          (S ''effect_state'', PS status),
          (S ''evidence_refs'', PList [PDict intent_ref]),
          (S ''provenance_digest'', provenance),
          (S ''result_payload'', PDict result),
          (S ''producer_version'', PS ''governed_effects.v1''),
          (S ''runtime_version'', PS ''phase3.in_process.v1''),
          (S ''policy_refs'', PList [PDict policy_ref]),
          (S ''reviewer_refs'', PList (map PDict reviewers)),
          (S ''compatibility'', PDict
            [(S ''contract_versions'', PList [PS ''action_outcome=1.0'']),
             (S ''runtime_version_range'', PS ''>=0.1'')]),
          (S ''idempotency'', idem),
          (S ''occurred_at'', PStr now),
          (S ''outcome_digest'', PStr (S ''sha256:'' @ replicate 64 48))]))))))))"

definition build_outcome ::
  "('d, 'p) broker_scheme \<Rightarrow> dict \<Rightarrow> dict \<Rightarrow> dict \<Rightarrow> dict list \<Rightarrow> dict \<Rightarrow> dict \<Rightarrow> string \<Rightarrow> dict
     \<Rightarrow> ('z world_scheme, dict) handler" where
  "build_outcome B actor request policy approvals grant intent status result =
     (let E = p_env B in
      bindH (bindH (ext (p_clock B)) (\<lambda>t. liftH (aware_utc t))) (\<lambda>now.
      bindH (new_id B) (\<lambda>scope_id.
      bindH (liftH (outcome_scope E scope_id actor (utc_millis_text now))) (\<lambda>scope.
      bindH (liftH (validate_scope_narrowing E (PDict scope) (PDict actor))) (\<lambda>_.
      bindH (new_id B) (\<lambda>outcome_id.
      liftH (bindE (outcome_record E outcome_id scope request policy approvals grant intent status
                      result (utc_millis_text now)) (\<lambda>record.
             bindE (apply_object_digest E record) (\<lambda>stamped.
             bindE (ditem request ''tenant_id'') (\<lambda>tenant.
               contract_model E (store E) (S ''action_outcome'') tenant True stamped))))))))))"

section \<open>Evidence payloads\<close>

definition intent_payload :: "env \<Rightarrow> dict \<Rightarrow> dict \<Rightarrow> dict res" where
  "intent_payload E request grant =
     bindE (ditem grant ''actor_id'') (\<lambda>actor_id.
     bindE (ditem grant ''request_digest'') (\<lambda>request_dg.
     bindE (ditem grant ''policy_decision_digest'') (\<lambda>policy_dg.
     bindE (sha256_digest (hash E) (PDict grant)) (\<lambda>grant_dg.
     bindE (ditem request ''effect_classes'') (\<lambda>effects.
     bindE (ditem grant ''isolation_profile'') (\<lambda>isolation.
     Inr [(S ''actor_id'', actor_id),
          (S ''request_digest'', request_dg),
          (S ''policy_decision_digest'', policy_dg),
          (S ''authorization_grant_digest'', grant_dg),
          (S ''effect_classes'', effects),
          (S ''isolation_profile'', isolation)]))))))"

definition outcome_payload :: "env \<Rightarrow> dict \<Rightarrow> dict \<Rightarrow> dict res" where
  "outcome_payload E grant outcome =
     bindE (ditem grant ''actor_id'') (\<lambda>actor_id.
     bindE (ditem grant ''request_digest'') (\<lambda>request_dg.
     bindE (sha256_digest (hash E) (PDict grant)) (\<lambda>grant_dg.
     bindE (ditem outcome ''outcome_digest'') (\<lambda>outcome_dg.
     bindE (ditem outcome ''status'') (\<lambda>status.
     Inr [(S ''actor_id'', actor_id),
          (S ''request_digest'', request_dg),
          (S ''authorization_grant_digest'', grant_dg),
          (S ''outcome_digest'', outcome_dg),
          (S ''status'', status)])))))"

section \<open>Dispatch in process\<close>

definition grant_key_of :: "env \<Rightarrow> dict \<Rightarrow> (pyval \<times> pyval \<times> pyval) res" where
  "grant_key_of E grant =
     bindE (sha256_digest (hash E) (PDict grant)) (\<lambda>dg.
     bindE (ditem grant ''tenant_id'') (\<lambda>tenant.
     bindE (ditem grant ''grant_id'') (\<lambda>gid.
     if hashable tenant \<and> hashable gid then Inr (tenant, gid, dg)
     else Inl (Exc TypeError ''unhashable type''))))"

text \<open>A dictionary or set key of two parts must be hashable.\<close>

definition pair_key :: "pyval \<Rightarrow> pyval \<Rightarrow> (pyval \<times> pyval) res" where
  "pair_key a b = (if hashable a \<and> hashable b then Inr (a, b) else Inl (Exc TypeError ''unhashable type''))"

text \<open>The gate under the broker lock: a stored result to replay, or nothing and a free grant.\<close>

definition replay_gate ::
  "('d, 'z) broker_state_scheme \<Rightarrow> dict \<Rightarrow> dict \<Rightarrow> dict \<Rightarrow> (pyval \<times> pyval) \<Rightarrow> (pyval \<times> pyval \<times> pyval)
     \<Rightarrow> broker_execution option res" where
  "replay_gate s request policy binding key gkey =
     (let stored = map_of (results s) key in
      bindE (compare_idempotency_bindings (map_option st_idempotency stored) binding) (\<lambda>replay.
      if replay = REPLAY then (case stored of
          None \<Rightarrow> Inl (Exc EffectConfigurationError ''effect replay has no stored execution'')
        | Some st \<Rightarrow> bindE (ditem request ''request_digest'') (\<lambda>rd.
            bindE (ditem policy ''decision_digest'') (\<lambda>pd.
            reject_if (neq (st_request_digest st) rd \<or> neq (st_policy_digest st) pd \<or>
                       neq (st_grant_digest st) (snd (snd gkey))) IdempotencyConflictError
              ''effect replay does not match the original governed bindings''
              (Inr (Some (execution_snapshot (st_execution st) (Some True)))))))
      else reject_if (gkey \<in> set (consumed_grants s)) IdempotencyConflictError
             ''authorization grant was consumed without a replayable stored result'' (Inr None)))"

text \<open>
  After the grant was consumed: the executor, the outcome, its evidence, the stored result.
\<close>

definition finish_effect ::
  "('d, 'p) broker_scheme \<Rightarrow> dict \<Rightarrow> dict \<Rightarrow> dict \<Rightarrow> dict list \<Rightarrow> dict \<Rightarrow> dict \<Rightarrow> (pyval \<times> pyval) \<Rightarrow> pyval
     \<Rightarrow> dict \<Rightarrow> pyval \<Rightarrow> pyval \<Rightarrow> dict \<Rightarrow> (('d, 'z) broker_state_scheme, broker_execution) handler" where
  "finish_effect B actor request policy approvals grant binding key grant_dg policy_ref tenant run intent =
     (let E = p_env B; X = b_executor B in
      bindH (invoke_executor X request grant) (\<lambda>(status, result, active).
      bindH (catchH (build_outcome B actor request policy approvals grant intent status result)
               (revert_and_raise X request grant result active)) (\<lambda>outcome.
      bindH (catchH (bindH (liftH (outcome_payload E grant outcome)) (\<lambda>outcome_body.
                 ledger_append B tenant run ''kernel.effect_execution_outcome'' policy_ref outcome_body))
               (revert_and_raise X request grant result active)) (\<lambda>outcome_event.
      bindH (liftH (bindE (ditem request ''request_digest'') (\<lambda>rd.
               bindE (ditem policy ''decision_digest'') (\<lambda>pd. Inr (rd, pd))))) (\<lambda>(rd, pd).
      let x = \<lparr> be_outcome = outcome, be_intent = intent, be_outcome_evidence = outcome_event,
                be_replayed = False \<rparr>;
          st = \<lparr> st_idempotency = binding, st_request_digest = rd, st_policy_digest = pd,
                 st_grant_digest = grant_dg, st_execution = x \<rparr>
      in bindH (modifyH (\<lambda>s. s\<lparr> results := AList.update key st (results s) \<rparr>)) (\<lambda>_.
         returnH (execution_snapshot x None)))))))"

text \<open>After the gate: intent evidence, then the consumption of the grant, then the effect.\<close>

definition dispatch_effect ::
  "('d, 'p) broker_scheme \<Rightarrow> dict \<Rightarrow> dict \<Rightarrow> dict \<Rightarrow> dict list \<Rightarrow> dict \<Rightarrow> dict \<Rightarrow> (pyval \<times> pyval)
     \<Rightarrow> (pyval \<times> pyval \<times> pyval) \<Rightarrow> dict \<Rightarrow> (('d, 'z) broker_state_scheme, broker_execution) handler" where
  "dispatch_effect B actor request policy approvals grant binding key gkey policy_ref =
     bindH (liftH (bindE (ditem grant ''tenant_id'') (\<lambda>tenant.
                   bindE (ditem grant ''run_id'') (\<lambda>run.
                   bindE (intent_payload (p_env B) request grant) (\<lambda>body. Inr (tenant, run, body)))))) (\<lambda>(tenant, run, body).
     bindH (ledger_append B tenant run ''kernel.effect_execution_intent'' policy_ref body) (\<lambda>intent.
     bindH (modifyH (\<lambda>s. s\<lparr> consumed_grants := consumed_grants s @ [gkey] \<rparr>)) (\<lambda>_.
     finish_effect B actor request policy approvals grant binding key (snd (snd gkey)) policy_ref
       tenant run intent)))"

definition dispatch_bindings ::
  "env \<Rightarrow> dict \<Rightarrow> dict \<Rightarrow> dict \<Rightarrow> (dict \<times> (pyval \<times> pyval) \<times> (pyval \<times> pyval \<times> pyval) \<times> dict) res" where
  "dispatch_bindings E request policy grant =
     bindE (mapping_item request ''idempotency'') (\<lambda>binding.
     bindE (ditem binding ''tenant_id'') (\<lambda>tenant.
     bindE (ditem binding ''idempotency_key'') (\<lambda>k.
     bindE (pair_key tenant k) (\<lambda>key.
     bindE (grant_key_of E grant) (\<lambda>gkey.
     bindE (effect_ref ''policy_decision'' policy ''decision_id'' ''decision_digest'') (\<lambda>policy_ref.
     Inr (binding, key, gkey, policy_ref)))))))"

definition dispatch_memory ::
  "('d, 'p) broker_scheme \<Rightarrow> dict \<Rightarrow> dict \<Rightarrow> dict \<Rightarrow> dict list \<Rightarrow> dict
     \<Rightarrow> (('d, 'z) broker_state_scheme, broker_execution) handler" where
  "dispatch_memory B actor request policy approvals grant =
     bindH (validate_authority B actor request policy approvals grant) (\<lambda>_.
     bindH (liftH (bindE (capabilities_validate (b_executor B) request grant) (\<lambda>_.
              dispatch_bindings (p_env B) request policy grant))) (\<lambda>(binding, key, gkey, policy_ref).
     bindH (bindH (getH (\<lambda>s. replay_gate s request policy binding key gkey)) liftH) (\<lambda>replayed.
     case replayed of
       Some x \<Rightarrow> returnH x
     | None \<Rightarrow> dispatch_effect B actor request policy approvals grant binding key gkey policy_ref)))"

section \<open>The durable path\<close>

definition terminal_states :: "pystr list" where
  "terminal_states = map S [''completed'', ''indeterminate'']"

definition stored_to_execution :: "stored_effect \<Rightarrow> bool \<Rightarrow> broker_execution res" where
  "stored_to_execution s replayed = (case (se_outcome s, se_outcome_evidence s) of
     (Some out, Some ev) \<Rightarrow> Inr (execution_snapshot
        \<lparr> be_outcome = out, be_intent = se_intent_evidence s, be_outcome_evidence = ev,
          be_replayed = replayed \<rparr> None)
   | _ \<Rightarrow> Inl (Exc PreparedExecutionError ''durable execution has no terminal outcome''))"

definition live_preparation :: exc where
  "live_preparation = Exc PreparedExecutionError
     ''effect preparation is live or unresolved; recovery requires lease expiry''"

text \<open>
  The heartbeat thread renews the lease until it is stopped or a renewal raises; how many
  renewals fall into one call of the executor is up to the scheduler (\<open>b_heartbeats\<close>).
  The executor and the store do not share state, so the order of the two does not matter.
\<close>

fun heartbeat :: "('d, stored_effect) handler \<Rightarrow> nat \<Rightarrow> (('d, 'z) broker_state_scheme, unit) handler" where
  "heartbeat renew 0 = returnH ()"
| "heartbeat renew (Suc k) = bindH (attemptH (dbH renew)) (\<lambda>r. case r of
     Inl _ \<Rightarrow> returnH () | Inr _ \<Rightarrow> heartbeat renew k)"

definition invoke_with_heartbeat ::
  "('d, 'p) broker_scheme \<Rightarrow> 'd durable_store \<Rightarrow> dict \<Rightarrow> dict \<Rightarrow> dict \<Rightarrow> stored_effect
     \<Rightarrow> (('d, 'z) broker_state_scheme, string \<times> dict \<times> bool) handler" where
  "invoke_with_heartbeat B D actor request grant prepared =
     bindH (liftH (ditem request ''request_id'')) (\<lambda>rid.
     bindH (bindH (ext (\<lambda>n. Inr (b_heartbeats B n))) (heartbeat
              (ds_renew_lease D actor rid (se_attempt prepared) (se_generation prepared)))) (\<lambda>_.
     invoke_executor (b_executor B) request grant))"

text \<open>What the dispatch does when the completion raised after an outcome was built.\<close>

definition reconcile ::
  "('d, 'p) broker_scheme \<Rightarrow> 'd durable_store \<Rightarrow> dict \<Rightarrow> pyval \<Rightarrow> dict \<Rightarrow> dict \<Rightarrow> dict \<Rightarrow> bool \<Rightarrow> dict \<Rightarrow> exc
     \<Rightarrow> (('d, 'z) broker_state_scheme, broker_execution) handler" where
  "reconcile B D actor rid request grant result active outcome e =
     bindH (catchH (dbH (ds_lookup D actor rid))
              (\<lambda>_. raiseH EffectConfigurationError
                 ''durable outcome acknowledgement is uncertain; effect must not be retried'')) (\<lambda>found.
     case found of
       Some r \<Rightarrow> (if se_state r \<in> set terminal_states
          then rejectH (case se_outcome r of None \<Rightarrow> True | Some out \<Rightarrow> neq (PDict out) (PDict outcome))
                 EffectConfigurationError ''durable outcome acknowledgement conflicts with stored terminal result''
                 (liftH (stored_to_execution r True))
          else revert_and_raise (b_executor B) request grant result active e)
     | None \<Rightarrow> revert_and_raise (b_executor B) request grant result active e)"

definition existing_execution ::
  "env \<Rightarrow> dict \<Rightarrow> dict \<Rightarrow> dict \<Rightarrow> dict list \<Rightarrow> dict \<Rightarrow> stored_effect \<Rightarrow> broker_execution res" where
  "existing_execution E actor request policy approvals grant existing =
     bindE (execution_binding_digest E actor request policy approvals grant) (\<lambda>expected.
     reject_if (neq (se_binding_digest existing) expected) IdempotencyConflictError
       ''durable replay does not match the original governed bindings''
    (if se_state existing \<in> set terminal_states then stored_to_execution existing True
     else Inl live_preparation))"

text \<open>After the executor: outcome, completion, reconciliation.\<close>

definition complete_durable ::
  "('d, 'p) broker_scheme \<Rightarrow> 'd durable_store \<Rightarrow> dict \<Rightarrow> dict \<Rightarrow> dict \<Rightarrow> dict list \<Rightarrow> dict \<Rightarrow> pyval \<Rightarrow> dict
     \<Rightarrow> stored_effect \<Rightarrow> string \<Rightarrow> dict \<Rightarrow> bool \<Rightarrow> (('d, 'z) broker_state_scheme, broker_execution) handler" where
  "complete_durable B D actor request policy approvals grant rid policy_ref prepared status result active =
     bindH (catchH (build_outcome B actor request policy approvals grant
                      (se_intent_evidence prepared) status result)
              (revert_and_raise (b_executor B) request grant result active)) (\<lambda>outcome.
     bindH (attemptH (bindH (liftH (outcome_payload (p_env B) grant outcome)) (\<lambda>body.
              dbH (ds_complete D actor rid (se_version prepared) outcome policy_ref body
                     (if status = ''succeeded'' then S ''completed'' else S ''indeterminate'')
                     (se_attempt prepared) (se_generation prepared))))) (\<lambda>done.
     case done of
       Inr completed \<Rightarrow> liftH (stored_to_execution completed False)
     | Inl e \<Rightarrow> reconcile B D actor rid request grant result active outcome e))"

definition dispatch_durable ::
  "('d, 'p) broker_scheme \<Rightarrow> 'd durable_store \<Rightarrow> dict \<Rightarrow> dict \<Rightarrow> dict \<Rightarrow> dict list \<Rightarrow> dict
     \<Rightarrow> (('d, 'z) broker_state_scheme, broker_execution) handler" where
  "dispatch_durable B D actor request policy approvals grant =
     bindH (liftH (ditem request ''request_id'')) (\<lambda>rid.
     bindH (dbH (ds_lookup D actor rid)) (\<lambda>existing. case existing of
       Some x \<Rightarrow> liftH (existing_execution (p_env B) actor request policy approvals grant x)
     | None \<Rightarrow>
        bindH (validate_authority B actor request policy approvals grant) (\<lambda>_.
        bindH (liftH (capabilities_validate (b_executor B) request grant)) (\<lambda>_.
        bindH (liftH (effect_ref ''policy_decision'' policy ''decision_id'' ''decision_digest'')) (\<lambda>policy_ref.
        bindH (liftH (intent_payload (p_env B) request grant)) (\<lambda>intent_body.
        bindH (dbH (ds_prepare D actor request policy approvals grant policy_ref intent_body)) (\<lambda>prepared.
        if \<not> se_created prepared
        then (if se_state prepared \<in> set terminal_states then liftH (stored_to_execution prepared True)
              else liftH (Inl live_preparation))
        else
          bindH (dbH (ds_renew_lease D actor rid (se_attempt prepared) (se_generation prepared))) (\<lambda>prepared.
          bindH (invoke_with_heartbeat B D actor request grant prepared) (\<lambda>(status, result, active).
          complete_durable B D actor request policy approvals grant rid policy_ref prepared status
            result active)))))))))"

text \<open>The five models of a dispatch, in the tenant of the actor.\<close>

definition parse_dispatch ::
  "env \<Rightarrow> dict \<Rightarrow> dict \<Rightarrow> dict \<Rightarrow> dict list \<Rightarrow> dict \<Rightarrow> (dict \<times> dict \<times> dict \<times> dict list \<times> dict) res" where
  "parse_dispatch E actor request policy approvals grant =
     (let model = (\<lambda>rt tenant d. contract_model E (store E) (S rt) tenant True d) in
      bindE (model ''actor_context'' PNone actor) (\<lambda>a.
      bindE (ditem a ''tenant_id'') (\<lambda>tenant.
      bindE (model ''tool_request'' tenant request) (\<lambda>r.
      bindE (model ''policy_decision'' tenant policy) (\<lambda>p.
      bindE (mapE (model ''approval_record'' tenant) approvals) (\<lambda>as.
      bindE (model ''authorization_grant'' tenant grant) (\<lambda>g.
      Inr (a, r, p, as, g))))))))"

definition dispatch ::
  "('d, 'p) broker_scheme \<Rightarrow> dict \<Rightarrow> dict \<Rightarrow> dict \<Rightarrow> dict list \<Rightarrow> dict
     \<Rightarrow> (('d, 'z) broker_state_scheme, broker_execution) handler" where
  "dispatch B actor request policy approvals grant =
     bindH (liftH (parse_dispatch (p_env B) actor request policy approvals grant)) (\<lambda>(a, r, p, as, g).
     case b_durable B of
       None \<Rightarrow> dispatch_memory B a r p as g
     | Some D \<Rightarrow> dispatch_durable B D a r p as g)"

section \<open>Recovery\<close>

definition stored_scope_checks :: "env \<Rightarrow> dict \<Rightarrow> stored_effect \<Rightarrow> unit res" where
  "stored_scope_checks E actor s = seqE
    [deny (neq (PDict actor) (PDict (se_actor s))) EffectConfigurationError
       ''recovery actor context does not exactly match preparation'',
     denyE (bindE (ditem (se_request s) ''actor_context_digest'') (\<lambda>a.
            bindE (sha256_digest (hash E) (PDict actor)) (\<lambda>b. Inr (neq a b))))
       EffectConfigurationError ''stored preparation does not bind actor context'',
     denyE (orE (map (\<lambda>(d, k). bindE (ditem d k) (\<lambda>a. bindE (ditem actor k) (\<lambda>b. Inr (neq a b))))
              [(se_request s, ''tenant_id''), (se_request s, ''actor_id''),
               (se_grant s, ''tenant_id''), (se_grant s, ''actor_id'')]))
       EffectConfigurationError ''stored preparation scope is invalid'']"

definition recovery_payload :: "env \<Rightarrow> dict \<Rightarrow> stored_effect \<Rightarrow> dict \<Rightarrow> dict res" where
  "recovery_payload E actor s outcome =
     bindE (ditem actor ''actor_id'') (\<lambda>actor_id.
     bindE (ditem (se_request s) ''request_digest'') (\<lambda>request_dg.
     bindE (sha256_digest (hash E) (PDict (se_grant s))) (\<lambda>grant_dg.
     bindE (ditem outcome ''outcome_digest'') (\<lambda>outcome_dg.
     Inr [(S ''actor_id'', actor_id),
          (S ''request_digest'', request_dg),
          (S ''authorization_grant_digest'', grant_dg),
          (S ''outcome_digest'', outcome_dg),
          (S ''status'', PS ''indeterminate''),
          (S ''recovery'', PS ''lease_expired'')]))))"

definition recover ::
  "('d, 'p) broker_scheme \<Rightarrow> dict \<Rightarrow> pyval \<Rightarrow> (('d, 'z) broker_state_scheme, broker_execution) handler" where
  "recover B actor rid = (case b_durable B of
     None \<Rightarrow> raiseH EffectConfigurationError ''durable effect recovery requires a durable store''
   | Some D \<Rightarrow>
      bindH (liftH (contract_model (p_env B) (store (p_env B)) (S ''actor_context'') PNone True actor)) (\<lambda>actor.
      bindH (dbH (ds_lookup D actor rid)) (\<lambda>found. case found of
        None \<Rightarrow> raiseH EffectConfigurationError ''durable execution was not found for recovery''
      | Some s \<Rightarrow>
        bindH (liftH (stored_scope_checks (p_env B) actor s)) (\<lambda>_.
        if se_state s \<in> set terminal_states then liftH (stored_to_execution s True)
        else
          bindH (build_outcome B (se_actor s) (se_request s) (se_policy s) (se_approvals s) (se_grant s)
                   (se_intent_evidence s) ''indeterminate''
                   [(S ''error'', PS ''prepared_execution_outcome_unknown'')]) (\<lambda>outcome.
          bindH (liftH (effect_ref ''policy_decision'' (se_policy s) ''decision_id'' ''decision_digest'')) (\<lambda>policy_ref.
          bindH (liftH (recovery_payload (p_env B) actor s outcome)) (\<lambda>body.
          bindH (dbH (ds_recover_expired D actor rid outcome policy_ref body)) (\<lambda>completed.
          liftH (stored_to_execution completed True)))))))))"

end
