(* ===== verification/Kernel.thy ===== *)
theory Kernel
  imports Broker
begin

text \<open>
  The governance kernel of \<open>kernel/core.py\<close>: identity checks, \<open>submit\<close>, \<open>accept_approval\<close>,
  \<open>issue_grant\<close>, \<open>execute_effect\<close>, \<open>recover_effect\<close>, \<open>get\<close> and \<open>events\<close>. Every public
  method is a handler on one state; the kernel lock makes it one atomic step. Records the
  kernel returns are deep copies, so callers cannot reach the state; on values a copy is the
  value itself.
\<close>

section \<open>Configuration and state\<close>

datatype kernel_lifecycle =
    DENIED | APPROVAL_REQUIRED | POLICY_AUTHORIZED | APPROVED | GRANT_ISSUED
  | EFFECT_SUCCEEDED | EFFECT_INDETERMINATE

fun lifecycle_value :: "kernel_lifecycle \<Rightarrow> string" where
  "lifecycle_value DENIED = ''denied''"
| "lifecycle_value APPROVAL_REQUIRED = ''approval_required''"
| "lifecycle_value POLICY_AUTHORIZED = ''policy_authorized''"
| "lifecycle_value APPROVED = ''approved''"
| "lifecycle_value GRANT_ISSUED = ''grant_issued''"
| "lifecycle_value EFFECT_SUCCEEDED = ''effect_succeeded''"
| "lifecycle_value EFFECT_INDETERMINATE = ''effect_indeterminate''"

definition all_lifecycle :: "kernel_lifecycle list" where
  "all_lifecycle = [DENIED, APPROVAL_REQUIRED, POLICY_AUTHORIZED, APPROVED, GRANT_ISSUED,
                    EFFECT_SUCCEEDED, EFFECT_INDETERMINATE]"

text \<open>\<open>KernelLifecycle(s)\<close>: the member with that value.\<close>

definition lifecycle_of :: "pystr \<Rightarrow> kernel_lifecycle option" where
  "lifecycle_of s = find (\<lambda>l. S (lifecycle_value l) = s) all_lifecycle"

definition terminal_lifecycle :: "kernel_lifecycle list" where
  "terminal_lifecycle = [EFFECT_SUCCEEDED, EFFECT_INDETERMINATE]"

record lifecycle =
  lr_request :: dict
  lr_policy :: dict
  lr_state :: kernel_lifecycle
  lr_evidence :: "dict list"
  lr_approval :: "dict option"
  lr_grant :: "dict option"
  lr_outcome :: "dict option"

text \<open>
  \<open>k_own_ledger\<close> says that \<open>_ledger\<close> is an \<open>InMemoryEvidenceLedger\<close>: one was given, or
  the durable store has no \<open>append\<close>; otherwise the durable store is the ledger.
\<close>

record 'd kernel = ports +
  k_policy :: policy_set
  k_identity :: "nat \<Rightarrow> dict \<Rightarrow> pyval res"
  k_approval_verifier :: "nat \<Rightarrow> verifier"
  k_approval_trust :: "nat \<Rightarrow> instant \<Rightarrow> trust_context option res"
  k_issuer :: "(nat \<Rightarrow> dict \<Rightarrow> dict res) option"
  k_grant_verifier :: "(nat \<Rightarrow> verifier) option"
  k_grant_trust :: "(nat \<Rightarrow> instant \<Rightarrow> trust_context option res) option"
  k_executor :: "executor option"
  k_registry :: constraint_registry
  k_nonce :: "nat \<Rightarrow> pyval res"
  k_durable :: "'d durable_store option"
  k_own_ledger :: bool
  k_heartbeats :: "nat \<Rightarrow> nat"

record 'd kernel_state = "'d broker_state" +
  idempotency :: "((pyval \<times> pyval) \<times> (dict \<times> pyval \<times> pyval)) list"
  records :: "((pyval \<times> pyval) \<times> lifecycle) list"
  consumed_approvals :: "(pyval \<times> pyval \<times> pyval) list"

definition initial_kernel :: "'d \<Rightarrow> 'd kernel_state" where
  "initial_kernel d = \<lparr> tick = 0, by_tenant = [], consumed_grants = [], results = [], db = d,
     trace = [], idempotency = [], records = [], consumed_approvals = [] \<rparr>"

text \<open>The broker exists when an executor, a grant verifier and a trust factory were given.\<close>

definition broker_of :: "'d kernel \<Rightarrow> 'd broker option" where
  "broker_of K = (case (k_executor K, k_grant_verifier K, k_grant_trust K) of
     (Some x, Some v, Some t) \<Rightarrow> Some (ports.extend (ports.truncate K)
        \<lparr> b_executor = x, b_registry = k_registry K, b_grant_verifier = v, b_grant_trust = t,
          b_durable = k_durable K, b_heartbeats = k_heartbeats K \<rparr>)
   | _ \<Rightarrow> None)"

abbreviation kernel_model :: "'d kernel \<Rightarrow> string \<Rightarrow> pyval \<Rightarrow> dict \<Rightarrow> dict res" where
  "kernel_model K rt tenant d \<equiv> contract_model (p_env K) (store (p_env K)) (S rt) tenant True d"

section \<open>Identity\<close>

definition contract_time :: "dict \<Rightarrow> string \<Rightarrow> instant res" where
  "contract_time d k = bindE (ditem d k) (parse_time_as LifecycleError ''contract timestamp is invalid'')"

definition kernel_clock :: "exc_class \<Rightarrow> 'd kernel \<Rightarrow> ('z world_scheme, instant) handler" where
  "kernel_clock cls K = bindH (ext (p_clock K)) (\<lambda>t. case t of
     Aware i \<Rightarrow> returnH i
   | Naive n \<Rightarrow> raiseH cls ''kernel clock must return a timezone-aware timestamp'')"

definition validate_actor :: "'d kernel \<Rightarrow> dict \<Rightarrow> ('z world_scheme, unit) handler" where
  "validate_actor K actor =
     bindH (ext (\<lambda>n. k_identity K n actor)) (\<lambda>verified.
     rejectH (verified \<noteq> PBool True) IdentityError ''actor context is not trusted by the identity boundary''
    (bindH (kernel_clock IdentityError K) (\<lambda>now.
     bindH (liftH (contract_time actor ''issued_at'')) (\<lambda>issued.
     rejectH (now < issued) IdentityError ''actor context is not currently valid''
    (bindH (liftH (contract_time actor ''expires_at'')) (\<lambda>expires.
     rejectH (now \<ge> expires) IdentityError ''actor context is expired''
    (returnH ())))))))"

definition validated_actor :: "'d kernel \<Rightarrow> dict \<Rightarrow> ('z world_scheme, dict) handler" where
  "validated_actor K d =
     bindH (liftH (kernel_model K ''actor_context'' PNone d)) (\<lambda>actor.
     bindH (validate_actor K actor) (\<lambda>_. returnH actor))"

definition identity_scope :: "env \<Rightarrow> dict \<Rightarrow> dict \<Rightarrow> unit res" where
  "identity_scope E actor request = seqE
    [denyE (orE [bindE (ditem actor ''tenant_id'') (\<lambda>a. bindE (ditem request ''tenant_id'') (\<lambda>b. Inr (neq a b))),
                 bindE (ditem actor ''actor_id'') (\<lambda>a. bindE (ditem request ''actor_id'') (\<lambda>b. Inr (neq a b)))])
       IdentityError ''request tenant and actor must match authenticated actor context'',
     denyE (bindE (ditem request ''actor_context_digest'') (\<lambda>a.
            bindE (sha256_digest (hash E) (PDict actor)) (\<lambda>b. Inr (neq a b))))
       IdentityError ''request does not bind the exact actor context'']"

definition identity_window :: "dict \<Rightarrow> dict \<Rightarrow> instant \<Rightarrow> unit res" where
  "identity_window actor request now =
     bindE (contract_time actor ''issued_at'') (\<lambda>issued.
     bindE (contract_time actor ''expires_at'') (\<lambda>expires.
     bindE (contract_time request ''requested_at'') (\<lambda>requested. seqE
      [deny (\<not> (issued \<le> requested \<and> requested \<le> expires)) IdentityError
         ''request time is outside the actor context validity window'',
       deny (requested > now) IdentityError ''request time is in the future'',
       deny (now \<ge> expires) IdentityError ''actor context is expired''])))"

definition validate_identity :: "'d kernel \<Rightarrow> dict \<Rightarrow> dict \<Rightarrow> ('z world_scheme, instant) handler" where
  "validate_identity K actor request =
     bindH (validate_actor K actor) (\<lambda>_.
     bindH (liftH (identity_scope (p_env K) actor request)) (\<lambda>_.
     bindH (kernel_clock IdentityError K) (\<lambda>now.
     bindH (liftH (identity_window actor request now)) (\<lambda>_.
     returnH now))))"

section \<open>Stored lifecycles\<close>

definition lifecycle_from_stored :: "stored_lifecycle \<Rightarrow> lifecycle res" where
  "lifecycle_from_stored s = (case lifecycle_of (sl_state s) of
     None \<Rightarrow> Inl (Exc LifecycleError ''durable lifecycle state is unsupported'')
   | Some l \<Rightarrow> Inr \<lparr> lr_request = sl_request s, lr_policy = sl_policy s, lr_state = l,
                   lr_evidence = sl_evidence s, lr_approval = sl_approval s,
                   lr_grant = sl_grant s, lr_outcome = None \<rparr>)"

text \<open>\<open>load_lifecycle\<close> of the durable store as a kernel record and its version.\<close>

definition load_stored ::
  "'d durable_store \<Rightarrow> dict \<Rightarrow> pyval \<Rightarrow> (('d, 'z) broker_state_scheme, (lifecycle \<times> int) option) handler" where
  "load_stored D actor rid = bindH (dbH (ds_load_lifecycle D actor rid)) (\<lambda>found. case found of
     None \<Rightarrow> returnH None
   | Some s \<Rightarrow> bindH (liftH (lifecycle_from_stored s)) (\<lambda>r. returnH (Some (r, sl_version s))))"

definition put_record :: "(pyval \<times> pyval) \<Rightarrow> lifecycle \<Rightarrow> (('d, 'z) kernel_state_scheme, unit) handler" where
  "put_record key r = modifyH (\<lambda>s. s\<lparr> records := AList.update key r (records s) \<rparr>)"

definition find_record :: "pyval \<Rightarrow> pyval \<Rightarrow> (('d, 'z) kernel_state_scheme, lifecycle option) handler" where
  "find_record tenant rid =
     bindH (liftH (pair_key tenant rid)) (\<lambda>key. getH (\<lambda>s. map_of (records s) key))"

section \<open>Submission\<close>

definition policy_decision_record :: "pyval \<Rightarrow> dict \<Rightarrow> policy_rule \<Rightarrow> pystr \<Rightarrow> dict res" where
  "policy_decision_record decision_id request rule now =
     bindE (ditem request ''tenant_id'') (\<lambda>tenant.
     bindE (ditem request ''request_id'') (\<lambda>rid.
     bindE (ditem request ''request_digest'') (\<lambda>rdg.
     Inr [(S ''schema_version'', PS ''1.0''),
          (S ''record_type'', PS ''policy_decision''),
          (S ''tenant_id'', tenant),
          (S ''decision_id'', decision_id),
          (S ''request_id'', rid),
          (S ''request_digest'', rdg),
          (S ''decision'', PStr (rule_decision rule)),
          (S ''rule_refs'', PList [PStr (rule_id rule)]),
          (S ''constraints'', PList (rule_constraints rule)),
          (S ''isolation_profile'', PStr (rule_isolation_profile rule)),
          (S ''decided_at'', PStr now)])))"

definition next_state :: "pystr \<Rightarrow> kernel_lifecycle res" where
  "next_state decision =
     (if decision = S ''authorize'' then Inr POLICY_AUTHORIZED
      else if decision = S ''deny'' then Inr DENIED
      else if decision = S ''require_approval'' then Inr APPROVAL_REQUIRED
      else Inl (Exc KeyError ''decision''))"

text \<open>The policy decision of a new request, validated and stamped.\<close>

definition decide :: "'d kernel \<Rightarrow> dict \<Rightarrow> instant \<Rightarrow> ('z world_scheme, dict \<times> kernel_lifecycle) handler" where
  "decide K request decision_time =
     bindH (liftH (evaluate (k_policy K) request)) (\<lambda>rule.
     bindH (new_id K) (\<lambda>decision_id.
     liftH (bindE (policy_decision_record decision_id request rule (utc_millis_text decision_time)) (\<lambda>record.
            bindE (apply_object_digest (p_env K) record) (\<lambda>stamped.
            bindE (ditem request ''tenant_id'') (\<lambda>tenant.
            bindE (kernel_model K ''policy_decision'' tenant stamped) (\<lambda>decision.
            bindE (validate_constraint_support decision (k_registry K)) (\<lambda>_.
            bindE (next_state (rule_decision rule)) (\<lambda>state. Inr (decision, state))))))))))"

definition submission_payload :: "dict \<Rightarrow> dict \<Rightarrow> kernel_lifecycle \<Rightarrow> dict res" where
  "submission_payload request decision state =
     bindE (ditem request ''actor_id'') (\<lambda>actor_id.
     bindE (ditem request ''request_digest'') (\<lambda>rdg.
     bindE (ditem decision ''decision_digest'') (\<lambda>ddg.
     Inr [(S ''actor_id'', actor_id),
          (S ''request_digest'', rdg),
          (S ''policy_decision_digest'', ddg),
          (S ''next_state'', PS (lifecycle_value state))])))"

text \<open>The lifecycle record of a new request: persisted, or backed by ledger evidence.\<close>

definition record_submission ::
  "'d kernel \<Rightarrow> dict \<Rightarrow> dict \<Rightarrow> dict \<Rightarrow> kernel_lifecycle
     \<Rightarrow> (('d, 'z) broker_state_scheme, lifecycle) handler" where
  "record_submission K actor request decision state =
     bindH (liftH (effect_ref ''policy_decision'' decision ''decision_id'' ''decision_digest'')) (\<lambda>policy_ref.
     case k_durable K of
       Some D \<Rightarrow>
         bindH (dbH (ds_persist_submission D actor request decision (S (lifecycle_value state)) policy_ref))
           (\<lambda>stored. liftH (lifecycle_from_stored stored))
     | None \<Rightarrow>
         bindH (liftH (bindE (ditem request ''tenant_id'') (\<lambda>t. bindE (ditem request ''run_id'') (\<lambda>r. Inr (t, r))))) (\<lambda>(tenant, run).
         bindH (liftH (submission_payload request decision state)) (\<lambda>body.
         bindH (ledger_append K tenant run ''kernel.policy_decided'' policy_ref body) (\<lambda>evidence.
         returnH \<lparr> lr_request = request, lr_policy = decision, lr_state = state,
                   lr_evidence = [evidence], lr_approval = None, lr_grant = None, lr_outcome = None \<rparr>))))"

text \<open>The idempotency gate: the original record of a replay, or nothing for a new request.\<close>

definition submit_gate ::
  "('d, 'z) kernel_state_scheme \<Rightarrow> dict \<Rightarrow> dict \<Rightarrow> (pyval \<times> pyval) \<Rightarrow> (pyval \<times> pyval)
     \<Rightarrow> lifecycle option res" where
  "submit_gate s request binding key binding_key =
     (let existing = map_of (idempotency s) binding_key in
      bindE (compare_idempotency_bindings (map_option fst existing) binding) (\<lambda>replay.
      if replay = REPLAY then (case existing of
          None \<Rightarrow> Inl (Exc LifecycleError ''idempotency replay has no stored binding'')
        | Some (_, original_id, original_digest) \<Rightarrow>
            bindE (ditem request ''request_digest'') (\<lambda>dg.
            reject_if (neq original_digest dg) IdempotencyConflictError
              ''idempotency replay request does not match the original request digest''
           (case map_of (records s) (fst key, original_id) of
              None \<Rightarrow> Inl (Exc LifecycleError ''idempotency replay has no lifecycle record'')
            | Some original \<Rightarrow> Inr (Some original))))
      else reject_if (map_of (records s) key \<noteq> None) LifecycleError
             ''request_id is already present with another idempotency binding'' (Inr None)))"

text \<open>The keys of a request in the two dictionaries of the kernel.\<close>

definition request_keys :: "dict \<Rightarrow> ((pyval \<times> pyval) \<times> (pyval \<times> pyval) \<times> dict) res" where
  "request_keys request =
     bindE (ditem request ''tenant_id'') (\<lambda>tenant.
     bindE (ditem request ''request_id'') (\<lambda>rid.
     bindE (mapping_item request ''idempotency'') (\<lambda>binding.
     bindE (ditem binding ''idempotency_key'') (\<lambda>k.
     bindE (pair_key tenant k) (\<lambda>binding_key.
     bindE (pair_key tenant rid) (\<lambda>key. Inr (key, binding_key, binding)))))))"

definition commit_submission ::
  "'d kernel \<Rightarrow> dict \<Rightarrow> dict \<Rightarrow> (pyval \<times> pyval) \<Rightarrow> (pyval \<times> pyval) \<Rightarrow> dict \<Rightarrow> dict \<Rightarrow> kernel_lifecycle
     \<Rightarrow> (('d, 'z) kernel_state_scheme, lifecycle) handler" where
  "commit_submission K actor request key binding_key binding decision state =
     bindH (record_submission K actor request decision state) (\<lambda>rcd.
     bindH (liftH (bindE (ditem request ''request_id'') (\<lambda>rid.
              bindE (ditem request ''request_digest'') (\<lambda>dg. Inr (rid, dg))))) (\<lambda>(rid, dg).
     bindH (modifyH (\<lambda>s. s\<lparr> idempotency := AList.update binding_key (binding, rid, dg) (idempotency s) \<rparr>)) (\<lambda>_.
     bindH (put_record key rcd) (\<lambda>_. returnH rcd))))"

definition submit ::
  "'d kernel \<Rightarrow> dict \<Rightarrow> dict \<Rightarrow> (('d, 'z) kernel_state_scheme, lifecycle) handler" where
  "submit K actor_context tool_request =
     bindH (liftH (kernel_model K ''actor_context'' PNone actor_context)) (\<lambda>actor.
     bindH (liftH (bindE (ditem actor ''tenant_id'') (\<lambda>tenant.
              kernel_model K ''tool_request'' tenant tool_request))) (\<lambda>request.
     bindH (validate_identity K actor request) (\<lambda>decision_time.
     bindH (liftH (request_keys request)) (\<lambda>(key, binding_key, binding).
     bindH (bindH (getH (\<lambda>s. submit_gate s request binding key binding_key)) liftH) (\<lambda>original.
     case original of
       Some r \<Rightarrow> returnH r
     | None \<Rightarrow>
         bindH (decide K request decision_time) (\<lambda>(decision, state).
         commit_submission K actor request key binding_key binding decision state))))))"

section \<open>Approval\<close>

definition state_is :: "lifecycle \<Rightarrow> kernel_lifecycle list \<Rightarrow> bool" where
  "state_is r ls \<longleftrightarrow> lr_state r \<in> set ls"

text \<open>The checks of an approval that need no injected callable.\<close>

definition approval_checks :: "constraint_registry \<Rightarrow> dict \<Rightarrow> lifecycle \<Rightarrow> unit res" where
  "approval_checks R parsed current = seqE
    [deny (lr_state current \<noteq> APPROVAL_REQUIRED) LifecycleError
       ''approval is not valid in the current lifecycle state'',
     validate_approval_binding (PDict parsed) (PDict (lr_policy current)) (PDict (lr_request current)),
     validate_constraint_support parsed R,
     denyE (bindE (ditem parsed ''disposition'') (\<lambda>x. Inr (neq x (PS ''approved'')))) LifecycleError
       ''only an approved approval record may advance lifecycle'',
     bindE (ditem parsed ''separation_of_duties'') (\<lambda>duties.
     bindE (item duties ''required'') (\<lambda>required.
       if \<not> truthy required then Inr ()
       else denyE (bindE (item duties ''satisfied'') (\<lambda>x. Inr (\<not> truthy x))) LifecycleError
              ''approval separation of duties is not satisfied''))]"

definition approval_window :: "dict \<Rightarrow> instant \<Rightarrow> unit res" where
  "approval_window parsed now =
     bindE (contract_time parsed ''issued_at'') (\<lambda>issued.
     bindE (contract_time parsed ''expires_at'') (\<lambda>expires.
       deny (issued > now \<or> expires \<le> now) LifecycleError ''approval is not currently valid''))"

definition approval_key_of :: "pyval \<Rightarrow> dict \<Rightarrow> (pyval \<times> pyval \<times> pyval) res" where
  "approval_key_of tenant parsed =
     bindE (ditem parsed ''approval_id'') (\<lambda>i. bindE (ditem parsed ''approval_digest'') (\<lambda>dg.
       if hashable tenant \<and> hashable i \<and> hashable dg then Inr (tenant, i, dg)
       else Inl (Exc TypeError ''unhashable type'')))"

text \<open>Proof and single use: what must hold besides \<open>approval_checks\<close>.\<close>

definition verify_approval ::
  "'d kernel \<Rightarrow> pyval \<Rightarrow> dict \<Rightarrow> ('z world_scheme, historical_acceptance) handler" where
  "verify_approval K tenant parsed =
     bindH (kernel_clock LifecycleError K) (\<lambda>now.
     bindH (liftH (approval_window parsed now)) (\<lambda>_.
     bindH (ext (\<lambda>n. k_approval_trust K n now)) (\<lambda>t.
     bindH (liftH (current_trust LifecycleError now t)) (\<lambda>T.
     ext (\<lambda>n. verify_signed_record (p_env K) (k_approval_verifier K n) T tenant False (PDict parsed))))))"

definition approval_payload :: "lifecycle \<Rightarrow> dict \<Rightarrow> dict res" where
  "approval_payload current parsed =
     bindE (ditem (lr_request current) ''actor_id'') (\<lambda>actor_id.
     bindE (ditem (lr_request current) ''request_digest'') (\<lambda>rdg.
     bindE (ditem (lr_policy current) ''decision_digest'') (\<lambda>ddg.
     bindE (ditem parsed ''approval_digest'') (\<lambda>adg.
     Inr [(S ''actor_id'', actor_id),
          (S ''request_digest'', rdg),
          (S ''policy_decision_digest'', ddg),
          (S ''approval_digest'', adg),
          (S ''next_state'', PS (lifecycle_value APPROVED))]))))"

definition record_approval ::
  "'d kernel \<Rightarrow> dict option \<Rightarrow> pyval \<Rightarrow> pyval \<Rightarrow> int option \<Rightarrow> lifecycle \<Rightarrow> dict
     \<Rightarrow> (('d, 'z) broker_state_scheme, lifecycle) handler" where
  "record_approval K actor tenant rid version current parsed =
     bindH (liftH (effect_ref ''policy_decision'' (lr_policy current) ''decision_id'' ''decision_digest'')) (\<lambda>policy_ref.
     case (k_durable K, actor) of
       (Some D, Some a) \<Rightarrow>
         bindH (dbH (ds_persist_approval D a rid version parsed policy_ref))
           (\<lambda>stored. liftH (lifecycle_from_stored stored))
     | _ \<Rightarrow>
         bindH (liftH (ditem (lr_request current) ''run_id'')) (\<lambda>run.
         bindH (liftH (approval_payload current parsed)) (\<lambda>body.
         bindH (ledger_append K tenant run ''kernel.approval_accepted'' policy_ref body) (\<lambda>evidence.
         returnH (current\<lparr> lr_state := APPROVED, lr_evidence := lr_evidence current @ [evidence],
                           lr_approval := Some parsed, lr_grant := None, lr_outcome := None \<rparr>)))))"

text \<open>The durable prelude of \<open>accept_approval\<close>: the verified actor and the stored record.\<close>

definition approval_actor :: "'d kernel \<Rightarrow> pyval \<Rightarrow> dict option \<Rightarrow> ('z world_scheme, dict option) handler" where
  "approval_actor K tenant actor_context = (case k_durable K of
     None \<Rightarrow> returnH None
   | Some D \<Rightarrow> (case actor_context of
       None \<Rightarrow> raiseH IdentityError ''durable approval requires the verified actor context''
     | Some c \<Rightarrow>
         bindH (validated_actor K c) (\<lambda>actor.
         bindH (liftH (ditem actor ''tenant_id'')) (\<lambda>t.
         rejectH (neq t tenant) IdentityError ''approval tenant does not match actor context''
        (returnH (Some actor))))))"

definition approval_current ::
  "'d kernel \<Rightarrow> dict option \<Rightarrow> pyval \<Rightarrow> lifecycle option
     \<Rightarrow> (('d, 'z) broker_state_scheme, lifecycle option \<times> int option) handler" where
  "approval_current K actor rid current = (case (k_durable K, actor) of
     (Some D, Some a) \<Rightarrow> bindH (load_stored D a rid) (\<lambda>stored. case stored of
         None \<Rightarrow> returnH (current, None)
       | Some (r, v) \<Rightarrow> returnH (Some r, Some v))
   | _ \<Rightarrow> returnH (current, None))"

text \<open>The authority of an accepted approval is consumed and the record advances.\<close>

definition commit_approval ::
  "'d kernel \<Rightarrow> dict option \<Rightarrow> pyval \<Rightarrow> pyval \<Rightarrow> int option \<Rightarrow> lifecycle \<Rightarrow> dict
     \<Rightarrow> (pyval \<times> pyval \<times> pyval) \<Rightarrow> (('d, 'z) kernel_state_scheme, lifecycle) handler" where
  "commit_approval K actor tenant rid version current parsed akey =
     bindH (record_approval K actor tenant rid version current parsed) (\<lambda>advanced.
     bindH (modifyH (\<lambda>s. s\<lparr> consumed_approvals := consumed_approvals s @ [akey] \<rparr>)) (\<lambda>_.
     bindH (put_record (tenant, rid) advanced) (\<lambda>_.
     returnH advanced)))"

definition accept_approval ::
  "'d kernel \<Rightarrow> pyval \<Rightarrow> pyval \<Rightarrow> dict \<Rightarrow> dict option \<Rightarrow> (('d, 'z) kernel_state_scheme, lifecycle) handler" where
  "accept_approval K tenant rid approval actor_context =
     bindH (find_record tenant rid) (\<lambda>found.
     bindH (approval_actor K tenant actor_context) (\<lambda>actor.
     bindH (approval_current K actor rid found) (\<lambda>(found, version).
     case found of
       None \<Rightarrow> raiseH LifecycleError ''approval references an unknown request''
     | Some current \<Rightarrow>
         bindH (liftH (kernel_model K ''approval_record'' tenant approval)) (\<lambda>parsed.
         if k_durable K \<noteq> None \<and> lr_state current = APPROVED \<and>
            (case lr_approval current of None \<Rightarrow> False | Some a \<Rightarrow> py_eq (PDict a) (PDict parsed))
         then returnH current
         else
           bindH (liftH (approval_checks (k_registry K) parsed current)) (\<lambda>_.
           bindH (verify_approval K tenant parsed) (\<lambda>_.
           bindH (liftH (approval_key_of tenant parsed)) (\<lambda>akey.
           bindH (getH (\<lambda>s. akey \<in> set (consumed_approvals s))) (\<lambda>used.
           rejectH used LifecycleError ''approval authority has already been consumed''
             (commit_approval K actor tenant rid version current parsed akey)))))))))"

section \<open>Grants\<close>

definition GRANT_TTL :: int where
  "GRANT_TTL = 300000000"

definition nonce_ok :: "pyval \<Rightarrow> bool" where
  "nonce_ok v \<longleftrightarrow> (case v of
     PStr s \<Rightarrow> 22 \<le> length s \<and> length s \<le> 128 \<and>
       list_all (\<lambda>c. is_letter c \<or> is_digit_char c \<or> c = 95 \<or> c = 45) s
   | _ \<Rightarrow> False)"

definition approvals_of :: "lifecycle \<Rightarrow> dict list" where
  "approvals_of r = (case lr_approval r of None \<Rightarrow> [] | Some a \<Rightarrow> [a])"

text \<open>\<open>now + _GRANT_TTL\<close> overflows after year 9999.\<close>

definition grant_expiry :: "dict \<Rightarrow> lifecycle \<Rightarrow> instant \<Rightarrow> instant res" where
  "grant_expiry actor current now =
     reject_if (\<not> representable (now + GRANT_TTL)) OverflowError ''date value out of range''
    (bindE (contract_time actor ''expires_at'') (\<lambda>actor_expiry.
     bindE (mapE (\<lambda>a. contract_time a ''expires_at'') (approvals_of current)) (\<lambda>limits.
     let limit = foldl min (min (now + GRANT_TTL) actor_expiry) limits
     in reject_if (limit \<le> now) LifecycleError ''no positive grant validity window remains''
       (Inr limit))))"

definition unsigned_grant ::
  "pyval \<Rightarrow> lifecycle \<Rightarrow> instant \<Rightarrow> instant \<Rightarrow> pyval \<Rightarrow> dict res" where
  "unsigned_grant gid current now limit nonce =
     (let r = lr_request current; p = lr_policy current in
      bindE (mapE (ditem r) [''tenant_id'', ''actor_id'', ''run_id'', ''request_id'', ''request_digest'',
                            ''tool_id'', ''tool_version'']) (\<lambda>rs.
      bindE (mapE (ditem p) [''decision_id'', ''decision_digest'']) (\<lambda>ps.
      bindE (mapE (\<lambda>a. effect_ref ''approval_record'' a ''approval_id'' ''approval_digest'')
               (approvals_of current)) (\<lambda>refs.
      bindE (merge_constraints (p # approvals_of current)) (\<lambda>constraints.
      bindE (ditem p ''isolation_profile'') (\<lambda>isolation.
      bindE (ditem r ''idempotency'') (\<lambda>idem.
      Inr [(S ''schema_version'', PS ''1.0''),
           (S ''record_type'', PS ''authorization_grant''),
           (S ''tenant_id'', rs ! 0),
           (S ''grant_id'', gid),
           (S ''actor_id'', rs ! 1),
           (S ''run_id'', rs ! 2),
           (S ''request_id'', rs ! 3),
           (S ''request_digest'', rs ! 4),
           (S ''tool_id'', rs ! 5),
           (S ''tool_version'', rs ! 6),
           (S ''policy_decision_id'', ps ! 0),
           (S ''policy_decision_digest'', ps ! 1),
           (S ''approval_refs'', PList (map PDict refs)),
           (S ''constraints'', PList constraints),
           (S ''isolation_profile'', isolation),
           (S ''issued_at'', PStr (utc_millis_text now)),
           (S ''expires_at'', PStr (utc_millis_text limit)),
           (S ''grant_nonce'', nonce),
           (S ''idempotency'', idem)])))))))"

text \<open>
  Signing and validation of the grant body: the issuer must return the body it was given
  plus a proof, and the grant must bind request, policy and approvals.
\<close>

definition sign_grant ::
  "'d kernel \<Rightarrow> (nat \<Rightarrow> dict \<Rightarrow> dict res) \<Rightarrow> (nat \<Rightarrow> verifier) \<Rightarrow> (nat \<Rightarrow> instant \<Rightarrow> trust_context option res)
     \<Rightarrow> lifecycle \<Rightarrow> instant \<Rightarrow> dict \<Rightarrow> ('z world_scheme, dict) handler" where
  "sign_grant K issuer V TF current now body =
     bindH (ext (\<lambda>n. issuer n body)) (\<lambda>issued.
     bindH (liftH (bindE (ditem (lr_request current) ''tenant_id'') (\<lambda>tenant.
              kernel_model K ''authorization_grant'' tenant issued))) (\<lambda>grant.
     rejectH (neq (PDict (unsigned_body grant)) (PDict body)) EffectConfigurationError
       ''grant issuer changed the kernel-authored grant body''
    (bindH (ext (\<lambda>n. TF n now)) (\<lambda>t.
     bindH (liftH (current_trust EffectConfigurationError now t)) (\<lambda>T.
     bindH (ext (\<lambda>n. validate_grant_binding (p_env K) (V n) T (k_registry K) (PDict grant)
              (PDict (lr_request current)) (PDict (lr_policy current))
              (map PDict (approvals_of current)))) (\<lambda>_.
     returnH grant))))))"

definition grant_payload :: "env \<Rightarrow> lifecycle \<Rightarrow> dict \<Rightarrow> dict res" where
  "grant_payload E current grant =
     bindE (ditem (lr_request current) ''actor_id'') (\<lambda>actor_id.
     bindE (ditem (lr_request current) ''request_digest'') (\<lambda>rdg.
     bindE (ditem (lr_policy current) ''decision_digest'') (\<lambda>ddg.
     bindE (sha256_digest (hash E) (PDict grant)) (\<lambda>gdg.
     bindE (ditem grant ''expires_at'') (\<lambda>expires.
     Inr [(S ''actor_id'', actor_id),
          (S ''request_digest'', rdg),
          (S ''policy_decision_digest'', ddg),
          (S ''authorization_grant_digest'', gdg),
          (S ''expires_at'', expires),
          (S ''next_state'', PS (lifecycle_value GRANT_ISSUED))])))))"

definition record_grant ::
  "'d kernel \<Rightarrow> dict \<Rightarrow> int option \<Rightarrow> lifecycle \<Rightarrow> dict \<Rightarrow> (('d, 'z) broker_state_scheme, lifecycle) handler" where
  "record_grant K actor version current grant =
     bindH (liftH (effect_ref ''policy_decision'' (lr_policy current) ''decision_id'' ''decision_digest'')) (\<lambda>policy_ref.
     case k_durable K of
       Some D \<Rightarrow>
         bindH (liftH (ditem (lr_request current) ''request_id'')) (\<lambda>rid.
         bindH (dbH (ds_persist_grant D actor rid version grant policy_ref))
           (\<lambda>stored. liftH (lifecycle_from_stored stored)))
     | None \<Rightarrow>
         bindH (liftH (bindE (ditem (lr_request current) ''tenant_id'') (\<lambda>t.
                       bindE (ditem (lr_request current) ''run_id'') (\<lambda>r. Inr (t, r))))) (\<lambda>(tenant, run).
         bindH (liftH (grant_payload (p_env K) current grant)) (\<lambda>body.
         bindH (ledger_append K tenant run ''kernel.authorization_grant_issued'' policy_ref body) (\<lambda>evidence.
         returnH (current\<lparr> lr_state := GRANT_ISSUED, lr_evidence := lr_evidence current @ [evidence],
                           lr_grant := Some grant, lr_outcome := None \<rparr>)))))"

text \<open>The durable record is authoritative when there is one.\<close>

definition locked_current ::
  "'d kernel \<Rightarrow> dict \<Rightarrow> lifecycle \<Rightarrow> (('d, 'z) broker_state_scheme, lifecycle \<times> int option) handler" where
  "locked_current K actor current = (case k_durable K of
     None \<Rightarrow> returnH (current, None)
   | Some D \<Rightarrow>
       bindH (liftH (ditem (lr_request current) ''request_id'')) (\<lambda>rid.
       bindH (load_stored D actor rid) (\<lambda>stored. case stored of
         None \<Rightarrow> raiseH LifecycleError ''durable lifecycle authority is missing''
       | Some (r, v) \<Rightarrow> returnH (r, Some v))))"

definition grant_state_checks :: "lifecycle \<Rightarrow> unit res" where
  "grant_state_checks current = seqE
    [deny (lr_state current = APPROVED \<and> lr_approval current = None) LifecycleError
       ''approved lifecycle state has no approval record'',
     deny (lr_state current = POLICY_AUTHORIZED \<and> lr_approval current \<noteq> None) LifecycleError
       ''policy-authorized lifecycle unexpectedly contains approval'']"

definition commit_grant ::
  "'d kernel \<Rightarrow> dict \<Rightarrow> int option \<Rightarrow> lifecycle \<Rightarrow> dict \<Rightarrow> (('d, 'z) kernel_state_scheme, lifecycle) handler" where
  "commit_grant K actor version current grant =
     bindH (record_grant K actor version current grant) (\<lambda>advanced.
     bindH (liftH (bindE (ditem (lr_request current) ''tenant_id'') (\<lambda>t.
                   bindE (ditem (lr_request current) ''request_id'') (\<lambda>r. pair_key t r)))) (\<lambda>key.
     bindH (put_record key advanced) (\<lambda>_.
     returnH advanced)))"

definition issue_grant_locked ::
  "'d kernel \<Rightarrow> dict \<Rightarrow> lifecycle \<Rightarrow> (('d, 'z) kernel_state_scheme, lifecycle) handler" where
  "issue_grant_locked K actor current =
     bindH (locked_current K actor current) (\<lambda>(current, version).
     if lr_grant current \<noteq> None \<and> state_is current [GRANT_ISSUED, EFFECT_SUCCEEDED, EFFECT_INDETERMINATE]
     then returnH current
     else rejectH (\<not> state_is current [POLICY_AUTHORIZED, APPROVED]) LifecycleError
            ''grant is not valid in the current lifecycle state''
    (case (k_issuer K, k_grant_verifier K, k_grant_trust K) of
       (Some issuer, Some V, Some TF) \<Rightarrow>
         bindH (liftH (grant_state_checks current)) (\<lambda>_.
         bindH (validate_identity K actor (lr_request current)) (\<lambda>now.
         bindH (liftH (grant_expiry actor current now)) (\<lambda>limit.
         bindH (ext (k_nonce K)) (\<lambda>nonce.
         rejectH (\<not> nonce_ok nonce) EffectConfigurationError ''grant nonce factory returned an invalid nonce''
        (bindH (new_id K) (\<lambda>gid.
         bindH (liftH (unsigned_grant gid current now limit nonce)) (\<lambda>body.
         bindH (sign_grant K issuer V TF current now body) (\<lambda>grant.
         commit_grant K actor version current grant))))))))
     | _ \<Rightarrow> raiseH EffectConfigurationError
         ''grant issuance requires injected issuer and current proof trust verification''))"

text \<open>\<open>current is None or current.request["actor_id"] != actor["actor_id"]\<close>\<close>

definition actor_scoped :: "dict \<Rightarrow> lifecycle option \<Rightarrow> lifecycle res" where
  "actor_scoped actor found = (case found of
     None \<Rightarrow> Inl (Exc LifecycleError ''actor-scoped request not found'')
   | Some r \<Rightarrow> bindE (ditem (lr_request r) ''actor_id'') (\<lambda>a. bindE (ditem actor ''actor_id'') (\<lambda>b.
       reject_if (neq a b) LifecycleError ''actor-scoped request not found'' (Inr r))))"

definition issue_grant ::
  "'d kernel \<Rightarrow> dict \<Rightarrow> pyval \<Rightarrow> (('d, 'z) kernel_state_scheme, lifecycle) handler" where
  "issue_grant K actor_context rid =
     bindH (liftH (kernel_model K ''actor_context'' PNone actor_context)) (\<lambda>actor.
     bindH (liftH (ditem actor ''tenant_id'')) (\<lambda>tenant.
     bindH (find_record tenant rid) (\<lambda>found.
     bindH (case k_durable K of
              None \<Rightarrow> returnH found
            | Some D \<Rightarrow> bindH (load_stored D actor rid) (\<lambda>stored.
                returnH (case stored of None \<Rightarrow> found | Some (r, v) \<Rightarrow> Some r))) (\<lambda>found.
     bindH (liftH (actor_scoped actor found)) (\<lambda>current.
     bindH (validate_identity K actor (lr_request current)) (\<lambda>_.
     issue_grant_locked K actor current))))))"

section \<open>Effects\<close>

definition effect_state :: "dict \<Rightarrow> kernel_lifecycle res" where
  "effect_state outcome = bindE (ditem outcome ''status'') (\<lambda>s.
     Inr (if py_eq s (PS ''succeeded'') then EFFECT_SUCCEEDED else EFFECT_INDETERMINATE))"

text \<open>A durable execution that has no lifecycle record in memory.\<close>

definition restored_effect ::
  "'d durable_store \<Rightarrow> dict \<Rightarrow> stored_effect \<Rightarrow> (('d, 'z) kernel_state_scheme, lifecycle) handler" where
  "restored_effect D actor stored =
     rejectH (se_state stored \<in> set (map S [''prepared'', ''executing''])) PreparedExecutionError
       ''effect preparation is live or unresolved; recovery requires lease expiry''
    (case (se_outcome stored, se_outcome_evidence stored) of
       (Some outcome, Some ev) \<Rightarrow>
         bindH (liftH (ditem (se_request stored) ''run_id'')) (\<lambda>run.
         bindH (dbH (ds_events D actor (Some run))) (\<lambda>events.
         bindH (liftH (effect_state outcome)) (\<lambda>state.
         returnH \<lparr> lr_request = se_request stored, lr_policy = se_policy stored, lr_state = state,
                   lr_evidence = events,
                   lr_approval = (case se_approvals stored of [] \<Rightarrow> None | a # _ \<Rightarrow> Some a),
                   lr_grant = Some (se_grant stored), lr_outcome = Some outcome \<rparr>)))
     | _ \<Rightarrow> raiseH LifecycleError ''durable terminal execution has incomplete evidence'')"

text \<open>The record of an effect request: in memory, else restored from the durable store.\<close>

definition effect_current ::
  "'d kernel \<Rightarrow> dict \<Rightarrow> pyval \<Rightarrow> pyval \<Rightarrow> (('d, 'z) kernel_state_scheme, lifecycle option) handler" where
  "effect_current K actor tenant rid =
     bindH (find_record tenant rid) (\<lambda>found. case (found, k_durable K) of
       (None, Some D) \<Rightarrow>
         bindH (load_stored D actor rid) (\<lambda>stored. case stored of
           Some (r, v) \<Rightarrow> bindH (put_record (tenant, rid) r) (\<lambda>_. returnH (Some r))
         | None \<Rightarrow> (if broker_of K = None then returnH None else
             bindH (dbH (ds_lookup D actor rid)) (\<lambda>execution. case execution of
               None \<Rightarrow> returnH None
             | Some x \<Rightarrow> bindH (restored_effect D actor x) (\<lambda>r.
                 bindH (put_record (tenant, rid) r) (\<lambda>_. returnH (Some r))))))
     | _ \<Rightarrow> returnH found)"

definition check_capabilities :: "'d broker \<Rightarrow> lifecycle \<Rightarrow> unit res" where
  "check_capabilities B current =
     bindE (ditem (lr_policy current) ''isolation_profile'') (\<lambda>isolation.
     bindE (merge_constraints (lr_policy current # approvals_of current)) (\<lambda>constraints.
     capabilities_validate (b_executor B) (lr_request current)
       [(S ''isolation_profile'', isolation), (S ''constraints'', PList constraints)]))"

definition advance_effect :: "lifecycle \<Rightarrow> broker_execution \<Rightarrow> dict list \<Rightarrow> lifecycle res" where
  "advance_effect base x evidence = bindE (effect_state (be_outcome x)) (\<lambda>state.
     Inr (base\<lparr> lr_state := state, lr_evidence := evidence, lr_outcome := Some (be_outcome x) \<rparr>))"

text \<open>Dispatch of a request in state \<open>GRANT_ISSUED\<close> and the advance of its record.\<close>

definition run_effect ::
  "'d broker \<Rightarrow> dict \<Rightarrow> (pyval \<times> pyval) \<Rightarrow> lifecycle \<Rightarrow> (('d, 'z) kernel_state_scheme, lifecycle) handler" where
  "run_effect B actor key current = (case lr_grant current of
     Some grant \<Rightarrow> rejectH (lr_state current \<noteq> GRANT_ISSUED) LifecycleError
         ''effect is not valid in the current lifecycle state''
        (bindH (dispatch B actor (lr_request current) (lr_policy current) (approvals_of current) grant) (\<lambda>x.
         bindH (liftH (advance_effect current x (lr_evidence current @ [be_intent x, be_outcome_evidence x]))) (\<lambda>advanced.
         bindH (put_record key advanced) (\<lambda>_.
         returnH advanced))))
   | None \<Rightarrow> raiseH LifecycleError ''effect is not valid in the current lifecycle state'')"

definition execute_effect ::
  "'d kernel \<Rightarrow> dict \<Rightarrow> pyval \<Rightarrow> (('d, 'z) kernel_state_scheme, lifecycle) handler" where
  "execute_effect K actor_context rid =
     bindH (liftH (kernel_model K ''actor_context'' PNone actor_context)) (\<lambda>actor.
     bindH (liftH (ditem actor ''tenant_id'')) (\<lambda>tenant.
     bindH (effect_current K actor tenant rid) (\<lambda>found.
     bindH (liftH (actor_scoped actor found)) (\<lambda>current.
     bindH (validate_identity K actor (lr_request current)) (\<lambda>_.
     if state_is current terminal_lifecycle then returnH current
     else (case broker_of K of
         None \<Rightarrow> raiseH EffectConfigurationError
           ''effect broker requires an executor plus current grant trust verification''
       | Some B \<Rightarrow>
           bindH (if state_is current [POLICY_AUTHORIZED, APPROVED]
                  then bindH (liftH (check_capabilities B current)) (\<lambda>_. issue_grant_locked K actor current)
                  else returnH current) (\<lambda>current.
           run_effect B actor (tenant, rid) current)))))))"

definition recovered_base ::
  "'d durable_store \<Rightarrow> dict \<Rightarrow> pyval \<Rightarrow> (('d, 'z) kernel_state_scheme, lifecycle \<times> dict list) handler" where
  "recovered_base D actor rid =
     bindH (dbH (ds_lookup D actor rid)) (\<lambda>found. case found of
       None \<Rightarrow> raiseH LifecycleError ''durable execution was not found for recovery''
     | Some stored \<Rightarrow>
         bindH (liftH (ditem (se_request stored) ''run_id'')) (\<lambda>run.
         bindH (dbH (ds_events D actor (Some run))) (\<lambda>events.
         returnH (\<lparr> lr_request = se_request stored, lr_policy = se_policy stored, lr_state = GRANT_ISSUED,
                    lr_evidence = [],
                    lr_approval = (case se_approvals stored of [] \<Rightarrow> None | a # _ \<Rightarrow> Some a),
                    lr_grant = Some (se_grant stored), lr_outcome = None \<rparr>, events))))"

definition recover_effect ::
  "'d kernel \<Rightarrow> dict \<Rightarrow> pyval \<Rightarrow> (('d, 'z) kernel_state_scheme, lifecycle) handler" where
  "recover_effect K actor_context rid =
     bindH (validated_actor K actor_context) (\<lambda>actor. case broker_of K of
       None \<Rightarrow> raiseH EffectConfigurationError ''effect broker requires a durable store''
     | Some B \<Rightarrow>
         bindH (recover B actor rid) (\<lambda>x.
         bindH (liftH (ditem actor ''tenant_id'')) (\<lambda>tenant.
         bindH (find_record tenant rid) (\<lambda>found.
         bindH (case found of
             Some current \<Rightarrow> returnH (current,
               lr_evidence current @ [be_intent x, be_outcome_evidence x])
           | None \<Rightarrow> (case b_durable B of
               None \<Rightarrow> raiseH EffectConfigurationError ''effect broker has no durable store''
             | Some D \<Rightarrow> recovered_base D actor rid)) (\<lambda>(base, evidence).
         if found \<noteq> None \<and> state_is base terminal_lifecycle then returnH base
         else
           bindH (liftH (advance_effect base x evidence)) (\<lambda>advanced.
           bindH (put_record (tenant, rid) advanced) (\<lambda>_.
           returnH advanced)))))))"

section \<open>Reads\<close>

definition get_lifecycle ::
  "'d kernel \<Rightarrow> dict \<Rightarrow> pyval \<Rightarrow> (('d, 'z) kernel_state_scheme, lifecycle) handler" where
  "get_lifecycle K actor_context rid =
     bindH (validated_actor K actor_context) (\<lambda>actor.
     bindH (liftH (ditem actor ''tenant_id'')) (\<lambda>tenant.
     bindH (find_record tenant rid) (\<lambda>found.
     bindH (case (found, k_durable K) of
         (None, Some D) \<Rightarrow> bindH (load_stored D actor rid) (\<lambda>stored. case stored of
             None \<Rightarrow> returnH None
           | Some (r, v) \<Rightarrow> bindH (put_record (tenant, rid) r) (\<lambda>_. returnH (Some r)))
       | _ \<Rightarrow> returnH found) (\<lambda>found.
     liftH (actor_scoped actor found)))))"

text \<open>
  \<open>_events_for_actor\<close> exists on the in-memory ledger only: a durable store without a broker
  has no such method.
\<close>

definition kernel_events ::
  "'d kernel \<Rightarrow> dict \<Rightarrow> (('d, 'z) kernel_state_scheme, dict list) handler" where
  "kernel_events K actor_context =
     bindH (validated_actor K actor_context) (\<lambda>actor.
     case (broker_of K, k_durable K) of
       (Some B, Some D) \<Rightarrow> dbH (ds_events D actor None)
     | _ \<Rightarrow>
         rejectH (\<not> k_own_ledger K) AttributeError ''_events_for_actor''
        (bindH (liftH (bindE (ditem actor ''tenant_id'') (\<lambda>t. bindE (ditem actor ''actor_id'') (\<lambda>a. Inr (t, a))))) (\<lambda>(t, a).
         bindH (getH (\<lambda>s. events_for_actor s t a)) liftH)))"

end
