(* ===== verification/Broker_Facts.thy ===== *)
theory Broker_Facts
  imports Broker
begin

text \<open>
  What a dispatch does to the state. A \<open>quiet\<close> handler only reads injected callables and
  leaves no event; \<open>settled r g\<close> is what may happen after the executor was called for
  request \<open>r\<close> and grant \<open>g\<close>: more evidence, compensations of that very call, a stored
  result. A dispatch in process is quiet or runs the executor once, after the grant was
  found free, the authority checked, the intent appended and the grant consumed.
\<close>

section \<open>Frames\<close>

definition quiet :: "'z ledger_state_scheme \<Rightarrow> 'z ledger_state_scheme \<Rightarrow> bool" where
  "quiet s t \<longleftrightarrow> events_of t = events_of s \<and> t = s\<lparr> tick := tick t, by_tenant := by_tenant t \<rparr>"

lemma quiet_refl: "reflp quiet"
  by (rule reflpI) (simp add: quiet_def)

lemma quiet_trans: "transp quiet"
proof (rule transpI)
  fix s t u :: "'z ledger_state_scheme"
  assume a: "quiet s t" "quiet t u"
  then have "u = t\<lparr> tick := tick u, by_tenant := by_tenant u \<rparr>"
    and "t = s\<lparr> tick := tick t, by_tenant := by_tenant t \<rparr>" by (simp_all add: quiet_def)
  then have "u = s\<lparr> tick := tick u, by_tenant := by_tenant u \<rparr>" by (metis ledger_state.surjective
      ledger_state.update_convs(1) world.update_convs(1))
  then show "quiet s u" using a by (simp add: quiet_def)
qed

lemma tick_quiet: "only_tick s t \<Longrightarrow> quiet s t"
  by (auto simp: only_tick_def quiet_def)

lemma keeps_mono: "keeps R m \<Longrightarrow> (\<And>s t. R s t \<Longrightarrow> Q s t) \<Longrightarrow> keeps Q m"
  by (auto simp: keeps_def)

lemma ledger_step_quiet: "ledger_step tenant s [] t \<longleftrightarrow> quiet s t"
  by (auto simp: ledger_step_def quiet_def)

lemma ledger_step_fields:
  fixes s t :: "('d, 'z) broker_state_scheme"
  assumes "ledger_step tenant s new t"
  shows "trace t = trace s" "consumed_grants t = consumed_grants s" "results t = results s"
    "db t = db s" "broker_state.more t = broker_state.more s"
proof -
  obtain n b where "t = s\<lparr> tick := n, by_tenant := b \<rparr>" using assms by (auto simp: ledger_step_def)
  then show "trace t = trace s" "consumed_grants t = consumed_grants s" "results t = results s"
    "db t = db s" "broker_state.more t = broker_state.more s" by simp_all
qed

lemmas quiet_fields = ledger_step_fields [OF iffD2 [OF ledger_step_quiet]]

lemmas quiet_frame = keeps_bindH [OF quiet_trans] keeps_pure [OF quiet_refl] keeps_rejectH [OF quiet_refl]

lemma keeps_authority: "keeps only_tick (validate_authority B a r p as g)"
  unfolding validate_authority_def by (intro tick_frame)

lemma keeps_outcome: "keeps only_tick (build_outcome B a r p as g i st res)"
  unfolding build_outcome_def Let_def by (intro tick_frame keeps_new_id)

section \<open>After the executor\<close>

definition extends :: "'z ledger_state_scheme \<Rightarrow> 'z ledger_state_scheme \<Rightarrow> bool" where
  "extends s t \<longleftrightarrow> (\<forall>tenant. \<exists>new. events_of t tenant = events_of s tenant @ new)"

lemma extends_refl: "extends s s"
  by (simp add: extends_def)

lemma extends_trans: "extends s t \<Longrightarrow> extends t u \<Longrightarrow> extends s u"
  unfolding extends_def by (metis append_assoc)

lemma quiet_extends: "quiet s t \<Longrightarrow> extends s t"
  by (simp add: quiet_def extends_def)

lemma ledger_step_extends: "ledger_step tenant s new t \<Longrightarrow> extends s t"
  by (auto simp: ledger_step_def extends_def)

text \<open>A revert of the call, and whether it returned.\<close>

definition revert_event :: "dict \<Rightarrow> dict \<Rightarrow> dict \<times> bool \<Rightarrow> effect_event" where
  "revert_event r g = (\<lambda>(x, done). if done then Reverted r g x else RevertFailed r g x)"

definition settled :: "env \<Rightarrow> dict \<Rightarrow> dict \<Rightarrow> ('d, 'z) broker_state_scheme \<Rightarrow> ('d, 'z) broker_state_scheme \<Rightarrow> bool" where
  "settled E r g s t \<longleftrightarrow>
     (\<exists>xs. trace t = trace s @ map (revert_event r g) xs) \<and>
     consumed_grants t = consumed_grants s \<and> db t = db s \<and>
     broker_state.more t = broker_state.more s \<and> extends s t \<and> (ledger_ok E s \<longrightarrow> ledger_ok E t)"

lemma settled_refl: "reflp (settled E r g)"
  by (rule reflpI) (auto simp: settled_def extends_refl)

lemma settled_trans: "transp (settled E r g)"
proof (rule transpI)
  fix s t u :: "('d, 'z) broker_state_scheme"
  assume a: "settled E r g s t" "settled E r g t u"
  then obtain xs ys where "trace t = trace s @ map (revert_event r g) xs"
      "trace u = trace t @ map (revert_event r g) ys" by (auto simp: settled_def)
  then have "trace u = trace s @ map (revert_event r g) (xs @ ys)" by simp
  moreover have "extends s u" using a extends_trans by (auto simp: settled_def)
  ultimately show "settled E r g s u" using a unfolding settled_def by metis
qed

lemma tick_settled: "only_tick s t \<Longrightarrow> settled E r g s t"
  by (auto simp: only_tick_def settled_def extends_def ledger_ok_def)

lemma ledger_step_settled:
  assumes "ledger_append B tenant run kind ref body s = (res, t)" "E = p_env B"
  shows "settled E r g s t"
proof -
  have "ledger_ok E s \<longrightarrow> ledger_ok E t" using assms ledger_append_ok by blast
  moreover have "\<exists>new. ledger_step tenant s new t" using assms(1) by (rule ledger_append_cases) auto
  ultimately show ?thesis
    by (auto simp: settled_def ledger_step_extends ledger_step_fields intro: exI [of _ "[]"])
qed

lemmas settled_frame = keeps_bindH [OF settled_trans] keeps_pure [OF settled_refl]
  keeps_rejectH [OF settled_refl] keeps_catchH [OF settled_trans] keeps_attemptH

lemma keeps_settled_ext: "keeps (settled E r g) (ext f)"
  by (rule keeps_mono [OF keeps_ext tick_settled])

lemma keeps_revert: "keeps (settled E r g) (revert_synthetic X r g result)"
proof -
  have log: "keeps (settled E r g) (log_effect (revert_event r g (result, b)))" for b
    by (auto simp: keeps_def log_effect_def modifyH_iff settled_def extends_def ledger_ok_def
        events_of_def intro: exI [of _ "[(result, b)]"])
  show ?thesis
    unfolding revert_synthetic_def
  proof (intro settled_frame keeps_settled_ext)
    show "keeps (settled E r g) (case answer of Inr _ \<Rightarrow> log_effect (Reverted r g result)
        | Inl _ \<Rightarrow> bindH (log_effect (RevertFailed r g result)) (\<lambda>_.
           raiseH EffectConfigurationError ''synthetic executor could not revert an unrecordable effect''))"
      for answer :: "unit res"
      using log [of True] log [of False]
      by (cases answer) (auto simp: revert_event_def intro!: settled_frame)
  qed
qed

lemma keeps_revert_raise: "keeps (settled E r g) (revert_and_raise X r g result active e)"
  unfolding revert_and_raise_def
  by (cases active) (auto intro!: settled_frame keeps_revert)

lemma keeps_indeterminate: "keeps (settled E r g) (indeterminate X r g)"
  unfolding indeterminate_def by (intro settled_frame keeps_revert)

lemma keeps_modify_results: "keeps (settled E r g) (modifyH (\<lambda>s. s\<lparr> results := f s \<rparr>))"
  by (auto simp: keeps_def modifyH_iff settled_def extends_def ledger_ok_def events_of_def
      intro: exI [of _ "[]"])

lemma keeps_settled_append: "keeps (settled (p_env B) r g) (ledger_append B tenant run kind ref body)"
  by (rule keepsI) (rule ledger_step_settled, assumption, rule refl)

lemma keeps_settled_outcome: "keeps (settled E r g) (build_outcome B a r p as g i st res)"
  by (rule keeps_mono [OF keeps_outcome tick_settled])

lemma keeps_case_prod: "(\<And>a b. keeps R (f a b)) \<Longrightarrow> keeps R (case x of (a, b) \<Rightarrow> f a b)"
  by (cases x) simp

lemma keeps_case_sum:
  "(\<And>a. keeps R (f a)) \<Longrightarrow> (\<And>b. keeps R (h b)) \<Longrightarrow> keeps R (case x of Inl a \<Rightarrow> f a | Inr b \<Rightarrow> h b)"
  by (cases x) simp_all

lemma keeps_case_option:
  "keeps R f \<Longrightarrow> (\<And>b. keeps R (h b)) \<Longrightarrow> keeps R (case x of None \<Rightarrow> f | Some b \<Rightarrow> h b)"
  by (cases x) simp_all

lemma keeps_if: "keeps R f \<Longrightarrow> keeps R h \<Longrightarrow> keeps R (if b then f else h)"
  by simp

lemmas keeps_splits = keeps_case_prod keeps_case_sum keeps_case_option keeps_if

text \<open>The call of the executor is logged first; everything after it is settled.\<close>

lemma invoke_executor_run:
  assumes "invoke_executor X r g s = (res, t)"
  shows "settled E r g (s\<lparr> trace := trace s @ [Executed r g] \<rparr>) t"
proof -
  let ?s = "s\<lparr> trace := trace s @ [Executed r g] \<rparr>"
  obtain raw s' where raw: "attemptH (call_executor X r g) s = (Inr raw, s')"
      "(case raw of Inl _ \<Rightarrow> indeterminate X r g
        | Inr v \<Rightarrow> (case executor_result v of Inl _ \<Rightarrow> indeterminate X r g
            | Inr d \<Rightarrow> returnH (''succeeded'', d, True))) s' = (res, t)"
    using assms unfolding invoke_executor_def
    by (rule bindH_cases) (auto simp: attemptH_def split: prod.splits)
  have "s' = ?s\<lparr> tick := Suc (tick s) \<rparr>"
    using raw(1) by (auto simp: attemptH_iff call_executor_def bindH_def log_effect_def modifyH_def ext_def)
  then have "settled E r g ?s s'" by (simp add: tick_settled only_tick_def exI [of _ "Suc (tick s)"])
  moreover have "settled E r g s' t"
    using raw(2) by (rule keepsD [rotated])
      (intro keeps_splits settled_frame keeps_indeterminate)
  ultimately show ?thesis by (rule transpD [OF settled_trans])
qed

section \<open>Dispatch in process\<close>

text \<open>The intent of an execution as it stands in the ledger.\<close>

definition intent_event :: "env \<Rightarrow> dict \<Rightarrow> dict \<Rightarrow> dict \<Rightarrow> bool" where
  "intent_event E r g e \<longleftrightarrow> (\<exists>body dr. intent_payload E r g = Inr body \<and>
     dget e ''draft'' = PDict dr \<and> dget dr ''event_kind'' = PS ''kernel.effect_execution_intent'' \<and>
     dget dr ''inline_payload'' = PDict body)"

lemma build_envelope_intent:
  assumes "build_envelope P tenant run ''kernel.effect_execution_intent'' ref body events s = (Inr e, t)"
    and "intent_payload E r g = Inr body"
  shows "intent_event E r g e"
  using build_envelope_inv(1) [OF assms(1)] assms(2) by (auto simp: event_of_def intent_event_def)

text \<open>
  The state right before the executor is called: one intent event more, the grant consumed.
\<close>

definition armed ::
  "env \<Rightarrow> dict \<Rightarrow> dict \<Rightarrow> (pyval \<times> pyval \<times> pyval) \<Rightarrow> ('d, 'z) broker_state_scheme \<Rightarrow> ('d, 'z) broker_state_scheme
     \<Rightarrow> bool" where
  "armed E r g gkey s u \<longleftrightarrow>
     (\<exists>e u0. ledger_step (dget g ''tenant_id'') s [e] u0 \<and> intent_event E r g e \<and>
        (ledger_ok E s \<longrightarrow> ledger_ok E u0) \<and>
        u = u0\<lparr> consumed_grants := consumed_grants u0 @ [gkey] \<rparr>)"

lemma finish_effect_run:
  assumes "finish_effect B a r p as g binding key gdg ref tenant run intent s = (res, t)"
  shows "settled (p_env B) r g (s\<lparr> trace := trace s @ [Executed r g] \<rparr>) t"
proof -
  note rest = assms [unfolded finish_effect_def Let_def]
  obtain x s' where x: "invoke_executor (b_executor B) r g s = (x, s')"
    and st: "settled (p_env B) r g s' t"
    using rest
  proof (cases rule: bindH_cases)
    case (error e)
    then show thesis by (intro that [OF error(1)] reflpD [OF settled_refl])
  next
    case (ok x s')
    from ok(2) have "settled (p_env B) r g s' t"
      by (rule keepsD [rotated])
        (intro keeps_splits settled_frame keeps_revert_raise keeps_settled_append
          keeps_settled_outcome keeps_modify_results)
    then show thesis using ok(1) by (rule that [rotated])
  qed
  show ?thesis by (rule transpD [OF settled_trans invoke_executor_run [OF x] st])
qed

lemma dispatch_effect_cases:
  assumes "dispatch_effect B a r p as g binding key gkey ref s = (res, t)"
  obtains (quiet) "quiet s t"
    | (ran) u where "armed (p_env B) r g gkey s u"
        "settled (p_env B) r g (u\<lparr> trace := trace u @ [Executed r g] \<rparr>) t"
  using assms [unfolded dispatch_effect_def]
proof (cases rule: bindH_lift_cases)
  case (error e)
  then show thesis using quiet quiet_refl by (auto dest: reflpD)
next
  case (ok v)
  then obtain run body where tenant: "fst v = dget g ''tenant_id''"
    and v: "v = (fst v, run, body)" and body: "intent_payload (p_env B) r g = Inr body"
    by (auto simp: bindE_Inr_iff ditem_Inr_iff dget_Some)
  have next': "bindH (ledger_append B (fst v) run ''kernel.effect_execution_intent'' ref body) (\<lambda>intent.
     bindH (modifyH (\<lambda>s. s\<lparr> consumed_grants := consumed_grants s @ [gkey] \<rparr>)) (\<lambda>_.
     finish_effect B a r p as g binding key (snd (snd gkey)) ref (fst v) run intent)) s = (res, t)"
    using ok(2) by (subst (asm) v) simp
  then show thesis
  proof (cases rule: bindH_cases)
    case (error e)
    from error(1) have "quiet s t" by (rule ledger_append_cases) (auto simp: ledger_step_quiet)
    then show thesis by (rule quiet)
  next
    case (ok intent u0)
    let ?u = "u0\<lparr> consumed_grants := consumed_grants u0 @ [gkey] \<rparr>"
    have "ledger_step (fst v) s [intent] u0 \<and> intent_event (p_env B) r g intent"
      using ok(1) by (rule ledger_append_cases) (auto intro: build_envelope_intent [OF _ body])
    moreover have "ledger_ok (p_env B) s \<longrightarrow> ledger_ok (p_env B) u0"
      using ok(1) ledger_append_ok by blast
    ultimately have "armed (p_env B) r g gkey s ?u"
      unfolding armed_def tenant by blast
    moreover have "finish_effect B a r p as g binding key (snd (snd gkey)) ref (fst v) run intent ?u = (res, t)"
      using ok(2) by (simp add: bindH_def modifyH_def)
    ultimately show thesis by (blast intro: ran dest: finish_effect_run)
  qed
qed

text \<open>What the broker has checked when the executor is called.\<close>

definition authorised :: "('d, 'p) broker_scheme \<Rightarrow> dict \<Rightarrow> dict \<Rightarrow> dict \<Rightarrow> dict list \<Rightarrow> dict \<Rightarrow> bool" where
  "authorised B a r p as g \<longleftrightarrow>
     effect_scope_checks (p_env B) a r g = Inr () \<and>
     (\<exists>n now T. tc_now T = Aware now \<and> effect_window_checks a g now = Inr () \<and>
        validate_grant_binding (p_env B) (b_grant_verifier B n) T (b_registry B)
          (PDict g) (PDict r) (PDict p) (map PDict as) = Inr ()) \<and>
     capabilities_validate (b_executor B) r g = Inr ()"

lemma current_trust_Inr: "current_trust cls now t = Inr T \<longleftrightarrow> t = Some T \<and> tc_now T = Aware now"
  by (auto simp: current_trust_def reject_if_Inr_iff split: option.splits)

lemma validate_authority_Inr:
  assumes "validate_authority B a r p as g s = (Inr u, t)" "capabilities_validate (b_executor B) r g = Inr ()"
  shows "authorised B a r p as g"
proof -
  have "effect_scope_checks (p_env B) a r g = Inr ()"
    using assms(1) by (auto simp: validate_authority_def bindH_Inr_iff liftH_iff)
  moreover have "\<exists>n now T. tc_now T = Aware now \<and> effect_window_checks a g now = Inr () \<and>
        validate_grant_binding (p_env B) (b_grant_verifier B n) T (b_registry B)
          (PDict g) (PDict r) (PDict p) (map PDict as) = Inr ()"
    using assms(1) unfolding validate_authority_def
    by (auto simp: bindH_Inr_iff liftH_iff ext_Inr current_trust_Inr)
  ultimately show ?thesis using assms(2) unfolding authorised_def by blast
qed

lemma ledger_step_tick:
  fixes s s' t :: "'z ledger_state_scheme"
  assumes "only_tick s s'" "ledger_step tenant s' new t"
  shows "ledger_step tenant s new t"
proof -
  obtain n where n: "s' = s\<lparr> tick := n \<rparr>" using assms(1) by (auto simp: only_tick_def)
  then have "t = s\<lparr> tick := n \<rparr>\<lparr> tick := tick t, by_tenant := by_tenant t \<rparr>"
    using assms(2) by (simp add: ledger_step_def)
  then have "t = s\<lparr> tick := tick t, by_tenant := by_tenant t \<rparr>" by simp
  then show ?thesis using assms(2) n by (simp add: ledger_step_def)
qed

lemma armed_tick:
  assumes "only_tick s s'" "armed E r g k s' u"
  shows "armed E r g k s u"
proof -
  have "ledger_ok E s' = ledger_ok E s" using assms(1) by (auto simp: only_tick_def ledger_ok_def)
  then show ?thesis
    using assms(2) ledger_step_tick [OF assms(1)] unfolding armed_def by metis
qed

lemma replay_gate_None:
  assumes "replay_gate s r p binding key gkey = Inr None"
  shows "gkey \<notin> set (consumed_grants s)"
    and "compare_idempotency_bindings (map_option st_idempotency (map_of (results s) key)) binding = Inr NEW"
proof -
  obtain q where q: "compare_idempotency_bindings (map_option st_idempotency (map_of (results s) key)) binding = Inr q"
    using assms by (auto simp: replay_gate_def Let_def bindE_Inr_iff)
  have "q \<noteq> REPLAY"
    using assms q by (auto simp: replay_gate_def Let_def bindE_Inr_iff reject_if_Inr_iff split: option.splits)
  then show "gkey \<notin> set (consumed_grants s)"
    and "compare_idempotency_bindings (map_option st_idempotency (map_of (results s) key)) binding = Inr NEW"
    using assms q by (cases q; auto simp: replay_gate_def Let_def reject_if_Inr_iff)+
qed

lemma dispatch_bindings_gkey:
  "dispatch_bindings E r p g = Inr (binding, key, gkey, ref) \<Longrightarrow> grant_key_of E g = Inr gkey"
  by (auto simp: dispatch_bindings_def bindE_Inr_iff)

lemma dispatch_memory_cases:
  assumes "dispatch_memory B a r p as g s = (res, t)"
  obtains (quiet) "quiet s t"
    | (ran) gkey u where "grant_key_of (p_env B) g = Inr gkey" "gkey \<notin> set (consumed_grants s)"
        "authorised B a r p as g" "armed (p_env B) r g gkey s u"
        "settled (p_env B) r g (u\<lparr> trace := trace u @ [Executed r g] \<rparr>) t"
  using assms [unfolded dispatch_memory_def]
proof (cases rule: bindH_cases)
  case (error e)
  then show thesis using keepsD [OF keeps_authority error(1)] by (intro quiet tick_quiet)
next
  case auth: (ok x s')
  have s': "only_tick s s'" using auth(1) by (rule keepsD [OF keeps_authority])
  have failed: thesis if "t = s'" using that s' by (intro quiet) (simp add: tick_quiet)
  from auth(2) show thesis
  proof (cases rule: bindH_lift_cases)
    case (error e)
    then show thesis by (intro failed)
  next
    case (ok v)
    obtain binding key gkey ref where v: "v = (binding, key, gkey, ref)" by (cases v) auto
    have ok': "authorised B a r p as g" "grant_key_of (p_env B) g = Inr gkey"
      using ok(1) validate_authority_Inr [of B a r p as g s x s'] auth(1)
        dispatch_bindings_gkey [of "p_env B" r p g binding key gkey ref] v
      by (auto simp: bindE_Inr_iff simp del: split_paired_All)
    from ok(2) have "bindH (liftH (replay_gate s' r p binding key gkey)) (\<lambda>replayed. case replayed of
        Some x \<Rightarrow> returnH x | None \<Rightarrow> dispatch_effect B a r p as g binding key gkey ref) s' = (res, t)"
      by (simp add: v get_lift)
    then show thesis
    proof (cases rule: bindH_lift_cases)
      case (error e)
      then show thesis by (intro failed)
    next
      case gate: (ok o')
      show thesis
      proof (cases o')
        case (Some x)
        then show thesis using gate(2) by (intro failed) (simp add: returnH_def)
      next
        case None
        then have run: "dispatch_effect B a r p as g binding key gkey ref s' = (res, t)"
          and free: "gkey \<notin> set (consumed_grants s')"
          using gate replay_gate_None(1) [of s' r p binding key gkey] by auto
        then have free': "gkey \<notin> set (consumed_grants s)" using s' by (auto simp: only_tick_def)
        from run show thesis
        proof (cases rule: dispatch_effect_cases)
          case quiet': quiet
          show thesis by (rule quiet) (rule transpD [OF quiet_trans tick_quiet [OF s'] quiet'])
        next
          case run': (ran u)
          show thesis by (rule ran [OF ok'(2) free' ok'(1) armed_tick [OF s' run'(1)] run'(2)])
        qed
      qed
    qed
  qed
qed

lemma contract_model_same: "contract_model E st rt tenant b d = Inr d' \<Longrightarrow> d' = d"
  by (auto simp: contract_model_def reject_if_Inr_iff bindE_Inr_iff)

lemma parse_dispatch_same:
  assumes "parse_dispatch E a r p as g = Inr v"
  shows "v = (a, r, p, as, g)"
proof -
  have "ys = xs" if "mapE (contract_model E (store E) rt t True) xs = Inr ys" for rt t xs ys
    using that unfolding mapE_Inr_iff
    by (induction rule: list_all2_induct) (auto dest: contract_model_same)
  then show ?thesis
    using assms by (auto simp: parse_dispatch_def Let_def bindE_Inr_iff dest!: contract_model_same)
qed

lemma dispatch_cases:
  assumes "dispatch B a r p as g s = (res, t)" "b_durable B = None"
  obtains (quiet) "quiet s t"
    | (ran) gkey u where "grant_key_of (p_env B) g = Inr gkey" "gkey \<notin> set (consumed_grants s)"
        "authorised B a r p as g" "armed (p_env B) r g gkey s u"
        "settled (p_env B) r g (u\<lparr> trace := trace u @ [Executed r g] \<rparr>) t"
  using assms(1) [unfolded dispatch_def]
proof (cases rule: bindH_lift_cases)
  case (error e)
  show thesis by (rule quiet) (simp add: error reflpD [OF quiet_refl])
next
  case (ok v)
  then have "dispatch_memory B a r p as g s = (res, t)"
    using parse_dispatch_same [OF ok(1)] assms(2) by simp
  then show thesis by (rule dispatch_memory_cases [OF _ that])
qed

end
