(* ===== verification/Handler_Logic.thy ===== *)
theory Handler_Logic
  imports Broker_Facts
begin

text \<open>
  A small program logic for handlers: \<open>valid P m Q E\<close> says that from a state satisfying
  \<open>P\<close> the handler either returns a value related to its final state by \<open>Q\<close> or raises in a
  state satisfying \<open>E\<close>. The rules for a bind keep what a pure check established as a fact of
  the proof context, so an operation is verified by introducing the rules in program order.
\<close>

definition valid :: "('s \<Rightarrow> bool) \<Rightarrow> ('s, 'a) handler \<Rightarrow> ('a \<Rightarrow> 's \<Rightarrow> bool) \<Rightarrow> ('s \<Rightarrow> bool) \<Rightarrow> bool" where
  "valid P m Q E \<longleftrightarrow> (\<forall>s. P s \<longrightarrow> (case m s of (Inl e, t) \<Rightarrow> E t | (Inr x, t) \<Rightarrow> Q x t))"

lemma validI: "(\<And>s r t. P s \<Longrightarrow> m s = (r, t) \<Longrightarrow> (case r of Inl e \<Rightarrow> E t | Inr x \<Rightarrow> Q x t)) \<Longrightarrow> valid P m Q E"
  unfolding valid_def by (auto split: prod.splits sum.splits)

lemma valid_Inr: "valid P m Q E \<Longrightarrow> P s \<Longrightarrow> m s = (Inr x, t) \<Longrightarrow> Q x t"
  unfolding valid_def by (drule spec [of _ s]) simp

lemma valid_Inl: "valid P m Q E \<Longrightarrow> P s \<Longrightarrow> m s = (Inl e, t) \<Longrightarrow> E t"
  unfolding valid_def by (drule spec [of _ s]) simp

lemma valid_final:
  assumes "valid P m (\<lambda>_. Q) Q" "P s" "m s = (r, t)"
  shows "Q t"
  using assms by (cases r) (auto dest: valid_Inr valid_Inl)

lemma v_conseq:
  assumes "valid P m Q E" "\<And>s. P' s \<Longrightarrow> P s" "\<And>x t. Q x t \<Longrightarrow> Q' x t" "\<And>t. E t \<Longrightarrow> E' t"
  shows "valid P' m Q' E'"
  using assms unfolding valid_def by (fastforce split: prod.splits sum.splits)

lemma v_pointwise:
  assumes "\<And>t. P t \<Longrightarrow> valid (\<lambda>s. s = t) m Q E"
  shows "valid P m Q E"
  using assms by (simp add: valid_def)

lemma v_bind:
  assumes "valid P m R E" "\<And>x. valid (R x) (f x) Q E"
  shows "valid P (bindH m f) Q E"
proof (rule validI)
  fix s r t
  assume P: "P s" and b: "bindH m f s = (r, t)"
  from b show "case r of Inl e \<Rightarrow> E t | Inr x \<Rightarrow> Q x t"
  proof (cases rule: bindH_cases)
    case (error e)
    then show ?thesis using valid_Inl [OF assms(1) P] by simp
  next
    case (ok x s')
    then have "R x s'" using valid_Inr [OF assms(1) P] by simp
    then show ?thesis using ok(2) valid_Inr [OF assms(2)] valid_Inl [OF assms(2)] by (cases r) auto
  qed
qed

lemma v_return: "(\<And>s. P s \<Longrightarrow> Q x s) \<Longrightarrow> valid P (returnH x) Q E"
  by (auto simp: valid_def returnH_def)

lemma v_raise: "(\<And>s. P s \<Longrightarrow> E s) \<Longrightarrow> valid P (raiseH c m) Q E"
  by (auto simp: valid_def raiseH_def)

lemma v_lift: "(\<And>x s. r = Inr x \<Longrightarrow> P s \<Longrightarrow> Q x s) \<Longrightarrow> (\<And>s. P s \<Longrightarrow> E s) \<Longrightarrow> valid P (liftH r) Q E"
  by (auto simp: valid_def liftH_def split: sum.splits)

lemma v_reject:
  "(\<not> b \<Longrightarrow> valid P k Q E) \<Longrightarrow> (\<And>s. P s \<Longrightarrow> E s) \<Longrightarrow> valid P (rejectH b c m k) Q E"
  by (auto simp: valid_def rejectH_def)

lemma vb_lift:
  "(\<And>x. r = Inr x \<Longrightarrow> valid P (f x) Q E) \<Longrightarrow> (\<And>s. P s \<Longrightarrow> E s) \<Longrightarrow> valid P (bindH (liftH r) f) Q E"
  by (cases r) (auto simp: valid_def bindH_def liftH_def)

lemma vb_get:
  "(\<And>x. valid (\<lambda>s. P s \<and> x = g s) (f x) Q E) \<Longrightarrow> valid P (bindH (getH g) f) Q E"
  by (auto simp: valid_def bindH_def getH_def)

lemma vb_modify:
  "valid (\<lambda>s. \<exists>u. P u \<and> s = h u) (f ()) Q E \<Longrightarrow> valid P (bindH (modifyH h) f) Q E"
  by (force simp: valid_def bindH_def modifyH_def)

lemma vb_return: "valid P (f x) Q E \<Longrightarrow> valid P (bindH (returnH x) f) Q E"
  by (simp add: bindH_def returnH_def)

lemma vb_assoc: "valid P (bindH m (\<lambda>x. bindH (f x) g)) Q E \<Longrightarrow> valid P (bindH (bindH m f) g) Q E"
proof -
  have "bindH (bindH m f) g = bindH m (\<lambda>x. bindH (f x) g)"
    by (auto simp: bindH_def fun_eq_iff split: prod.splits sum.splits)
  then show "valid P (bindH m (\<lambda>x. bindH (f x) g)) Q E \<Longrightarrow> valid P (bindH (bindH m f) g) Q E" by simp
qed

lemma v_catch:
  assumes "valid P m Q R" "\<And>e. valid R (h e) Q E"
  shows "valid P (catchH m h) Q E"
proof (rule validI)
  fix s r t assume P: "P s" and c: "catchH m h s = (r, t)"
  from c show "case r of Inl e \<Rightarrow> E t | Inr x \<Rightarrow> Q x t"
  proof (cases rule: catchH_cases)
    case (normal x)
    then show ?thesis using valid_Inr [OF assms(1) P] by simp
  next
    case (caught e s')
    then have "R s'" using valid_Inl [OF assms(1) P] by simp
    then show ?thesis using caught valid_Inr [OF assms(2)] valid_Inl [OF assms(2)] by (cases r) auto
  qed
qed

lemma v_option:
  "(x = None \<Longrightarrow> valid P f Q E) \<Longrightarrow> (\<And>y. x = Some y \<Longrightarrow> valid P (h y) Q E) \<Longrightarrow>
   valid P (case x of None \<Rightarrow> f | Some y \<Rightarrow> h y) Q E"
  by (cases x) simp_all

lemma v_prod:
  "(\<And>a b. x = (a, b) \<Longrightarrow> valid P (f a b) Q E) \<Longrightarrow> valid P (case x of (a, b) \<Rightarrow> f a b) Q E"
  by (cases x) simp

lemma v_if:
  "(b \<Longrightarrow> valid P f Q E) \<Longrightarrow> (\<not> b \<Longrightarrow> valid P h Q E) \<Longrightarrow> valid P (if b then f else h) Q E"
  by simp

lemmas v_splits = v_option v_prod v_if

text \<open>A handler that only reads injected callables, after a prefix that did the same.\<close>

lemma vb_tick:
  assumes "keeps only_tick m"
    and "\<And>x a b. m a = (Inr x, b) \<Longrightarrow> valid (\<lambda>s. only_tick s0 s) (f x) Q E"
    and "\<And>s. only_tick s0 s \<Longrightarrow> E s"
  shows "valid (\<lambda>s. only_tick s0 s) (bindH m f) Q E"
proof (rule validI)
  fix s r t
  assume P: "only_tick s0 s" and b: "bindH m f s = (r, t)"
  from b show "case r of Inl e \<Rightarrow> E t | Inr x \<Rightarrow> Q x t"
  proof (cases rule: bindH_cases)
    case (error e)
    then have "only_tick s0 t" using P assms(1) only_tick_trans by (auto dest: keepsD transpD)
    then show ?thesis using error assms(3) by simp
  next
    case (ok x s')
    then have "only_tick s0 s'" using P assms(1) only_tick_trans by (auto dest: keepsD transpD)
    then show ?thesis
      using ok(2) valid_Inr [OF assms(2) [OF ok(1)]] valid_Inl [OF assms(2) [OF ok(1)]] by (cases r) auto
  qed
qed

text \<open>An append: afterwards there is exactly one new event, or none and an exception.\<close>

lemma vb_append:
  assumes "\<And>e. valid (\<lambda>s. ledger_step tenant s0 [e] s \<and> (ledger_ok (p_env P) s0 \<longrightarrow> ledger_ok (p_env P) s))
      (f e) Q E"
    and "\<And>s. quiet s0 s \<Longrightarrow> E s"
  shows "valid (\<lambda>s. only_tick s0 s) (bindH (ledger_append P tenant run kind ref body) f) Q E"
proof (rule validI)
  fix s r t
  assume P: "only_tick s0 s" and b: "bindH (ledger_append P tenant run kind ref body) f s = (r, t)"
  have same: "ledger_ok (p_env P) s = ledger_ok (p_env P) s0"
    using P by (auto simp: only_tick_def ledger_ok_def)
  from b show "case r of Inl e \<Rightarrow> E t | Inr x \<Rightarrow> Q x t"
  proof (cases rule: bindH_cases)
    case (error e)
    from error(1) have "ledger_step tenant s [] t" by (rule ledger_append_cases) auto
    then have "quiet s0 t" using P ledger_step_tick ledger_step_quiet by metis
    then show ?thesis using error assms(2) by simp
  next
    case (ok e u)
    from ok(1) have "ledger_step tenant s [e] u" by (rule ledger_append_cases) auto
    then have "ledger_step tenant s0 [e] u" by (rule ledger_step_tick [OF P])
    moreover have "ledger_ok (p_env P) s0 \<longrightarrow> ledger_ok (p_env P) u"
      using ok(1) ledger_append_ok same by blast
    ultimately show ?thesis
      using ok(2) valid_Inr [OF assms(1)] valid_Inl [OF assms(1)] by (cases r) auto
  qed
qed

end
