(* ===== verification/Kernel_Machine.thy ===== *)
theory Kernel_Machine
  imports Kernel Handler_Logic
begin

text \<open>
  The lifecycle machine: the abstract specification of the kernel when it runs without a
  durable store. Its rules say which states a governed request moves through, what has to
  hold for each move and what the move writes. Every public operation of the kernel is
  shown to be a sequence of moves; invariants are proved for the moves.
\<close>

section \<open>The machine\<close>

definition record_key :: "lifecycle \<Rightarrow> pyval \<times> pyval" where
  "record_key r = (dget (lr_request r) ''tenant_id'', dget (lr_request r) ''request_id'')"

definition new_record :: "dict \<Rightarrow> dict \<Rightarrow> kernel_lifecycle \<Rightarrow> dict \<Rightarrow> lifecycle" where
  "new_record request decision state e =
     \<lparr> lr_request = request, lr_policy = decision, lr_state = state, lr_evidence = [e],
       lr_approval = None, lr_grant = None, lr_outcome = None \<rparr>"

definition approved_record :: "lifecycle \<Rightarrow> dict \<Rightarrow> dict \<Rightarrow> lifecycle" where
  "approved_record r a e = r\<lparr> lr_state := APPROVED, lr_evidence := lr_evidence r @ [e],
     lr_approval := Some a, lr_grant := None, lr_outcome := None \<rparr>"

definition granted_record :: "lifecycle \<Rightarrow> dict \<Rightarrow> dict \<Rightarrow> lifecycle" where
  "granted_record r g e = r\<lparr> lr_state := GRANT_ISSUED, lr_evidence := lr_evidence r @ [e],
     lr_grant := Some g, lr_outcome := None \<rparr>"

definition finished_record :: "lifecycle \<Rightarrow> kernel_lifecycle \<Rightarrow> dict list \<Rightarrow> dict \<Rightarrow> lifecycle" where
  "finished_record r l es outcome = r\<lparr> lr_state := l, lr_evidence := lr_evidence r @ es,
     lr_outcome := Some outcome \<rparr>"

text \<open>What the policy decision of a new request says.\<close>

definition decided :: "'d kernel \<Rightarrow> dict \<Rightarrow> dict \<Rightarrow> kernel_lifecycle \<Rightarrow> bool" where
  "decided K request decision state \<longleftrightarrow> (\<exists>rule.
     evaluate (k_policy K) request = Inr rule \<and> next_state (rule_decision rule) = Inr state \<and>
     dget decision ''decision'' = PStr (rule_decision rule) \<and>
     dget decision ''request_digest'' = dget request ''request_digest'' \<and>
     dget decision ''constraints'' = PList (rule_constraints rule) \<and>
     dget decision ''isolation_profile'' = PStr (rule_isolation_profile rule))"

text \<open>Identity and form of a request that became a record.\<close>

definition identified :: "'d kernel \<Rightarrow> dict \<Rightarrow> bool" where
  "identified K request \<longleftrightarrow> (\<exists>actor n now. k_identity K n actor = Inr (PBool True) \<and>
     identity_scope (p_env K) actor request = Inr () \<and> identity_window actor request now = Inr ())"

definition request_valid :: "'d kernel \<Rightarrow> dict \<Rightarrow> bool" where
  "request_valid K request \<longleftrightarrow> (\<exists>tenant. kernel_model K ''tool_request'' tenant request = Inr request)"

definition approval_verified :: "'d kernel \<Rightarrow> pyval \<Rightarrow> dict \<Rightarrow> bool" where
  "approval_verified K tenant a \<longleftrightarrow> (\<exists>n now T h. tc_now T = Aware now \<and> approval_window a now = Inr () \<and>
     verify_signed_record (p_env K) (k_approval_verifier K n) T tenant False (PDict a) = Inr h)"

text \<open>A grant the kernel issued: its body, its window, and its validation.\<close>

definition grant_issued :: "'d kernel \<Rightarrow> lifecycle \<Rightarrow> dict \<Rightarrow> bool" where
  "grant_issued K r g \<longleftrightarrow> (\<exists>actor now limit gid nonce body V n T.
     grant_expiry actor r now = Inr limit \<and> nonce_ok nonce \<and>
     unsigned_grant gid r now limit nonce = Inr body \<and>
     py_eq (PDict (unsigned_body g)) (PDict body) \<and>
     k_grant_verifier K = Some V \<and> tc_now T = Aware now \<and>
     validate_grant_binding (p_env K) (V n) T (k_registry K) (PDict g) (PDict (lr_request r))
       (PDict (lr_policy r)) (map PDict (approvals_of r)) = Inr ())"

definition append_step :: "'d kernel \<Rightarrow> pyval \<Rightarrow> 'd kernel_state \<Rightarrow> dict \<Rightarrow> 'd kernel_state \<Rightarrow> bool" where
  "append_step K tenant s e u \<longleftrightarrow>
     ledger_step tenant s [e] u \<and> (ledger_ok (p_env K) s \<longrightarrow> ledger_ok (p_env K) u)"

inductive machine :: "'d kernel \<Rightarrow> 'd kernel_state \<Rightarrow> 'd kernel_state \<Rightarrow> bool" for K where
  idle: "quiet s t \<Longrightarrow> machine K s t"
| submitted: "\<lbrakk> request_valid K request; identified K request; request_keys request = Inr (key, bkey, binding);
      submit_gate s request binding key bkey = Inr None;
      decided K request decision state; append_step K (fst key) s e u;
      t = u\<lparr> idempotency := AList.update bkey (binding, snd key, dget request ''request_digest'') (idempotency u),
             records := AList.update key (new_record request decision state e) (records u) \<rparr> \<rbrakk>
    \<Longrightarrow> machine K s t"
| approved: "\<lbrakk> map_of (records s) key = Some r; approval_checks (k_registry K) a r = Inr ();
      approval_verified K (fst key) a; approval_key_of (fst key) a = Inr akey;
      akey \<notin> set (consumed_approvals s); append_step K (fst key) s e u;
      t = u\<lparr> consumed_approvals := consumed_approvals u @ [akey],
             records := AList.update key (approved_record r a e) (records u) \<rparr> \<rbrakk>
    \<Longrightarrow> machine K s t"
| granted: "\<lbrakk> map_of (records s) key = Some r; record_key r = key;
      lr_state r \<in> {POLICY_AUTHORIZED, APPROVED}; grant_state_checks r = Inr ();
      grant_issued K r g; append_step K (fst key) s e u;
      t = u\<lparr> records := AList.update key (granted_record r g e) (records u) \<rparr> \<rbrakk>
    \<Longrightarrow> machine K s t"
| executed: "\<lbrakk> map_of (records s) key = Some r; lr_state r = GRANT_ISSUED; lr_grant r = Some g;
      broker_of K = Some B; grant_key_of (p_env K) g = Inr gkey; gkey \<notin> set (consumed_grants s);
      authorised B actor (lr_request r) (lr_policy r) (approvals_of r) g;
      armed (p_env K) (lr_request r) g gkey s u;
      settled (p_env K) (lr_request r) g (u\<lparr> trace := trace u @ [Executed (lr_request r) g] \<rparr>) t \<rbrakk>
    \<Longrightarrow> machine K s t"
| finished: "\<lbrakk> map_of (records s) key = Some r; lr_state r = GRANT_ISSUED; lr_grant r \<noteq> None;
      l \<in> {EFFECT_SUCCEEDED, EFFECT_INDETERMINATE};
      t = s\<lparr> records := AList.update key (finished_record r l es outcome) (records s) \<rparr> \<rbrakk>
    \<Longrightarrow> machine K s t"

definition keyed :: "'d kernel_state \<Rightarrow> bool" where
  "keyed s \<longleftrightarrow> (\<forall>key r. map_of (records s) key = Some r \<longrightarrow> record_key r = key)"

section \<open>Operations are moves\<close>

abbreviation moves :: "'d kernel \<Rightarrow> 'd kernel_state \<Rightarrow> 'd kernel_state \<Rightarrow> bool" where
  "moves K \<equiv> (machine K)\<^sup>*\<^sup>*"

lemma tick_machine: "only_tick s t \<Longrightarrow> machine K s t"
  by (intro idle tick_quiet)

lemma keeps_kernel_clock: "keeps only_tick (kernel_clock cls K)"
  unfolding kernel_clock_def
  by (intro tick_frame, rename_tac x, case_tac x) (auto intro: tick_frame)

lemma keeps_validate_actor: "keeps only_tick (validate_actor K a)"
  unfolding validate_actor_def by (intro tick_frame keeps_kernel_clock)

lemma keeps_validated_actor: "keeps only_tick (validated_actor K a)"
  unfolding validated_actor_def by (intro tick_frame keeps_validate_actor)

lemma keeps_validate_identity: "keeps only_tick (validate_identity K a r)"
  unfolding validate_identity_def by (intro tick_frame keeps_kernel_clock keeps_validate_actor)

lemma keeps_decide: "keeps only_tick (decide K r now)"
  unfolding decide_def by (intro tick_frame keeps_new_id)

lemma keeps_verify_approval: "keeps only_tick (verify_approval K tenant a)"
  unfolding verify_approval_def by (intro tick_frame keeps_kernel_clock)

lemma keeps_sign_grant: "keeps only_tick (sign_grant K issuer V TF r now body)"
  unfolding sign_grant_def by (intro tick_frame)

lemmas reads = keeps_kernel_clock keeps_validate_actor keeps_validated_actor
  keeps_validate_identity keeps_decide keeps_verify_approval keeps_sign_grant keeps_ext keeps_new_id

lemma decide_decided:
  assumes "decide K request now s = (Inr (decision, state), t)"
  shows "decided K request decision state"
proof -
  obtain rule i body stamped where rule: "evaluate (k_policy K) request = Inr rule"
    and rec: "policy_decision_record i request rule (utc_millis_text now) = Inr body"
    and st: "apply_object_digest (p_env K) body = Inr stamped"
    and d: "decision = stamped" and state: "next_state (rule_decision rule) = Inr state"
    using assms unfolding decide_def
    by (auto simp: bindH_Inr_iff liftH_iff bindE_Inr_iff dest!: contract_model_same)
  have rt: "dget body ''record_type'' = PS ''policy_decision''"
    and f: "dget body ''decision'' = PStr (rule_decision rule)"
      "dget body ''request_digest'' = dget request ''request_digest''"
      "dget body ''constraints'' = PList (rule_constraints rule)"
      "dget body ''isolation_profile'' = PStr (rule_isolation_profile rule)"
    using rec by (auto simp: policy_decision_record_def bindE_Inr_iff ditem_Inr_iff dget_def)
  have "digest_field (PS ''policy_decision'') = Some ''decision_digest''"
    by (simp add: digest_field_def SELF_DIGEST_FIELDS_def)
  then have "dget stamped k = dget body k" if "k \<noteq> ''proof''" "k \<noteq> ''decision_digest''" for k
    using apply_object_digest_fields [OF st] that unfolding rt by auto
  then show ?thesis using rule state f unfolding decided_def d by auto
qed

text \<open>Facts that reading injected callables does not change.\<close>

lemma tick_state:
  assumes "only_tick s0 s"
  shows "records s = records s0" "idempotency s = idempotency s0"
    "consumed_approvals s = consumed_approvals s0" "consumed_grants s = consumed_grants s0"
  using assms by (auto simp: only_tick_def)

lemma tick_gate:
  "only_tick s0 s \<Longrightarrow> submit_gate s request binding key bkey = submit_gate s0 request binding key bkey"
  by (simp only: submit_gate_def tick_state)

lemma vb_gate:
  assumes "\<And>s. only_tick s0 s \<Longrightarrow> f s = f s0"
    and "valid (\<lambda>s. only_tick s0 s) (bindH (liftH (f s0)) k) Q E"
  shows "valid (\<lambda>s. only_tick s0 s) (bindH (bindH (getH f) liftH) k) Q E"
  unfolding valid_def
proof (intro allI impI)
  fix s assume "only_tick s0 s"
  then show "case bindH (bindH (getH f) liftH) k s of (Inl e, t) \<Rightarrow> E t | (Inr x, t) \<Rightarrow> Q x t"
    using assms(1) [of s] assms(2) by (simp add: get_lift valid_def)
qed

lemma vb_read:
  assumes "\<And>s. only_tick s0 s \<Longrightarrow> f s = f s0" "valid (\<lambda>s. only_tick s0 s) (k (f s0)) Q E"
  shows "valid (\<lambda>s. only_tick s0 s) (bindH (getH f) k) Q E"
  using assms by (simp add: valid_def bindH_def getH_def)

lemma append_machine: "quiet s0 s \<Longrightarrow> machine K s0 s"
  by (rule idle)

lemma vb_commit:
  assumes "\<And>e u. append_step K tenant s0 e u \<Longrightarrow> valid (\<lambda>s. s = u) (f e) Q E"
    and "\<And>s. quiet s0 s \<Longrightarrow> E s"
  shows "valid (\<lambda>s. only_tick s0 s) (bindH (ledger_append K tenant run kind ref body) f) Q E"
proof (rule vb_append)
  show "valid (\<lambda>s. ledger_step tenant s0 [e] s \<and> (ledger_ok (p_env K) s0 \<longrightarrow> ledger_ok (p_env K) s)) (f e) Q E" for e
    using assms(1) [of e] by (simp add: valid_def append_step_def)
qed (rule assms(2))

lemma pair_key_Inr: "pair_key a b = Inr k \<longleftrightarrow> hashable a \<and> hashable b \<and> k = (a, b)"
  by (auto simp: pair_key_def)

lemma mapping_item_Inr: "mapping_item d k = Inr b \<Longrightarrow> dget d k = PDict b"
proof -
  assume "mapping_item d k = Inr b"
  then obtain v where v: "map_of d (S k) = Some v"
      "(case v of PDict b \<Rightarrow> Inr b | _ \<Rightarrow> Inl (Exc TypeError ''indices must be integers'')) = Inr b"
    by (auto simp: mapping_item_def bindE_Inr_iff ditem_Inr_iff)
  then show ?thesis by (cases v) (auto simp: dget_Some)
qed

lemma request_keys_Inr:
  assumes "request_keys request = Inr (key, bkey, binding)"
  shows "key = (dget request ''tenant_id'', dget request ''request_id'')"
    and "ditem request ''tenant_id'' = Inr (fst key)" "ditem request ''request_id'' = Inr (snd key)"
    and "dget request ''idempotency'' = PDict binding"
    and "bkey = (fst key, dget binding ''idempotency_key'')"
proof -
  show "key = (dget request ''tenant_id'', dget request ''request_id'')"
    and "ditem request ''tenant_id'' = Inr (fst key)" "ditem request ''request_id'' = Inr (snd key)"
    and "bkey = (fst key, dget binding ''idempotency_key'')"
    using assms by (auto simp: request_keys_def bindE_Inr_iff ditem_Inr_iff dget_Some pair_key_Inr)
  show "dget request ''idempotency'' = PDict binding"
    using assms by (auto simp: request_keys_def bindE_Inr_iff dest!: mapping_item_Inr)
qed

text \<open>The end of a submission, once identity, keys and decision are known.\<close>

lemma commit_submission_machine:
  assumes mem: "k_durable K = None" and req: "request_valid K request" "identified K request"
    and keys: "request_keys request = Inr (key, bkey, binding)"
    and gate: "submit_gate s0 request binding key bkey = Inr None"
    and dec: "decided K request decision state"
  shows "valid (\<lambda>s. only_tick s0 s) (commit_submission K actor request key bkey binding decision state)
    (\<lambda>_. machine K s0) (machine K s0)"
  unfolding commit_submission_def record_submission_def mem option.case
proof (intro vb_assoc vb_lift v_prod, unfold split_beta, intro vb_assoc vb_lift vb_commit, fold new_record_def)
  fix ref v body e u
  assume v: "bindE (ditem request ''tenant_id'') (\<lambda>t. bindE (ditem request ''run_id'') (\<lambda>r. Inr (t, r))) = Inr v"
    and body: "submission_payload request decision state = Inr body"
    and step: "append_step K (fst v) s0 e u"
  note k = request_keys_Inr [OF keys]
  obtain dg where dg: "ditem request ''request_digest'' = Inr dg"
    using body by (auto simp: submission_payload_def bindE_Inr_iff)
  have dg': "dget request ''request_digest'' = dg" using dg by (auto simp: ditem_Inr_iff dget_Some)
  have "fst v = fst key" using v k(2) by (auto simp: bindE_Inr_iff)
  then have "machine K s0 (u\<lparr> idempotency := AList.update bkey (binding, snd key, dg) (idempotency u),
      records := AList.update key (new_record request decision state e) (records u) \<rparr>)"
    using step by (intro submitted [OF req keys gate dec]) (simp_all add: dg')
  then show "valid (\<lambda>s. s = u) (bindH (returnH (new_record request decision state e)) (\<lambda>rcd.
       bindH (liftH (bindE (ditem request ''request_id'') (\<lambda>rid.
                bindE (ditem request ''request_digest'') (\<lambda>dg. Inr (rid, dg))))) (\<lambda>x.
       bindH (modifyH (\<lambda>s. s\<lparr> idempotency := AList.update bkey (binding, fst x, snd x) (idempotency s) \<rparr>)) (\<lambda>_.
       bindH (put_record key rcd) (\<lambda>_. returnH rcd))))) (\<lambda>_. machine K s0) (machine K s0)"
    by (simp add: valid_def bindH_def returnH_def liftH_def modifyH_def put_record_def k(3) dg)
qed (auto intro: tick_machine idle)

lemma identity_facts: "validate_identity K actor request s = (Inr now, t) \<Longrightarrow> identified K request"
  unfolding validate_identity_def validate_actor_def identified_def
  by (auto simp: bindH_Inr_iff liftH_iff ext_Inr rejectH_Inr_iff returnH_iff)

lemma request_facts:
  "bindE (ditem actor ''tenant_id'') (\<lambda>tenant. kernel_model K ''tool_request'' tenant d) = Inr request
     \<Longrightarrow> request_valid K request"
  unfolding request_valid_def by (auto simp: bindE_Inr_iff dest: contract_model_same)

lemma submit_machine:
  assumes mem: "k_durable K = None"
  shows "valid (\<lambda>s. only_tick s0 s) (submit K actor_context tool_request) (\<lambda>_. machine K s0) (machine K s0)"
  unfolding submit_def
  by (intro vb_lift v_splits vb_tick [OF keeps_validate_identity] vb_gate [OF tick_gate] vb_tick [OF keeps_decide]
        v_return commit_submission_machine mem)
     (auto intro: tick_machine request_facts identity_facts dest: decide_decided)

lemma approval_facts:
  "verify_approval K tenant a s = (Inr h, t) \<Longrightarrow> approval_verified K tenant a"
  unfolding verify_approval_def approval_verified_def
  by (auto simp: bindH_Inr_iff liftH_iff ext_Inr current_trust_Inr)

lemma commit_approval_machine:
  assumes mem: "k_durable K = None" and r: "map_of (records s0) (tenant, rid) = Some r"
    and checks: "approval_checks (k_registry K) a r = Inr ()" "approval_verified K tenant a"
    and akey: "approval_key_of tenant a = Inr akey" "akey \<notin> set (consumed_approvals s0)"
  shows "valid (\<lambda>s. only_tick s0 s) (commit_approval K actor tenant rid version r a akey)
    (\<lambda>_. machine K s0) (machine K s0)"
  unfolding commit_approval_def record_approval_def mem prod.case option.case
proof (intro vb_assoc vb_lift vb_commit, fold approved_record_def)
  fix e u assume "append_step K tenant s0 e u"
  then have "machine K s0 (u\<lparr> consumed_approvals := consumed_approvals u @ [akey],
      records := AList.update (tenant, rid) (approved_record r a e) (records u) \<rparr>)"
    by (intro approved [OF r checks(1)]) (simp_all add: checks(2) akey)
  then show "valid (\<lambda>s. s = u) (bindH (returnH (approved_record r a e)) (\<lambda>advanced.
      bindH (modifyH (\<lambda>s. s\<lparr> consumed_approvals := consumed_approvals s @ [akey] \<rparr>)) (\<lambda>_.
      bindH (put_record (tenant, rid) advanced) (\<lambda>_. returnH advanced))))
      (\<lambda>_. machine K s0) (machine K s0)"
    by (simp add: valid_def bindH_def returnH_def modifyH_def put_record_def)
qed (auto intro: tick_machine idle)

lemma vb_find:
  assumes "\<And>r. map_of (records s0) (tenant, rid) = r \<Longrightarrow> hashable tenant \<Longrightarrow> hashable rid \<Longrightarrow>
      valid (\<lambda>s. only_tick s0 s) (f r) Q E"
    and "\<And>s. only_tick s0 s \<Longrightarrow> E s"
  shows "valid (\<lambda>s. only_tick s0 s) (bindH (find_record tenant rid) f) Q E"
  unfolding find_record_def
  by (intro vb_assoc vb_lift vb_read) (auto simp: pair_key_Inr tick_state assms)

lemma accept_approval_machine:
  assumes mem: "k_durable K = None"
  shows "valid (\<lambda>s. only_tick s0 s) (accept_approval K tenant rid approval actor) (\<lambda>_. machine K s0) (machine K s0)"
  unfolding accept_approval_def approval_actor_def approval_current_def mem option.case prod.case
  by (intro vb_find vb_return v_splits vb_lift v_raise v_return vb_read v_reject commit_approval_machine
        vb_tick [OF keeps_verify_approval] mem)
     (auto simp: tick_state intro: tick_machine dest: approval_facts contract_model_same)

section \<open>Grants and effects are moves\<close>

lemma sign_grant_facts:
  assumes "sign_grant K issuer V TF r now body s = (Inr g, t)" "k_grant_verifier K = Some V"
    and "grant_expiry actor r now = Inr limit" "nonce_ok nonce" "unsigned_grant gid r now limit nonce = Inr body"
  shows "grant_issued K r g"
proof -
  obtain n T where "tc_now T = Aware now" "py_eq (PDict (unsigned_body g)) (PDict body)"
      "validate_grant_binding (p_env K) (V n) T (k_registry K) (PDict g) (PDict (lr_request r))
       (PDict (lr_policy r)) (map PDict (approvals_of r)) = Inr ()"
    using assms(1) unfolding sign_grant_def
    by (auto simp: bindH_Inr_iff liftH_iff ext_Inr current_trust_Inr rejectH_Inr_iff neq_def returnH_iff)
  then show ?thesis using assms(2-5) unfolding grant_issued_def by blast
qed

lemma record_key_pair:
  assumes "bindE (ditem (lr_request r) ''tenant_id'') (\<lambda>t. bindE (ditem (lr_request r) ''request_id'') (\<lambda>i. pair_key t i)) = Inr k"
  shows "record_key r = k"
  using assms by (auto simp: bindE_Inr_iff ditem_Inr_iff dget_Some pair_key_Inr record_key_def)

lemma grant_issued_request_id:
  assumes "grant_issued K r g"
  shows "ditem (lr_request r) ''request_id'' = Inr (snd (record_key r))"
proof -
  obtain gid now limit nonce body where "unsigned_grant gid r now limit nonce = Inr body"
    using assms by (auto simp: grant_issued_def)
  then obtain rs where "mapE (ditem (lr_request r)) [''tenant_id'', ''actor_id'', ''run_id'', ''request_id'',
      ''request_digest'', ''tool_id'', ''tool_version''] = Inr rs"
    unfolding unsigned_grant_def Let_def bindE_Inr_iff by blast
  then obtain x where "ditem (lr_request r) ''request_id'' = Inr x"
    unfolding mapE_Inr_iff list_all2_Cons1 by blast
  then show ?thesis by (auto simp: ditem_Inr_iff dget_Some record_key_def)
qed

text \<open>Returned record and state of a grant: the record stands in the state under its key.\<close>

definition holds :: "'d kernel \<Rightarrow> 'd kernel_state \<Rightarrow> (pyval \<times> pyval) \<Rightarrow> lifecycle \<Rightarrow> 'd kernel_state \<Rightarrow> bool" where
  "holds K s0 key r t \<longleftrightarrow> machine K s0 t \<and> map_of (records t) key = Some r"

lemma commit_grant_machine:
  assumes mem: "k_durable K = None" and r: "map_of (records s0) key = Some r" "record_key r = key"
    and st: "lr_state r \<in> {POLICY_AUTHORIZED, APPROVED}" "grant_state_checks r = Inr ()"
    and g: "grant_issued K r g"
    and hash: "hashable (fst key)" "hashable (snd key)"
  shows "valid (\<lambda>s. only_tick s0 s) (commit_grant K actor version r g) (holds K s0 key) (machine K s0)"
  unfolding commit_grant_def record_grant_def mem option.case
proof (intro vb_assoc vb_lift v_prod, unfold split_beta, intro vb_assoc vb_lift vb_commit, fold granted_record_def)
  fix ref v body e u
  assume v: "bindE (ditem (lr_request r) ''tenant_id'') (\<lambda>t. bindE (ditem (lr_request r) ''run_id'') (\<lambda>r. Inr (t, r))) = Inr v"
    and step: "append_step K (fst v) s0 e u"
  have "fst v = fst key" using v r(2) by (auto simp: bindE_Inr_iff ditem_Inr_iff dget_Some record_key_def)
  then have m: "machine K s0 (u\<lparr> records := AList.update key (granted_record r g e) (records u) \<rparr>)"
    using step by (intro granted [OF r st g]) simp_all
  have "ditem (lr_request r) ''tenant_id'' = Inr (fst key)" using v \<open>fst v = fst key\<close> by (auto simp: bindE_Inr_iff)
  moreover have "ditem (lr_request r) ''request_id'' = Inr (snd key)"
    using grant_issued_request_id [OF g] r(2) by simp
  moreover note m
  ultimately show "valid (\<lambda>s. s = u) (bindH (returnH (granted_record r g e)) (\<lambda>advanced.
      bindH (liftH (bindE (ditem (lr_request r) ''tenant_id'') (\<lambda>t.
                   bindE (ditem (lr_request r) ''request_id'') (\<lambda>r. pair_key t r)))) (\<lambda>key.
      bindH (put_record key advanced) (\<lambda>_. returnH advanced))))
      (holds K s0 key) (machine K s0)"
    using hash
    by (simp add: valid_def bindH_def returnH_def liftH_def modifyH_def put_record_def pair_key_def holds_def update_conv')
qed (auto intro: tick_machine idle)

lemma holds_tick: "map_of (records s0) key = Some r \<Longrightarrow> only_tick s0 s \<Longrightarrow> holds K s0 key r s"
  by (simp add: holds_def tick_state tick_machine)

lemma issue_grant_locked_machine:
  assumes mem: "k_durable K = None" and r: "map_of (records s0) key = Some r" "record_key r = key"
    and hash: "hashable (fst key)" "hashable (snd key)"
  shows "valid (\<lambda>s. only_tick s0 s) (issue_grant_locked K actor r) (holds K s0 key) (machine K s0)"
proof -
  have no_service: "valid (\<lambda>s. only_tick s0 s) (raiseH c m) (holds K s0 key) (machine K s0)" for c m
    by (intro v_raise tick_machine)
  show ?thesis
    unfolding issue_grant_locked_def locked_current_def mem option.case
    apply (intro vb_return, unfold prod.case)
    apply (intro v_if v_return v_reject holds_tick [OF r(1)] tick_machine, assumption+)
    apply (cases "k_issuer K"; cases "k_grant_verifier K"; cases "k_grant_trust K"; simp only: option.case prod.case no_service)
    apply (intro vb_lift vb_tick [OF keeps_validate_identity] vb_tick [OF keeps_ext] vb_tick [OF keeps_new_id]
        vb_tick [OF keeps_sign_grant] v_reject commit_grant_machine [OF mem r _ _ _ hash] tick_machine sign_grant_facts)
    by (auto simp: state_is_def)
qed

lemma broker_of_fields:
  assumes "broker_of K = Some B"
  shows "p_env B = p_env K" "b_durable B = k_durable K" "k_executor K = Some (b_executor B)"
    "k_grant_verifier K = Some (b_grant_verifier B)" "b_registry B = k_registry K"
  using assms by (auto simp: broker_of_def ports.defs split: option.splits)

lemma armed_fields:
  fixes s u :: "('d, 'z) broker_state_scheme"
  assumes "armed E r g k s u"
  shows "trace u = trace s" "consumed_grants u = consumed_grants s @ [k]" "extends s u"
    "broker_state.more u = broker_state.more s" "ledger_ok E s \<Longrightarrow> ledger_ok E u" "results u = results s"
proof -
  obtain e u0 where u0: "ledger_step (dget g ''tenant_id'') s [e] u0" "ledger_ok E s \<longrightarrow> ledger_ok E u0"
    and u: "u = u0\<lparr> consumed_grants := consumed_grants u0 @ [k] \<rparr>"
    using assms by (auto simp: armed_def)
  note f = ledger_step_fields [OF u0(1)]
  show "trace u = trace s" "consumed_grants u = consumed_grants s @ [k]" "results u = results s"
    "broker_state.more u = broker_state.more s" using f by (simp_all add: u)
  have ev: "events_of u = events_of u0" by (simp add: u events_of_def fun_eq_iff)
  show "extends s u" using ledger_step_extends [OF u0(1)] by (simp add: extends_def ev)
  show "ledger_ok E s \<Longrightarrow> ledger_ok E u" using u0(2) by (simp add: ledger_ok_def ev)
qed

lemma more_records:
  assumes "broker_state.more t = broker_state.more s"
  shows "records t = records s" "idempotency t = idempotency s" "consumed_approvals t = consumed_approvals s"
  using assms by (cases s; cases t; simp)+

lemma quiet_records:
  "quiet s t \<Longrightarrow> records t = records s" "quiet s t \<Longrightarrow> consumed_approvals t = consumed_approvals s"
  "quiet s t \<Longrightarrow> idempotency t = idempotency s"
  using more_records [OF quiet_fields(5)] by auto

lemma ran_records:
  assumes "armed E r g k s u" "settled E r g (u\<lparr> trace := x \<rparr>) t"
  shows "records t = records s" "idempotency t = idempotency s" "consumed_approvals t = consumed_approvals s"
proof -
  have "broker_state.more t = broker_state.more s"
    using armed_fields(4) [OF assms(1)] assms(2) by (simp add: settled_def)
  then show "records t = records s" "idempotency t = idempotency s" "consumed_approvals t = consumed_approvals s"
    by (rule more_records)+
qed

lemma events_of_updates [simp]:
  "events_of (u\<lparr> trace := x \<rparr>) = events_of u"
  "events_of (u\<lparr> consumed_grants := c \<rparr>) = events_of u"
  "events_of (v\<lparr> records := r \<rparr>) = events_of v"
  "events_of (v\<lparr> idempotency := i \<rparr>) = events_of v"
  "events_of (v\<lparr> consumed_approvals := a \<rparr>) = events_of v"
  by (simp_all add: events_of_def fun_eq_iff)

text \<open>The account of one run of the executor, from before the intent to the end.\<close>

lemma ran_account:
  assumes "armed E r g k s u" "settled E r g (u\<lparr> trace := trace u @ [Executed r g] \<rparr>) t"
  shows "extends s t" "consumed_grants t = consumed_grants s @ [k]"
    "\<exists>xs. trace t = trace s @ Executed r g # map (revert_event r g) xs"
    "ledger_ok E s \<Longrightarrow> ledger_ok E t"
    "\<exists>e\<in>set (events_of t (dget g ''tenant_id'')). intent_event E r g e"
proof -
  note a = armed_fields [OF assms(1)]
  have tail: "extends u t" using assms(2) by (simp add: settled_def extends_def)
  show "extends s t" using a(3) tail by (rule extends_trans)
  show "consumed_grants t = consumed_grants s @ [k]"
    "\<exists>xs. trace t = trace s @ Executed r g # map (revert_event r g) xs"
    "ledger_ok E s \<Longrightarrow> ledger_ok E t"
    using assms(2) a by (auto simp: settled_def ledger_ok_def)
  obtain e where e: "e \<in> set (events_of u (dget g ''tenant_id''))" "intent_event E r g e"
  proof -
    obtain e u0 where "ledger_step (dget g ''tenant_id'') s [e] u0" "intent_event E r g e"
        "u = u0\<lparr> consumed_grants := consumed_grants u0 @ [k] \<rparr>"
      using assms(1) by (auto simp: armed_def)
    then show thesis by (intro that [of e]) (simp_all add: ledger_step_def)
  qed
  obtain new where "events_of t (dget g ''tenant_id'') = events_of u (dget g ''tenant_id'') @ new"
    using tail by (auto simp: extends_def)
  then show "\<exists>e\<in>set (events_of t (dget g ''tenant_id'')). intent_event E r g e" using e by auto
qed

lemma dispatch_machine:
  assumes mem: "k_durable K = None" and B: "broker_of K = Some B"
    and r: "map_of (records s) key = Some r" "lr_state r = GRANT_ISSUED" "lr_grant r = Some g"
    and d: "dispatch B a (lr_request r) (lr_policy r) (approvals_of r) g s = (res, t)"
  shows "machine K s t \<and> records t = records s"
proof -
  note f = broker_of_fields [OF B]
  have "b_durable B = None" using f mem by simp
  with d show ?thesis
  proof (cases rule: dispatch_cases)
    case quiet
    then show ?thesis by (simp add: idle quiet_records)
  next
    case (ran gkey u)
    show ?thesis
      using executed [OF r B _ ran(2,3)] ran(1,4,5) ran_records [OF ran(4,5)] unfolding f by blast
  qed
qed

lemma finish_machine:
  assumes "map_of (records s) key = Some r" "lr_state r = GRANT_ISSUED" "lr_grant r \<noteq> None"
    and "advance_effect r x (lr_evidence r @ es) = Inr r'"
  shows "machine K s (s\<lparr> records := AList.update key r' (records s) \<rparr>)"
proof -
  obtain l where "l \<in> {EFFECT_SUCCEEDED, EFFECT_INDETERMINATE}" "r' = finished_record r l es (be_outcome x)"
    using assms(4)
    by (auto simp: advance_effect_def effect_state_def bindE_Inr_iff finished_record_def split: if_splits)
  then show ?thesis using assms(1-3) by (intro finished) auto
qed

lemma run_effect_machine:
  assumes mem: "k_durable K = None" and B: "broker_of K = Some B"
    and r: "map_of (records s0) key = Some r"
  shows "valid (\<lambda>s. s = s0) (run_effect B a key r) (\<lambda>_. moves K s0) (moves K s0)"
proof (cases "lr_state r = GRANT_ISSUED \<and> lr_grant r \<noteq> None")
  case False
  then show ?thesis
    by (auto simp: run_effect_def valid_def raiseH_def rejectH_def split: option.splits)
next
  case True
  then obtain g where g: "lr_state r = GRANT_ISSUED" "lr_grant r = Some g" by auto
  note d = dispatch_machine [OF mem B r g]
  have "valid (\<lambda>s. s = s0) (dispatch B a (lr_request r) (lr_policy r) (approvals_of r) g)
      (\<lambda>_ t. machine K s0 t \<and> records t = records s0) (moves K s0)"
    using d by (fastforce intro!: validI split: sum.split)
  moreover have "valid (\<lambda>t. machine K s0 t \<and> records t = records s0)
      (bindH (liftH (advance_effect r x (lr_evidence r @ [be_intent x, be_outcome_evidence x]))) (\<lambda>advanced.
         bindH (put_record key advanced) (\<lambda>_. returnH advanced)))
      (\<lambda>_. moves K s0) (moves K s0)" for x
  proof (rule vb_lift)
    fix r' assume adv: "advance_effect r x (lr_evidence r @ [be_intent x, be_outcome_evidence x]) = Inr r'"
    have "machine K t (t\<lparr> records := AList.update key r' (records t) \<rparr>)" if "records t = records s0" for t
      using finish_machine [OF _ g(1) _ adv, of t key] that r g(2) by simp
    then show "valid (\<lambda>t. machine K s0 t \<and> records t = records s0)
       (bindH (put_record key r') (\<lambda>_. returnH r')) (\<lambda>_. moves K s0) (moves K s0)"
      by (auto simp: valid_def bindH_def put_record_def modifyH_def returnH_def
          intro: converse_rtranclp_into_rtranclp)
  qed blast
  ultimately show ?thesis
    using g by (auto simp: run_effect_def rejectH_def intro: v_bind)
qed

lemma run_after_holds:
  assumes mem: "k_durable K = None" and B: "broker_of K = Some B"
  shows "valid (holds K s0 key r) (run_effect B a key r) (\<lambda>_. moves K s0) (moves K s0)"
proof (rule v_pointwise)
  fix t assume h: "holds K s0 key r t"
  then have m: "machine K s0 t" and r: "map_of (records t) key = Some r" by (simp_all add: holds_def)
  show "valid (\<lambda>s. s = t) (run_effect B a key r) (\<lambda>_. moves K s0) (moves K s0)"
    by (rule v_conseq [OF run_effect_machine [OF mem B r]])
       (auto intro: converse_rtranclp_into_rtranclp [where r = "machine K", OF m])
qed

lemma tick_moves: "only_tick s0 s \<Longrightarrow> moves K s0 s"
  by (intro r_into_rtranclp tick_machine)

lemma actor_scoped_Inr: "actor_scoped a x = Inr r \<Longrightarrow> x = Some r"
  by (auto simp: actor_scoped_def bindE_Inr_iff reject_if_Inr_iff split: option.splits)

lemma execute_effect_moves:
  assumes mem: "k_durable K = None" and keyed: "keyed s0"
  shows "valid (\<lambda>s. only_tick s0 s) (execute_effect K actor_context rid) (\<lambda>_. moves K s0) (moves K s0)"
proof -
  have effect: "valid (\<lambda>s. only_tick s0 s)
      (bindH (if state_is r [POLICY_AUTHORIZED, APPROVED]
              then bindH (liftH (check_capabilities B r)) (\<lambda>_. issue_grant_locked K a r)
              else returnH r) (\<lambda>current. run_effect B a key current)) (\<lambda>_. moves K s0) (moves K s0)"
    if B: "broker_of K = Some B" and r: "map_of (records s0) key = Some r"
      and hash: "hashable (fst key)" "hashable (snd key)" for B a key r
  proof (rule v_bind [OF _ run_after_holds [OF mem B]])
    have k: "record_key r = key" using keyed r unfolding keyed_def by blast
    have "valid (\<lambda>s. only_tick s0 s) (issue_grant_locked K a r) (holds K s0 key) (moves K s0)"
      by (rule v_conseq [OF issue_grant_locked_machine [OF mem r k hash]]) auto
    then show "valid (\<lambda>s. only_tick s0 s) (if state_is r [POLICY_AUTHORIZED, APPROVED]
          then bindH (liftH (check_capabilities B r)) (\<lambda>_. issue_grant_locked K a r)
          else returnH r) (holds K s0 key) (moves K s0)"
      by (intro v_if vb_lift v_return) (auto intro: tick_moves holds_tick [OF r])
  qed
  have "effect_current K a tenant rid = find_record tenant rid" for a tenant
    unfolding effect_current_def mem
    by (auto simp: bindH_def returnH_def fun_eq_iff split: prod.splits sum.splits option.splits)
  note found = this
  show ?thesis
    unfolding execute_effect_def found
    apply (intro vb_lift vb_find vb_tick [OF keeps_validate_identity] v_if v_return v_option v_raise effect)
    apply (auto intro: tick_moves dest: actor_scoped_Inr)
    done
qed

lemma issue_grant_machine:
  assumes mem: "k_durable K = None" and keyed: "keyed s0"
  shows "valid (\<lambda>s. only_tick s0 s) (issue_grant K actor_context rid) (\<lambda>_. machine K s0) (machine K s0)"
proof -
  have locked: "valid (\<lambda>s. only_tick s0 s) (issue_grant_locked K a r) (\<lambda>_. machine K s0) (machine K s0)"
    if "map_of (records s0) key = Some r" "hashable (fst key)" "hashable (snd key)" for a r key
  proof -
    have "record_key r = key" using keyed that(1) unfolding keyed_def by blast
    then show ?thesis
      by (intro v_conseq [OF issue_grant_locked_machine [OF mem that(1) _ that(2,3)]]) (simp_all add: holds_def)
  qed
  show ?thesis
    unfolding issue_grant_def mem option.case
    apply (intro vb_lift vb_find vb_return vb_tick [OF keeps_validate_identity])
    apply (drule actor_scoped_Inr)
    apply (rule locked)
    apply (auto intro: tick_machine)
    done
qed

lemma recover_effect_machine:
  assumes mem: "k_durable K = None"
  shows "valid (\<lambda>s. only_tick s0 s) (recover_effect K actor_context rid) (\<lambda>_. machine K s0) (machine K s0)"
proof -
  have "valid (\<lambda>s. only_tick s0 s) (bindH (recover B a rid) f) (\<lambda>_. machine K s0) (machine K s0)"
    if "broker_of K = Some B" for B a and f :: "broker_execution \<Rightarrow> ('a kernel_state, lifecycle) handler"
    using broker_of_fields(2) [OF that] mem
    by (simp add: recover_def valid_def bindH_def raiseH_def tick_machine)
  then show ?thesis
    unfolding recover_effect_def
    by (intro vb_tick [OF keeps_validated_actor] v_option v_raise) (auto intro: tick_machine)
qed

lemma get_lifecycle_machine:
  assumes mem: "k_durable K = None"
  shows "valid (\<lambda>s. only_tick s0 s) (get_lifecycle K actor_context rid) (\<lambda>_. machine K s0) (machine K s0)"
proof -
  have "valid (\<lambda>s. only_tick s0 s) (bindH (case (found, None) of
         (None, Some D) \<Rightarrow> bindH (load_stored D a rid) (\<lambda>stored. case stored of
             None \<Rightarrow> returnH None
           | Some (r, v) \<Rightarrow> bindH (put_record (t, rid) r) (\<lambda>_. returnH (Some r)))
       | _ \<Rightarrow> returnH found) (\<lambda>found. liftH (actor_scoped a found))) (\<lambda>_. machine K s0) (machine K s0)"
    for found a t
    by (cases found) (auto intro!: vb_return v_lift tick_machine)
  then show ?thesis
    unfolding get_lifecycle_def mem
    by (intro vb_tick [OF keeps_validated_actor] vb_lift vb_find) (auto intro: tick_machine)
qed

lemma kernel_events_machine:
  assumes mem: "k_durable K = None"
  shows "valid (\<lambda>s. only_tick s0 s) (kernel_events K actor_context) (\<lambda>_. machine K s0) (machine K s0)"
proof -
  have read: "valid (\<lambda>s. only_tick s0 s) (bindH (getH f) liftH) (\<lambda>_. machine K s0) (machine K s0)" for f
    by (auto simp: valid_def bindH_def getH_def liftH_def tick_machine split: sum.splits)
  have "valid (\<lambda>s. only_tick s0 s) (case (broker_of K, None) of
       (Some B, Some D) \<Rightarrow> dbH (ds_events D a None)
     | _ \<Rightarrow> rejectH (\<not> k_own_ledger K) AttributeError ''_events_for_actor''
        (bindH (liftH (bindE (ditem a ''tenant_id'') (\<lambda>t. bindE (ditem a ''actor_id'') (\<lambda>x. Inr (t, x))))) (\<lambda>(t, x).
         bindH (getH (\<lambda>s. events_for_actor s t x)) liftH))) (\<lambda>_. machine K s0) (machine K s0)" for a
    by (cases "broker_of K"; simp only: prod.case option.case; intro v_reject vb_lift v_prod read tick_machine)
  then show ?thesis
    unfolding kernel_events_def mem
    by (intro vb_tick [OF keeps_validated_actor]) (auto intro: tick_machine)
qed

section \<open>The kernel as a transition system\<close>

text \<open>One public call, returning or raising, is one transition.\<close>

inductive kernel_step :: "'d kernel \<Rightarrow> 'd kernel_state \<Rightarrow> 'd kernel_state \<Rightarrow> bool" for K where
  submit_call: "submit K a r s = (res, t) \<Longrightarrow> kernel_step K s t"
| approval_call: "accept_approval K tenant rid ap ctx s = (res, t) \<Longrightarrow> kernel_step K s t"
| grant_call: "issue_grant K a rid s = (res, t) \<Longrightarrow> kernel_step K s t"
| execute_call: "execute_effect K a rid s = (res, t) \<Longrightarrow> kernel_step K s t"
| recover_call: "recover_effect K a rid s = (res, t) \<Longrightarrow> kernel_step K s t"
| get_call: "get_lifecycle K a rid s = (res, t) \<Longrightarrow> kernel_step K s t"
| events_call: "kernel_events K a s = (evs, t) \<Longrightarrow> kernel_step K s t"

inductive reachable :: "'d kernel \<Rightarrow> 'd \<Rightarrow> 'd kernel_state \<Rightarrow> bool" for K d where
  start: "reachable K d (initial_kernel d)"
| step: "reachable K d s \<Longrightarrow> kernel_step K s t \<Longrightarrow> reachable K d t"

lemma only_tick_self: "only_tick s s"
  by (rule reflpD [OF only_tick_refl])

lemma kernel_step_moves:
  assumes "kernel_step K s t" "k_durable K = None" "keyed s"
  shows "moves K s t"
  using assms(1)
proof cases
  case submit_call
  then show ?thesis using valid_final [OF submit_machine [OF assms(2)] only_tick_self] by blast
next
  case approval_call
  then show ?thesis using valid_final [OF accept_approval_machine [OF assms(2)] only_tick_self] by blast
next
  case grant_call
  then show ?thesis using valid_final [OF issue_grant_machine [OF assms(2,3)] only_tick_self] by blast
next
  case execute_call
  then show ?thesis using valid_final [OF execute_effect_moves [OF assms(2,3)] only_tick_self] by blast
next
  case recover_call
  then show ?thesis using valid_final [OF recover_effect_machine [OF assms(2)] only_tick_self] by blast
next
  case get_call
  then show ?thesis using valid_final [OF get_lifecycle_machine [OF assms(2)] only_tick_self] by blast
next
  case events_call
  then show ?thesis using valid_final [OF kernel_events_machine [OF assms(2)] only_tick_self] by blast
qed

end
