(* ===== verification/Kernel_Invariants.thy ===== *)
theory Kernel_Invariants
  imports Kernel_Machine
begin

text \<open>
  Invariants of the kernel without a durable store, proved for the moves of the lifecycle
  machine and carried over to every reachable state: the shape of lifecycle records, the
  account of the executor's calls (one per request and per idempotency key, each with its
  intent in the ledger and its grant consumed), the idempotency table, and the ledger.
\<close>

section \<open>Records\<close>

definition request_key :: "dict \<Rightarrow> pyval \<times> pyval" where
  "request_key r = (dget r ''tenant_id'', dget r ''request_id'')"

lemma record_key_request: "record_key r = request_key (lr_request r)"
  by (simp add: record_key_def request_key_def)

text \<open>The policy decision a record was made from, and what it allows.\<close>

fun allowed :: "pystr \<Rightarrow> kernel_lifecycle \<Rightarrow> bool \<Rightarrow> bool" where
  "allowed d DENIED ap \<longleftrightarrow> d = S ''deny'' \<and> \<not> ap"
| "allowed d APPROVAL_REQUIRED ap \<longleftrightarrow> d = S ''require_approval'' \<and> \<not> ap"
| "allowed d POLICY_AUTHORIZED ap \<longleftrightarrow> d = S ''authorize'' \<and> \<not> ap"
| "allowed d APPROVED ap \<longleftrightarrow> d = S ''require_approval'' \<and> ap"
| "allowed d _ ap \<longleftrightarrow> d = (if ap then S ''require_approval'' else S ''authorize'')"

definition policy_ok :: "'d kernel \<Rightarrow> lifecycle \<Rightarrow> bool" where
  "policy_ok K r \<longleftrightarrow> (\<exists>rule.
     evaluate (k_policy K) (lr_request r) = Inr rule \<and>
     dget (lr_policy r) ''decision'' = PStr (rule_decision rule) \<and>
     allowed (rule_decision rule) (lr_state r) (lr_approval r \<noteq> None))"

lemma policy_ok_step:
  assumes "policy_ok K r" "lr_request r' = lr_request r" "lr_policy r' = lr_policy r"
    and "\<And>d. allowed d (lr_state r) (lr_approval r \<noteq> None) \<Longrightarrow> allowed d (lr_state r') (lr_approval r' \<noteq> None)"
  shows "policy_ok K r'"
  using assms unfolding policy_ok_def by auto

definition approval_ok :: "'d kernel \<Rightarrow> lifecycle \<Rightarrow> bool" where
  "approval_ok K r \<longleftrightarrow> (\<forall>a. lr_approval r = Some a \<longrightarrow>
     approval_verified K (fst (record_key r)) a \<and> dget a ''disposition'' = PS ''approved'' \<and>
     validate_approval_binding (PDict a) (PDict (lr_policy r)) (PDict (lr_request r)) = Inr ())"

definition record_ok :: "'d kernel \<Rightarrow> lifecycle \<Rightarrow> bool" where
  "record_ok K r \<longleftrightarrow>
     request_valid K (lr_request r) \<and> identified K (lr_request r) \<and>
     (lr_grant r \<noteq> None \<longleftrightarrow> lr_state r \<in> {GRANT_ISSUED, EFFECT_SUCCEEDED, EFFECT_INDETERMINATE}) \<and>
     (lr_outcome r \<noteq> None \<longleftrightarrow> lr_state r \<in> {EFFECT_SUCCEEDED, EFFECT_INDETERMINATE}) \<and>
     (\<forall>g. lr_grant r = Some g \<longrightarrow> grant_issued K r g) \<and> policy_ok K r \<and> approval_ok K r"

definition records_ok :: "'d kernel \<Rightarrow> 'd kernel_state \<Rightarrow> bool" where
  "records_ok K s \<longleftrightarrow> (\<forall>key r. map_of (records s) key = Some r \<longrightarrow> record_key r = key \<and> record_ok K r)"

lemma records_ok_keyed: "records_ok K s \<Longrightarrow> keyed s"
  unfolding records_ok_def keyed_def by blast

lemma record_ok_new:
  assumes "request_valid K request" "identified K request" "decided K request decision state"
  shows "record_ok K (new_record request decision state e)"
proof -
  obtain rule where "evaluate (k_policy K) request = Inr rule" "next_state (rule_decision rule) = Inr state"
      "dget decision ''decision'' = PStr (rule_decision rule)"
    using assms(3) by (auto simp: decided_def)
  then show ?thesis
    using assms(1,2)
    by (auto simp: record_ok_def new_record_def policy_ok_def approval_ok_def next_state_def split: if_splits)
qed

lemma approval_checks_inv:
  assumes "approval_checks R a r = Inr u"
  shows "lr_state r = APPROVAL_REQUIRED" "dget a ''disposition'' = PS ''approved''"
    "validate_approval_binding (PDict a) (PDict (lr_policy r)) (PDict (lr_request r)) = Inr ()"
    "validate_constraint_support a R = Inr ()"
    "\<exists>d. ditem a ''separation_of_duties'' = Inr d \<and>
       (\<exists>x. item d ''required'' = Inr x \<and> (truthy x \<longrightarrow> (\<exists>y. item d ''satisfied'' = Inr y \<and> truthy y)))"
  using assms unfolding approval_checks_def seqE_Inr_iff
  by (auto simp: deny_Inr_iff denyE_Inr_iff bindE_Inr_iff neq_def ditem_Inr_iff dget_Some split: if_splits)

lemma record_ok_approved:
  assumes "record_ok K r" "approval_checks R a r = Inr ()" "approval_verified K (fst (record_key r)) a"
  shows "record_ok K (approved_record r a e)"
proof -
  note c = approval_checks_inv [OF assms(2)]
  have "policy_ok K r" using assms(1) by (simp add: record_ok_def)
  then have "policy_ok K (approved_record r a e)"
    by (rule policy_ok_step) (simp_all add: approved_record_def c(1))
  moreover have "approval_ok K (approved_record r a e)"
    using assms(3) c(2,3) by (simp add: approval_ok_def approved_record_def record_key_def)
  moreover have "lr_grant r = None" "lr_outcome r = None"
    using assms(1) c(1) by (simp_all add: record_ok_def)
  ultimately show ?thesis using assms(1) unfolding record_ok_def by (simp add: approved_record_def)
qed

text \<open>Validity of a grant does not depend on the state, evidence, grant or outcome of its record.\<close>

lemma grant_issued_cong:
  assumes "lr_request r' = lr_request r" "lr_policy r' = lr_policy r" "lr_approval r' = lr_approval r"
  shows "grant_issued K r' g = grant_issued K r g"
  using assms by (simp add: grant_issued_def grant_expiry_def unsigned_grant_def approvals_of_def)

lemma record_ok_granted:
  assumes "record_ok K r" "lr_state r \<in> {POLICY_AUTHORIZED, APPROVED}" "grant_issued K r g"
  shows "record_ok K (granted_record r g e)"
proof -
  have "grant_issued K (granted_record r g e) g"
    by (rule iffD2 [OF grant_issued_cong assms(3)]) (simp_all add: granted_record_def)
  moreover have "policy_ok K r" using assms(1) by (simp add: record_ok_def)
  then have "policy_ok K (granted_record r g e)"
    by (rule policy_ok_step) (use assms(2) in \<open>auto simp: granted_record_def\<close>)
  moreover have "approval_ok K (granted_record r g e)"
    using assms(1) by (simp add: record_ok_def approval_ok_def granted_record_def record_key_def)
  ultimately show ?thesis using assms(1) unfolding record_ok_def by (simp add: granted_record_def)
qed

lemma record_ok_finished:
  assumes "record_ok K r" "lr_state r = GRANT_ISSUED" "l \<in> {EFFECT_SUCCEEDED, EFFECT_INDETERMINATE}"
  shows "record_ok K (finished_record r l es oc)"
proof -
  have "grant_issued K (finished_record r l es oc) g = grant_issued K r g" for g
    by (rule grant_issued_cong) (simp_all add: finished_record_def)
  moreover have "policy_ok K r" using assms(1) by (simp add: record_ok_def)
  then have "policy_ok K (finished_record r l es oc)"
    by (rule policy_ok_step) (use assms(2,3) in \<open>auto simp: finished_record_def\<close>)
  moreover have "approval_ok K (finished_record r l es oc)"
    using assms(1) by (simp add: record_ok_def approval_ok_def finished_record_def record_key_def)
  ultimately show ?thesis using assms unfolding record_ok_def by (auto simp: finished_record_def)
qed

lemma update_records_ok:
  assumes "records_ok K s" "record_key r = key" "record_ok K r" "records t = AList.update key r (records s)"
  shows "records_ok K t"
  using assms unfolding records_ok_def by (auto simp: update_conv' simp del: split_paired_All)

lemma append_step_records:
  assumes "append_step K tenant s e u"
  shows "records u = records s" "idempotency u = idempotency s" "consumed_approvals u = consumed_approvals s"
    "trace u = trace s" "consumed_grants u = consumed_grants s" "extends s u"
    "ledger_ok (p_env K) s \<Longrightarrow> ledger_ok (p_env K) u"
proof -
  have l: "ledger_step tenant s [e] u" using assms by (simp add: append_step_def)
  note f = ledger_step_fields [OF l]
  show "records u = records s" "idempotency u = idempotency s" "consumed_approvals u = consumed_approvals s"
    using more_records [OF f(5)] by simp_all
  show "trace u = trace s" "consumed_grants u = consumed_grants s" "extends s u" "ledger_ok (p_env K) s \<Longrightarrow> ledger_ok (p_env K) u"
    using f(1,2) ledger_step_extends [OF l] assms by (simp_all add: append_step_def)
qed

lemma machine_records_ok:
  assumes "machine K s t" "records_ok K s"
  shows "records_ok K t"
  using assms
proof (induction rule: machine.induct)
  case (idle s t)
  then show ?case by (simp add: records_ok_def quiet_records)
next
  case (submitted request key bkey binding s decision state e u t)
  have "records t = AList.update key (new_record request decision state e) (records s)"
    by (simp add: submitted(7) append_step_records(1) [OF submitted(6)])
  moreover have "record_key (new_record request decision state e) = key"
    using request_keys_Inr(1) [OF submitted(3)] by (simp add: record_key_def new_record_def)
  ultimately show ?case
    by (intro update_records_ok [OF submitted(8) _ record_ok_new [OF submitted(1,2,5)]])
next
  case (approved s key r a akey e u t)
  then have r: "record_key r = key" "record_ok K r" unfolding records_ok_def by blast+
  have "records t = AList.update key (approved_record r a e) (records s)"
    by (simp add: approved(7) append_step_records(1) [OF approved(6)])
  moreover have "approval_verified K (fst (record_key r)) a" using approved(3) r(1) by simp
  moreover have "record_key (approved_record r a e) = key"
    using r(1) by (simp add: record_key_def approved_record_def)
  ultimately show ?case
    by (intro update_records_ok [OF approved(8) _ record_ok_approved [OF r(2) approved(2)]])
next
  case (granted s key r g e u t)
  then have r: "record_ok K r" unfolding records_ok_def by blast
  have "records t = AList.update key (granted_record r g e) (records s)"
    by (simp add: granted(7) append_step_records(1) [OF granted(6)])
  moreover have "record_key (granted_record r g e) = key"
    using granted(2) by (simp add: record_key_def granted_record_def)
  ultimately show ?case
    by (intro update_records_ok [OF granted(8) _ record_ok_granted [OF r granted(3,5)]])
next
  case (executed s key r g B gkey actor u t)
  have "records t = records s" by (rule ran_records(1) [OF executed(8,9)])
  with executed(10) show ?case by (simp add: records_ok_def)
next
  case (finished s key r l t es oc)
  then have r: "record_key r = key" "record_ok K r" unfolding records_ok_def by blast+
  have "records t = AList.update key (finished_record r l es oc) (records s)"
    by (simp add: finished(5))
  moreover have "record_key (finished_record r l es oc) = key"
    using r(1) by (simp add: record_key_def finished_record_def)
  ultimately show ?case
    by (intro update_records_ok [OF finished(6) _ record_ok_finished [OF r(2) finished(2,4)]])
qed

section \<open>Growth\<close>

text \<open>
  What no move takes away: events, consumed grants, and the request, policy, approval and
  grant of a record that has a grant.
\<close>

definition grows :: "'d kernel_state \<Rightarrow> 'd kernel_state \<Rightarrow> bool" where
  "grows s t \<longleftrightarrow> extends s t \<and> set (consumed_grants s) \<subseteq> set (consumed_grants t) \<and>
     (\<forall>key r. map_of (records s) key = Some r \<longrightarrow> (\<exists>r'. map_of (records t) key = Some r' \<and>
        lr_request r' = lr_request r \<and> lr_policy r' = lr_policy r \<and>
        (lr_grant r \<noteq> None \<longrightarrow> lr_grant r' = lr_grant r \<and> approvals_of r' = approvals_of r)))"

text \<open>One record replaced by a successor, everything else as before.\<close>

lemma grows_update:
  assumes "extends s t" "consumed_grants t = consumed_grants s"
    and "records t = AList.update key r' (records s)"
    and "\<And>r. map_of (records s) key = Some r \<Longrightarrow> lr_request r' = lr_request r \<and> lr_policy r' = lr_policy r \<and>
        (lr_grant r \<noteq> None \<longrightarrow> lr_grant r' = lr_grant r \<and> approvals_of r' = approvals_of r)"
  shows "grows s t"
  using assms unfolding grows_def by (auto simp: update_conv' simp del: split_paired_All)

lemma machine_grows:
  assumes "machine K s t" "records_ok K s"
  shows "grows s t"
  using assms
proof (induction rule: machine.induct)
  case (idle s t)
  then show ?case by (simp add: grows_def quiet_records quiet_extends quiet_fields)
next
  case (submitted request key bkey binding s decision state e u t)
  note u = append_step_records [OF submitted(6)]
  have "map_of (records s) key = None"
    using submitted(4) by (auto simp: submit_gate_def Let_def bindE_Inr_iff reject_if_Inr_iff split: option.splits if_splits)
  then show ?case
    using u by (intro grows_update [of _ _ key "new_record request decision state e"])
      (simp_all add: submitted(7) extends_def)
next
  case (approved s key r a akey e u t)
  note u = append_step_records [OF approved(6)]
  have "record_ok K r" using approved unfolding records_ok_def by blast
  then have "lr_grant r = None" using approval_checks_inv(1) [OF approved(2)] by (simp add: record_ok_def)
  then show ?case
    using u approved(1) by (intro grows_update [of _ _ key "approved_record r a e"])
      (simp_all add: approved(7) extends_def approved_record_def)
next
  case (granted s key r g e u t)
  note u = append_step_records [OF granted(6)]
  have "record_ok K r" using granted unfolding records_ok_def by blast
  then have "lr_grant r = None" using granted(3) by (auto simp: record_ok_def)
  then show ?case
    using u granted(1) by (intro grows_update [of _ _ key "granted_record r g e"])
      (simp_all add: granted(7) extends_def granted_record_def)
next
  case (executed s key r g B gkey actor u t)
  note a = ran_account [OF executed(8,9)] and r = ran_records(1) [OF executed(8,9)]
  show ?case using a(1,2) by (auto simp: grows_def r)
next
  case (finished s key r l t es oc)
  then show ?case
    by (intro grows_update [of _ _ key "finished_record r l es oc"])
      (simp_all add: finished(5) extends_def finished_record_def approvals_of_def)
qed

section \<open>The account of the executor\<close>

primrec executions :: "effect_event list \<Rightarrow> (dict \<times> dict) list" where
  "executions [] = []"
| "executions (e # es) = (case e of Executed r g \<Rightarrow> (r, g) # executions es | _ \<Rightarrow> executions es)"

lemma executions_append [simp]: "executions (xs @ ys) = executions xs @ executions ys"
  by (induction xs) (auto split: effect_event.splits)

lemma executions_reverts [simp]: "executions (map (revert_event r g) xs) = []"
  by (induction xs) (auto simp: revert_event_def split: prod.splits)

text \<open>What holds of every call of the executor, from the moment it was made.\<close>

definition accounted :: "'d kernel \<Rightarrow> 'd kernel_state \<Rightarrow> dict \<Rightarrow> dict \<Rightarrow> bool" where
  "accounted K s r g \<longleftrightarrow> (\<exists>rec gkey. map_of (records s) (request_key r) = Some rec \<and>
     lr_request rec = r \<and> lr_grant rec = Some g \<and>
     grant_key_of (p_env K) g = Inr gkey \<and> gkey \<in> set (consumed_grants s) \<and>
     (\<exists>e\<in>set (events_of s (dget g ''tenant_id'')). intent_event (p_env K) r g e) \<and>
     (\<exists>B actor. broker_of K = Some B \<and> authorised B actor r (lr_policy rec) (approvals_of rec) g))"

lemma accounted_grows:
  assumes "accounted K s r g" "grows s t"
  shows "accounted K t r g"
proof -
  obtain rec gkey e B actor where a: "map_of (records s) (request_key r) = Some rec"
      "lr_request rec = r" "lr_grant rec = Some g" "grant_key_of (p_env K) g = Inr gkey"
      "gkey \<in> set (consumed_grants s)" "e \<in> set (events_of s (dget g ''tenant_id''))"
      "intent_event (p_env K) r g e" "broker_of K = Some B"
      "authorised B actor r (lr_policy rec) (approvals_of rec) g"
    using assms(1) unfolding accounted_def by blast
  obtain rec' where "map_of (records t) (request_key r) = Some rec'" "lr_request rec' = r"
      "lr_policy rec' = lr_policy rec" "lr_grant rec' = Some g" "approvals_of rec' = approvals_of rec"
    using assms(2) a(1-3) unfolding grows_def by (metis option.distinct(1))
  moreover have "gkey \<in> set (consumed_grants t)" using assms(2) a(5) by (auto simp: grows_def)
  moreover have "extends s t" using assms(2) by (simp add: grows_def)
  then obtain new where "events_of t (dget g ''tenant_id'') = events_of s (dget g ''tenant_id'') @ new"
    unfolding extends_def by blast
  then have "e \<in> set (events_of t (dget g ''tenant_id''))" using a(6) by simp
  ultimately show ?thesis using a unfolding accounted_def by auto
qed

definition effects_ok :: "'d kernel \<Rightarrow> 'd kernel_state \<Rightarrow> bool" where
  "effects_ok K s \<longleftrightarrow> (\<forall>rg\<in>set (executions (trace s)). accounted K s (fst rg) (snd rg)) \<and>
     distinct (map (request_key \<circ> fst) (executions (trace s)))"

lemma effects_ok_same:
  assumes "effects_ok K s" "grows s t" "trace t = trace s"
  shows "effects_ok K t"
  using assms accounted_grows unfolding effects_ok_def by (metis (no_types, lifting))

lemma machine_effects_ok:
  assumes "machine K s t" "records_ok K s" "effects_ok K s"
  shows "effects_ok K t"
proof -
  note g = machine_grows [OF assms(1,2)]
  from assms(1) show ?thesis
  proof cases
    case idle
    then show ?thesis by (intro effects_ok_same [OF assms(3) g]) (simp add: quiet_fields)
  next
    case (submitted request key bkey binding decision state e u)
    then show ?thesis
      by (intro effects_ok_same [OF assms(3) g]) (simp add: append_step_records(4) [OF submitted(6)])
  next
    case (approved key r a akey e u)
    then show ?thesis
      by (intro effects_ok_same [OF assms(3) g]) (simp add: append_step_records(4) [OF approved(6)])
  next
    case (granted key r gr e u)
    then show ?thesis
      by (intro effects_ok_same [OF assms(3) g]) (simp add: append_step_records(4) [OF granted(6)])
  next
    case (executed key r gr B gkey actor u)
    note a = ran_account [OF executed(8,9)] and rs = ran_records(1) [OF executed(8,9)]
    have k: "request_key (lr_request r) = key"
      using assms(2) executed(1) unfolding records_ok_def record_key_request by blast
    have new: "accounted K t (lr_request r) gr"
      using executed(1,3-5,7) a(2,5) unfolding accounted_def rs k by auto
    have fresh: "request_key (lr_request r) \<notin> set (map (request_key \<circ> fst) (executions (trace s)))"
    proof
      assume "request_key (lr_request r) \<in> set (map (request_key \<circ> fst) (executions (trace s)))"
      then obtain rg where rg: "rg \<in> set (executions (trace s))" "request_key (fst rg) = key"
        unfolding k by auto
      then have "accounted K s (fst rg) (snd rg)" using assms(3) by (simp add: effects_ok_def)
      then obtain gkey' where "snd rg = gr" "grant_key_of (p_env K) (snd rg) = Inr gkey'"
          "gkey' \<in> set (consumed_grants s)"
        using executed(1,3) rg(2) unfolding accounted_def by force
      then show False using executed(5,6) by simp
    qed
    obtain xs where xs: "trace t = trace s @ Executed (lr_request r) gr # map (revert_event (lr_request r) gr) xs"
      using a(3) by auto
    have ex: "executions (trace t) = executions (trace s) @ [(lr_request r, gr)]" unfolding xs by simp
    have "distinct (map (request_key \<circ> fst) (executions (trace t)))"
      using fresh assms(3) unfolding ex effects_ok_def by simp
    moreover have "accounted K t (fst rg) (snd rg)" if "rg \<in> set (executions (trace t))" for rg
      using that new accounted_grows [OF _ g] assms(3) unfolding ex effects_ok_def by auto
    ultimately show ?thesis unfolding effects_ok_def by blast
  next
    case finished
    then show ?thesis by (intro effects_ok_same [OF assms(3) g]) simp
  qed
qed

section \<open>The idempotency table\<close>

lemma nested_item:
  assumes "dget d k = v" "v \<noteq> PNone" "k \<noteq> []"
  shows "v \<in> set (nested_nodes d)"
proof -
  have "map_of d (S k) = Some v" using assms by (auto simp: dget_def split: option.splits)
  then have "(S k, v) \<in> set d" by (rule map_of_SomeD)
  moreover have "v \<in> set (walk v)" by (cases v) auto
  ultimately show ?thesis using assms(3) unfolding nested_nodes_def by force
qed

text \<open>In a valid request the tenant of the idempotency binding is the tenant of the request.\<close>

lemma binding_tenant:
  assumes "request_valid K request" "dget request ''idempotency'' = PDict b"
    and "validate_idempotency_binding b = Inr u"
  shows "dget b ''tenant_id'' = dget request ''tenant_id''"
proof -
  obtain tenant where "validate_record (p_env K) tenant (PDict request) = Inr ()"
    using assms(1) by (auto simp: request_valid_def contract_model_def reject_if_Inr_iff bindE_Inr_iff)
  then obtain t where t: "validate_tenant_consistency request tenant = Inr t"
    by (auto simp: validate_record_in_Inr)
  have "PDict b \<in> set (nested_nodes request)" by (rule nested_item [OF assms(2)]) simp_all
  moreover have "dhas b ''tenant_id''"
    using idempotency_binding_inv(1) [OF assms(3)] by (auto simp: dkeys_def dhas_def map_of_eq_None_iff)
  ultimately show ?thesis using tenant_nested [OF t] tenant_consistent(1) [OF t] by simp
qed

definition table_ok :: "'d kernel_state \<Rightarrow> bool" where
  "table_ok s \<longleftrightarrow>
     (\<forall>bkey b rid dg. map_of (idempotency s) bkey = Some (b, rid, dg) \<longrightarrow>
        bkey = (dget b ''tenant_id'', dget b ''idempotency_key'') \<and>
        (\<exists>r. map_of (records s) (fst bkey, rid) = Some r \<and> dget (lr_request r) ''idempotency'' = PDict b \<and>
           dget (lr_request r) ''request_digest'' = dg)) \<and>
     (\<forall>key r. map_of (records s) key = Some r \<longrightarrow> (\<exists>b dg. dget (lr_request r) ''idempotency'' = PDict b \<and>
        map_of (idempotency s) (fst key, dget b ''idempotency_key'') = Some (b, snd key, dg)))"

lemma table_binding:
  assumes "table_ok s" "map_of (idempotency s) bkey = Some (b, rid, dg)"
  shows "bkey = (dget b ''tenant_id'', dget b ''idempotency_key'')"
    and "\<exists>r. map_of (records s) (fst bkey, rid) = Some r \<and> dget (lr_request r) ''idempotency'' = PDict b \<and>
           dget (lr_request r) ''request_digest'' = dg"
  using assms unfolding table_ok_def by blast+

lemma table_record:
  assumes "table_ok s" "map_of (records s) key = Some r"
  shows "\<exists>b dg. dget (lr_request r) ''idempotency'' = PDict b \<and>
           map_of (idempotency s) (fst key, dget b ''idempotency_key'') = Some (b, snd key, dg)"
  using assms unfolding table_ok_def by blast

lemma table_ok_same:
  assumes "table_ok s" "idempotency t = idempotency s"
    and "\<And>key. map_option lr_request (map_of (records t) key) = map_option lr_request (map_of (records s) key)"
  shows "table_ok t"
  unfolding table_ok_def assms(2)
proof (intro conjI allI impI)
  fix bkey b rid dg assume m: "map_of (idempotency s) bkey = Some (b, rid, dg)"
  show "bkey = (dget b ''tenant_id'', dget b ''idempotency_key'')" by (rule table_binding(1) [OF assms(1) m])
  obtain r where r: "map_of (records s) (fst bkey, rid) = Some r" "dget (lr_request r) ''idempotency'' = PDict b"
      "dget (lr_request r) ''request_digest'' = dg" using table_binding(2) [OF assms(1) m] by blast
  then show "\<exists>r. map_of (records t) (fst bkey, rid) = Some r \<and> dget (lr_request r) ''idempotency'' = PDict b \<and>
      dget (lr_request r) ''request_digest'' = dg"
    using assms(3) [of "(fst bkey, rid)"] by auto
next
  fix key r assume "map_of (records t) key = Some r"
  then obtain r' where r': "map_of (records s) key = Some r'" "lr_request r' = lr_request r"
    using assms(3) [of key] by (cases "map_of (records s) key") auto
  then show "\<exists>b dg. dget (lr_request r) ''idempotency'' = PDict b \<and>
      map_of (idempotency s) (fst key, dget b ''idempotency_key'') = Some (b, snd key, dg)"
    using table_record [OF assms(1) r'(1)] by simp
qed

lemma compare_same_key:
  assumes "compare_idempotency_bindings (Some a) b = Inr NEW"
  shows "dget a ''tenant_id'' \<noteq> dget b ''tenant_id'' \<or> dget a ''idempotency_key'' \<noteq> dget b ''idempotency_key''"
proof -
  have va: "validate_idempotency_binding a = Inr ()"
    using assms by (auto simp: compare_idempotency_bindings_def bindE_Inr_iff)
  obtain t k where "dget a ''tenant_id'' = PStr t" "dget a ''idempotency_key'' = PStr k"
    using idempotency_binding_inv(2,3) [OF va] by auto
  then show ?thesis
    using assms by (auto simp: compare_idempotency_bindings_def bindE_Inr_iff reject_if_Inr_iff split: if_splits)
qed

lemma submit_gate_None:
  assumes "submit_gate s request binding key bkey = Inr None"
  shows "map_of (records s) key = None"
    and "compare_idempotency_bindings (map_option fst (map_of (idempotency s) bkey)) binding = Inr NEW"
proof -
  obtain q where q: "compare_idempotency_bindings (map_option fst (map_of (idempotency s) bkey)) binding = Inr q"
    using assms by (auto simp: submit_gate_def Let_def bindE_Inr_iff)
  have "q \<noteq> REPLAY"
    using assms q by (auto simp: submit_gate_def Let_def bindE_Inr_iff reject_if_Inr_iff split: option.splits)
  then show "map_of (records s) key = None"
    and "compare_idempotency_bindings (map_option fst (map_of (idempotency s) bkey)) binding = Inr NEW"
    using assms q by (cases q; auto simp: submit_gate_def Let_def reject_if_Inr_iff split: if_splits)+
qed

text \<open>A new binding under a free key and a new record under a free key.\<close>

lemma table_ok_insert:
  assumes "table_ok s" "map_of (records s) key = None" "map_of (idempotency s) bkey = None"
    and "fst bkey = fst key" "bkey = (dget b ''tenant_id'', dget b ''idempotency_key'')"
    and "dget (lr_request r) ''idempotency'' = PDict b" "dget (lr_request r) ''request_digest'' = dg"
    and "idempotency t = AList.update bkey (b, snd key, dg) (idempotency s)"
    and "records t = AList.update key r (records s)"
  shows "table_ok t"
proof -
  have i: "map_of (idempotency t) k = (if k = bkey then Some (b, snd key, dg) else map_of (idempotency s) k)" for k
    by (simp add: assms(8) update_conv')
  have rs: "map_of (records t) k = (if k = key then Some r else map_of (records s) k)" for k
    by (simp add: assms(9) update_conv')
  have key: "(fst bkey, snd key) = key" using assms(4) by simp
  have bkey: "(fst key, dget b ''idempotency_key'') = bkey" using assms(4,5) by simp
  show ?thesis
    unfolding table_ok_def
  proof (intro conjI allI impI)
    fix bk b' rid dg' assume m: "map_of (idempotency t) bk = Some (b', rid, dg')"
    show "bk = (dget b' ''tenant_id'', dget b' ''idempotency_key'')"
    proof (cases "bk = bkey")
      case True
      then have "b' = b" using m by (simp add: i)
      then show ?thesis using assms(5) True by blast
    next
      case False
      then have "map_of (idempotency s) bk = Some (b', rid, dg')" using m by (simp add: i)
      then show ?thesis by (rule table_binding(1) [OF assms(1)])
    qed
    show "\<exists>r. map_of (records t) (fst bk, rid) = Some r \<and> dget (lr_request r) ''idempotency'' = PDict b' \<and>
        dget (lr_request r) ''request_digest'' = dg'"
    proof (cases "bk = bkey")
      case True
      then show ?thesis using m assms(6,7) key by (simp add: i rs)
    next
      case False
      then obtain r' where "map_of (records s) (fst bk, rid) = Some r'"
          "dget (lr_request r') ''idempotency'' = PDict b'" "dget (lr_request r') ''request_digest'' = dg'"
        using m table_binding(2) [OF assms(1), of bk b' rid dg'] by (auto simp: i)
      then show ?thesis using assms(2) by (auto simp: rs)
    qed
  next
    fix k r' assume m: "map_of (records t) k = Some r'"
    show "\<exists>b dg. dget (lr_request r') ''idempotency'' = PDict b \<and>
        map_of (idempotency t) (fst k, dget b ''idempotency_key'') = Some (b, snd k, dg)"
    proof (cases "k = key")
      case True
      then show ?thesis using m assms(6) bkey by (simp add: i rs)
    next
      case False
      then obtain b' dg' where "dget (lr_request r') ''idempotency'' = PDict b'"
          "map_of (idempotency s) (fst k, dget b' ''idempotency_key'') = Some (b', snd k, dg')"
        using m table_record [OF assms(1), of k r'] by (auto simp: rs)
      then show ?thesis using assms(3) by (auto simp: i)
    qed
  qed
qed

lemma machine_table_ok:
  assumes "machine K s t" "records_ok K s" "table_ok s"
  shows "table_ok t"
  using assms(1)
proof cases
  case idle
  then show ?thesis by (intro table_ok_same [OF assms(3)]) (simp_all add: quiet_records)
next
  case (submitted request key bkey binding decision state e u)
  note k = request_keys_Inr [OF submitted(3)] and u = append_step_records [OF submitted(6)]
  have cmp: "compare_idempotency_bindings (map_option fst (map_of (idempotency s) bkey)) binding = Inr NEW"
    and fresh: "map_of (records s) key = None"
    using submit_gate_None [OF submitted(4)] by simp_all
  have vb: "validate_idempotency_binding binding = Inr ()"
    using cmp by (auto simp: compare_idempotency_bindings_def bindE_Inr_iff)
  have tenant: "dget binding ''tenant_id'' = fst key"
    using binding_tenant [OF submitted(1) k(4) vb] k(1) by simp
  have free: "map_of (idempotency s) bkey = None"
  proof (rule ccontr)
    assume "map_of (idempotency s) bkey \<noteq> None"
    then obtain b rid dg where b: "map_of (idempotency s) bkey = Some (b, rid, dg)" by auto
    then have "bkey = (dget b ''tenant_id'', dget b ''idempotency_key'')"
      using assms(3) unfolding table_ok_def by blast
    then show False using compare_same_key [of b binding] cmp b k(5) tenant by simp
  qed
  show ?thesis
    using k tenant u(1,2)
    by (intro table_ok_insert [OF assms(3) fresh free, of binding "new_record request decision state e"])
       (simp_all add: submitted(7) new_record_def)
next
  case (approved key r a akey e u)
  then show ?thesis
    by (intro table_ok_same [OF assms(3)])
       (auto simp: append_step_records(1,2) [OF approved(6)] update_conv' approved_record_def simp del: split_paired_All)
next
  case (granted key r g e u)
  then show ?thesis
    by (intro table_ok_same [OF assms(3)])
       (auto simp: append_step_records(1,2) [OF granted(6)] update_conv' granted_record_def simp del: split_paired_All)
next
  case (executed key r g B gkey actor u)
  then show ?thesis
    by (intro table_ok_same [OF assms(3)]) (simp_all add: ran_records [OF executed(8,9)])
next
  case (finished key r l es oc)
  then show ?thesis
    by (intro table_ok_same [OF assms(3)])
       (auto simp: update_conv' finished_record_def simp del: split_paired_All)
qed

section \<open>Reachable states\<close>

definition kernel_ok :: "'d kernel \<Rightarrow> 'd kernel_state \<Rightarrow> bool" where
  "kernel_ok K s \<longleftrightarrow> records_ok K s \<and> effects_ok K s \<and> table_ok s \<and> ledger_ok (p_env K) s"

lemma machine_ledger_ok:
  assumes "machine K s t" "ledger_ok (p_env K) s"
  shows "ledger_ok (p_env K) t"
  using assms(1)
proof cases
  case idle
  then show ?thesis using assms(2) by (simp add: quiet_def ledger_ok_def)
next
  case (submitted request key bkey binding decision state e u)
  then show ?thesis using append_step_records(7) [OF submitted(6) assms(2)] by (simp add: ledger_ok_def)
next
  case (approved key r a akey e u)
  then show ?thesis using append_step_records(7) [OF approved(6) assms(2)] by (simp add: ledger_ok_def)
next
  case (granted key r g e u)
  then show ?thesis using append_step_records(7) [OF granted(6) assms(2)] by (simp add: ledger_ok_def)
next
  case (executed key r g B gkey actor u)
  then show ?thesis using ran_account(4) [OF executed(8,9) assms(2)] by simp
next
  case finished
  then show ?thesis using assms(2) by (simp add: ledger_ok_def)
qed

lemma machine_ok: "machine K s t \<Longrightarrow> kernel_ok K s \<Longrightarrow> kernel_ok K t"
  using machine_records_ok machine_effects_ok machine_table_ok machine_ledger_ok
  unfolding kernel_ok_def by blast

lemma moves_ok: "moves K s t \<Longrightarrow> kernel_ok K s \<Longrightarrow> kernel_ok K t"
  by (induction rule: rtranclp_induct) (auto intro: machine_ok)

lemma grows_trans:
  assumes "grows s t" "grows t u"
  shows "grows s u"
  unfolding grows_def
proof (intro conjI allI impI)
  show "extends s u" "set (consumed_grants s) \<subseteq> set (consumed_grants u)"
    using assms by (auto simp: grows_def intro: extends_trans)
next
  fix key r assume "map_of (records s) key = Some r"
  then obtain r' where r': "map_of (records t) key = Some r'" "lr_request r' = lr_request r" "lr_policy r' = lr_policy r"
      "lr_grant r \<noteq> None \<longrightarrow> lr_grant r' = lr_grant r \<and> approvals_of r' = approvals_of r"
    using assms(1) unfolding grows_def by blast
  moreover obtain r'' where "map_of (records u) key = Some r''" "lr_request r'' = lr_request r'"
      "lr_policy r'' = lr_policy r'"
      "lr_grant r' \<noteq> None \<longrightarrow> lr_grant r'' = lr_grant r' \<and> approvals_of r'' = approvals_of r'"
    using assms(2) r'(1) unfolding grows_def by blast
  ultimately show "\<exists>r'. map_of (records u) key = Some r' \<and> lr_request r' = lr_request r \<and>
      lr_policy r' = lr_policy r \<and> (lr_grant r \<noteq> None \<longrightarrow> lr_grant r' = lr_grant r \<and> approvals_of r' = approvals_of r)"
    by auto
qed

lemma moves_grows: "moves K s t \<Longrightarrow> kernel_ok K s \<Longrightarrow> grows s t"
proof (induction rule: rtranclp_induct)
  case base
  show ?case by (auto simp: grows_def extends_refl)
next
  case (step t u)
  then have "kernel_ok K t" using moves_ok by blast
  then have "grows t u" using step machine_grows unfolding kernel_ok_def by blast
  moreover have "grows s t" using step by blast
  ultimately show ?case by (rule grows_trans [rotated])
qed

lemma initial_ok: "kernel_ok K (initial_kernel d)"
  by (simp add: kernel_ok_def records_ok_def effects_ok_def table_ok_def ledger_ok_def chain_ok_def
      initial_kernel_def events_of_def)

lemma step_ok: "kernel_step K s t \<Longrightarrow> k_durable K = None \<Longrightarrow> kernel_ok K s \<Longrightarrow> moves K s t \<and> kernel_ok K t"
  using kernel_step_moves records_ok_keyed moves_ok unfolding kernel_ok_def by blast

lemma reachable_ok:
  assumes "reachable K d s" "k_durable K = None"
  shows "kernel_ok K s"
  using assms(1) by induction (auto intro: initial_ok dest: step_ok [OF _ assms(2)])

end
