(* ===== verification/Transition_Systems.thy ===== *)
theory Transition_Systems
  imports Main
begin

text \<open>
  The interface between a component that runs and its abstract description: \<open>run\<close> is what
  one public call does to the state, \<open>move\<close> is one step of the description, and \<open>inv\<close> holds
  of the states the description is about. A component provides the two laws; everything
  about sequences of calls follows from them once.
\<close>

locale simulation =
  fixes run :: "'s \<Rightarrow> 's \<Rightarrow> bool"
    and move :: "'s \<Rightarrow> 's \<Rightarrow> bool"
    and inv :: "'s \<Rightarrow> bool"
  assumes run_moves: "run s t \<Longrightarrow> inv s \<Longrightarrow> move\<^sup>*\<^sup>* s t"
    and move_inv: "move s t \<Longrightarrow> inv s \<Longrightarrow> inv t"
begin

lemma moves_inv: "move\<^sup>*\<^sup>* s t \<Longrightarrow> inv s \<Longrightarrow> inv t"
  by (induction rule: rtranclp_induct) (auto intro: move_inv)

lemma run_inv: "run s t \<Longrightarrow> inv s \<Longrightarrow> inv t"
  by (blast intro: moves_inv run_moves)

lemma runs_inv: "run\<^sup>*\<^sup>* s t \<Longrightarrow> inv s \<Longrightarrow> inv t"
  by (induction rule: rtranclp_induct) (auto intro: run_inv)

lemma runs_moves: "run\<^sup>*\<^sup>* s t \<Longrightarrow> inv s \<Longrightarrow> move\<^sup>*\<^sup>* s t"
proof (induction rule: rtranclp_induct)
  case (step t u)
  then have "move\<^sup>*\<^sup>* t u" by (blast intro: run_moves runs_inv)
  then show ?case using step by (blast intro: rtranclp_trans)
qed simp

text \<open>A preorder that every move respects holds between the ends of every run.\<close>

lemma moves_order:
  assumes "move\<^sup>*\<^sup>* s t" "inv s" "\<And>a b. move a b \<Longrightarrow> inv a \<Longrightarrow> R a b" "reflp R" "transp R"
  shows "R s t"
  using assms(1,2)
proof (induction rule: rtranclp_induct)
  case base
  show ?case using assms(4) by (rule reflpD)
next
  case (step t u)
  have "R t u" using step assms(3) moves_inv by blast
  then show ?case using step assms(5) by (blast dest: transpD)
qed

lemma runs_order:
  assumes "run\<^sup>*\<^sup>* s t" "inv s" "\<And>a b. move a b \<Longrightarrow> inv a \<Longrightarrow> R a b" "reflp R" "transp R"
  shows "R s t"
  by (rule moves_order [OF runs_moves [OF assms(1,2)] assms(2-5)])

end

text \<open>A machine whose initial states satisfy the invariant.\<close>

locale started_simulation = simulation +
  fixes init :: "'s \<Rightarrow> bool"
  assumes init_inv: "init s \<Longrightarrow> inv s"
begin

lemma reached_inv: "init s \<Longrightarrow> run\<^sup>*\<^sup>* s t \<Longrightarrow> inv t"
  by (blast intro: runs_inv init_inv)

lemma reached_order:
  assumes "init s" "run\<^sup>*\<^sup>* s t" "run\<^sup>*\<^sup>* t u" "\<And>a b. move a b \<Longrightarrow> inv a \<Longrightarrow> R a b" "reflp R" "transp R"
  shows "R t u"
  by (rule runs_order [OF assms(3) reached_inv [OF assms(1,2)] assms(4-6)])

end

end
