(* ===== verification/State_Diagram.thy ===== *)
theory State_Diagram
  imports Kernel_Invariants Transition_Systems
begin

text \<open>
  The state diagram of a governed request, as the edges the kernel takes, and the
  accumulation of its lifecycle record: along every move a record keeps its request and
  policy, its approval and grant once they are there, and only appends evidence.
\<close>

section \<open>The state diagram\<close>

inductive edge :: "kernel_lifecycle \<Rightarrow> kernel_lifecycle \<Rightarrow> bool" where
  "edge APPROVAL_REQUIRED APPROVED"
| "edge POLICY_AUTHORIZED GRANT_ISSUED"
| "edge APPROVED GRANT_ISSUED"
| "edge GRANT_ISSUED EFFECT_SUCCEEDED"
| "edge GRANT_ISSUED EFFECT_INDETERMINATE"

inductive_cases edge_from_denied [elim!]: "edge DENIED l"
inductive_cases edge_from_succeeded [elim!]: "edge EFFECT_SUCCEEDED l"
inductive_cases edge_from_indeterminate [elim!]: "edge EFFECT_INDETERMINATE l"

code_pred edge .

abbreviation path :: "kernel_lifecycle \<Rightarrow> kernel_lifecycle \<Rightarrow> bool" where
  "path \<equiv> edge\<^sup>*\<^sup>*"

lemma edge_path: "edge l m \<Longrightarrow> path l m"
  by (rule r_into_rtranclp)

lemmas diagram [simp, intro] = edge.intros [THEN edge_path]

lemma path_final:
  assumes "path l m" "l \<in> {DENIED, EFFECT_SUCCEEDED, EFFECT_INDETERMINATE}"
  shows "m = l"
  using assms by (induction rule: rtranclp_induct) auto

text \<open>A record after some moves: the same request and policy, a state further along.\<close>

definition advanced :: "lifecycle \<Rightarrow> lifecycle \<Rightarrow> bool" where
  "advanced r r' \<longleftrightarrow> lr_request r' = lr_request r \<and> lr_policy r' = lr_policy r \<and>
     path (lr_state r) (lr_state r') \<and> (\<exists>es. lr_evidence r' = lr_evidence r @ es) \<and>
     (lr_approval r \<noteq> None \<longrightarrow> lr_approval r' = lr_approval r) \<and>
     (lr_grant r \<noteq> None \<longrightarrow> lr_grant r' = lr_grant r)"

lemma advanced_refl: "advanced r r"
  by (simp add: advanced_def)

lemma advanced_trans: "advanced a b \<Longrightarrow> advanced b c \<Longrightarrow> advanced a c"
  unfolding advanced_def by (auto intro: rtranclp_trans)

definition all_advance :: "'d kernel_state \<Rightarrow> 'd kernel_state \<Rightarrow> bool" where
  "all_advance s t \<longleftrightarrow> (\<forall>key r. map_of (records s) key = Some r \<longrightarrow>
     (\<exists>r'. map_of (records t) key = Some r' \<and> advanced r r'))"

lemma all_advance_same: "records t = records s \<Longrightarrow> all_advance s t"
  unfolding all_advance_def by (auto intro: advanced_refl)

lemma all_advance_update:
  assumes "records t = AList.update key r' (records s)"
    and "\<And>r. map_of (records s) key = Some r \<Longrightarrow> advanced r r'"
  shows "all_advance s t"
  unfolding all_advance_def
proof (intro allI impI)
  fix k r assume r: "map_of (records s) k = Some r"
  show "\<exists>r'. map_of (records t) k = Some r' \<and> advanced r r'"
    using assms r advanced_refl by (cases "k = key") (auto simp: update_conv')
qed

lemma machine_advance:
  assumes "machine K s t" "records_ok K s"
  shows "all_advance s t"
  using assms(1)
proof cases
  case idle
  then show ?thesis by (intro all_advance_same) (simp add: quiet_records)
next
  case (submitted request key bkey binding decision state e u)
  have "map_of (records s) key = None" by (rule submit_gate_None(1) [OF submitted(4)])
  then show ?thesis
    by (intro all_advance_update [of _ key "new_record request decision state e"])
       (simp_all add: submitted(7) append_step_records(1) [OF submitted(6)])
next
  case (approved key r a akey e u)
  have st: "lr_state r = APPROVAL_REQUIRED" by (rule approval_checks_inv(1) [OF approved(2)])
  have "record_ok K r" using assms(2) approved(1) unfolding records_ok_def by blast
  then have "lr_grant r = None" "lr_approval r = None"
    using st by (auto simp: record_ok_def policy_ok_def)
  then have "advanced r (approved_record r a e)"
    using st by (auto simp: advanced_def approved_record_def)
  then show ?thesis
    using approved(1) by (intro all_advance_update [of _ key "approved_record r a e"])
       (simp_all add: approved(7) append_step_records(1) [OF approved(6)])
next
  case (granted key r g e u)
  have "record_ok K r" using assms(2) granted(1) unfolding records_ok_def by blast
  then have "lr_grant r = None" using granted(3) by (auto simp: record_ok_def)
  then have "advanced r (granted_record r g e)"
    using granted(3) by (auto simp: advanced_def granted_record_def)
  then show ?thesis
    using granted(1) by (intro all_advance_update [of _ key "granted_record r g e"])
       (simp_all add: granted(7) append_step_records(1) [OF granted(6)])
next
  case (executed key r g B gkey actor u)
  then show ?thesis by (intro all_advance_same ran_records(1))
next
  case (finished key r l es oc)
  have "advanced r (finished_record r l es oc)"
    using finished(2,4) by (auto simp: advanced_def finished_record_def)
  then show ?thesis
    using finished(1) by (intro all_advance_update [of _ key "finished_record r l es oc"])
       (simp_all add: finished(5))
qed

section \<open>Consumed approvals\<close>

lemma machine_approvals:
  "machine K s t \<Longrightarrow> set (consumed_approvals s) \<subseteq> set (consumed_approvals t) \<and>
     (distinct (consumed_approvals s) \<longrightarrow> distinct (consumed_approvals t))"
  by (cases rule: machine.cases)
     (auto simp: quiet_records append_step_records ran_records)

section \<open>The kernel implements the machine\<close>

definition memory_ok :: "'d kernel \<Rightarrow> 'd kernel_state \<Rightarrow> bool" where
  "memory_ok K s \<longleftrightarrow> k_durable K = None \<and> kernel_ok K s"

interpretation kern: started_simulation "kernel_step K" "machine K" "memory_ok K"
    "\<lambda>s. k_durable K = None \<and> (\<exists>d. s = initial_kernel d)" for K :: "'d kernel"
proof
  show "(machine K)\<^sup>*\<^sup>* s t" if "kernel_step K s t" "memory_ok K s" for s t
    using step_ok that unfolding memory_ok_def by blast
  show "memory_ok K t" if "machine K s t" "memory_ok K s" for s t
    using machine_ok that unfolding memory_ok_def by blast
  show "memory_ok K s" if "k_durable K = None \<and> (\<exists>d. s = initial_kernel d)" for s
    using that by (auto simp: memory_ok_def initial_ok)
qed

lemma reachable_runs: "reachable K d s \<longleftrightarrow> (kernel_step K)\<^sup>*\<^sup>* (initial_kernel d) s"
proof
  show "reachable K d s \<Longrightarrow> (kernel_step K)\<^sup>*\<^sup>* (initial_kernel d) s"
    by (induction rule: reachable.induct) auto
  show "(kernel_step K)\<^sup>*\<^sup>* (initial_kernel d) s \<Longrightarrow> reachable K d s"
    by (induction rule: rtranclp_induct) (auto intro: reachable.intros)
qed

lemma reachable_memory: "reachable K d s \<Longrightarrow> k_durable K = None \<Longrightarrow> memory_ok K s"
  unfolding reachable_runs by (rule kern.reached_inv) auto

text \<open>Orders along every later run of calls.\<close>

lemma all_advance_preorder: "reflp all_advance" "transp all_advance"
proof -
  show "reflp all_advance" by (rule reflpI) (simp add: all_advance_same)
  show "transp all_advance" unfolding all_advance_def by (rule transpI) (meson advanced_trans)
qed

lemma runs_advance: "(kernel_step K)\<^sup>*\<^sup>* s t \<Longrightarrow> memory_ok K s \<Longrightarrow> all_advance s t"
  by (rule kern.runs_order [OF _ _ _ all_advance_preorder])
     (auto simp: memory_ok_def kernel_ok_def intro: machine_advance)

lemma grows_preorder: "reflp grows" "transp grows"
proof -
  show "reflp grows" by (rule reflpI) (simp add: grows_def extends_refl)
  show "transp grows" by (rule transpI) (rule grows_trans)
qed

lemma runs_grow: "(kernel_step K)\<^sup>*\<^sup>* s t \<Longrightarrow> memory_ok K s \<Longrightarrow> grows s t"
  by (rule kern.runs_order [OF _ _ _ grows_preorder])
     (auto simp: memory_ok_def kernel_ok_def intro: machine_grows)

definition approvals_kept :: "'d kernel_state \<Rightarrow> 'd kernel_state \<Rightarrow> bool" where
  "approvals_kept s t \<longleftrightarrow> set (consumed_approvals s) \<subseteq> set (consumed_approvals t) \<and>
     (distinct (consumed_approvals s) \<longrightarrow> distinct (consumed_approvals t))"

lemma runs_approvals: "(kernel_step K)\<^sup>*\<^sup>* s t \<Longrightarrow> memory_ok K s \<Longrightarrow> approvals_kept s t"
  by (rule kern.runs_order) (auto simp: approvals_kept_def reflp_def transp_def dest: machine_approvals)

end
