(* ===== verification/Compensation.thy ===== *)
theory Compensation
  imports Handler_Logic
begin

text \<open>
  What a dispatch leaves in the trace of the injected executor. After the grant was consumed
  (in process) or the preparation was stored (durable) the executor is called once; the trace
  then ends with \<open>Executed\<close>, with \<open>Executed\<close> and \<open>Reverted\<close> (the executor's \<open>revert\<close> was called
  and returned), or with \<open>Executed\<close> and \<open>RevertFailed\<close> (it was called and raised). Which of the
  three it is depends on the exception of the dispatch, so the judgement \<open>appends\<close> of this
  theory relates the exception, or the value, to the appended events.
\<close>

section \<open>Appended events\<close>

definition appends ::
  "(('d, 'c) broker_state_scheme, 'a) handler \<Rightarrow> ('a \<Rightarrow> effect_event list \<Rightarrow> bool)
    \<Rightarrow> (exc \<Rightarrow> effect_event list \<Rightarrow> bool) \<Rightarrow> bool" where
  "appends m Q E \<longleftrightarrow> (\<forall>s r t. m s = (r, t) \<longrightarrow> (\<exists>ys. trace t = trace s @ ys \<and>
     (case r of Inl e \<Rightarrow> E e ys | Inr y \<Rightarrow> Q y ys)))"

lemma appendsI:
  "(\<And>s r t. m s = (r, t) \<Longrightarrow> \<exists>ys. trace t = trace s @ ys \<and> (case r of Inl e \<Rightarrow> E e ys | Inr y \<Rightarrow> Q y ys)) \<Longrightarrow>
   appends m Q E"
  by (simp add: appends_def)

lemma appendsD:
  "appends m Q E \<Longrightarrow> m s = (r, t) \<Longrightarrow>
   \<exists>ys. trace t = trace s @ ys \<and> (case r of Inl e \<Rightarrow> E e ys | Inr y \<Rightarrow> Q y ys)"
  by (simp add: appends_def)

lemma a_conseq:
  assumes "appends m Q E" "\<And>y ys. Q y ys \<Longrightarrow> Q' y ys" "\<And>e ys. E e ys \<Longrightarrow> E' e ys"
  shows "appends m Q' E'"
proof (rule appendsI)
  fix s r t assume "m s = (r, t)"
  from appendsD [OF assms(1) this]
  show "\<exists>ys. trace t = trace s @ ys \<and> (case r of Inl e \<Rightarrow> E' e ys | Inr y \<Rightarrow> Q' y ys)"
    using assms(2,3) by (cases r) fastforce+
qed

lemma a_bind:
  assumes "appends m R F" "\<And>e ys. F e ys \<Longrightarrow> E e ys"
    and "\<And>x ys. R x ys \<Longrightarrow> appends (f x) (\<lambda>y zs. Q y (ys @ zs)) (\<lambda>e zs. E e (ys @ zs))"
  shows "appends (bindH m f) Q E"
proof (rule appendsI)
  fix s r t assume "bindH m f s = (r, t)"
  then show "\<exists>ys. trace t = trace s @ ys \<and> (case r of Inl e \<Rightarrow> E e ys | Inr y \<Rightarrow> Q y ys)"
  proof (cases rule: bindH_cases)
    case (error e)
    then show ?thesis using appendsD [OF assms(1)] assms(2) by fastforce
  next
    case (ok x s')
    obtain ys where "trace s' = trace s @ ys" "R x ys" using appendsD [OF assms(1) ok(1)] by auto
    with appendsD [OF assms(3) ok(2)] show ?thesis by fastforce
  qed
qed

lemma a_catch:
  assumes "appends m Q F"
    and "\<And>e ys. F e ys \<Longrightarrow> appends (h e) (\<lambda>y zs. Q y (ys @ zs)) (\<lambda>e zs. E e (ys @ zs))"
  shows "appends (catchH m h) Q E"
proof (rule appendsI)
  fix s r t assume "catchH m h s = (r, t)"
  then show "\<exists>ys. trace t = trace s @ ys \<and> (case r of Inl e \<Rightarrow> E e ys | Inr y \<Rightarrow> Q y ys)"
  proof (cases rule: catchH_cases)
    case (normal x)
    then show ?thesis using appendsD [OF assms(1)] by fastforce
  next
    case (caught e s')
    obtain ys where "trace s' = trace s @ ys" "F e ys" using appendsD [OF assms(1) caught(1)] by auto
    with appendsD [OF assms(2) caught(2)] show ?thesis by fastforce
  qed
qed

lemma a_attempt:
  "appends m Q E \<Longrightarrow> appends (attemptH m) (\<lambda>v ys. case v of Inl e \<Rightarrow> E e ys | Inr y \<Rightarrow> Q y ys) F"
  by (rule appendsI) (fastforce simp: attemptH_iff dest: appendsD)

lemma a_return: "Q x [] \<Longrightarrow> appends (returnH x) Q E"
  by (simp add: appends_def returnH_def)

lemma a_raise: "E (Exc c m) [] \<Longrightarrow> appends (raiseH c m) Q E"
  by (simp add: appends_def raiseH_def)

lemma a_lift: "(\<And>x. r = Inr x \<Longrightarrow> Q x []) \<Longrightarrow> (\<And>e. r = Inl e \<Longrightarrow> E e []) \<Longrightarrow> appends (liftH r) Q E"
  by (auto simp: appends_def liftH_def split: sum.splits)

lemma ab_lift:
  "(\<And>x. r = Inr x \<Longrightarrow> appends (f x) Q E) \<Longrightarrow> (\<And>e. r = Inl e \<Longrightarrow> E e []) \<Longrightarrow> appends (bindH (liftH r) f) Q E"
  by (rule a_bind [where R = "\<lambda>x ys. r = Inr x \<and> ys = []" and F = "\<lambda>e ys. r = Inl e \<and> ys = []"])
    (auto intro: a_lift)

lemma rejectH_if: "rejectH b c m k = (if b then raiseH c m else k)"
  by (simp add: rejectH_def raiseH_def fun_eq_iff)

lemma a_if:
  "(b \<Longrightarrow> appends m Q E) \<Longrightarrow> (\<not> b \<Longrightarrow> appends k Q E) \<Longrightarrow> appends (if b then m else k) Q E"
  by simp

lemma a_log: "Q () [e] \<Longrightarrow> appends (log_effect e) Q E"
  by (simp add: appends_def log_effect_def modifyH_def)

text \<open>A handler that keeps the trace: all that is known of its value is that it returned it.\<close>

definition same_trace :: "('d, 'c) broker_state_scheme \<Rightarrow> ('d, 'c) broker_state_scheme \<Rightarrow> bool" where
  "same_trace s t \<longleftrightarrow> trace t = trace s"

lemma a_silent:
  assumes "keeps same_trace m"
  shows "appends m (\<lambda>y ys. ys = [] \<and> (\<exists>s t. m s = (Inr y, t))) (\<lambda>e ys. ys = [])"
  using assms by (auto simp: appends_def keeps_def same_trace_def split: sum.splits)

lemma ab_silent:
  assumes "keeps same_trace m" "\<And>e. E e []" "\<And>x s t. m s = (Inr x, t) \<Longrightarrow> appends (f x) Q E"
  shows "appends (bindH m f) Q E"
  by (rule a_bind [OF a_silent [OF assms(1)]]) (auto intro: assms(2,3))

lemma quiet_same_trace: "keeps quiet m \<Longrightarrow> keeps same_trace m"
  by (erule keeps_mono) (simp add: quiet_fields same_trace_def)

lemma tick_same_trace: "keeps only_tick m \<Longrightarrow> keeps same_trace m"
  by (rule quiet_same_trace) (erule keeps_mono [OF _ tick_quiet])

lemma dbH_same_trace: "keeps same_trace (dbH m)"
  by (auto simp: keeps_def dbH_def same_trace_def split: prod.splits)

lemma ext_same_trace: "keeps same_trace (ext f)"
  by (auto simp: keeps_def ext_def same_trace_def)

lemma append_same_trace:
  "keeps same_trace (ledger_append P tenant run kind ref body :: (('d, 'c) broker_state_scheme, dict) handler)"
proof (rule keepsI)
  fix s t :: "('d, 'c) broker_state_scheme" and q
  assume "ledger_append P tenant run kind ref body s = (q, t)"
  then have "\<exists>new. ledger_step tenant s new t" by (rule ledger_append_cases) auto
  then show "same_trace s t" using ledger_step_fields(1) by (auto simp: same_trace_def)
qed

lemma heartbeat_same_trace:
  "keeps same_trace (heartbeat m n :: (('d, 'c) broker_state_scheme, unit) handler)"
proof (induction n)
  case (Suc n)
  show ?case
  proof (rule keepsI)
    fix s t :: "('d, 'c) broker_state_scheme" and q
    assume "heartbeat m (Suc n) s = (q, t)"
    then obtain v u where a: "attemptH (dbH m) s = (Inr v, u)"
      and r: "(case v of Inl _ \<Rightarrow> returnH () | Inr _ \<Rightarrow> heartbeat m n) u = (q, t)"
      by (auto elim!: bindH_cases simp: attemptH_iff)
    have "trace u = trace s" using a keepsD [OF dbH_same_trace] by (auto simp: attemptH_iff same_trace_def)
    then show "same_trace s t"
    proof (cases v)
      case (Inr w)
      then have "heartbeat m n u = (q, t)" using r by simp
      from keepsD [OF Suc.IH this] show ?thesis using \<open>trace u = trace s\<close> by (simp add: same_trace_def)
    qed (use r \<open>trace u = trace s\<close> in \<open>simp add: returnH_def same_trace_def\<close>)
  qed
qed (simp add: keeps_def returnH_def same_trace_def)

section \<open>The call and its compensation\<close>

definition revert_failure :: exc where
  "revert_failure = Exc EffectConfigurationError
     ''synthetic executor could not revert an unrecordable effect''"

text \<open>\<open>x_revert\<close> returned, or it raised and the dispatch says so.\<close>

lemma revert_synthetic_appends:
  "appends (revert_synthetic X r g x) (\<lambda>_ ys. ys = [Reverted r g x])
     (\<lambda>e ys. e = revert_failure \<and> ys = [RevertFailed r g x])"
  unfolding revert_synthetic_def
  by (auto simp: appends_def bindH_def attemptH_def ext_def log_effect_def modifyH_def raiseH_def
      revert_failure_def split: sum.splits)

lemma indeterminate_appends:
  "appends (indeterminate X r g)
     (\<lambda>v ys. v = (''indeterminate'', indeterminate_result, False) \<and> ys = [Reverted r g indeterminate_result])
     (\<lambda>e ys. e = revert_failure \<and> ys = [RevertFailed r g indeterminate_result])"
  unfolding indeterminate_def by (rule a_bind [OF revert_synthetic_appends]) (auto intro: a_return)

text \<open>What the executor's call leaves: its result, or a compensation.\<close>

definition called :: "dict \<Rightarrow> dict \<Rightarrow> string \<times> dict \<times> bool \<Rightarrow> effect_event list \<Rightarrow> bool" where
  "called r g v ys \<longleftrightarrow> (case v of (status, result, active) \<Rightarrow>
     (if active then status = ''succeeded'' \<and> ys = [Executed r g]
      else status = ''indeterminate'' \<and> result = indeterminate_result \<and>
           ys = [Executed r g, Reverted r g indeterminate_result]))"

text \<open>The events of a dispatch that raised after the call.\<close>

definition undone :: "dict \<Rightarrow> dict \<Rightarrow> exc \<Rightarrow> effect_event list \<Rightarrow> bool" where
  "undone r g e ys \<longleftrightarrow> (\<exists>x. ys = [Executed r g, Reverted r g x] \<or>
     ys = [Executed r g, RevertFailed r g x] \<and> e = revert_failure)"

lemma invoke_executor_appends: "appends (invoke_executor X r g) (called r g) (undone r g)"
proof -
  have call: "appends (attemptH (call_executor X r g)) (\<lambda>_ ys. ys = [Executed r g]) (undone r g)"
    unfolding call_executor_def log_effect_def
    by (auto simp: appends_def attemptH_def bindH_def modifyH_def ext_def)
  have fail: "appends (indeterminate X r g) (\<lambda>v ys. called r g v ([Executed r g] @ ys))
      (\<lambda>e ys. undone r g e ([Executed r g] @ ys))"
    by (rule a_conseq [OF indeterminate_appends]) (auto simp: called_def undone_def)
  show ?thesis
    unfolding invoke_executor_def
  proof (rule a_bind [OF call])
    fix raw :: "pyval res" and ys
    assume ys: "ys = [Executed r g]"
    show "appends (case raw of Inl _ \<Rightarrow> indeterminate X r g
      | Inr v \<Rightarrow> (case executor_result v of Inl _ \<Rightarrow> indeterminate X r g
          | Inr d \<Rightarrow> returnH (''succeeded'', d, True))) (\<lambda>y zs. called r g y (ys @ zs)) (\<lambda>e zs. undone r g e (ys @ zs))"
    proof (cases raw)
      case (Inr v)
      then show ?thesis
        using fail ys by (cases "executor_result v") (simp_all add: a_return called_def)
    qed (use fail ys in simp)
  qed
qed

lemma revert_and_raise_appends:
  "appends (revert_and_raise X r g x active e) Q (\<lambda>e' ys. if active
     then ys = [Reverted r g x] \<and> e' = e \<or> ys = [RevertFailed r g x] \<and> e' = revert_failure
     else ys = [] \<and> e' = e)"
proof (cases active)
  case True
  have "appends (bindH (revert_synthetic X r g x) (\<lambda>_. liftH (Inl e))) Q
      (\<lambda>e' ys. ys = [Reverted r g x] \<and> e' = e \<or> ys = [RevertFailed r g x] \<and> e' = revert_failure)"
    by (rule a_bind [OF revert_synthetic_appends]) (auto intro: a_lift)
  then show ?thesis using True by (simp add: revert_and_raise_def)
next
  case False
  then show ?thesis by (simp add: revert_and_raise_def appends_def bindH_def returnH_def liftH_def)
qed

text \<open>After the call, whatever raises is answered by a revert of the call that stands.\<close>

lemma revert_undone:
  assumes "called r g (status, x, active) xs"
  shows "appends (revert_and_raise X r g x active e) Q (\<lambda>e' ys. undone r g e' (xs @ ys))"
  by (rule a_conseq [OF revert_and_raise_appends])
    (use assms in \<open>auto simp: called_def undone_def split: if_splits\<close>)

text \<open>The outcome names the request digest and the decision digest, so both exist.\<close>

lemma outcome_digests:
  assumes "build_outcome B a r p as g i st x s = (Inr outcome, t)"
  shows "\<exists>rd pd. ditem r ''request_digest'' = Inr rd \<and> ditem p ''decision_digest'' = Inr pd"
    and "dget outcome ''status'' = PS st" and "dget outcome ''result_payload'' = PDict x"
    and "dget outcome ''effect_state'' = PS st"
proof -
  obtain oid scope now rcd stamped tenant where
    r: "outcome_record (p_env B) oid scope r p as g i st x now = Inr rcd"
    and s: "apply_object_digest (p_env B) rcd = Inr stamped" and o: "outcome = stamped"
    using assms unfolding build_outcome_def Let_def
    by (auto simp: bindH_Inr_iff liftH_iff bindE_Inr_iff dest!: contract_model_same)
  show "\<exists>rd pd. ditem r ''request_digest'' = Inr rd \<and> ditem p ''decision_digest'' = Inr pd"
    using r by (auto simp: outcome_record_def effect_ref_def bindE_Inr_iff)
  have f: "dget rcd ''record_type'' = PS ''action_outcome''" "dget rcd ''status'' = PS st"
    "dget rcd ''result_payload'' = PDict x" "dget rcd ''effect_state'' = PS st"
    using r by (auto simp: outcome_record_def bindE_Inr_iff dget_def)
  have "digest_field (PS ''action_outcome'') = Some ''outcome_digest''"
    by (simp add: digest_field_def SELF_DIGEST_FIELDS_def)
  then have "dget stamped k = dget rcd k" if "k \<noteq> ''proof''" "k \<noteq> ''outcome_digest''" for k
    using apply_object_digest_fields [OF s] that unfolding f(1) by auto
  then show "dget outcome ''status'' = PS st" "dget outcome ''result_payload'' = PDict x"
    "dget outcome ''effect_state'' = PS st" using f o by simp_all
qed

section \<open>Dispatch in process\<close>

text \<open>What a returned outcome says of the events.\<close>

definition recorded :: "dict \<Rightarrow> dict \<Rightarrow> broker_execution \<Rightarrow> effect_event list \<Rightarrow> bool" where
  "recorded r g y ys \<longleftrightarrow> (\<exists>status result active. called r g (status, result, active) ys \<and>
     dget (be_outcome y) ''status'' = PS status \<and> dget (be_outcome y) ''result_payload'' = PDict result)"

text \<open>The outcome of the call is built, or the call is undone.\<close>

lemma outcome_appends:
  fixes B :: "('d, 'p) broker_scheme"
  assumes "called r g (status, x, active) xs"
  shows "appends (catchH (build_outcome B a r p as g i status x) (revert_and_raise X r g x active)
      :: (('d, 'c) broker_state_scheme, dict) handler)
    (\<lambda>out ys. ys = [] \<and> (\<exists>s t :: ('d, 'c) broker_state_scheme. build_outcome B a r p as g i status x s = (Inr out, t)))
    (\<lambda>e ys. undone r g e (xs @ ys))"
  by (rule a_catch [OF a_silent [OF tick_same_trace [OF keeps_outcome]]])
    (use revert_undone [OF assms] in simp)

lemma finish_effect_appends:
  fixes B :: "('d, 'p) broker_scheme"
  shows "appends (finish_effect B a r p as g binding key gdg ref tenant run intent
      :: (('d, 'c) broker_state_scheme, broker_execution) handler) (recorded r g) (undone r g)"
  unfolding finish_effect_def Let_def
proof (rule a_bind [OF invoke_executor_appends], assumption)
  fix v xs
  assume v: "called r g v xs"
  obtain status x active where [simp]: "v = (status, x, active)" by (cases v)
  note v = v [unfolded \<open>v = _\<close>]
  show "appends (case v of (status, x, active) \<Rightarrow>
      bindH (catchH (build_outcome B a r p as g intent status x)
               (revert_and_raise (b_executor B) r g x active)) (\<lambda>outcome.
      bindH (catchH (bindH (liftH (outcome_payload (p_env B) g outcome)) (\<lambda>body.
                 ledger_append B tenant run ''kernel.effect_execution_outcome'' ref body))
               (revert_and_raise (b_executor B) r g x active)) (\<lambda>ev.
      bindH (liftH (bindE (ditem r ''request_digest'') (\<lambda>rd.
               bindE (ditem p ''decision_digest'') (\<lambda>pd. Inr (rd, pd))))) (\<lambda>(rd, pd).
      bindH (modifyH (\<lambda>s :: ('d, 'c) broker_state_scheme. s\<lparr> results := AList.update key
        \<lparr> st_idempotency = binding, st_request_digest = rd, st_policy_digest = pd, st_grant_digest = gdg,
          st_execution = \<lparr> be_outcome = outcome, be_intent = intent, be_outcome_evidence = ev,
            be_replayed = False \<rparr> \<rparr> (results s) \<rparr>)) (\<lambda>_.
         returnH (execution_snapshot \<lparr> be_outcome = outcome, be_intent = intent, be_outcome_evidence = ev,
            be_replayed = False \<rparr> None))))))
    (\<lambda>y ys. recorded r g y (xs @ ys)) (\<lambda>e ys. undone r g e (xs @ ys))"
    unfolding \<open>v = _\<close> case_prod_conv
  proof (rule a_bind [OF outcome_appends [OF v]], assumption)
    fix out and ys :: "effect_event list"
    assume "ys = [] \<and> (\<exists>s t :: ('d, 'c) broker_state_scheme. build_outcome B a r p as g intent status x s = (Inr out, t))"
    then obtain s0 t0 :: "('d, 'c) broker_state_scheme" where [simp]: "ys = []"
      and b: "build_outcome B a r p as g intent status x s0 = (Inr out, t0)" by blast
    obtain rd pd where d: "ditem r ''request_digest'' = Inr rd" "ditem p ''decision_digest'' = Inr pd"
      using outcome_digests(1) [OF b] by blast
    have kept: "keeps same_trace (bindH (liftH (outcome_payload (p_env B) g out)) (\<lambda>body.
        ledger_append B tenant run ''kernel.effect_execution_outcome'' ref body)
        :: (('d, 'c) broker_state_scheme, dict) handler)"
      using keepsD [OF append_same_trace]
      by (auto simp: keeps_def bindH_def liftH_def same_trace_def split: sum.splits prod.splits)
    show "appends (bindH (catchH (bindH (liftH (outcome_payload (p_env B) g out)) (\<lambda>body.
                 ledger_append B tenant run ''kernel.effect_execution_outcome'' ref body))
               (revert_and_raise (b_executor B) r g x active)) (\<lambda>ev.
        bindH (liftH (bindE (ditem r ''request_digest'') (\<lambda>rd.
               bindE (ditem p ''decision_digest'') (\<lambda>pd. Inr (rd, pd))))) (\<lambda>(rd, pd).
        bindH (modifyH (\<lambda>s :: ('d, 'c) broker_state_scheme. s\<lparr> results := AList.update key
          \<lparr> st_idempotency = binding, st_request_digest = rd, st_policy_digest = pd, st_grant_digest = gdg,
            st_execution = \<lparr> be_outcome = out, be_intent = intent, be_outcome_evidence = ev,
              be_replayed = False \<rparr> \<rparr> (results s) \<rparr>)) (\<lambda>_.
           returnH (execution_snapshot \<lparr> be_outcome = out, be_intent = intent, be_outcome_evidence = ev,
              be_replayed = False \<rparr> None)))))
      (\<lambda>y zs. recorded r g y (xs @ ys @ zs)) (\<lambda>e zs. undone r g e (xs @ ys @ zs))"
    proof (rule a_bind)
      show "appends (catchH (bindH (liftH (outcome_payload (p_env B) g out)) (\<lambda>body.
                 ledger_append B tenant run ''kernel.effect_execution_outcome'' ref body))
               (revert_and_raise (b_executor B) r g x active) :: (('d, 'c) broker_state_scheme, dict) handler)
          (\<lambda>_ ys. ys = []) (\<lambda>e zs. undone r g e (xs @ ys @ zs))"
        by (rule a_catch [OF a_conseq [OF a_silent [OF kept]]]) (use revert_undone [OF v] in auto)
    qed (use v d outcome_digests(2,3) [OF b] in
        \<open>auto simp: appends_def bindH_def liftH_def modifyH_def returnH_def execution_snapshot_def recorded_def\<close>)
  qed
qed

text \<open>What a dispatch appends when it raises and when it returns.\<close>

definition compensated :: "dict \<Rightarrow> dict \<Rightarrow> exc \<Rightarrow> effect_event list \<Rightarrow> bool" where
  "compensated r g e ys \<longleftrightarrow> ys = [] \<or> undone r g e ys"

definition reported :: "dict \<Rightarrow> dict \<Rightarrow> broker_execution \<Rightarrow> effect_event list \<Rightarrow> bool" where
  "reported r g y ys \<longleftrightarrow> be_replayed y \<and> ys = [] \<or> recorded r g y ys"

lemma dispatch_effect_appends:
  fixes B :: "('d, 'p) broker_scheme"
  shows "appends (dispatch_effect B a r p as g binding key gkey ref
      :: (('d, 'c) broker_state_scheme, broker_execution) handler) (reported r g) (compensated r g)"
proof -
  have kept: "keeps same_trace (modifyH (\<lambda>s :: ('d, 'c) broker_state_scheme.
      s\<lparr> consumed_grants := consumed_grants s @ [gkey] \<rparr>))"
    by (simp add: keeps_def modifyH_def same_trace_def)
  show ?thesis
    unfolding dispatch_effect_def case_prod_unfold
    by (intro ab_lift ab_silent [OF append_same_trace] ab_silent [OF kept]
        a_conseq [OF finish_effect_appends]) (simp_all add: reported_def compensated_def)
qed

lemma dispatch_memory_appends:
  fixes B :: "('d, 'p) broker_scheme"
  shows "appends (dispatch_memory B a r p as g :: (('d, 'c) broker_state_scheme, broker_execution) handler)
    (reported r g) (compensated r g)"
proof -
  have gate: "be_replayed y" if "replay_gate s r p binding key gkey = Inr (Some y)"
    for s :: "('d, 'c) broker_state_scheme" and y binding key gkey
    using that by (auto simp: replay_gate_def Let_def bindE_Inr_iff reject_if_Inr_iff execution_snapshot_def
        split: if_splits option.splits)
  have kept: "keeps same_trace (bindH (getH (\<lambda>s :: ('d, 'c) broker_state_scheme. replay_gate s r p binding key gkey)) liftH)"
    for binding key gkey
    by (auto simp: keeps_def bindH_def getH_def liftH_def same_trace_def split: sum.splits)
  have go: "appends (case x of Some x \<Rightarrow> returnH x | None \<Rightarrow> dispatch_effect B a r p as g binding key gkey ref)
      (reported r g) (compensated r g)"
    if "bindH (getH (\<lambda>s. replay_gate s r p binding key gkey)) liftH s = (Inr x, t)"
    for s t :: "('d, 'c) broker_state_scheme" and x binding key gkey ref
  proof (cases x)
    case (Some y)
    then have "replay_gate s r p binding key gkey = Inr (Some y)"
      using that by (auto simp: bindH_def getH_def liftH_def split: sum.splits)
    then have "be_replayed y" by (rule gate)
    then show ?thesis using Some by (auto intro: a_return simp: reported_def)
  qed (simp add: dispatch_effect_appends)
  show ?thesis
    unfolding dispatch_memory_def case_prod_unfold
    by (intro ab_silent [OF tick_same_trace [OF keeps_authority]] ab_lift ab_silent [OF kept] go)
      (assumption | simp add: compensated_def)+
qed

section \<open>Durable dispatch\<close>

text \<open>
  The exceptions after which the call is left as it is: the database may hold its outcome.
\<close>

definition unresolved_outcomes :: "exc list" where
  "unresolved_outcomes =
    [Exc EffectConfigurationError ''durable outcome acknowledgement is uncertain; effect must not be retried'',
     Exc EffectConfigurationError ''durable outcome acknowledgement conflicts with stored terminal result'',
     Exc PreparedExecutionError ''durable execution has no terminal outcome'']"

definition abandoned :: "dict \<Rightarrow> dict \<Rightarrow> exc \<Rightarrow> effect_event list \<Rightarrow> bool" where
  "abandoned r g e ys \<longleftrightarrow> undone r g e ys \<or> ys = [Executed r g] \<and> e \<in> set unresolved_outcomes"

lemma stored_to_execution_error: "stored_to_execution x b = Inl e \<Longrightarrow> e \<in> set unresolved_outcomes"
  by (auto simp: stored_to_execution_def unresolved_outcomes_def split: option.splits)

lemma stored_to_execution_replayed: "stored_to_execution x b = Inr y \<Longrightarrow> be_replayed y = b"
  by (auto simp: stored_to_execution_def execution_snapshot_def split: option.splits)

lemma unresolved_abandoned:
  "called r g v xs \<Longrightarrow> e \<in> set unresolved_outcomes \<Longrightarrow> abandoned r g e xs"
  by (auto simp: called_def abandoned_def undone_def split: if_splits)

lemma reconcile_appends:
  fixes B :: "('d, 'p) broker_scheme" and D :: "'d durable_store"
  assumes "called r g (status, x, active) xs"
  shows "appends (reconcile B D a rid r g x active out e :: (('d, 'c) broker_state_scheme, broker_execution) handler)
    (\<lambda>_ ys. ys = []) (\<lambda>e ys. abandoned r g e (xs @ ys))"
proof -
  have unresolved: "abandoned r g e' xs" if "e' \<in> set unresolved_outcomes" for e'
    by (rule unresolved_abandoned [OF assms that])
  have undo: "appends (revert_and_raise (b_executor B) r g x active e
      :: (('d, 'c) broker_state_scheme, broker_execution) handler)
      (\<lambda>_ ys. ys = []) (\<lambda>e ys. abandoned r g e (xs @ ys))"
    by (rule a_conseq [OF revert_undone [OF assms, where Q = "\<lambda>_ ys. ys = []"]]) (simp_all add: abandoned_def)
  have look: "appends (catchH (dbH (ds_lookup D a rid)) (\<lambda>_. raiseH EffectConfigurationError
        ''durable outcome acknowledgement is uncertain; effect must not be retried'')
        :: (('d, 'c) broker_state_scheme, stored_effect option) handler)
      (\<lambda>_ ys. ys = []) (\<lambda>e ys. ys = [] \<and> e \<in> set unresolved_outcomes)"
    by (rule a_catch [OF a_conseq [OF a_silent [OF dbH_same_trace]]])
      (auto intro: a_raise simp: unresolved_outcomes_def)
  show ?thesis
    unfolding reconcile_def
  proof (rule a_bind [OF look])
    fix found :: "stored_effect option" and ys :: "effect_event list"
    assume [simp]: "ys = []"
    show "appends ((case found of
       Some z \<Rightarrow> (if se_state z \<in> set terminal_states
          then rejectH (case se_outcome z of None \<Rightarrow> True | Some o' \<Rightarrow> neq (PDict o') (PDict out))
                 EffectConfigurationError ''durable outcome acknowledgement conflicts with stored terminal result''
                 (liftH (stored_to_execution z True))
          else revert_and_raise (b_executor B) r g x active e)
     | None \<Rightarrow> revert_and_raise (b_executor B) r g x active e)
        :: (('d, 'c) broker_state_scheme, broker_execution) handler)
      (\<lambda>_ zs. ys @ zs = []) (\<lambda>e zs. abandoned r g e (xs @ ys @ zs))"
    proof (cases found)
      case (Some z)
      have "appends (liftH (stored_to_execution z True) :: (('d, 'c) broker_state_scheme, broker_execution) handler)
          (\<lambda>_ ys. ys = []) (\<lambda>e ys. abandoned r g e (xs @ ys))"
        by (rule a_lift) (simp_all add: unresolved stored_to_execution_error)
      moreover have "appends (raiseH EffectConfigurationError
          ''durable outcome acknowledgement conflicts with stored terminal result''
          :: (('d, 'c) broker_state_scheme, broker_execution) handler)
          (\<lambda>_ ys. ys = []) (\<lambda>e ys. abandoned r g e (xs @ ys))"
        by (rule a_raise) (simp add: unresolved unresolved_outcomes_def)
      ultimately show ?thesis
        unfolding Some option.case using undo by (simp add: rejectH_if a_if)
    qed (use undo in simp)
  qed (simp add: unresolved)
qed

lemma complete_durable_appends:
  fixes B :: "('d, 'p) broker_scheme" and D :: "'d durable_store"
  assumes "called r g (status, x, active) xs"
  shows "appends (complete_durable B D a r p as g rid ref prep status x active
      :: (('d, 'c) broker_state_scheme, broker_execution) handler)
    (\<lambda>_ ys. ys = []) (\<lambda>e ys. abandoned r g e (xs @ ys))"
proof -
  have kept: "keeps same_trace (bindH (liftH (outcome_payload (p_env B) g out)) (\<lambda>body.
      dbH (ds_complete D a rid (se_version prep) out ref body st (se_attempt prep) (se_generation prep)))
      :: (('d, 'c) broker_state_scheme, stored_effect) handler)" for out st
    using keepsD [OF dbH_same_trace]
    by (auto simp: keeps_def bindH_def liftH_def same_trace_def split: sum.splits prod.splits)
  show ?thesis
    unfolding complete_durable_def
  proof (rule a_bind [OF outcome_appends [OF assms]])
    fix out and ys :: "effect_event list"
    assume "ys = [] \<and> (\<exists>s t :: ('d, 'c) broker_state_scheme.
      build_outcome B a r p as g (se_intent_evidence prep) status x s = (Inr out, t))"
    then have [simp]: "ys = []" by simp
    let ?st = "if status = ''succeeded'' then S ''completed'' else S ''indeterminate''"
    show "appends (bindH (attemptH (bindH (liftH (outcome_payload (p_env B) g out)) (\<lambda>body.
              dbH (ds_complete D a rid (se_version prep) out ref body ?st (se_attempt prep) (se_generation prep)))))
        (\<lambda>fin. case fin of Inr c \<Rightarrow> liftH (stored_to_execution c False)
         | Inl e \<Rightarrow> reconcile B D a rid r g x active out e)
        :: (('d, 'c) broker_state_scheme, broker_execution) handler)
      (\<lambda>_ zs. ys @ zs = []) (\<lambda>e zs. abandoned r g e (xs @ ys @ zs))"
    proof (rule a_bind [where R = "\<lambda>_ zs. zs = []" and F = "\<lambda>_ _. False"])
      show "appends (attemptH (bindH (liftH (outcome_payload (p_env B) g out)) (\<lambda>body.
          dbH (ds_complete D a rid (se_version prep) out ref body ?st (se_attempt prep) (se_generation prep))))
          :: (('d, 'c) broker_state_scheme, stored_effect res) handler) (\<lambda>_ zs. zs = []) (\<lambda>_ _. False)"
        by (rule a_conseq [OF a_attempt [OF a_silent [OF kept]]]) (auto split: sum.splits)
    next
      fix fin :: "stored_effect res" and zs :: "effect_event list"
      assume [simp]: "zs = []"
      show "appends ((case fin of Inr c \<Rightarrow> liftH (stored_to_execution c False)
          | Inl e \<Rightarrow> reconcile B D a rid r g x active out e)
          :: (('d, 'c) broker_state_scheme, broker_execution) handler)
        (\<lambda>_ us. ys @ zs @ us = []) (\<lambda>e us. abandoned r g e (xs @ ys @ zs @ us))"
        using reconcile_appends [OF assms]
        by (cases fin) (auto intro!: a_lift simp: unresolved_abandoned [OF assms] stored_to_execution_error)
    qed simp
  qed (simp add: abandoned_def)
qed

text \<open>A durable dispatch returns a replay without a call, or after one call that stands or was reverted.\<close>

definition stored :: "dict \<Rightarrow> dict \<Rightarrow> broker_execution \<Rightarrow> effect_event list \<Rightarrow> bool" where
  "stored r g y ys \<longleftrightarrow> be_replayed y \<and> ys = [] \<or> (\<exists>v. called r g v ys)"

lemma invoke_with_heartbeat_appends:
  fixes B :: "('d, 'p) broker_scheme" and D :: "'d durable_store"
  shows "appends (invoke_with_heartbeat B D a r g prep
      :: (('d, 'c) broker_state_scheme, string \<times> dict \<times> bool) handler)
    (called r g) (\<lambda>e ys. ys = [] \<or> abandoned r g e ys)"
proof -
  have kept: "keeps same_trace (bindH (ext (\<lambda>n. Inr (b_heartbeats B n))) (heartbeat m)
      :: (('d, 'c) broker_state_scheme, unit) handler)" for m :: "('d, stored_effect) handler"
  proof (rule keepsI)
    fix s t :: "('d, 'c) broker_state_scheme" and q
    assume "bindH (ext (\<lambda>n. Inr (b_heartbeats B n))) (heartbeat m) s = (q, t)"
    then have "heartbeat m (b_heartbeats B (tick s)) (s\<lparr> tick := Suc (tick s) \<rparr>) = (q, t)"
      by (simp add: bindH_def ext_def)
    then show "same_trace s t" using keepsD [OF heartbeat_same_trace] by (fastforce simp: same_trace_def)
  qed
  show ?thesis
    unfolding invoke_with_heartbeat_def
    by (intro ab_lift ab_silent [OF kept] a_conseq [OF invoke_executor_appends]) (simp_all add: abandoned_def)
qed

lemma dispatch_durable_appends:
  fixes B :: "('d, 'p) broker_scheme" and D :: "'d durable_store"
  shows "appends (dispatch_durable B D a r p as g
      :: (('d, 'c) broker_state_scheme, broker_execution) handler)
    (stored r g) (\<lambda>e ys. ys = [] \<or> abandoned r g e ys)"
proof -
  have call: "appends (bindH (invoke_with_heartbeat B D a r g prep) (\<lambda>(status, result, active).
        complete_durable B D a r p as g rid ref prep status result active)
        :: (('d, 'c) broker_state_scheme, broker_execution) handler)
      (stored r g) (\<lambda>e ys. ys = [] \<or> abandoned r g e ys)" for prep rid ref
  proof (rule a_bind [OF invoke_with_heartbeat_appends], assumption)
    fix v xs assume v: "called r g v xs"
    obtain status x active where [simp]: "v = (status, x, active)" by (cases v)
    show "appends (case v of (status, result, active) \<Rightarrow>
          complete_durable B D a r p as g rid ref prep status result active)
        (\<lambda>y ys. stored r g y (xs @ ys)) (\<lambda>e ys. xs @ ys = [] \<or> abandoned r g e (xs @ ys))"
      using v by (auto intro!: a_conseq [OF complete_durable_appends] simp: stored_def)
  qed
  have old: "appends (liftH (stored_to_execution x True) :: (('d, 'c) broker_state_scheme, broker_execution) handler)
      (stored r g) (\<lambda>e ys. ys = [] \<or> abandoned r g e ys)" for x
    by (rule a_lift) (simp_all add: stored_def stored_to_execution_replayed)
  have live: "appends (liftH (Inl e) :: (('d, 'c) broker_state_scheme, broker_execution) handler)
      (stored r g) (\<lambda>e ys. ys = [] \<or> abandoned r g e ys)" for e
    by (rule a_lift) simp_all
  have existing: "appends (liftH (existing_execution E a r p as g x)
      :: (('d, 'c) broker_state_scheme, broker_execution) handler)
      (stored r g) (\<lambda>e ys. ys = [] \<or> abandoned r g e ys)" for E x
    by (rule a_lift) (auto simp: existing_execution_def bindE_Inr_iff reject_if_Inr_iff stored_def
        stored_to_execution_replayed split: if_splits)
  show ?thesis
    unfolding dispatch_durable_def
  proof (intro ab_lift ab_silent [OF dbH_same_trace])
    fix rid and found :: "stored_effect option"
    show "appends ((case found of
        Some x \<Rightarrow> liftH (existing_execution (p_env B) a r p as g x)
      | None \<Rightarrow>
        bindH (validate_authority B a r p as g) (\<lambda>_.
        bindH (liftH (capabilities_validate (b_executor B) r g)) (\<lambda>_.
        bindH (liftH (effect_ref ''policy_decision'' p ''decision_id'' ''decision_digest'')) (\<lambda>ref.
        bindH (liftH (intent_payload (p_env B) r g)) (\<lambda>body.
        bindH (dbH (ds_prepare D a r p as g ref body)) (\<lambda>prep.
        if \<not> se_created prep
        then (if se_state prep \<in> set terminal_states then liftH (stored_to_execution prep True)
              else liftH (Inl live_preparation))
        else
          bindH (dbH (ds_renew_lease D a rid (se_attempt prep) (se_generation prep))) (\<lambda>prep.
          bindH (invoke_with_heartbeat B D a r g prep) (\<lambda>(status, result, active).
          complete_durable B D a r p as g rid ref prep status result active))))))))
        :: (('d, 'c) broker_state_scheme, broker_execution) handler)
      (stored r g) (\<lambda>e ys. ys = [] \<or> abandoned r g e ys)"
    proof (cases found)
      case None
      show ?thesis
        unfolding None option.case
        by (intro ab_silent [OF tick_same_trace [OF keeps_authority]] ab_lift ab_silent [OF dbH_same_trace] a_if
            old live call) simp_all
    qed (simp add: existing)
  qed simp_all
qed

section \<open>Dispatch\<close>

lemma dispatch_appends:
  fixes B :: "('d, 'p) broker_scheme" and s :: "('d, 'c) broker_state_scheme"
  assumes "dispatch B a r p as g s = (res, t)"
  shows "\<exists>ys. trace t = trace s @ ys \<and> (case res of
      Inl e \<Rightarrow> ys = [] \<or> (if b_durable B = None then undone r g e ys else abandoned r g e ys)
    | Inr y \<Rightarrow> if b_durable B = None then reported r g y ys else stored r g y ys)"
  using assms [unfolded dispatch_def]
proof (cases rule: bindH_lift_cases)
  case (ok v)
  note v = parse_dispatch_same [OF ok(1)]
  show ?thesis
  proof (cases "b_durable B")
    case None
    then have "dispatch_memory B a r p as g s = (res, t)" using ok(2) v by simp
    from appendsD [OF dispatch_memory_appends this] show ?thesis
      using None by (auto simp: compensated_def split: sum.splits)
  next
    case (Some D)
    then have "dispatch_durable B D a r p as g s = (res, t)" using ok(2) v by simp
    from appendsD [OF dispatch_durable_appends this] show ?thesis
      using Some by (auto split: sum.splits)
  qed
qed simp

end
