(* ===== verification/Example_Kernel.thy ===== *)
theory Example_Kernel
  imports Examples Kernel_Invariants
begin

text \<open>
  A kernel in the demonstration environment: one policy rule, a clock that advances one
  millisecond per call, an issuer that adds a proof, and an executor that succeeds.
\<close>

definition demo_tenant :: string where
  "demo_tenant = ''01890000-0000-7000-8000-000000000001''"

definition run_actor :: dict where
  "run_actor =
    [(S ''schema_version'', PS ''1.0''), (S ''record_type'', PS ''actor_context''),
     (S ''tenant_id'', PS demo_tenant), (S ''actor_id'', PS ''a1''),
     (S ''auth'', PDict [(S ''verified_at'', PS ''2026-01-01T00:00:00.000Z'')]),
     (S ''scope_authority'', PDict [(S ''allowed_levels'', PList [PS ''actor''])]),
     (S ''issued_at'', PS ''2026-01-01T00:00:00.000Z''),
     (S ''expires_at'', PS ''2026-01-01T01:00:00.000Z'')]"

definition digest_of :: "dict \<Rightarrow> pyval" where
  "digest_of d = (case sha256_digest demo_hash (PDict d) of Inr v \<Rightarrow> v | Inl e \<Rightarrow> PNone)"

definition run_request :: dict where
  "run_request = stamped
    [(S ''schema_version'', PS ''1.0''), (S ''record_type'', PS ''tool_request''),
     (S ''tenant_id'', PS demo_tenant), (S ''actor_id'', PS ''a1''), (S ''run_id'', PS ''r1''),
     (S ''request_id'', PS ''q1''), (S ''tool_id'', PS ''tool''), (S ''tool_version'', PS ''1''),
     (S ''actor_context_digest'', digest_of run_actor),
     (S ''effect_classes'', PList [PS ''read'']),
     (S ''requested_at'', PS ''2026-01-01T00:10:00.000Z''),
     (S ''idempotency'', PDict
       [(S ''tenant_id'', PS demo_tenant), (S ''idempotency_key'', PS ''request-key-0001''),
        (S ''operation_digest'', digest_of [])])]"

definition demo_policy :: policy_set where
  "demo_policy = \<lparr> policy_rules = [\<lparr> rule_id = S ''rule.read'', rule_decision = S ''authorize'',
      rule_effect_classes = [PS ''read''], rule_tool_ids = [], rule_isolation_profile = S ''process'',
      rule_constraints = [] \<rparr>], policy_version = S ''policy.v1'' \<rparr>"

definition demo_proof :: pyval where
  "demo_proof = PDict
    [(S ''proof_domain'', PS ''authorization_grant.v1''), (S ''issuer'', PS ''issuer''),
     (S ''key_id'', PS ''key''), (S ''algorithm'', PS ''ed25519''), (S ''nonce'', PS ''n''),
     (S ''object_digest'', PNone), (S ''detached_proof'', PS ''sig'')]"

definition demo_trust :: "instant \<Rightarrow> trust_context" where
  "demo_trust now = \<lparr> tc_now = Aware now,
     tc_trusted_keys = [\<lparr> tk_issuer = S ''issuer'', tk_key_id = S ''key'', tk_algorithms = [S ''ed25519''],
        tk_valid_from = Aware 0, tk_valid_until = None, tk_revoked_at = None \<rparr>],
     tc_allowed_algorithms = [S ''ed25519''],
     tc_allowed_proof_domains = [S ''authorization_grant.v1''], tc_expected_issuers = [S ''issuer''],
     tc_allowed_domain_issuers = [(S ''authorization_grant.v1'', S ''issuer'')],
     tc_trust_policy_version = S ''1'', tc_clock_skew = 0,
     tc_historical_acceptances = [], tc_retroactive_invalidations = [] \<rparr>"

text \<open>The injected callables, as constants, so that a run evaluates them only when called.\<close>

definition demo_execute :: "nat \<Rightarrow> dict \<Rightarrow> dict \<Rightarrow> pyval res" where
  "demo_execute n r g = Inr (PDict [(S ''ok'', PBool True)])"

definition demo_revert :: "nat \<Rightarrow> dict \<Rightarrow> dict \<Rightarrow> dict \<Rightarrow> unit res" where
  "demo_revert n r g x = Inr ()"

definition demo_clock :: "nat \<Rightarrow> pytime res" where
  "demo_clock n = Inr (Aware (63902823300000000 + 1000 * int n))"

definition demo_ids :: "nat \<Rightarrow> pystr res" where
  "demo_ids n = Inr (S ''id'' @ digits10 n)"

definition demo_identity :: "nat \<Rightarrow> dict \<Rightarrow> pyval res" where
  "demo_identity n d = Inr (PBool True)"

definition demo_accept :: verifier where
  "demo_accept p = Inr (PBool True)"

definition demo_verifier :: "nat \<Rightarrow> verifier" where
  "demo_verifier n = demo_accept"

definition demo_trust_at :: "nat \<Rightarrow> instant \<Rightarrow> trust_context option res" where
  "demo_trust_at n now = Inr (Some (demo_trust now))"

definition demo_issuer :: "nat \<Rightarrow> dict \<Rightarrow> dict res" where
  "demo_issuer n body = Inr (stamped (body @ [(S ''proof'', demo_proof)]))"

definition demo_nonce :: "nat \<Rightarrow> pyval res" where
  "demo_nonce n = Inr (PS ''nonce-0123456789abcdefgh'')"

definition no_heartbeat :: "nat \<Rightarrow> nat" where
  "no_heartbeat n = 0"

definition demo_executor :: executor where
  "demo_executor = \<lparr> x_effect_classes = [PS ''read''], x_isolation_profiles = [PS ''process''],
     x_constraints = \<lparr> supported = [] \<rparr>, x_execute = demo_execute, x_revert = demo_revert \<rparr>"

definition demo_kernel :: "unit kernel" where
  "demo_kernel = \<lparr> p_env = demo_env, p_clock = demo_clock, p_ids = demo_ids,
     k_policy = demo_policy, k_identity = demo_identity, k_approval_verifier = demo_verifier,
     k_approval_trust = demo_trust_at, k_issuer = Some demo_issuer,
     k_grant_verifier = Some demo_verifier, k_grant_trust = Some demo_trust_at,
     k_executor = Some demo_executor, k_registry = \<lparr> supported = [] \<rparr>, k_nonce = demo_nonce,
     k_durable = None, k_own_ledger = True, k_heartbeats = no_heartbeat \<rparr>"

definition demo_submitted :: "lifecycle res \<times> unit kernel_state" where
  "demo_submitted = submit demo_kernel run_actor run_request (initial_kernel ())"

definition demo_executed :: "lifecycle res \<times> unit kernel_state" where
  "demo_executed = execute_effect demo_kernel run_actor (PS ''q1'') (snd demo_submitted)"

text \<open>The state after the run is reachable, whatever the calls return.\<close>

lemma submit_step: "kernel_step K s (snd (submit K a r s))"
  by (cases "submit K a r s") (simp add: submit_call)

lemma execute_step: "kernel_step K s (snd (execute_effect K a rid s))"
  by (cases "execute_effect K a rid s") (simp add: execute_call)

lemma demo_submitted_reachable: "reachable demo_kernel () (snd demo_submitted)"
  unfolding demo_submitted_def by (rule reachable.step [OF reachable.start submit_step])

lemma demo_execute_step: "kernel_step demo_kernel (snd demo_submitted) (snd demo_executed)"
  unfolding demo_executed_def by (rule execute_step)

lemma demo_reachable: "reachable demo_kernel () (snd demo_executed)"
  by (rule reachable.step [OF demo_submitted_reachable demo_execute_step])

lemma demo_memory: "k_durable demo_kernel = None"
  by (simp add: demo_kernel_def)

end
