(* ===== verification/Example_Run.thy ===== *)
theory Example_Run
  imports Example_Kernel
begin

text \<open>
  The demonstration run, step by step: each pure step of the kernel is evaluated on its
  concrete arguments, and the handlers are followed through these results. It ends in a
  state in which the executor was called, so the properties of executions are not vacuous.
\<close>

lemmas run_simps = bindH_def liftH_def returnH_def raiseH_def getH_def modifyH_def rejectH_def ext_def

lemma demo_kernel_fields:
  "p_env demo_kernel = demo_env" "p_clock demo_kernel = demo_clock" "p_ids demo_kernel = demo_ids"
  "k_policy demo_kernel = demo_policy" "k_identity demo_kernel = demo_identity"
  "k_issuer demo_kernel = Some demo_issuer" "k_grant_verifier demo_kernel = Some demo_verifier"
  "k_grant_trust demo_kernel = Some demo_trust_at" "k_executor demo_kernel = Some demo_executor"
  "k_registry demo_kernel = \<lparr> supported = [] \<rparr>" "k_nonce demo_kernel = demo_nonce"
  "k_durable demo_kernel = None"
  by (simp_all add: demo_kernel_def)

section \<open>Submission\<close>

lemma run_request_text [code]: "run_request = [
  (S ''schema_version'', PS ''1.0''), (S ''record_type'', PS ''tool_request''),
  (S ''tenant_id'', PS ''01890000-0000-7000-8000-000000000001''), (S ''actor_id'', PS ''a1''),
  (S ''run_id'', PS ''r1''), (S ''request_id'', PS ''q1''), (S ''tool_id'', PS ''tool''),
  (S ''tool_version'', PS ''1''),
  (S ''actor_context_digest'', PS ''sha256:0707070707070707070707070707070707070707070707070707070707070729''),
  (S ''effect_classes'', PList [PS ''read'']), (S ''requested_at'', PS ''2026-01-01T00:10:00.000Z''),
  (S ''idempotency'', PDict [(S ''tenant_id'', PS ''01890000-0000-7000-8000-000000000001''),
     (S ''idempotency_key'', PS ''request-key-0001''),
     (S ''operation_digest'', PS ''sha256:0707070707070707070707070707070707070707070707070707070707070702'')]),
  (S ''request_digest'', PS ''sha256:0707070707070707070707070707070707070707070707070707070707070726'')]"
  by code_simp

lemma run_actor_model: "contract_model demo_env (store demo_env) (S ''actor_context'') PNone True run_actor = Inr run_actor"
  by code_simp

lemma run_request_model:
  "contract_model demo_env (store demo_env) (S ''tool_request'') (PS demo_tenant) True run_request = Inr run_request"
  by code_simp

lemma run_items:
  "ditem run_actor ''tenant_id'' = Inr (PS demo_tenant)" "ditem run_actor ''actor_id'' = Inr (PS ''a1'')"
  "ditem run_request ''tenant_id'' = Inr (PS demo_tenant)" "ditem run_request ''run_id'' = Inr (PS ''r1'')"
  "ditem run_request ''request_id'' = Inr (PS ''q1'')" "ditem run_request ''actor_id'' = Inr (PS ''a1'')"
  by code_simp+

lemma run_identity:
  "contract_time run_actor ''issued_at'' = Inr 63902822400000000"
  "contract_time run_actor ''expires_at'' = Inr 63902826000000000"
  "contract_time run_request ''requested_at'' = Inr 63902823000000000"
  "identity_scope demo_env run_actor run_request = Inr ()"
  by code_simp+

definition demo_time :: "nat \<Rightarrow> instant" where
  "demo_time n = 63902823300000000 + 1000 * int n"

lemma demo_clock_time: "demo_clock n = Inr (Aware (demo_time n))"
  by (simp add: demo_clock_def demo_time_def)

lemma run_validate_identity:
  assumes "tick s < 1000"
  shows "validate_identity demo_kernel run_actor run_request s =
    (Inr (demo_time (tick s + 2)), s\<lparr> tick := tick s + 3 \<rparr>)"
  using assms
  by (simp add: validate_identity_def validate_actor_def kernel_clock_def run_simps demo_kernel_fields
      demo_clock_def demo_identity_def run_identity identity_window_def seqE_def deny_def demo_time_def)

definition run_binding :: dict where
  "run_binding = [(S ''tenant_id'', PS demo_tenant), (S ''idempotency_key'', PS ''request-key-0001''),
     (S ''operation_digest'', PS ''sha256:0707070707070707070707070707070707070707070707070707070707070702'')]"

definition run_key :: "pyval \<times> pyval" where
  "run_key = (PS demo_tenant, PS ''q1'')"

definition run_bkey :: "pyval \<times> pyval" where
  "run_bkey = (PS demo_tenant, PS ''request-key-0001'')"

lemma run_keys: "request_keys run_request = Inr (run_key, run_bkey, run_binding)"
  by code_simp

lemma run_gate: "submit_gate (initial_kernel ()\<lparr> tick := n \<rparr>) run_request run_binding run_key run_bkey = Inr None"
proof -
  have "compare_idempotency_bindings None run_binding = Inr NEW" by code_simp
  then show ?thesis by (simp add: submit_gate_def initial_kernel_def reject_if_def)
qed

definition run_decision :: dict where
  "run_decision = (case fst (decide demo_kernel run_request (demo_time 2) (\<lparr> tick = 3 \<rparr>)) of
     Inr (d, l) \<Rightarrow> d | Inl e \<Rightarrow> [])"

lemma run_decision_text [code]: "run_decision = [
  (S ''schema_version'', PS ''1.0''), (S ''record_type'', PS ''policy_decision''),
  (S ''tenant_id'', PS ''01890000-0000-7000-8000-000000000001''), (S ''decision_id'', PS ''id3''),
  (S ''request_id'', PS ''q1''),
  (S ''request_digest'', PS ''sha256:0707070707070707070707070707070707070707070707070707070707070726''),
  (S ''decision'', PS ''authorize''), (S ''rule_refs'', PList [PS ''rule.read'']),
  (S ''constraints'', PList []), (S ''isolation_profile'', PS ''process''),
  (S ''decided_at'', PS ''2026-01-01T00:15:00.002Z''),
  (S ''decision_digest'', PS ''sha256:0707070707070707070707070707070707070707070707070707070707070774'')]"
  by code_simp

lemma run_decide:
  assumes "tick s = 3"
  shows "decide demo_kernel run_request (demo_time 2) s = (Inr (run_decision, POLICY_AUTHORIZED), s\<lparr> tick := 4 \<rparr>)"
proof -
  have rule: "evaluate demo_policy run_request = Inr (hd (policy_rules demo_policy))" by code_simp
  have "fst (decide demo_kernel run_request (demo_time 2) \<lparr> tick = 3 \<rparr>) = Inr (run_decision, POLICY_AUTHORIZED)"
    by code_simp
  then show ?thesis
    using assms by (simp add: decide_def new_id_def run_simps demo_kernel_fields rule demo_ids_def)
qed

section \<open>Events\<close>

definition dg :: "string \<Rightarrow> pyval" where
  "dg x = PS (''sha256:07070707070707070707070707070707070707070707070707070707070707'' @ x)"

text \<open>What appending an event to the ledger does, given the pure results.\<close>

lemma run_build:
  fixes s :: "'z world_scheme"
  assumes "(if es = [] then Inr False
          else bindE (ditem (last es) ''recorded_at'') (text_before (utc_millis_text (demo_time (tick s))))) = Inr False"
    and "sha256_digest demo_hash (PDict body) = Inr bd"
    and "draft = evidence_draft (PS demo_tenant) (PS ''r1'') kind (PStr (S ''id'' @ digits10 (Suc (tick s))))
           (utc_millis_text (demo_time (tick s))) (length es) bd body"
    and "sha256_digest demo_hash (PDict draft) = Inr dd" "prior_digest es = Inr prior"
    and "apply_object_digest demo_env (evidence_envelope (PS demo_tenant)
           (PStr (S ''id'' @ digits10 (Suc (Suc (tick s))))) draft dd
           (utc_millis_text (demo_time (tick s))) (length es) bd prior ref) = Inr e"
    and "contract_model demo_env (store demo_env) (S ''evidence_envelope'') (PS demo_tenant) True e = Inr e"
  shows "build_envelope demo_kernel (PS demo_tenant) (PS ''r1'') kind ref body es s = (Inr e, s\<lparr> tick := tick s + 3 \<rparr>)"
proof -
  have hash: "hash demo_env = demo_hash" by (simp add: demo_env_def)
  show ?thesis
    using assms unfolding build_envelope_def Let_def hash demo_kernel_fields new_id_def
    by (simp add: run_simps demo_clock_time demo_ids_def utc_millis_def)
qed

lemma run_append:
  fixes s :: "'z ledger_state_scheme"
  assumes "events_of s (PS demo_tenant) = es"
    and "build_envelope demo_kernel (PS demo_tenant) (PS ''r1'') kind ref body es (put_events (PS demo_tenant) es s)
      = (Inr e, (put_events (PS demo_tenant) es s)\<lparr> tick := tick s + 3 \<rparr>)"
  shows "\<exists>t. ledger_append demo_kernel (PS demo_tenant) (PS ''r1'') kind ref body s = (Inr e, t) \<and>
    ledger_step (PS demo_tenant) s [e] t \<and> tick t = tick s + 3"
proof -
  let ?l = "ledger_append demo_kernel (PS demo_tenant) (PS ''r1'') kind ref body s"
  have same: "events_of (put_events (PS demo_tenant) es s) (PS demo_tenant) = es"
    by (simp add: put_events_def events_of_def update_conv')
  have "fst ?l = Inr e \<and> tick (snd ?l) = tick s + 3"
    by (simp add: ledger_append_def run_simps assms same) (simp add: put_events_def)
  then obtain t where t: "?l = (Inr e, t)" "tick t = tick s + 3" by (cases ?l) auto
  moreover have "ledger_step (PS demo_tenant) s [e] t"
    using t(1) by (rule ledger_append_cases) auto
  ultimately show ?thesis by blast
qed

definition run_ref :: dict where
  "run_ref = [(S ''record_type'', PS ''policy_decision''), (S ''record_id'', PS ''id3''),
    (S ''record_digest'', dg ''74'')]"

lemma run_ref: "effect_ref ''policy_decision'' run_decision ''decision_id'' ''decision_digest'' = Inr run_ref"
  by code_simp

definition submission_body :: dict where
  "submission_body = [(S ''actor_id'', PS ''a1''), (S ''request_digest'', dg ''26''),
    (S ''policy_decision_digest'', dg ''74''), (S ''next_state'', PS ''policy_authorized'')]"

lemma submission_body: "submission_payload run_request run_decision POLICY_AUTHORIZED = Inr submission_body"
  by code_simp

definition submission_draft :: dict where
  "submission_draft = evidence_draft (PS demo_tenant) (PS ''r1'') ''kernel.policy_decided'' (PS ''id5'')
     (S ''2026-01-01T00:15:00.004Z'') 0 (dg ''f0'') submission_body"

definition submission_envelope :: dict where
  "submission_envelope = evidence_envelope (PS demo_tenant) (PS ''id6'') submission_draft (dg ''e6'')
     (S ''2026-01-01T00:15:00.004Z'') 0 (dg ''f0'') PNone run_ref"

definition submission_event :: dict where
  "submission_event = submission_envelope @ [(S ''event_digest'', dg ''43'')]"

lemma submission_digests:
  "sha256_digest demo_hash (PDict submission_body) = Inr (dg ''f0'')"
  "sha256_digest demo_hash (PDict submission_draft) = Inr (dg ''e6'')"
  by code_simp+

lemma submission_event_stamped: "apply_object_digest demo_env submission_envelope = Inr submission_event"
  by code_simp

lemma submission_event_model:
  "contract_model demo_env (store demo_env) (S ''evidence_envelope'') (PS demo_tenant) True submission_event
     = Inr submission_event"
  by code_simp

lemma run_texts:
  "utc_millis_text (demo_time 4) = S ''2026-01-01T00:15:00.004Z''"
  "S ''id'' @ digits10 5 = S ''id5''" "S ''id'' @ digits10 6 = S ''id6''"
  by code_simp+

lemma submission_append:
  fixes s :: "'z ledger_state_scheme"
  assumes "events_of s (PS demo_tenant) = []" "tick s = 4"
  shows "\<exists>t. ledger_append demo_kernel (PS demo_tenant) (PS ''r1'') ''kernel.policy_decided'' run_ref submission_body s
      = (Inr submission_event, t) \<and> ledger_step (PS demo_tenant) s [submission_event] t \<and> tick t = tick s + 3"
proof (rule run_append [OF assms(1)])
  let ?s = "put_events (PS demo_tenant) [] s"
  have "tick ?s = 4" by (simp add: put_events_def assms(2))
  then show "build_envelope demo_kernel (PS demo_tenant) (PS ''r1'') ''kernel.policy_decided'' run_ref submission_body []
      ?s = (Inr submission_event, ?s\<lparr> tick := tick s + 3 \<rparr>)"
    using assms(2) submission_event_stamped
    by (subst run_build [OF _ submission_digests(1) _ submission_digests(2) _ _ submission_event_model])
      (simp_all add: submission_envelope_def submission_draft_def run_texts prior_digest_def)
qed

definition run_record :: lifecycle where
  "run_record = \<lparr> lr_request = run_request, lr_policy = run_decision, lr_state = POLICY_AUTHORIZED,
     lr_evidence = [submission_event], lr_approval = None, lr_grant = None, lr_outcome = None \<rparr>"

lemma run_digest: "ditem run_request ''request_digest'' = Inr (dg ''26'')"
  by code_simp

lemma run_submit:
  "\<exists>t. submit demo_kernel run_actor run_request (initial_kernel ()) = (Inr run_record, t) \<and>
     tick t = 7 \<and> events_of t (PS demo_tenant) = [submission_event] \<and>
     records t = [(run_key, run_record)] \<and> consumed_grants t = [] \<and> results t = [] \<and> trace t = []"
proof -
  let ?s = "initial_kernel ()\<lparr> tick := 4 \<rparr>"
  have "events_of ?s (PS demo_tenant) = []" "tick ?s = 4" by (simp_all add: initial_kernel_def events_of_def)
  from submission_append [OF this] obtain u where
    u: "ledger_append demo_kernel (PS demo_tenant) (PS ''r1'') ''kernel.policy_decided'' run_ref submission_body ?s
        = (Inr submission_event, u)"
      "ledger_step (PS demo_tenant) ?s [submission_event] u" "tick u = 7" by auto
  have id: "validate_identity demo_kernel run_actor run_request (initial_kernel ()) =
      (Inr (demo_time 2), initial_kernel ()\<lparr> tick := 3 \<rparr>)"
    using run_validate_identity [of "initial_kernel ()"] by (simp add: initial_kernel_def numeral_2_eq_2 numeral_3_eq_3)
  have dec: "decide demo_kernel run_request (demo_time 2) (initial_kernel ()\<lparr> tick := 3 \<rparr>)
      = (Inr (run_decision, POLICY_AUTHORIZED), ?s)"
    using run_decide [of "initial_kernel ()\<lparr> tick := 3 \<rparr>"] by simp
  let ?t = "u\<lparr> idempotency := AList.update run_bkey (run_binding, PS ''q1'', dg ''26'') (idempotency u),
      records := AList.update run_key run_record (records u) \<rparr>"
  have "submit demo_kernel run_actor run_request (initial_kernel ()) = (Inr run_record, ?t)"
    unfolding submit_def commit_submission_def record_submission_def put_record_def
    by (simp add: run_simps demo_kernel_fields run_actor_model run_request_model run_items id run_keys run_gate
        dec run_ref submission_body u(1) run_record_def run_digest)
  moreover obtain n b where "u = ?s\<lparr> tick := n, by_tenant := b \<rparr>"
    using u(2) unfolding ledger_step_def by blast
  then have "records u = []" "consumed_grants u = []" "results u = []" "trace u = []"
    by (simp_all add: initial_kernel_def)
  moreover have "events_of u (PS demo_tenant) = [submission_event]"
    using u(2) by (simp add: ledger_step_def) (simp add: initial_kernel_def events_of_def)
  ultimately show ?thesis using u(3) by (intro exI [of _ ?t]) (simp add: events_of_def)
qed

end
