(* ===== verification/Example_Effect.thy ===== *)
theory Example_Effect
  imports Example_Run
begin

text \<open>
  The second half of the demonstration run: the grant, the intent and the executor's call.
\<close>

section \<open>The grant\<close>

definition grant_body :: dict where
  "grant_body = [(S ''schema_version'', PS ''1.0''), (S ''record_type'', PS ''authorization_grant''),
   (S ''tenant_id'', PS demo_tenant), (S ''grant_id'', PS ''id14''), (S ''actor_id'', PS ''a1''),
   (S ''run_id'', PS ''r1''), (S ''request_id'', PS ''q1''), (S ''request_digest'', dg ''26''),
   (S ''tool_id'', PS ''tool''), (S ''tool_version'', PS ''1''), (S ''policy_decision_id'', PS ''id3''),
   (S ''policy_decision_digest'', dg ''74''), (S ''approval_refs'', PList []),
   (S ''constraints'', PList []), (S ''isolation_profile'', PS ''process''),
   (S ''issued_at'', PS ''2026-01-01T00:15:00.012Z''), (S ''expires_at'', PS ''2026-01-01T00:20:00.012Z''),
   (S ''grant_nonce'', PS ''nonce-0123456789abcdefgh''), (S ''idempotency'', PDict run_binding)]"

definition run_grant :: dict where
  "run_grant = grant_body @ [(S ''proof'', PDict
     [(S ''proof_domain'', PS ''authorization_grant.v1''), (S ''issuer'', PS ''issuer''),
      (S ''key_id'', PS ''key''), (S ''algorithm'', PS ''ed25519''), (S ''nonce'', PS ''n''),
      (S ''object_digest'', dg ''2d''), (S ''detached_proof'', PS ''sig'')])]"

lemma run_grant_body:
  "unsigned_grant (PS ''id14'') run_record (demo_time 12) (demo_time 12 + GRANT_TTL)
     (PS ''nonce-0123456789abcdefgh'') = Inr grant_body"
  "grant_expiry run_actor run_record (demo_time 12) = Inr (demo_time 12 + GRANT_TTL)"
  "grant_state_checks run_record = Inr ()"
  "nonce_ok (PS ''nonce-0123456789abcdefgh'')"
  by code_simp+

lemma run_grant_issued: "demo_issuer n grant_body = Inr run_grant"
proof -
  have "stamped (grant_body @ [(S ''proof'', demo_proof)]) = run_grant" by code_simp
  then show ?thesis by (simp add: demo_issuer_def)
qed

lemma run_grant_model:
  "contract_model demo_env (store demo_env) (S ''authorization_grant'') (PS demo_tenant) True run_grant = Inr run_grant"
  by code_simp

lemma run_grant_unsigned: "\<not> neq (PDict (unsigned_body run_grant)) (PDict grant_body)"
  by code_simp

text \<open>The grant is bound to its request and its proof is accepted, at any time of its window.\<close>

definition run_proof :: dict where
  "run_proof = [(S ''proof_domain'', PS ''authorization_grant.v1''), (S ''issuer'', PS ''issuer''),
      (S ''key_id'', PS ''key''), (S ''algorithm'', PS ''ed25519''), (S ''nonce'', PS ''n''),
      (S ''object_digest'', dg ''2d''), (S ''detached_proof'', PS ''sig'')]"

definition run_snapshot :: accepted_trust_snapshot where
  "run_snapshot = (case accepted_trust_of (PDict run_proof) (demo_trust 0) (hd (tc_trusted_keys (demo_trust 0))) of
     Inr x \<Rightarrow> x | Inl e \<Rightarrow> undefined)"

lemma run_proof_facts:
  "ditem run_grant ''proof'' = Inr (PDict run_proof)" "ditem run_grant ''tenant_id'' = Inr (PS demo_tenant)"
  "time_item run_grant ''issued_at'' = Inr (demo_time 12)"
  "time_item run_grant ''expires_at'' = Inr (demo_time 12 + GRANT_TTL)"
  "rt_of run_grant = PS ''authorization_grant''"
  "proof_domain_for (PS ''authorization_grant'') = Some (S ''authorization_grant.v1'')"
  "ditem run_proof ''proof_domain'' = Inr (PS ''authorization_grant.v1'')"
  "in_names (PS ''authorization_grant'') (map fst SIGNED_PROOF_DOMAINS) = Inr True"
  "sha256_digest demo_hash (PDict run_grant) = Inr (dg ''13'')"
  "isl (accepted_trust_snapshot_digest demo_env run_snapshot) = False"
  by code_simp+

lemma run_accepted:
  "first_acceptance (PDict run_proof) (S ''authorization_grant.v1'') (demo_time 12) (demo_time 12)
     (demo_time 12 + GRANT_TTL) (demo_trust (demo_time 12)) = Inr run_snapshot"
  "first_acceptance (PDict run_proof) (S ''authorization_grant.v1'') (demo_time 21) (demo_time 12)
     (demo_time 12 + GRANT_TTL) (demo_trust (demo_time 21)) = Inr run_snapshot"
  by code_simp+

lemma run_verified: "call_verifier demo_accept run_grant (PDict run_proof) = Inr ()"
  by code_simp

lemma run_grant_checks:
  "grant_checks \<lparr> supported = [] \<rparr> run_grant run_request run_decision = Inr ()"
  "constraint_bindings run_grant = Inr []" "constraint_bindings run_decision = Inr []"
  "dget run_decision ''decision'' = PS ''authorize''" "get_elems run_grant ''approval_refs'' = Inr []"
  by code_simp+

lemma demo_trust_fields:
  "tc_now (demo_trust now) = Aware now" "tc_retroactive_invalidations (demo_trust now) = []"
  "tc_historical_acceptances (demo_trust now) = []"
  by (simp_all add: demo_trust_def)

lemma run_signed:
  assumes "first_acceptance (PDict run_proof) (S ''authorization_grant.v1'') now (demo_time 12)
     (demo_time 12 + GRANT_TTL) (demo_trust now) = Inr run_snapshot"
  shows "isl (verify_signed_record demo_env demo_accept (demo_trust now) (PS demo_tenant) False (PDict run_grant)) = False"
proof -
  obtain x where x: "accepted_trust_snapshot_digest demo_env run_snapshot = Inr x"
    using run_proof_facts(10) by (cases "accepted_trust_snapshot_digest demo_env run_snapshot") auto
  have "validate_record_in demo_env (store demo_env) (PS demo_tenant) True (PDict run_grant) = Inr ()"
    using run_grant_model by (auto simp: contract_model_def bindE_Inr_iff reject_if_Inr_iff)
  moreover have "hash demo_env = demo_hash" by (simp add: demo_env_def)
  ultimately show ?thesis
    unfolding verify_signed_record_def verify_signed_record_in_def
    by (simp add: run_proof_facts run_verified assms x enforce_retroactive_invalidation_def
        demo_trust_fields denyE_def notE_def deny_def)
qed

lemma run_grant_bound:
  assumes "first_acceptance (PDict run_proof) (S ''authorization_grant.v1'') now (demo_time 12)
     (demo_time 12 + GRANT_TTL) (demo_trust now) = Inr run_snapshot"
  shows "validate_grant_binding demo_env demo_accept (demo_trust now) \<lparr> supported = [] \<rparr> (PDict run_grant)
     (PDict run_request) (PDict run_decision) [] = Inr ()"
proof -
  obtain h where "verify_signed_record demo_env demo_accept (demo_trust now) (PS demo_tenant) False (PDict run_grant) = Inr h"
    using run_signed [OF assms]
    by (cases "verify_signed_record demo_env demo_accept (demo_trust now) (PS demo_tenant) False (PDict run_grant)") auto
  then show ?thesis
    unfolding validate_grant_binding_def
    by (simp add: run_grant_checks run_proof_facts covers_bindings_def deny_def)
qed

end
