(* ===== verification/Example_Dispatch.thy ===== *)
theory Example_Dispatch
  imports Example_Effect
begin

text \<open>
  The end of the demonstration run: the events of the grant and of the intent, the checks of
  the broker, and the state in which the executor was called.
\<close>

section \<open>Events\<close>

definition run_gkey :: "pyval \<times> pyval \<times> pyval" where
  "run_gkey = (PS demo_tenant, PS ''id14'', dg ''13'')"

definition grant_event_body :: dict where
  "grant_event_body = [(S ''actor_id'', PS ''a1''), (S ''request_digest'', dg ''26''),
    (S ''policy_decision_digest'', dg ''74''), (S ''authorization_grant_digest'', dg ''13''),
    (S ''expires_at'', PS ''2026-01-01T00:20:00.012Z''), (S ''next_state'', PS ''grant_issued'')]"

definition grant_draft :: dict where
  "grant_draft = evidence_draft (PS demo_tenant) (PS ''r1'') ''kernel.authorization_grant_issued''
     (PS ''id19'') (S ''2026-01-01T00:15:00.018Z'') 1 (dg ''7a'') grant_event_body"

definition grant_envelope :: dict where
  "grant_envelope = evidence_envelope (PS demo_tenant) (PS ''id20'') grant_draft (dg ''89'')
     (S ''2026-01-01T00:15:00.018Z'') 1 (dg ''7a'') (dg ''43'') run_ref"

definition grant_event :: dict where
  "grant_event = grant_envelope @ [(S ''event_digest'', dg ''2c'')]"

definition intent_body :: dict where
  "intent_body = [(S ''actor_id'', PS ''a1''), (S ''request_digest'', dg ''26''),
    (S ''policy_decision_digest'', dg ''74''), (S ''authorization_grant_digest'', dg ''13''),
    (S ''effect_classes'', PList [PS ''read'']), (S ''isolation_profile'', PS ''process'')]"

definition intent_draft :: dict where
  "intent_draft = evidence_draft (PS demo_tenant) (PS ''r1'') ''kernel.effect_execution_intent''
     (PS ''id25'') (S ''2026-01-01T00:15:00.024Z'') 2 (dg ''6e'') intent_body"

definition intent_envelope :: dict where
  "intent_envelope = evidence_envelope (PS demo_tenant) (PS ''id26'') intent_draft (dg ''77'')
     (S ''2026-01-01T00:15:00.024Z'') 2 (dg ''6e'') (dg ''2c'') run_ref"

definition run_intent :: dict where
  "run_intent = intent_envelope @ [(S ''event_digest'', dg ''1a'')]"

lemma run_hash: "hash demo_env = demo_hash"
  by (simp add: demo_env_def)

lemma run_record_fields:
  "lr_request run_record = run_request" "lr_policy run_record = run_decision" "lr_state run_record = POLICY_AUTHORIZED"
  "lr_approval run_record = None" "lr_grant run_record = None"
  by (simp_all add: run_record_def)

lemma payload_items:
  "ditem run_decision ''decision_digest'' = Inr (dg ''74'')"
  "ditem run_grant ''expires_at'' = Inr (PS ''2026-01-01T00:20:00.012Z'')"
  "ditem run_grant ''actor_id'' = Inr (PS ''a1'')" "ditem run_grant ''request_digest'' = Inr (dg ''26'')"
  "ditem run_grant ''policy_decision_digest'' = Inr (dg ''74'')"
  "ditem run_grant ''isolation_profile'' = Inr (PS ''process'')" "ditem run_grant ''grant_id'' = Inr (PS ''id14'')"
  "ditem run_grant ''run_id'' = Inr (PS ''r1'')"
  "ditem run_request ''effect_classes'' = Inr (PList [PS ''read''])"
  "mapping_item run_request ''idempotency'' = Inr run_binding"
  "ditem run_binding ''tenant_id'' = Inr (PS demo_tenant)"
  "ditem run_binding ''idempotency_key'' = Inr (PS ''request-key-0001'')"
  by code_simp+

lemma grant_event_body: "grant_payload demo_env run_record run_grant = Inr grant_event_body"
  by (simp add: grant_payload_def run_hash run_record_fields run_items run_digest payload_items run_proof_facts
      grant_event_body_def)

lemma grant_event_digests:
  "sha256_digest demo_hash (PDict grant_event_body) = Inr (dg ''7a'')"
  "sha256_digest demo_hash (PDict grant_draft) = Inr (dg ''89'')"
  by code_simp+

lemma grant_event_stamped: "apply_object_digest demo_env grant_envelope = Inr grant_event"
  by code_simp

lemma grant_event_model:
  "contract_model demo_env (store demo_env) (S ''evidence_envelope'') (PS demo_tenant) True grant_event = Inr grant_event"
  by code_simp

lemma intent_body: "intent_payload demo_env run_request run_grant = Inr intent_body"
  by (simp add: intent_payload_def run_hash payload_items run_proof_facts intent_body_def)

lemma intent_digests:
  "sha256_digest demo_hash (PDict intent_body) = Inr (dg ''6e'')"
  "sha256_digest demo_hash (PDict intent_draft) = Inr (dg ''77'')"
  by code_simp+

lemma intent_stamped: "apply_object_digest demo_env intent_envelope = Inr run_intent"
  by code_simp

lemma intent_model:
  "contract_model demo_env (store demo_env) (S ''evidence_envelope'') (PS demo_tenant) True run_intent = Inr run_intent"
  by code_simp

lemma event_texts:
  "utc_millis_text (demo_time 18) = S ''2026-01-01T00:15:00.018Z''"
  "utc_millis_text (demo_time 24) = S ''2026-01-01T00:15:00.024Z''"
  "S ''id'' @ digits10 14 = S ''id14''" "S ''id'' @ digits10 19 = S ''id19''" "S ''id'' @ digits10 20 = S ''id20''"
  "S ''id'' @ digits10 25 = S ''id25''" "S ''id'' @ digits10 26 = S ''id26''"
  "ditem submission_event ''recorded_at'' = Inr (PS ''2026-01-01T00:15:00.004Z'')"
  "ditem submission_event ''event_digest'' = Inr (dg ''43'')"
  "ditem grant_event ''recorded_at'' = Inr (PS ''2026-01-01T00:15:00.018Z'')"
  "ditem grant_event ''event_digest'' = Inr (dg ''2c'')"
  "text_before (S ''2026-01-01T00:15:00.018Z'') (PS ''2026-01-01T00:15:00.004Z'') = Inr False"
  "text_before (S ''2026-01-01T00:15:00.024Z'') (PS ''2026-01-01T00:15:00.018Z'') = Inr False"
  by code_simp+

lemma grant_append:
  fixes s :: "'z ledger_state_scheme"
  assumes "events_of s (PS demo_tenant) = [submission_event]" "tick s = 18"
  shows "\<exists>t. ledger_append demo_kernel (PS demo_tenant) (PS ''r1'') ''kernel.authorization_grant_issued'' run_ref
      grant_event_body s = (Inr grant_event, t) \<and> ledger_step (PS demo_tenant) s [grant_event] t \<and> tick t = tick s + 3"
proof (rule run_append [OF assms(1)])
  let ?s = "put_events (PS demo_tenant) [submission_event] s"
  have "tick ?s = 18" by (simp add: put_events_def assms(2))
  then show "build_envelope demo_kernel (PS demo_tenant) (PS ''r1'') ''kernel.authorization_grant_issued'' run_ref
      grant_event_body [submission_event] ?s = (Inr grant_event, ?s\<lparr> tick := tick s + 3 \<rparr>)"
    using assms(2) grant_event_stamped
    by (subst run_build [OF _ grant_event_digests(1) _ grant_event_digests(2) _ _ grant_event_model])
      (simp_all add: grant_envelope_def grant_draft_def event_texts prior_digest_def)
qed

lemma intent_append:
  fixes s :: "'z ledger_state_scheme"
  assumes "events_of s (PS demo_tenant) = [submission_event, grant_event]" "tick s = 24"
  shows "\<exists>t. ledger_append demo_kernel (PS demo_tenant) (PS ''r1'') ''kernel.effect_execution_intent'' run_ref
      intent_body s = (Inr run_intent, t) \<and> ledger_step (PS demo_tenant) s [run_intent] t \<and> tick t = tick s + 3"
proof (rule run_append [OF assms(1)])
  let ?s = "put_events (PS demo_tenant) [submission_event, grant_event] s"
  have "tick ?s = 24" by (simp add: put_events_def assms(2))
  then show "build_envelope demo_kernel (PS demo_tenant) (PS ''r1'') ''kernel.effect_execution_intent'' run_ref
      intent_body [submission_event, grant_event] ?s = (Inr run_intent, ?s\<lparr> tick := tick s + 3 \<rparr>)"
    using assms(2) intent_stamped
    by (subst run_build [OF _ intent_digests(1) _ intent_digests(2) _ _ intent_model])
      (simp_all add: intent_envelope_def intent_draft_def event_texts prior_digest_def numeral_2_eq_2)
qed

section \<open>The broker's checks\<close>

definition demo_broker :: "unit broker" where
  "demo_broker = \<lparr> p_env = demo_env, p_clock = demo_clock, p_ids = demo_ids, b_executor = demo_executor,
     b_registry = \<lparr> supported = [] \<rparr>, b_grant_verifier = demo_verifier, b_grant_trust = demo_trust_at,
     b_durable = None, b_heartbeats = no_heartbeat \<rparr>"

lemma run_broker: "broker_of demo_kernel = Some demo_broker"
  by (simp add: broker_of_def demo_kernel_def demo_broker_def ports.defs)

lemma run_capable:
  "check_capabilities demo_broker run_record = Inr ()"
  "capabilities_validate demo_executor run_request run_grant = Inr ()"
  by code_simp+

lemma run_decision_model:
  "contract_model demo_env (store demo_env) (S ''policy_decision'') (PS demo_tenant) True run_decision = Inr run_decision"
  by code_simp

lemma run_scope:
  "effect_scope_checks demo_env run_actor run_request run_grant = Inr ()"
  "effect_window_checks run_actor run_grant (demo_time 21) = Inr ()"
  by code_simp+

lemma run_bindings:
  "dispatch_bindings demo_env run_request run_decision run_grant = Inr (run_binding, run_bkey, run_gkey, run_ref)"
  by (simp add: dispatch_bindings_def grant_key_of_def run_hash payload_items run_proof_facts run_ref pair_key_def
      run_bkey_def run_gkey_def dg_def)

end
