(* ===== verification/Example_Execution.thy ===== *)
theory Example_Execution
  imports Example_Dispatch Compensation
begin

text \<open>
  The demonstration run put together: after submission, \<open>execute_effect\<close> issues the grant,
  records the intent and calls the executor.
\<close>

lemma run_sign:
  fixes s :: "'z world_scheme"
  assumes "tick s = 15"
  shows "sign_grant demo_kernel demo_issuer demo_verifier demo_trust_at run_record (demo_time 12) grant_body s
    = (Inr run_grant, s\<lparr> tick := 18 \<rparr>)"
  using assms run_grant_unsigned
  by (simp add: sign_grant_def run_simps run_grant_issued demo_kernel_fields run_record_fields run_items
      run_grant_model demo_trust_at_def current_trust_def reject_if_def demo_trust_fields demo_verifier_def
      approvals_of_def run_grant_bound [OF run_accepted(1)])

definition granted_run :: lifecycle where
  "granted_run = granted_record run_record run_grant grant_event"

lemma run_issue:
  fixes s :: "unit kernel_state"
  assumes "tick s = 10" "events_of s (PS demo_tenant) = [submission_event]"
  shows "\<exists>t. issue_grant_locked demo_kernel run_actor run_record s = (Inr granted_run, t) \<and> tick t = 21 \<and>
     events_of t (PS demo_tenant) = [submission_event, grant_event] \<and> consumed_grants t = consumed_grants s \<and>
     results t = results s \<and> trace t = trace s"
proof -
  have "events_of (s\<lparr> tick := 18 \<rparr>) (PS demo_tenant) = [submission_event]" "tick (s\<lparr> tick := 18 \<rparr>) = 18"
    using assms(2) by (simp_all add: events_of_def)
  from grant_append [OF this] obtain u where
    u: "ledger_append demo_kernel (PS demo_tenant) (PS ''r1'') ''kernel.authorization_grant_issued'' run_ref
        grant_event_body (s\<lparr> tick := 18 \<rparr>) = (Inr grant_event, u)"
      "ledger_step (PS demo_tenant) (s\<lparr> tick := 18 \<rparr>) [grant_event] u" "tick u = 21" by auto
  have id: "validate_identity demo_kernel run_actor run_request s = (Inr (demo_time 12), s\<lparr> tick := 13 \<rparr>)"
    using run_validate_identity [of s] assms(1) by simp
  let ?t = "u\<lparr> records := AList.update run_key granted_run (records u) \<rparr>"
  have "issue_grant_locked demo_kernel run_actor run_record s = (Inr granted_run, ?t)"
    unfolding issue_grant_locked_def locked_current_def commit_grant_def record_grant_def put_record_def new_id_def
    by (simp add: run_simps demo_kernel_fields run_record_fields state_is_def run_grant_body id demo_nonce_def
        demo_ids_def event_texts run_sign assms(1) run_ref run_items grant_event_body u(1) pair_key_def
        granted_run_def granted_record_def run_key_def)
  moreover obtain n b where "u = (s\<lparr> tick := 18 \<rparr>)\<lparr> tick := n, by_tenant := b \<rparr>"
    using u(2) unfolding ledger_step_def by blast
  then have "consumed_grants u = consumed_grants s" "results u = results s" "trace u = trace s" by simp_all
  moreover have "events_of u (PS demo_tenant) = [submission_event, grant_event]"
    using u(2) assms(2) by (simp add: ledger_step_def events_of_def)
  ultimately show ?thesis using u(3) by (intro exI [of _ ?t]) (simp add: events_of_def)
qed

lemma run_authority:
  fixes s :: "'z world_scheme"
  assumes "tick s = 21"
  shows "validate_authority demo_broker run_actor run_request run_decision [] run_grant s = (Inr (), s\<lparr> tick := 24 \<rparr>)"
  using assms
  by (simp add: validate_authority_def run_simps demo_broker_def run_scope demo_clock_time
      demo_trust_at_def current_trust_def reject_if_def demo_trust_fields demo_verifier_def
      run_grant_bound [OF run_accepted(2)])

lemma run_parse: "parse_dispatch demo_env run_actor run_request run_decision [] run_grant
    = Inr (run_actor, run_request, run_decision, [], run_grant)"
  by (simp add: parse_dispatch_def run_actor_model run_items run_request_model run_decision_model run_grant_model Let_def)

lemma run_fresh: "compare_idempotency_bindings None run_binding = Inr NEW"
  by code_simp

lemma demo_broker_fields:
  "p_env demo_broker = demo_env" "b_executor demo_broker = demo_executor" "b_durable demo_broker = None"
  by (simp_all add: demo_broker_def)

lemma run_dispatch:
  fixes s :: "unit kernel_state"
  assumes "tick s = 21" "events_of s (PS demo_tenant) = [submission_event, grant_event]"
    and "consumed_grants s = []" "results s = []"
  shows "(run_request, run_grant) \<in> set (executions (trace (snd
    (dispatch demo_broker run_actor run_request run_decision [] run_grant s))))"
proof -
  have "events_of (s\<lparr> tick := 24 \<rparr>) (PS demo_tenant) = [submission_event, grant_event]" "tick (s\<lparr> tick := 24 \<rparr>) = 24"
    using assms(2) by (simp_all add: events_of_def)
  from intent_append [OF this] obtain u where
    u: "ledger_append demo_kernel (PS demo_tenant) (PS ''r1'') ''kernel.effect_execution_intent'' run_ref
        intent_body (s\<lparr> tick := 24 \<rparr>) = (Inr run_intent, u)" by auto
  have same: "ledger_append demo_broker = (ledger_append demo_kernel ::
      pyval \<Rightarrow> pyval \<Rightarrow> string \<Rightarrow> dict \<Rightarrow> dict \<Rightarrow> (unit kernel_state, dict) handler)"
    unfolding ledger_append_def [abs_def] build_envelope_def [abs_def] new_id_def demo_broker_def demo_kernel_def
    by simp
  have gate: "replay_gate (s\<lparr> tick := 24 \<rparr>) run_request run_decision run_binding run_bkey run_gkey = Inr None"
    using run_fresh assms(3,4) by (simp add: replay_gate_def Let_def reject_if_def)
  have gk: "snd (snd run_gkey) = dg ''13''" by (simp add: run_gkey_def)
  let ?u = "u\<lparr> consumed_grants := consumed_grants u @ [run_gkey] \<rparr>"
  let ?f = "finish_effect demo_broker run_actor run_request run_decision [] run_grant run_binding run_bkey (dg ''13'')
      run_ref (PS demo_tenant) (PS ''r1'') run_intent ?u"
  have "dispatch demo_broker run_actor run_request run_decision [] run_grant s = ?f"
    unfolding dispatch_def dispatch_memory_def dispatch_effect_def
    by (simp add: run_simps demo_broker_fields run_parse run_authority [OF assms(1)] run_capable run_bindings gate
        run_proof_facts payload_items intent_body same u gk)
  moreover have "\<exists>ys. trace (snd ?f) = trace ?u @ Executed run_request run_grant # ys"
  proof (cases ?f)
    case (Pair q v)
    from appendsD [OF finish_effect_appends this] obtain ys where ys: "trace v = trace ?u @ ys"
      "case q of Inl e \<Rightarrow> undone run_request run_grant e ys | Inr y \<Rightarrow> recorded run_request run_grant y ys"
      by blast
    from ys(2) have "\<exists>zs. ys = Executed run_request run_grant # zs"
      by (cases q) (auto simp: called_def recorded_def undone_def split: if_splits)
    then show ?thesis using ys(1) Pair by auto
  qed
  ultimately show ?thesis by auto
qed

lemma demo_execution: "(run_request, run_grant) \<in> set (executions (trace (snd demo_executed)))"
proof -
  obtain t where t: "snd demo_submitted = t" "tick t = 7" "events_of t (PS demo_tenant) = [submission_event]"
      "records t = [(run_key, run_record)]" "consumed_grants t = []" "results t = []" "trace t = []"
    using run_submit by (auto simp: demo_submitted_def)
  have "tick (t\<lparr> tick := 10 \<rparr>) = 10" "events_of (t\<lparr> tick := 10 \<rparr>) (PS demo_tenant) = [submission_event]"
    using t(3) by (simp_all add: events_of_def)
  from run_issue [OF this] obtain u where
    u: "issue_grant_locked demo_kernel run_actor run_record (t\<lparr> tick := 10 \<rparr>) = (Inr granted_run, u)" "tick u = 21"
      "events_of u (PS demo_tenant) = [submission_event, grant_event]" "consumed_grants u = []" "results u = []"
    using t by auto
  have id: "validate_identity demo_kernel run_actor run_request t = (Inr (demo_time 9), t\<lparr> tick := 10 \<rparr>)"
    using run_validate_identity [of t] t(2) by simp
  have run: "execute_effect demo_kernel run_actor (PS ''q1'') t
      = run_effect demo_broker run_actor (PS demo_tenant, PS ''q1'') granted_run u"
    unfolding execute_effect_def effect_current_def find_record_def
    by (simp add: run_simps demo_kernel_fields run_actor_model run_items pair_key_def t(4) run_key_def [symmetric]
        actor_scoped_def run_record_fields id state_is_def terminal_lifecycle_def run_broker run_capable u(1))
  have g: "lr_grant granted_run = Some run_grant" "lr_state granted_run = GRANT_ISSUED"
      "lr_request granted_run = run_request" "lr_policy granted_run = run_decision" "approvals_of granted_run = []"
    unfolding granted_run_def granted_record_def by (simp_all add: run_record_fields approvals_of_def)
  obtain q v where d: "dispatch demo_broker run_actor run_request run_decision [] run_grant u = (q, v)"
    by (cases "dispatch demo_broker run_actor run_request run_decision [] run_grant u")
  then have "(run_request, run_grant) \<in> set (executions (trace v))"
    using run_dispatch [OF u(2-5)] by simp
  moreover have "trace (snd (run_effect demo_broker run_actor (PS demo_tenant, PS ''q1'') granted_run u)) = trace v"
    unfolding run_effect_def put_record_def
    by (simp add: run_simps g d split: sum.split)
  ultimately show ?thesis by (simp add: demo_executed_def t(1) run)
qed

end
