(* ===== verification/Kernel_Properties.thy ===== *)
theory Kernel_Properties
  imports State_Diagram Compensation Example_Execution
begin

text \<open>
  The properties of the kernel and its broker, for a kernel without a durable store: what
  the executor may be called on, how records move, what the evidence ledger holds, and what
  happens when a step fails. They follow from the invariants by the simulation of
  \<open>State_Diagram\<close>. The witnesses use the demonstration kernel of \<open>Example_Kernel\<close>.
\<close>

lemma demo_record: "map_of (records (snd demo_submitted)) run_key = Some run_record"
  using run_submit by (auto simp: demo_submitted_def)

lemma demo_run: "(kernel_step demo_kernel)\<^sup>*\<^sup>* (snd demo_submitted) (snd demo_executed)"
  using demo_execute_step by (rule r_into_rtranclp)

section \<open>Calls of the executor\<close>

lemma reachable_parts:
  assumes "reachable K d s" "k_durable K = None"
  shows "records_ok K s" "effects_ok K s" "table_ok s" "ledger_ok (p_env K) s"
  using reachable_ok [OF assms] by (simp_all add: kernel_ok_def)

definition idempotency_key_of :: "dict \<Rightarrow> pyval \<times> pyval" where
  "idempotency_key_of r = (dget r ''tenant_id'',
     case dget r ''idempotency'' of PDict b \<Rightarrow> dget b ''idempotency_key'' | _ \<Rightarrow> PNone)"

lemma same_idempotency_key:
  assumes "reachable K d s" "k_durable K = None"
    and "(r, g) \<in> set (executions (trace s))" "(r', g') \<in> set (executions (trace s))"
    and "idempotency_key_of r = idempotency_key_of r'"
  shows "request_key r = request_key r'"
proof -
  have key: "\<exists>b dg. dget q ''idempotency'' = PDict b \<and>
      map_of (idempotency s) (idempotency_key_of q) = Some (b, dget q ''request_id'', dg)"
    if "(q, h) \<in> set (executions (trace s))" for q h
  proof -
    have "accounted K s q h" using reachable_parts(2) [OF assms(1,2)] that by (auto simp: effects_ok_def)
    then obtain rec where "map_of (records s) (request_key q) = Some rec" "lr_request rec = q"
      unfolding accounted_def by blast
    then show ?thesis
      using table_record [OF reachable_parts(3) [OF assms(1,2)], of "request_key q" rec]
      by (auto simp: idempotency_key_of_def request_key_def)
  qed
  show ?thesis
    using key [OF assms(3)] key [OF assms(4)] assms(5) by (auto simp: request_key_def idempotency_key_of_def)
qed

text \<open>
  C2: the executor is called at most once per request and at most once per idempotency key,
  in every state the public operations can reach, whether they returned or raised.
\<close>

theorem executor_at_most_once:
  assumes "reachable K d s" "k_durable K = None"
  shows "distinct (map (request_key \<circ> fst) (executions (trace s))) \<and>
         distinct (map (idempotency_key_of \<circ> fst) (executions (trace s)))"
proof
  show 1: "distinct (map (request_key \<circ> fst) (executions (trace s)))"
    using reachable_parts(2) [OF assms] by (simp add: effects_ok_def)
  then have "inj_on (request_key \<circ> fst) (set (executions (trace s)))" by (simp add: distinct_map)
  then have "inj_on (idempotency_key_of \<circ> fst) (set (executions (trace s)))"
    using same_idempotency_key [OF assms] unfolding inj_on_def comp_def by (metis prod.collapse)
  then show "distinct (map (idempotency_key_of \<circ> fst) (executions (trace s)))"
    using 1 by (simp add: distinct_map)
qed

theorem executor_at_most_once_witness:
  "distinct (map (request_key \<circ> fst) (executions (trace (snd demo_executed)))) \<and>
   distinct (map (idempotency_key_of \<circ> fst) (executions (trace (snd demo_executed))))"
  by (rule executor_at_most_once [OF demo_reachable demo_memory])

text \<open>
  C1: no effect without authority. Whenever the executor was called on a request and a
  grant, the request is on record with that grant, the policy in force authorised it, or
  required an approval that was verified, approved and bound to it; the grant is consumed;
  the broker had checked scope, window, proof and capabilities; and the intent is in the
  ledger of the grant's tenant.
\<close>

theorem executor_authorised:
  assumes "reachable K d s" "k_durable K = None" "(r, g) \<in> set (executions (trace s))"
  shows "\<exists>rec rule gkey B actor.
    map_of (records s) (request_key r) = Some rec \<and> lr_request rec = r \<and> lr_grant rec = Some g \<and>
    evaluate (k_policy K) r = Inr rule \<and>
    (rule_decision rule = S ''authorize'' \<and> lr_approval rec = None \<or>
     rule_decision rule = S ''require_approval'' \<and> (\<exists>a. lr_approval rec = Some a \<and>
        approval_verified K (dget r ''tenant_id'') a \<and> dget a ''disposition'' = PS ''approved'' \<and>
        validate_approval_binding (PDict a) (PDict (lr_policy rec)) (PDict r) = Inr ())) \<and>
    grant_key_of (p_env K) g = Inr gkey \<and> gkey \<in> set (consumed_grants s) \<and>
    broker_of K = Some B \<and> authorised B actor r (lr_policy rec) (approvals_of rec) g \<and>
    (\<exists>e\<in>set (events_of s (dget g ''tenant_id'')). intent_event (p_env K) r g e)"
proof -
  have "accounted K s r g"
    using reachable_parts(2) [OF assms(1,2)] assms(3) by (auto simp: effects_ok_def)
  then obtain rec gkey B actor where a: "map_of (records s) (request_key r) = Some rec"
      "lr_request rec = r" "lr_grant rec = Some g" "grant_key_of (p_env K) g = Inr gkey"
      "gkey \<in> set (consumed_grants s)"
      "\<exists>e\<in>set (events_of s (dget g ''tenant_id'')). intent_event (p_env K) r g e"
      "broker_of K = Some B" "authorised B actor r (lr_policy rec) (approvals_of rec) g"
    unfolding accounted_def by blast
  have rec: "record_ok K rec" and key: "record_key rec = request_key r"
    using reachable_parts(1) [OF assms(1,2)] a(1) unfolding records_ok_def by blast+
  obtain rule where rule: "evaluate (k_policy K) r = Inr rule"
      "allowed (rule_decision rule) (lr_state rec) (lr_approval rec \<noteq> None)"
    using rec a(2) unfolding record_ok_def policy_ok_def by blast
  have "lr_state rec \<in> {GRANT_ISSUED, EFFECT_SUCCEEDED, EFFECT_INDETERMINATE}"
    using rec a(3) by (simp add: record_ok_def)
  then have "rule_decision rule = (if lr_approval rec \<noteq> None then S ''require_approval'' else S ''authorize'')"
    using rule(2) by auto
  moreover have "approval_ok K rec" using rec by (simp add: record_ok_def)
  ultimately have "rule_decision rule = S ''authorize'' \<and> lr_approval rec = None \<or>
     rule_decision rule = S ''require_approval'' \<and> (\<exists>a. lr_approval rec = Some a \<and>
        approval_verified K (dget r ''tenant_id'') a \<and> dget a ''disposition'' = PS ''approved'' \<and>
        validate_approval_binding (PDict a) (PDict (lr_policy rec)) (PDict r) = Inr ())"
    using a(2) key unfolding approval_ok_def by (auto simp: request_key_def)
  then show ?thesis using a rule(1) by blast
qed

theorem executor_authorised_witness:
  "\<exists>rec rule gkey B actor.
    map_of (records (snd demo_executed)) (request_key run_request) = Some rec \<and> lr_request rec = run_request \<and>
    lr_grant rec = Some run_grant \<and> evaluate (k_policy demo_kernel) run_request = Inr rule \<and>
    (rule_decision rule = S ''authorize'' \<and> lr_approval rec = None \<or>
     rule_decision rule = S ''require_approval'' \<and> (\<exists>a. lr_approval rec = Some a \<and>
        approval_verified demo_kernel (dget run_request ''tenant_id'') a \<and> dget a ''disposition'' = PS ''approved'' \<and>
        validate_approval_binding (PDict a) (PDict (lr_policy rec)) (PDict run_request) = Inr ())) \<and>
    grant_key_of (p_env demo_kernel) run_grant = Inr gkey \<and> gkey \<in> set (consumed_grants (snd demo_executed)) \<and>
    broker_of demo_kernel = Some B \<and> authorised B actor run_request (lr_policy rec) (approvals_of rec) run_grant \<and>
    (\<exists>e\<in>set (events_of (snd demo_executed) (dget run_grant ''tenant_id'')).
       intent_event (p_env demo_kernel) run_request run_grant e)"
  by (rule executor_authorised [OF demo_reachable demo_memory demo_execution])

section \<open>Records\<close>

text \<open>
  C3: what a record in the kernel's table says. It stands under its own tenant and request
  id; its request passed the contract checks and the identity checks; the policy in force
  decides its request the way its policy decision says; its state fits that decision, so a
  denied request stays denied and one that requires approval has a grant only with one; a
  grant it has was issued for it, and an approval it has was verified and bound to it.
\<close>

theorem records_governed:
  assumes "reachable K d s" "k_durable K = None" "map_of (records s) key = Some r"
  shows "key = request_key (lr_request r) \<and> request_valid K (lr_request r) \<and> identified K (lr_request r) \<and>
    (\<exists>rule. evaluate (k_policy K) (lr_request r) = Inr rule \<and>
       dget (lr_policy r) ''decision'' = PStr (rule_decision rule) \<and>
       allowed (rule_decision rule) (lr_state r) (lr_approval r \<noteq> None)) \<and>
    (lr_grant r \<noteq> None \<longleftrightarrow> lr_state r \<in> {GRANT_ISSUED, EFFECT_SUCCEEDED, EFFECT_INDETERMINATE}) \<and>
    (lr_outcome r \<noteq> None \<longleftrightarrow> lr_state r \<in> {EFFECT_SUCCEEDED, EFFECT_INDETERMINATE}) \<and>
    (\<forall>g. lr_grant r = Some g \<longrightarrow> grant_issued K r g) \<and> approval_ok K r"
proof -
  have "record_key r = key" "record_ok K r"
    using reachable_parts(1) [OF assms(1,2)] assms(3) unfolding records_ok_def by blast+
  then show ?thesis
    unfolding record_ok_def policy_ok_def by (simp add: record_key_request)
qed

theorem records_governed_witness:
  "run_key = request_key run_request \<and> request_valid demo_kernel run_request \<and> identified demo_kernel run_request \<and>
    (\<exists>rule. evaluate (k_policy demo_kernel) run_request = Inr rule \<and>
       dget run_decision ''decision'' = PStr (rule_decision rule) \<and>
       allowed (rule_decision rule) POLICY_AUTHORIZED False)"
  using records_governed [OF demo_submitted_reachable demo_memory demo_record] by (simp add: run_record_fields)

text \<open>
  C8: a record only moves forward along the edges of the state diagram: after any further
  calls it is still there with the same request and policy decision, its evidence extended,
  and an approval or grant it had is unchanged; a denied or finished record does not move.
\<close>

theorem records_advance:
  assumes "reachable K d s" "k_durable K = None" "(kernel_step K)\<^sup>*\<^sup>* s t"
    and "map_of (records s) key = Some r"
  shows "\<exists>r'. map_of (records t) key = Some r' \<and> advanced r r' \<and>
    (lr_state r \<in> {DENIED, EFFECT_SUCCEEDED, EFFECT_INDETERMINATE} \<longrightarrow> lr_state r' = lr_state r)"
proof -
  obtain r' where "map_of (records t) key = Some r'" "advanced r r'"
    using runs_advance [OF assms(3) reachable_memory [OF assms(1,2)]] assms(4) unfolding all_advance_def by blast
  then show ?thesis using path_final unfolding advanced_def by blast
qed

theorem records_advance_witness:
  "\<exists>r'. map_of (records (snd demo_executed)) run_key = Some r' \<and> advanced run_record r'"
  using records_advance [OF demo_submitted_reachable demo_memory demo_run demo_record] by blast

text \<open>
  C7: every public call, returning or raising, is a sequence of moves of the lifecycle
  machine, and the machine's invariant holds before and after it.
\<close>

theorem calls_refine_machine:
  assumes "reachable K d s" "k_durable K = None" "kernel_step K s t"
  shows "(machine K)\<^sup>*\<^sup>* s t \<and> kernel_ok K s \<and> kernel_ok K t"
  using kern.run_moves kern.run_inv reachable_memory [OF assms(1,2)] assms(3)
  unfolding memory_ok_def by blast

theorem calls_refine_machine_witness:
  "(machine demo_kernel)\<^sup>*\<^sup>* (snd demo_submitted) (snd demo_executed) \<and>
   kernel_ok demo_kernel (snd demo_submitted) \<and> kernel_ok demo_kernel (snd demo_executed)"
  by (rule calls_refine_machine [OF demo_submitted_reachable demo_memory demo_execute_step])

section \<open>Evidence\<close>

text \<open>
  C5: the evidence ledger of a reachable state is a chain per tenant: sequence numbers
  count from zero, every event names the digest of the one before, and every event is a
  valid evidence record.
\<close>

theorem ledger_chained:
  assumes "reachable K d s" "k_durable K = None"
  shows "\<forall>tenant. \<forall>i<length (events_of s tenant). event_ok (p_env K) tenant (events_of s tenant) i"
  using reachable_parts(4) [OF assms] by (simp add: ledger_ok_def chain_ok_def)

theorem ledger_chained_witness:
  "event_ok (p_env demo_kernel) (PS demo_tenant) [submission_event] 0"
proof -
  have "events_of (snd demo_submitted) (PS demo_tenant) = [submission_event]"
    using run_submit by (auto simp: demo_submitted_def)
  then show ?thesis
    using ledger_chained [OF demo_submitted_reachable demo_memory] by (metis One_nat_def length_Cons list.size(3) zero_less_one)
qed

text \<open>
  C6: no call takes anything back: events already in the ledger stay as a prefix, consumed
  grants and consumed approvals stay consumed, and no approval is ever consumed twice.
\<close>

theorem nothing_taken_back:
  assumes "reachable K d s" "k_durable K = None" "(kernel_step K)\<^sup>*\<^sup>* s t"
  shows "(\<forall>tenant. \<exists>new. events_of t tenant = events_of s tenant @ new) \<and>
    set (consumed_grants s) \<subseteq> set (consumed_grants t) \<and>
    set (consumed_approvals s) \<subseteq> set (consumed_approvals t) \<and> distinct (consumed_approvals t)"
proof -
  have "(kernel_step K)\<^sup>*\<^sup>* (initial_kernel d) t"
    using assms(1,3) unfolding reachable_runs by (rule rtranclp_trans)
  then have "approvals_kept (initial_kernel d) t"
    by (rule runs_approvals) (simp add: memory_ok_def assms(2) initial_ok)
  moreover have "approvals_kept s t" "grows s t"
    using runs_approvals runs_grow assms(3) reachable_memory [OF assms(1,2)] by blast+
  ultimately show ?thesis by (simp add: approvals_kept_def grows_def extends_def initial_kernel_def)
qed

theorem nothing_taken_back_witness:
  "(\<forall>tenant. \<exists>new. events_of (snd demo_executed) tenant = events_of (snd demo_submitted) tenant @ new) \<and>
    set (consumed_grants (snd demo_submitted)) \<subseteq> set (consumed_grants (snd demo_executed)) \<and>
    set (consumed_approvals (snd demo_submitted)) \<subseteq> set (consumed_approvals (snd demo_executed)) \<and>
    distinct (consumed_approvals (snd demo_executed))"
  by (rule nothing_taken_back [OF demo_submitted_reachable demo_memory demo_run])

section \<open>Effects and their compensation\<close>



section \<open>Grants\<close>

lemma body_field:
  assumes "py_eq (PDict kvs) (PDict d)" "map_of kvs k = Some v" "map_of d k = Some (PStr x)"
  shows "v = PStr x"
proof -
  have "(k, v) \<in> set kvs" using assms(2) by (rule map_of_SomeD)
  then show ?thesis using assms(1,3) unfolding py_eq_left by fastforce
qed

lemma foldl_min_le: "foldl min a xs \<le> (a :: int) \<and> (\<forall>x\<in>set xs. foldl min a xs \<le> x)"
proof (induction xs arbitrary: a)
  case (Cons x xs)
  then show ?case using min.cobounded1 min.cobounded2 order_trans by (metis foldl_Cons set_ConsD)
qed simp

lemma unsigned_body_time:
  assumes "time_item g k = Inr x" "k \<in> {''issued_at'', ''expires_at''}"
  shows "\<exists>v. map_of (unsigned_body g) (S k) = Some v \<and> dget g k = v"
proof -
  have "\<not> digest_field rt = Some k" for rt
    using assms(2) by (auto simp: digest_field_def SELF_DIGEST_FIELDS_def split: pyval.splits if_splits)
  moreover obtain v where "map_of g (S k) = Some v" using assms(1) by (auto simp: time_item_def bindE_Inr_iff ditem_Inr_iff)
  ultimately show ?thesis
    using assms(2) by (auto simp: unsigned_body_def Let_def dget_Some split: option.splits)
qed

lemma granted_times:
  assumes "grant_issued K r g"
  shows "\<exists>actor now limit nonce. grant_expiry actor r now = Inr limit \<and> nonce_ok nonce \<and>
    dget g ''issued_at'' = PStr (utc_millis_text now) \<and> dget g ''expires_at'' = PStr (utc_millis_text limit)"
proof -
  obtain actor now limit gid nonce body V n T where
    lim: "grant_expiry actor r now = Inr limit" "nonce_ok nonce" "unsigned_grant gid r now limit nonce = Inr body"
      "py_eq (PDict (unsigned_body g)) (PDict body)"
    and valid: "validate_grant_binding (p_env K) (V n) T (k_registry K) (PDict g) (PDict (lr_request r))
       (PDict (lr_policy r)) (map PDict (approvals_of r)) = Inr ()"
    using assms unfolding grant_issued_def by blast
  obtain i e where times: "time_item g ''issued_at'' = Inr i" "time_item g ''expires_at'' = Inr e"
    using grant_inv(2) [OF valid] unfolding verify_signed_record_def by (auto elim!: verify_inv)
  have "map_of body (S ''issued_at'') = Some (PStr (utc_millis_text now))"
      "map_of body (S ''expires_at'') = Some (PStr (utc_millis_text limit))"
    using lim(3) by (auto simp: unsigned_grant_def Let_def bindE_Inr_iff)
  then show ?thesis
    using lim unsigned_body_time [OF times(1)] unsigned_body_time [OF times(2)] body_field [OF lim(4)] by blast
qed

text \<open>
  C11: the window of every grant on record is positive, at most five minutes long, and ends
  no later than the approval it rests on.
\<close>

theorem grant_window:
  assumes "reachable K d s" "k_durable K = None" "map_of (records s) key = Some r" "lr_grant r = Some g"
  shows "\<exists>now limit. dget g ''issued_at'' = PStr (utc_millis_text now) \<and>
    dget g ''expires_at'' = PStr (utc_millis_text limit) \<and> now < limit \<and> limit \<le> now + GRANT_TTL \<and>
    (\<forall>a\<in>set (approvals_of r). \<exists>e. contract_time a ''expires_at'' = Inr e \<and> limit \<le> e)"
proof -
  have "record_ok K r" using reachable_parts(1) [OF assms(1,2)] assms(3) unfolding records_ok_def by blast
  then have "grant_issued K r g" using assms(4) by (simp add: record_ok_def)
  then obtain actor now limit where g: "grant_expiry actor r now = Inr limit"
      "dget g ''issued_at'' = PStr (utc_millis_text now)" "dget g ''expires_at'' = PStr (utc_millis_text limit)"
    using granted_times by blast
  obtain x limits where lim: "mapE (\<lambda>a. contract_time a ''expires_at'') (approvals_of r) = Inr limits"
      "limit = foldl min (min (now + GRANT_TTL) x) limits" "now < limit"
    using g(1) by (auto simp: grant_expiry_def bindE_Inr_iff reject_if_Inr_iff Let_def)
  have "\<exists>e. contract_time a ''expires_at'' = Inr e \<and> limit \<le> e" if a: "a \<in> set (approvals_of r)" for a
  proof -
    obtain e where "contract_time a ''expires_at'' = Inr e" "e \<in> set limits"
      using lim(1) a unfolding mapE_Inr_iff list_all2_conv_all_nth in_set_conv_nth by fastforce
    then show ?thesis using lim(2) foldl_min_le by blast
  qed
  moreover have "limit \<le> now + GRANT_TTL"
    using lim(2) foldl_min_le [of "min (now + GRANT_TTL) x" limits] by linarith
  ultimately show ?thesis using g lim(3) by blast
qed

lemma demo_granted: "\<exists>r. map_of (records (snd demo_executed)) run_key = Some r \<and> lr_grant r = Some run_grant"
proof -
  have "accounted demo_kernel (snd demo_executed) run_request run_grant"
    using reachable_parts(2) [OF demo_reachable demo_memory] demo_execution by (fastforce simp: effects_ok_def)
  moreover have "request_key run_request = run_key" by code_simp
  ultimately show ?thesis unfolding accounted_def by auto
qed

theorem grant_window_witness:
  "\<exists>now limit. dget run_grant ''issued_at'' = PStr (utc_millis_text now) \<and>
    dget run_grant ''expires_at'' = PStr (utc_millis_text limit) \<and> now < limit \<and> limit \<le> now + GRANT_TTL"
  using demo_granted grant_window [OF demo_reachable demo_memory] by blast

section \<open>Repeated submission\<close>

lemma mapping_item_found: "mapping_item d k = Inr b \<longleftrightarrow> map_of d (S k) = Some (PDict b)"
proof (cases "map_of d (S k)")
  case (Some v)
  then show ?thesis by (cases v) (simp_all add: mapping_item_def ditem_def)
qed (simp add: mapping_item_def ditem_def)

lemma request_keys_inv:
  assumes "request_keys q = Inr (key, bkey, binding)"
  shows "fst key = dget q ''tenant_id''" "bkey = idempotency_key_of q" "dget q ''idempotency'' = PDict binding"
  using assms by (auto simp: request_keys_def mapping_item_found pair_key_def bindE_Inr_iff ditem_Inr_iff dget_Some
      idempotency_key_of_def split: if_splits)

text \<open>A submission that returns has passed the gate.\<close>

lemma submit_gate_cases:
  assumes "submit K a q s = (Inr r, t)"
  shows "request_valid K q \<and> (\<exists>u key bkey binding found. only_tick s u \<and> request_keys q = Inr (key, bkey, binding) \<and>
    submit_gate u q binding key bkey = Inr found \<and> (found = Some r \<and> t = u \<or> found = None))"
proof -
  obtain a' x where a: "kernel_model K ''actor_context'' PNone a = Inr a'"
      "kernel_model K ''tool_request'' x q = Inr q"
      and rest: "bindH (validate_identity K a' q) (\<lambda>decision_time.
     bindH (liftH (request_keys q)) (\<lambda>(key, binding_key, binding).
     bindH (bindH (getH (\<lambda>s. submit_gate s q binding key binding_key)) liftH) (\<lambda>original.
     case original of
       Some r \<Rightarrow> returnH r
     | None \<Rightarrow>
         bindH (decide K q decision_time) (\<lambda>(decision, state).
         commit_submission K a' q key binding_key binding decision state)))) s = (Inr r, t)"
    using assms unfolding submit_def
    by (auto simp: bindH_Inr_iff [of "liftH _"] liftH_iff bindE_Inr_iff dest: contract_model_same)
  obtain now u where v: "validate_identity K a' q s = (Inr now, u)" and
    rest': "bindH (liftH (request_keys q)) (\<lambda>(key, binding_key, binding).
     bindH (bindH (getH (\<lambda>s. submit_gate s q binding key binding_key)) liftH) (\<lambda>original.
     case original of
       Some r \<Rightarrow> returnH r
     | None \<Rightarrow>
         bindH (decide K q now) (\<lambda>(decision, state).
         commit_submission K a' q key binding_key binding decision state))) u = (Inr r, t)"
    using rest by (auto simp: bindH_Inr_iff [of "validate_identity _ _ _"])
  obtain key bkey binding where k: "request_keys q = Inr (key, bkey, binding)"
    using rest' by (auto simp: bindH_Inr_iff [of "liftH _"] liftH_iff)
  obtain found where g: "submit_gate u q binding key bkey = Inr found"
    using rest' k by (auto simp: bindH_def liftH_def getH_def split: sum.splits)
  have "found = Some r \<and> t = u \<or> found = None"
    using rest' k g by (cases found) (auto simp: bindH_def liftH_def getH_def returnH_def)
  moreover have "only_tick s u" using keepsD [OF keeps_validate_identity v] .
  moreover have "request_valid K q" using a(2) unfolding request_valid_def by blast
  ultimately show ?thesis using k g by blast
qed

text \<open>
  C12: submitting again is harmless. If the idempotency key of a request is already in the
  table, a submission that returns gives a record of the table made from a request of the
  same tenant with the same digest and idempotency key, and nothing but the count of
  injected calls has changed.
\<close>

theorem submit_replays:
  assumes "reachable K d s" "k_durable K = None" "submit K a q s = (Inr r, t)"
    and "map_of (idempotency s) (idempotency_key_of q) \<noteq> None"
  shows "only_tick s t \<and> (\<exists>key. map_of (records s) key = Some r) \<and>
    py_eq (dget (lr_request r) ''request_digest'') (dget q ''request_digest'') \<and>
    idempotency_key_of (lr_request r) = idempotency_key_of q"
proof -
  obtain u key bkey binding found where u: "only_tick s u" "request_keys q = Inr (key, bkey, binding)"
      "submit_gate u q binding key bkey = Inr found" "found = Some r \<and> t = u \<or> found = None"
      and rv: "request_valid K q"
    using submit_gate_cases [OF assms(3)] by blast
  note keys = request_keys_inv [OF u(2)] and same = tick_state [OF u(1)]
  obtain b rid dg where e: "map_of (idempotency s) bkey = Some (b, rid, dg)"
    using assms(4) keys(2) by auto
  note tb = table_binding [OF reachable_parts(3) [OF assms(1,2)] e]
  have found: "found = Some r \<and> t = u"
  proof (rule ccontr)
    assume "\<not> ?thesis"
    then have "submit_gate u q binding key bkey = Inr None" using u(3,4) by auto
    from submit_gate_None(2) [OF this] have c: "compare_idempotency_bindings (Some b) binding = Inr NEW"
      using e same by simp
    then have "validate_idempotency_binding binding = Inr ()"
      by (auto simp: compare_idempotency_bindings_def bindE_Inr_iff)
    then have "dget binding ''tenant_id'' = dget q ''tenant_id''" by (rule binding_tenant [OF rv keys(3)])
    then show False
      using compare_same_key [OF c] tb(1) keys by (simp add: idempotency_key_of_def)
  qed
  have r: "map_of (records s) (fst key, rid) = Some r" and dg: "py_eq dg (dget q ''request_digest'')"
    using u(3) found e same by (auto simp: submit_gate_def Let_def bindE_Inr_iff reject_if_Inr_iff ditem_Inr_iff
        dget_Some neq_def split: if_splits option.splits)
  have k: "fst bkey = fst key" using keys by (simp add: idempotency_key_of_def)
  then have q: "dget (lr_request r) ''idempotency'' = PDict b" "dget (lr_request r) ''request_digest'' = dg"
    using tb(2) r by auto
  have "record_key r = (fst key, rid)"
    using reachable_parts(1) [OF assms(1,2)] r unfolding records_ok_def by blast
  then have "idempotency_key_of (lr_request r) = bkey"
    using q(1) tb(1) k by (auto simp: idempotency_key_of_def record_key_def)
  then show ?thesis using u(1) found r q(2) dg keys(2) by auto
qed

lemma demo_binding:
  "map_of (idempotency (snd demo_submitted)) (idempotency_key_of run_request) = Some (run_binding, PS ''q1'', dg ''26'')"
  "idempotency_key_of run_request = run_bkey"
proof -
  have r: "dget run_request ''idempotency'' = PDict run_binding" "dget run_request ''tenant_id'' = PS demo_tenant"
      "dget run_request ''request_digest'' = dg ''26''" "dget run_binding ''idempotency_key'' = PS ''request-key-0001''"
    by code_simp+
  show k: "idempotency_key_of run_request = run_bkey" by (simp add: idempotency_key_of_def r run_bkey_def)
  note T = reachable_parts(3) [OF demo_submitted_reachable demo_memory]
  obtain x where x: "map_of (idempotency (snd demo_submitted)) run_bkey = Some (run_binding, PS ''q1'', x)"
    using table_record [OF T demo_record] r by (auto simp: run_record_fields run_key_def run_bkey_def)
  moreover have "x = dg ''26''"
    using table_binding(2) [OF T x] demo_record r by (auto simp: run_key_def run_bkey_def run_record_fields)
  ultimately show "map_of (idempotency (snd demo_submitted)) (idempotency_key_of run_request) = Some (run_binding, PS ''q1'', dg ''26'')"
    by (simp add: k)
qed

lemma demo_resubmit:
  "\<exists>t. submit demo_kernel run_actor run_request (snd demo_submitted) = (Inr run_record, t)"
proof -
  have tick: "tick (snd demo_submitted) = 7" using run_submit by (auto simp: demo_submitted_def)
  have id: "validate_identity demo_kernel run_actor run_request (snd demo_submitted)
      = (Inr (demo_time 9), snd demo_submitted\<lparr> tick := 10 \<rparr>)"
    using run_validate_identity [of "snd demo_submitted"] tick by simp
  have cmp: "compare_idempotency_bindings (Some run_binding) run_binding = Inr REPLAY" by code_simp
  have rec: "map_of (records (snd demo_submitted)) (PS demo_tenant, PS ''q1'') = Some run_record"
    using demo_record by (simp add: run_key_def)
  have dg: "\<not> neq (dg ''26'') (dg ''26'')" by code_simp
  have gate: "submit_gate (snd demo_submitted\<lparr> tick := 10 \<rparr>) run_request run_binding run_key run_bkey = Inr (Some run_record)"
    using demo_binding by (simp add: submit_gate_def cmp run_digest dg reject_if_def rec run_key_def)
  show ?thesis
    unfolding submit_def
    by (simp add: run_simps demo_kernel_fields run_actor_model run_request_model run_items id run_keys gate)
qed

theorem submit_replays_witness:
  "\<exists>t. only_tick (snd demo_submitted) t \<and> (\<exists>key. map_of (records (snd demo_submitted)) key = Some run_record)"
  using demo_resubmit submit_replays [OF demo_submitted_reachable demo_memory, of run_actor run_request run_record] demo_binding(1)
  by (metis option.distinct(1))

end
