(* ===== verification/Example_Grant.thy ===== *)
theory Example_Grant
  imports Example_Run
begin

text \<open>
  A grant that rests on an approval: a policy decision that requires one, the signed approval,
  and a signed grant that references it by identifier and digest, all for the request of the
  demonstration run.
\<close>

definition ask_decision :: dict where
  "ask_decision =
    [(S ''schema_version'', PS ''1.0''), (S ''record_type'', PS ''policy_decision''),
     (S ''tenant_id'', PS demo_tenant), (S ''decision_id'', PS ''d7''),
     (S ''request_id'', PS ''q1''), (S ''request_digest'', dg ''26''),
     (S ''decision'', PS ''require_approval''), (S ''rule_refs'', PList [PS ''rule.ask'']),
     (S ''constraints'', PList []), (S ''isolation_profile'', PS ''process''),
     (S ''decided_at'', PS ''2026-01-01T00:15:00.002Z''), (S ''decision_digest'', dg ''79'')]"

definition ask_proof :: "string \<Rightarrow> string \<Rightarrow> dict" where
  "ask_proof proof_domain digest = [(S ''proof_domain'', PS proof_domain), (S ''issuer'', PS ''issuer''),
     (S ''key_id'', PS ''key''), (S ''algorithm'', PS ''ed25519''), (S ''nonce'', PS ''n''),
     (S ''object_digest'', dg digest), (S ''detached_proof'', PS ''sig'')]"

definition ask_approval :: dict where
  "ask_approval = [(S ''schema_version'', PS ''1.0''), (S ''record_type'', PS ''approval_record''),
     (S ''tenant_id'', PS demo_tenant), (S ''approval_id'', PS ''ap1''),
     (S ''request_id'', PS ''q1''), (S ''request_digest'', dg ''26''),
     (S ''policy_decision_id'', PS ''d7''), (S ''policy_decision_digest'', dg ''79''),
     (S ''disposition'', PS ''approved''),
     (S ''separation_of_duties'', PDict [(S ''required'', PBool True), (S ''satisfied'', PBool True)]),
     (S ''constraints'', PList []), (S ''issued_at'', PS ''2026-01-01T00:15:00.005Z''),
     (S ''expires_at'', PS ''2026-01-01T00:30:00.000Z''),
     (S ''proof'', PDict (ask_proof ''approval_record.v1'' ''1c'')), (S ''approval_digest'', dg ''1c'')]"

definition ask_ref :: pyval where
  "ask_ref = PDict [(S ''record_type'', PS ''approval_record''), (S ''record_id'', PS ''ap1''),
     (S ''record_digest'', dg ''1c'')]"

definition ask_grant :: dict where
  "ask_grant = [(S ''schema_version'', PS ''1.0''), (S ''record_type'', PS ''authorization_grant''),
   (S ''tenant_id'', PS demo_tenant), (S ''grant_id'', PS ''g7''), (S ''actor_id'', PS ''a1''),
   (S ''run_id'', PS ''r1''), (S ''request_id'', PS ''q1''), (S ''request_digest'', dg ''26''),
   (S ''tool_id'', PS ''tool''), (S ''tool_version'', PS ''1''), (S ''policy_decision_id'', PS ''d7''),
   (S ''policy_decision_digest'', dg ''79''), (S ''approval_refs'', PList [ask_ref]),
   (S ''constraints'', PList []), (S ''isolation_profile'', PS ''process''),
   (S ''issued_at'', PS ''2026-01-01T00:15:00.012Z''), (S ''expires_at'', PS ''2026-01-01T00:20:00.012Z''),
   (S ''grant_nonce'', PS ''nonce-0123456789abcdefgh''), (S ''idempotency'', PDict run_binding),
   (S ''proof'', PDict (ask_proof ''authorization_grant.v1'' ''b7''))]"

definition ask_trust :: trust_context where
  "ask_trust = (demo_trust (demo_time 12))\<lparr>
     tc_allowed_proof_domains := [S ''approval_record.v1'', S ''authorization_grant.v1''],
     tc_allowed_domain_issuers := [(S ''approval_record.v1'', S ''issuer''), (S ''authorization_grant.v1'', S ''issuer'')] \<rparr>"

section \<open>Both proofs are accepted\<close>

text \<open>The parts of a verification that are evaluated on their own.\<close>

lemma ask_valid:
  "validate_record_in demo_env (store demo_env) (PS demo_tenant) True (PDict ask_grant) = Inr ()"
  "validate_record_in demo_env (store demo_env) (PS demo_tenant) True (PDict ask_approval) = Inr ()"
  by code_simp+

lemma ask_verified:
  "call_verifier demo_accept ask_grant (PDict (ask_proof ''authorization_grant.v1'' ''b7'')) = Inr ()"
  "call_verifier demo_accept ask_approval (PDict (ask_proof ''approval_record.v1'' ''1c'')) = Inr ()"
  by code_simp+

definition ask_snapshot :: "string \<Rightarrow> string \<Rightarrow> accepted_trust_snapshot" where
  "ask_snapshot proof_domain digest =
     (case accepted_trust_of (PDict (ask_proof proof_domain digest)) ask_trust (hd (tc_trusted_keys ask_trust)) of
        Inr x \<Rightarrow> x | Inl e \<Rightarrow> undefined)"

lemma ask_accepted:
  "first_acceptance (PDict (ask_proof ''authorization_grant.v1'' ''b7'')) (S ''authorization_grant.v1'') (demo_time 12)
     (demo_time 12) (demo_time 12 + GRANT_TTL) ask_trust = Inr (ask_snapshot ''authorization_grant.v1'' ''b7'')"
  "first_acceptance (PDict (ask_proof ''approval_record.v1'' ''1c'')) (S ''approval_record.v1'') (demo_time 12)
     (demo_time 5) (demo_time 0 + 900000000) ask_trust = Inr (ask_snapshot ''approval_record.v1'' ''1c'')"
  "isl (accepted_trust_snapshot_digest demo_env (ask_snapshot ''authorization_grant.v1'' ''b7'')) = False"
  "isl (accepted_trust_snapshot_digest demo_env (ask_snapshot ''approval_record.v1'' ''1c'')) = False"
  by code_simp+

lemma ask_fields:
  "ditem ask_grant ''proof'' = Inr (PDict (ask_proof ''authorization_grant.v1'' ''b7''))"
  "ditem ask_approval ''proof'' = Inr (PDict (ask_proof ''approval_record.v1'' ''1c''))"
  "ditem ask_grant ''tenant_id'' = Inr (PS demo_tenant)"
  "rt_of ask_grant = PS ''authorization_grant''" "rt_of ask_approval = PS ''approval_record''"
  "proof_domain_for (PS ''authorization_grant'') = Some (S ''authorization_grant.v1'')"
  "proof_domain_for (PS ''approval_record'') = Some (S ''approval_record.v1'')"
  "ditem (ask_proof ''authorization_grant.v1'' ''b7'') ''proof_domain'' = Inr (PS ''authorization_grant.v1'')"
  "ditem (ask_proof ''approval_record.v1'' ''1c'') ''proof_domain'' = Inr (PS ''approval_record.v1'')"
  "in_names (PS ''authorization_grant'') (map fst SIGNED_PROOF_DOMAINS) = Inr True"
  "in_names (PS ''approval_record'') (map fst SIGNED_PROOF_DOMAINS) = Inr True"
  "isl (sha256_digest demo_hash (PDict ask_grant)) = False" "isl (sha256_digest demo_hash (PDict ask_approval)) = False"
  by code_simp+

lemma ask_times:
  "time_item ask_grant ''issued_at'' = Inr (demo_time 12)"
  "time_item ask_grant ''expires_at'' = Inr (demo_time 12 + GRANT_TTL)"
  "time_item ask_approval ''issued_at'' = Inr (demo_time 5)"
  "time_item ask_approval ''expires_at'' = Inr (demo_time 0 + 900000000)"
  by code_simp+

lemma ask_trust_fields:
  "tc_now ask_trust = Aware (demo_time 12)" "tc_retroactive_invalidations ask_trust = []"
  "tc_historical_acceptances ask_trust = []"
  by (simp_all add: ask_trust_def demo_trust_def)

lemma ask_signed:
  "\<exists>h. verify_signed_record demo_env demo_accept ask_trust (PS demo_tenant) False (PDict ask_grant) = Inr h"
  "\<exists>h. verify_signed_record demo_env demo_accept ask_trust (PS demo_tenant) False (PDict ask_approval) = Inr h"
proof -
  have h: "hash demo_env = demo_hash" by (simp add: demo_env_def)
  obtain x y where d: "sha256_digest demo_hash (PDict ask_grant) = Inr x" "sha256_digest demo_hash (PDict ask_approval) = Inr y"
    using ask_fields(12,13) by (auto simp: isl_def split: sum.splits) (metis obj_sumE)
  obtain u v where t: "accepted_trust_snapshot_digest demo_env (ask_snapshot ''authorization_grant.v1'' ''b7'') = Inr u"
      "accepted_trust_snapshot_digest demo_env (ask_snapshot ''approval_record.v1'' ''1c'') = Inr v"
    using ask_accepted(3,4) by (metis isl_def obj_sumE)
  show "\<exists>h. verify_signed_record demo_env demo_accept ask_trust (PS demo_tenant) False (PDict ask_grant) = Inr h"
    unfolding verify_signed_record_def verify_signed_record_in_def
    by (simp add: ask_fields(1-11) ask_times ask_valid ask_verified ask_accepted(1,2) d t h
        enforce_retroactive_invalidation_def ask_trust_fields denyE_def notE_def deny_def)
  show "\<exists>h. verify_signed_record demo_env demo_accept ask_trust (PS demo_tenant) False (PDict ask_approval) = Inr h"
    unfolding verify_signed_record_def verify_signed_record_in_def
    by (simp add: ask_fields(1-11) ask_times ask_valid ask_verified ask_accepted(1,2) d t h
        enforce_retroactive_invalidation_def ask_trust_fields denyE_def notE_def deny_def)
qed

section \<open>The grant is bound\<close>

lemma ask_grant_checks:
  "grant_checks \<lparr> supported = [] \<rparr> ask_grant run_request ask_decision = Inr ()"
  "constraint_bindings ask_grant = Inr []" "constraint_bindings ask_decision = Inr []"
  "constraint_bindings ask_approval = Inr []"
  "supply_approvals [PDict ask_approval] [] = Inr [(PS ''ap1'', ask_approval)]"
  "deny (dget ask_decision ''decision'' = PS ''require_approval'' \<and> \<not> truthy (dget ask_grant ''approval_refs''))
     SemanticError ''approval-required policy needs at least one bound approval'' = Inr ()"
  "get_elems ask_grant ''approval_refs'' = Inr [ask_ref]" "item ask_ref ''record_id'' = Inr (PS ''ap1'')"
  "find_approval [(PS ''ap1'', ask_approval)] (PS ''ap1'') = Inr (Some ask_approval)"
  by code_simp+

lemma ask_reference:
  "check_approval_ref demo_env demo_accept ask_trust \<lparr> supported = [] \<rparr> ask_grant run_request ask_decision []
     ask_ref ask_approval = Inr ()"
proof -
  have "validate_approval_binding (PDict ask_approval) (PDict ask_decision) (PDict run_request) = Inr ()"
    "validate_constraint_support ask_approval \<lparr> supported = [] \<rparr> = Inr ()"
    "item ask_ref ''record_digest'' = Inr (dg ''1c'')" "dget ask_approval ''approval_digest'' = dg ''1c''"
    "dget ask_approval ''disposition'' = PS ''approved''"
    "get_or (PDict ask_approval) ''separation_of_duties'' (PDict [])
      = Inr (PDict [(S ''required'', PBool True), (S ''satisfied'', PBool True)])"
    "get (PDict [(S ''required'', PBool True), (S ''satisfied'', PBool True)]) ''required'' = Inr (PBool True)"
    "get (PDict [(S ''required'', PBool True), (S ''satisfied'', PBool True)]) ''satisfied'' = Inr (PBool True)"
    "demo_time 12 \<le> demo_time 0 + 900000000" "demo_time 5 \<le> demo_time 12"
    "demo_time 12 + GRANT_TTL \<le> demo_time 0 + 900000000"
    by code_simp+
  moreover obtain h where "verify_signed_record demo_env demo_accept ask_trust (PS demo_tenant) False (PDict ask_approval) = Inr h"
    using ask_signed(2) by blast
  ultimately show ?thesis
    unfolding check_approval_ref_def seqE_Inr_iff
    by (simp add: ask_times ask_fields(3) ask_grant_checks(4) deny_def neq_def covers_bindings_def dg_def)
qed

lemma ask_grant_bound:
  "validate_grant_binding demo_env demo_accept ask_trust \<lparr> supported = [] \<rparr> (PDict ask_grant) (PDict run_request)
     (PDict ask_decision) [PDict ask_approval] = Inr ()"
proof -
  obtain h where "verify_signed_record demo_env demo_accept ask_trust (PS demo_tenant) False (PDict ask_grant) = Inr h"
    using ask_signed(1) by blast
  then show ?thesis
    unfolding validate_grant_binding_def
    by (simp add: ask_grant_checks ask_fields(3) ask_reference covers_bindings_def
        del: supply_approvals.simps)
qed

end
