(* ===== verification/Skill_Commands.thy ===== *)
theory Skill_Commands
  imports Grants
begin

text \<open>
  \<open>validate_skill_lifecycle_command\<close> of \<open>contracts/validation.py\<close>, in the stages of its
  body: the wire format and its digest, the authority records and their mutual bindings,
  the approvals and their proofs, the evidence, and the receipts of each operation. A
  command is validated with or without a time; proofs are only checked with one.
\<close>

section \<open>Small checks\<close>

definition SKILL_LIFECYCLE_OPERATIONS :: "pystr list" where
  "SKILL_LIFECYCLE_OPERATIONS = map S [''install'', ''activate'', ''rollback'', ''deactivate'', ''rebuild'']"

definition skill_lifecycle_operation_digest :: "env \<Rightarrow> dict \<Rightarrow> pyval res" where
  "skill_lifecycle_operation_digest E command = sha256_digest (hash E) (PDict command)"

definition validate_inert_skill_artifact :: "pyval \<Rightarrow> dict res" where
  "validate_inert_skill_artifact artifact = (case artifact of
     PDict a \<Rightarrow>
       reject_if (\<exists>k\<in>set [''archive'', ''protected_payload'', ''remote_uri'', ''entrypoint'']. dhas a k)
         SemanticError ''skill artifact must remain inert inline data''
         (bindE (canonical_bytes (PDict a)) (\<lambda>b.
            reject_if (length b > INERT_SKILL_ARTIFACT_CANONICAL_BYTE_LIMIT) SemanticError
              ''skill artifact exceeds the canonical inert-artifact size limit'' (Inr a)))
   | _ \<Rightarrow> Inl (Exc SemanticError ''skill artifact must be an inline JSON object''))"

text \<open>\<open>isinstance(v, int) and not v < 1\<close>, where a Boolean is an integer.\<close>

definition positive_int :: "pyval \<Rightarrow> bool" where
  "positive_int v = (case v of PInt i \<Rightarrow> 1 \<le> i | PBool b \<Rightarrow> b | _ \<Rightarrow> False)"

definition nonempty_str :: "pyval \<Rightarrow> bool" where
  "nonempty_str v = (case v of PStr s \<Rightarrow> s \<noteq> [] | _ \<Rightarrow> False)"

definition common_keys :: "string list" where
  "common_keys = [''operation'', ''operation_id'', ''operation_digest'', ''expected_revision'']"

definition lifecycle_keys :: "string list" where
  "lifecycle_keys = common_keys @ [''skill_proposal'', ''artifact'', ''gate_decision'',
     ''delivery_envelope'', ''policy_decision'', ''approvals'', ''source_evidence'', ''retention'',
     ''validity'', ''activation_receipt'', ''rollback_receipt'']"

section \<open>The wire command\<close>

text \<open>The operation and the expected digest of a command whose frame is canonical.\<close>

definition skill_frame :: "env \<Rightarrow> dict \<Rightarrow> dict \<Rightarrow> (pystr \<times> pyval) res" where
  "skill_frame E actor wire = (case dget wire ''operation'' of
     PStr operation \<Rightarrow>
       reject_if (operation \<notin> set SKILL_LIFECYCLE_OPERATIONS) SemanticError
         ''unknown skill lifecycle operation''
       (reject_if (dkeys wire \<noteq> set (map S (if operation = S ''rebuild''
            then ''skill_id'' # common_keys else lifecycle_keys))) SemanticError
         ''skill lifecycle command keys do not match the canonical wire contract''
       (reject_if (\<not> nonempty_str (dget wire ''operation_id'')) SemanticError
         ''skill lifecycle operation_id is required''
       (bindE (skill_lifecycle_operation_digest E (dpop wire ''operation_digest'')) (\<lambda>expected.
        bindE (case dget wire ''operation_digest'' of
                 PStr s \<Rightarrow> notE (compare_digest (PStr s) expected) | _ \<Rightarrow> Inr True) (\<lambda>bad.
        reject_if bad SemanticError ''skill lifecycle operation_digest does not bind the exact command''
       (reject_if (rt_of actor \<noteq> PS ''actor_context'') SemanticError
         ''skill lifecycle requires an actor context''
       (Inr (operation, expected))))))))
   | _ \<Rightarrow> Inl (Exc SemanticError ''unknown skill lifecycle operation''))"

definition skill_rebuild :: "dict \<Rightarrow> unit res" where
  "skill_rebuild wire = seqE
    [deny (\<not> nonempty_str (dget wire ''skill_id'')) SemanticError
       ''skill projection rebuild requires one exact skill_id'',
     deny (\<not> positive_int (dget wire ''expected_revision'')) SemanticError
       ''skill projection rebuild requires an exact expected revision'']"

section \<open>Authority records\<close>

definition authority_bound :: "env \<Rightarrow> dict \<Rightarrow> dict \<Rightarrow> dict \<Rightarrow> dict \<Rightarrow> dict \<Rightarrow> dict \<Rightarrow> unit res" where
  "authority_bound E actor proposal gate delivery policy artifact =
     (let policy_ref = record_ref ''policy_decision'' (dget policy ''decision_id'') (dget policy ''decision_digest'')
      in seqE
      [bindE (get_or (PDict proposal) ''target_scope'' (PDict [])) (\<lambda>ts.
         validate_scope_narrowing E ts (PDict actor)),
       bindE (ditem proposal ''target_scope'') (\<lambda>ts. bindE (get ts ''selection'') (\<lambda>sel.
         deny (neq sel (PDict [(S ''level'', PS ''actor'')])) SemanticError
           ''skill lifecycle target scope must be actor-only'')),
       deny (neq (dget gate ''target_scope'') (dget proposal ''target_scope'') \<or>
             neq (dget delivery ''target_scope'') (dget proposal ''target_scope'')) SemanticError
         ''skill lifecycle target scopes must exactly match'',
       deny (rt_of proposal \<noteq> PS ''skill_proposal'' \<or> dget proposal ''protected_artifact'' \<noteq> PNone)
         SemanticError ''an inline skill proposal is required'',
       deny (neq (dget proposal ''artifact'') (PDict artifact)) SemanticError
         ''skill proposal artifact does not exactly match the inert artifact'',
       bindE (sha256_digest (hash E) (PDict artifact)) (\<lambda>adg. seqE
        [deny (rt_of gate \<noteq> PS ''gate_decision'' \<or> dget gate ''decision'' \<noteq> PS ''approve'' \<or>
               neq (dget gate ''proposal_refs'') (PList [record_ref ''skill_proposal''
                 (dget proposal ''proposal_id'') (dget proposal ''proposal_digest'')])) SemanticError
           ''gate decision does not exactly approve this skill proposal'',
         deny (rt_of delivery \<noteq> PS ''delivery_envelope'' \<or>
               dget delivery ''artifact_type'' \<noteq> PS ''skill'' \<or>
               dget delivery ''lifecycle_state'' \<noteq> PS ''delivered'' \<or>
               neq (dget delivery ''artifact_id'') (dget proposal ''artifact_id'') \<or>
               neq (dget delivery ''artifact_revision'') (dget proposal ''artifact_revision'') \<or>
               dget delivery ''artifact_digest'' \<noteq> adg \<or>
               neq (dget delivery ''gate_decision_ref'')
                 (record_ref ''gate_decision'' (dget gate ''gate_id'') (dget gate ''decision_digest'')) \<or>
               neq (dget delivery ''policy_refs'') (PList [policy_ref])) SemanticError
           ''delivery envelope does not exactly bind the approved skill artifact'']),
       denyE (orE [Inr (rt_of policy \<noteq> PS ''policy_decision'' \<or>
                neq (dget policy ''request_id'') (dget proposal ''proposal_id'') \<or>
                neq (dget policy ''request_digest'') (dget proposal ''proposal_digest'')),
              notE (in_names (dget policy ''decision'') (map S [''authorize'', ''require_approval''])),
              Inr (dget policy ''isolation_profile'' \<noteq> PS ''no_effect'')]) SemanticError
         ''policy decision does not exactly authorize this skill proposal'',
       deny (neq (dget policy ''constraints'') (PList [])) SemanticError
         ''skill lifecycle policy constraints must be exactly empty''])"

section \<open>Approvals\<close>

definition skill_approvals_bound ::
  "env \<Rightarrow> dict \<Rightarrow> dict \<Rightarrow> dict \<Rightarrow> pyval \<Rightarrow> (dict list \<times> pyval list) res" where
  "skill_approvals_bound E actor proposal policy wire_approvals =
     bindE (bindE (elems wire_approvals) (mapE as_record)) (\<lambda>approvals.
     bindE (seqE
      [forE approvals (\<lambda>a. bindE (ditem actor ''tenant_id'') (\<lambda>t. validate_record E t (PDict a))),
       deny (dget policy ''decision'' = PS ''authorize'' \<and> approvals \<noteq> []) SemanticError
         ''authorize skill lifecycle cannot carry approvals'',
       deny (dget policy ''decision'' = PS ''require_approval'' \<and> approvals = []) SemanticError
         ''approval-required skill lifecycle has no approval'']) (\<lambda>_.
     bindE (mapE (\<lambda>a. bindE (seqE
        [deny (approval_unbound a actor proposal policy) SemanticError
           ''approval does not exactly bind the skill authority'',
         denyE (duties_fail a actor) SemanticError
           ''skill approval does not satisfy separation of duties''])
        (\<lambda>_. Inr (record_ref ''approval_record'' (dget a ''approval_id'') (dget a ''approval_digest''))))
       approvals) (\<lambda>refs. Inr (approvals, refs))))"

text \<open>The injected verifiers and trust resolvers, and the time of the request.\<close>

record command_proofs =
  cp_now :: "pytime option"
  cp_approval_verifier :: "verifier option"
  cp_approval_trust :: "(pytime \<Rightarrow> trust_context res) option"
  cp_receipt_verifier :: "verifier option"
  cp_receipt_trust :: "(pytime \<Rightarrow> trust_context res) option"

text \<open>Comparing an aware time with a naive one raises \<open>TypeError\<close>.\<close>

fun comparable :: "pytime \<Rightarrow> instant res" where
  "comparable (Aware t) = Inr t"
| "comparable (Naive t) = Inl (Exc TypeError ''offset-naive and offset-aware datetimes'')"

lemma comparable_Inr [res_simps]: "comparable p = Inr t \<longleftrightarrow> p = Aware t"
  by (cases p) auto

definition matching_trust :: "(pytime \<Rightarrow> trust_context res) \<Rightarrow> pytime \<Rightarrow> string \<Rightarrow> trust_context res" where
  "matching_trust resolve now msg = bindE (resolve now) (\<lambda>T.
     reject_if (tc_now T \<noteq> now) SemanticError msg (Inr T))"

definition skill_approval_proofs ::
  "env \<Rightarrow> command_proofs \<Rightarrow> dict \<Rightarrow> dict list \<Rightarrow> unit res" where
  "skill_approval_proofs E C actor approvals = (case cp_now C of
     None \<Rightarrow> Inr ()
   | Some now \<Rightarrow> (case (cp_approval_verifier C, cp_approval_trust C) of
       (Some V, Some resolve) \<Rightarrow> forE approvals (\<lambda>a.
         bindE (time_item a ''issued_at'') (\<lambda>ai.
         bindE (comparable now) (\<lambda>n.
         bindE (if ai \<le> n then bindE (time_item a ''expires_at'') (\<lambda>ae. Inr (n < ae)) else Inr False) (\<lambda>ok.
         bindE (deny (\<not> ok) SemanticError ''skill approval is not currently valid'') (\<lambda>_.
         bindE (matching_trust resolve now
           ''skill approval trust context does not match the requested time'') (\<lambda>T.
         bindE (ditem actor ''tenant_id'') (\<lambda>t.
         bindE (verify_signed_record E V T t False (PDict a)) (\<lambda>_. Inr ()))))))))
     | _ \<Rightarrow> deny (approvals \<noteq> []) SemanticError ''skill approval proof verification is not configured''))"

section \<open>Evidence, retention and receipts\<close>

definition skill_evidence :: "env \<Rightarrow> dict \<Rightarrow> dict \<Rightarrow> dict \<Rightarrow> pyval \<Rightarrow> unit res" where
  "skill_evidence E actor proposal delivery wire_evidence =
     bindE (bindE (elems wire_evidence) (mapE as_record)) (\<lambda>evidence.
     (let refs = PList (map (\<lambda>v. record_ref ''evidence_envelope'' (dget v ''envelope_id'') (dget v ''event_digest'')) evidence)
      in seqE
      [forE evidence (\<lambda>v. bindE (ditem actor ''tenant_id'') (\<lambda>t. validate_record E t (PDict v))),
       deny (evidence = [] \<or> neq (dget proposal ''evidence_refs'') refs \<or> neq (dget delivery ''evidence_refs'') refs)
         SemanticError ''canonical source evidence does not exactly bind proposal and delivery'',
       deny (\<exists>v\<in>set evidence. rt_of v \<noteq> PS ''evidence_envelope'' \<or>
               neq (dget v ''tenant_id'') (dget actor ''tenant_id'')) SemanticError
         ''skill lifecycle source evidence is invalid or cross-tenant'']))"

definition skill_retention :: "dict \<Rightarrow> command_proofs \<Rightarrow> dict \<Rightarrow> unit res" where
  "skill_retention wire C policy = seqE
    [(case (dget wire ''retention'', dget wire ''validity'') of
        (PDict retention, PDict validity) \<Rightarrow>
          deny (dget retention ''expires_at'' = PNone \<or> dget validity ''expires_at'' = PNone) SemanticError
            ''skill lifecycle retention and validity expiries are required''
      | _ \<Rightarrow> Inl (Exc SemanticError ''skill lifecycle retention and validity must be JSON objects'')),
     (case cp_now C of None \<Rightarrow> Inr () | Some now \<Rightarrow>
        bindE (time_item policy ''decided_at'') (\<lambda>pd. bindE (comparable now) (\<lambda>n.
          deny (pd > n) SemanticError ''skill lifecycle policy decision is in the future'')))]"

definition skill_revision :: "pystr \<Rightarrow> dict \<Rightarrow> unit res" where
  "skill_revision operation wire =
     (if operation = S ''install'' then seqE
       [deny (dget wire ''activation_receipt'' \<noteq> PNone \<or> dget wire ''rollback_receipt'' \<noteq> PNone)
          SemanticError ''install must not accept runtime receipts'',
        deny (dget wire ''expected_revision'' \<noteq> PNone \<and> \<not> positive_int (dget wire ''expected_revision''))
          SemanticError ''install expected_revision is malformed'']
      else deny (\<not> positive_int (dget wire ''expected_revision'')) SemanticError
        ''skill transition requires an exact expected revision'')"

text \<open>Running a receipt check under the configured verifier, when there is a time.\<close>

definition with_receipt_trust :: "command_proofs \<Rightarrow> (verifier \<Rightarrow> trust_context \<Rightarrow> unit res) \<Rightarrow> unit res" where
  "with_receipt_trust C f = (case cp_now C of
     None \<Rightarrow> Inr ()
   | Some now \<Rightarrow> (case (cp_receipt_verifier C, cp_receipt_trust C) of
       (Some V, Some resolve) \<Rightarrow>
         bindE (matching_trust resolve now
           ''runtime receipt trust context does not match the requested time'') (f V)
     | _ \<Rightarrow> Inl (Exc SemanticError ''runtime receipt verification is not configured'')))"

definition skill_activate ::
  "env \<Rightarrow> command_proofs \<Rightarrow> dict \<Rightarrow> dict \<Rightarrow> dict \<Rightarrow> pyval \<Rightarrow> pyval \<Rightarrow> unit res" where
  "skill_activate E C actor wire delivery policy_ref reviewer_refs =
     bindE (as_record (dget wire ''activation_receipt'')) (\<lambda>receipt.
     bindE (ditem actor ''tenant_id'') (\<lambda>t. seqE
      [deny (dget wire ''rollback_receipt'' \<noteq> PNone \<or> rt_of receipt \<noteq> PS ''activation_receipt'')
         SemanticError ''activate requires exactly one activation receipt'',
       validate_record E t (PDict receipt),
       with_receipt_trust C (\<lambda>V T. bindE (verify_runtime_receipt E V T t (PDict receipt)) (\<lambda>_. Inr ())),
       validate_activation_delivery_binding (PDict receipt) (PDict delivery),
       deny (neq (dget receipt ''policy_refs'') (PList [policy_ref]) \<or>
             neq (dget receipt ''reviewer_refs'') reviewer_refs) SemanticError
         ''activation receipt authority does not exactly match command'']))"

definition skill_rollback ::
  "env \<Rightarrow> command_proofs \<Rightarrow> dict \<Rightarrow> dict \<Rightarrow> dict \<Rightarrow> pyval \<Rightarrow> pyval \<Rightarrow> pyval \<Rightarrow> unit res" where
  "skill_rollback E C actor wire proposal adg policy_ref reviewer_refs =
     bindE (as_record (dget wire ''rollback_receipt'')) (\<lambda>receipt.
     bindE (as_record (dget wire ''activation_receipt'')) (\<lambda>activation.
     bindE (ditem actor ''tenant_id'') (\<lambda>t. seqE
      [deny (rt_of receipt \<noteq> PS ''rollback_receipt'' \<or> rt_of activation \<noteq> PS ''activation_receipt'')
         SemanticError ''rollback requires bound rollback and activation receipts'',
       validate_record E t (PDict receipt),
       validate_record E t (PDict activation),
       with_receipt_trust C (\<lambda>V T. validate_rollback_lifecycle E V T t (PDict receipt) (PDict activation)),
       validate_rollback_activation_binding (PDict receipt) (PDict activation),
       deny (neq (dget receipt ''artifact_id'') (dget proposal ''artifact_id'') \<or>
             neq (dget receipt ''policy_refs'') (PList [policy_ref]) \<or>
             neq (dget receipt ''reviewer_refs'') reviewer_refs \<or>
             neq (dget receipt ''restored_revision_ref'')
               (record_ref ''skill_proposal'' (dget proposal ''artifact_id'') adg)) SemanticError
         ''rollback receipt does not bind this skill authority''])))"

section \<open>The command\<close>

definition validate_skill_lifecycle_command ::
  "env \<Rightarrow> command_proofs \<Rightarrow> pyval \<Rightarrow> dict \<Rightarrow> pyval res" where
  "validate_skill_lifecycle_command E C actor_context wire =
     bindE (as_record actor_context) (\<lambda>actor.
     bindE (validate_record E PNone (PDict actor)) (\<lambda>_.
     bindE (skill_frame E actor wire) (\<lambda>(operation, expected).
     if operation = S ''rebuild'' then bindE (skill_rebuild wire) (\<lambda>_. Inr expected)
     else
       bindE (as_record (dget wire ''skill_proposal'')) (\<lambda>proposal.
       bindE (as_record (dget wire ''gate_decision'')) (\<lambda>gate.
       bindE (as_record (dget wire ''delivery_envelope'')) (\<lambda>delivery.
       bindE (as_record (dget wire ''policy_decision'')) (\<lambda>policy.
       bindE (validate_inert_skill_artifact (dget wire ''artifact'')) (\<lambda>artifact.
       bindE (ditem actor ''tenant_id'') (\<lambda>tenant.
       bindE (forE [proposal, gate, delivery, policy] (\<lambda>r. validate_record E tenant (PDict r))) (\<lambda>_.
       bindE (forE [proposal, gate, delivery, policy] (\<lambda>r.
         deny (neq (dget r ''tenant_id'') tenant) SemanticError ''tenant does not match actor'')) (\<lambda>_.
       bindE (authority_bound E actor proposal gate delivery policy artifact) (\<lambda>_.
       bindE (skill_approvals_bound E actor proposal policy (dget wire ''approvals'')) (\<lambda>(approvals, refs).
       bindE (skill_approval_proofs E C actor approvals) (\<lambda>_.
       let required = (dget policy ''decision'' = PS ''require_approval'');
           reviewer_refs = (if required then PList refs else dget delivery ''reviewer_refs'');
           policy_ref = record_ref ''policy_decision'' (dget policy ''decision_id'')
             (dget policy ''decision_digest'')
       in bindE (sha256_digest (hash E) (PDict artifact)) (\<lambda>adg.
          bindE (seqE
           [deny (required \<and> neq (dget delivery ''reviewer_refs'') (PList refs)) SemanticError
              ''delivery reviewers do not exactly match supplied approvals'',
            skill_evidence E actor proposal delivery (dget wire ''source_evidence''),
            skill_retention wire C policy,
            skill_revision operation wire,
            (if operation = S ''activate'' then
               skill_activate E C actor wire delivery policy_ref reviewer_refs
             else if operation = S ''rollback'' then
               skill_rollback E C actor wire proposal adg policy_ref reviewer_refs
             else if operation = S ''deactivate'' then
               deny (dget wire ''activation_receipt'' \<noteq> PNone \<or> dget wire ''rollback_receipt'' \<noteq> PNone)
                 SemanticError ''must not accept runtime receipts''
             else Inr ())]) (\<lambda>_. Inr expected))))))))))))))))"

section \<open>What an accepted command binds\<close>

lemma skill_frame_inv:
  assumes "skill_frame E actor wire = Inr (operation, expected)"
  shows "dget wire ''operation'' = PStr operation" "operation \<in> set SKILL_LIFECYCLE_OPERATIONS"
    and "dkeys wire = set (map S (if operation = S ''rebuild'' then ''skill_id'' # common_keys else lifecycle_keys))"
    and "dget wire ''operation_digest'' = expected"
    and "sha256_digest (hash E) (PDict (dpop wire ''operation_digest'')) = Inr expected"
proof -
  obtain o' where o': "dget wire ''operation'' = PStr o'"
    using assms by (cases "dget wire ''operation''") (auto simp: skill_frame_def)
  show "dget wire ''operation'' = PStr operation" "operation \<in> set SKILL_LIFECYCLE_OPERATIONS"
    "dkeys wire = set (map S (if operation = S ''rebuild'' then ''skill_id'' # common_keys else lifecycle_keys))"
    "sha256_digest (hash E) (PDict (dpop wire ''operation_digest'')) = Inr expected"
    using assms by (auto simp: skill_frame_def o' res_simps skill_lifecycle_operation_digest_def)
  show "dget wire ''operation_digest'' = expected"
    using assms
    by (cases "dget wire ''operation_digest''")
       (auto simp: skill_frame_def o' res_simps dest!: compare_digest_Inr)
qed

end
