(* ===== verification/Ids.thy ===== *)
theory Ids
  imports Bindings "HOL-Library.Word"
begin

text \<open>
  \<open>_Uuid7Factory\<close> of \<open>kernel/core.py\<close>. A call reads the clock, keeps the last millisecond
  and a 12-bit sequence, and formats the 128-bit value as hexadecimal text in five groups.
  \<open>ms\<close> is \<open>int(now.timestamp() * 1000)\<close>, a floating-point result the model does not
  recompute, and \<open>seq\<close> and \<open>tail\<close> are what \<open>secrets.randbits\<close> returns.
\<close>

unbundle bit_operations_syntax

record uuid_factory =
  last_ms :: int
  sequence :: int

definition initial_factory :: uuid_factory where
  "initial_factory = \<lparr> last_ms = -1, sequence = 0 \<rparr>"

section \<open>The value\<close>

definition uuid_step :: "int \<Rightarrow> int \<Rightarrow> uuid_factory \<Rightarrow> uuid_factory" where
  "uuid_step ms seq s =
     (if ms = last_ms s then s\<lparr> sequence := (sequence s + 1) AND 0x0FFF \<rparr>
      else s\<lparr> last_ms := ms, sequence := seq \<rparr>)"

definition uuid_value :: "int \<Rightarrow> int \<Rightarrow> int \<Rightarrow> int" where
  "uuid_value ms seq tail =
     push_bit 80 ms OR push_bit 76 0x7 OR push_bit 64 seq OR push_bit 62 0x2 OR tail"

text \<open>\<open>f"{value:032x}"\<close>: hexadecimal, padded with zeros to 32 characters.\<close>

fun hex_text :: "nat \<Rightarrow> pystr" where
  "hex_text n = (if n < 16 then [hex_digit n] else hex_text (n div 16) @ [hex_digit (n mod 16)])"

declare hex_text.simps [simp del]

definition format_032x :: "int \<Rightarrow> pystr" where
  "format_032x v =
     (let h = hex_text (nat (abs v)); sign = (if v < 0 then [45] else [])
      in sign @ replicate (32 - length sign - length h) 48 @ h)"

definition uuid_groups :: "pystr \<Rightarrow> pystr" where
  "uuid_groups h = take 8 h @ 45 # take 4 (drop 8 h) @ 45 # take 4 (drop 12 h) @ 45 #
     take 4 (drop 16 h) @ 45 # drop 20 h"

definition uuid7_call :: "pytime \<Rightarrow> int \<Rightarrow> int \<Rightarrow> int \<Rightarrow> uuid_factory \<Rightarrow> pystr res \<times> uuid_factory" where
  "uuid7_call now ms seq tail s = (case now of
     Naive t \<Rightarrow> (Inl (Exc ValueError ''kernel clock must return a timezone-aware timestamp''), s)
   | Aware t \<Rightarrow> (let s' = uuid_step ms seq s
       in (Inr (uuid_groups (format_032x (uuid_value ms (sequence s') tail))), s')))"

section \<open>Hexadecimal digits\<close>

fun hex_fixed :: "nat \<Rightarrow> nat \<Rightarrow> pystr" where
  "hex_fixed 0 n = []"
| "hex_fixed (Suc k) n = hex_fixed k (n div 16) @ [hex_digit (n mod 16)]"

lemma length_hex_fixed [simp]: "length (hex_fixed k n) = k"
  by (induction k arbitrary: n) auto

lemma hex_fixed_zero: "hex_fixed k 0 = replicate k 48"
  by (induction k) (auto simp: hex_digit_def replicate_append_same)

lemma hex_text_fixed: "n < 16 ^ k \<Longrightarrow> 0 < k \<Longrightarrow>
    length (hex_text n) \<le> k \<and> replicate (k - length (hex_text n)) 48 @ hex_text n = hex_fixed k n"
proof (induction k arbitrary: n)
  case (Suc k)
  show ?case
  proof (cases "n < 16")
    case True
    then show ?thesis by (simp add: hex_text.simps [of n] hex_fixed_zero)
  next
    case False
    then have k: "0 < k" using Suc.prems by (cases k) auto
    have "n div 16 < 16 ^ k" using Suc.prems(1) by (simp add: div_less_iff_less_mult mult.commute)
    note IH = Suc.IH [OF this k]
    have "hex_text n = hex_text (n div 16) @ [hex_digit (n mod 16)]"
      using False by (subst hex_text.simps) simp
    then show ?thesis using IH by simp
  qed
qed simp

lemma hex_fixed_nth: "i < k \<Longrightarrow> hex_fixed k n ! i = hex_digit (n div 16 ^ (k - 1 - i) mod 16)"
proof (induction k arbitrary: n)
  case (Suc k)
  show ?case
  proof (cases "i = k")
    case True
    then show ?thesis by (simp add: nth_append)
  next
    case False
    then have "i < k" using Suc.prems by simp
    then have "hex_fixed (Suc k) n ! i = hex_digit (n div 16 div 16 ^ (k - 1 - i) mod 16)"
      using Suc.IH by (simp add: nth_append)
    also have "n div 16 div 16 ^ (k - 1 - i) = n div 16 ^ (k - i)"
      using \<open>i < k\<close> by (simp add: div_mult2_eq [symmetric] flip: power_Suc) (simp add: Suc_diff_Suc)
    finally show ?thesis by simp
  qed
qed simp

section \<open>The fields of the value\<close>

lemma or_add:
  fixes a b :: int
  assumes "0 \<le> b" "b < 2 ^ n"
  shows "push_bit n a OR b = a * 2 ^ n + b"
proof -
  have "bit b m \<Longrightarrow> m < n" for m
    using assms by (metis bit_take_bit_iff take_bit_int_eq_self)
  then have "push_bit n a AND b = 0"
    by (intro bit_eqI) (force simp: bit_simps)
  then show ?thesis by (simp add: push_bit_eq_mult flip: disjunctive_add_eq_or)
qed

text \<open>In range the fields are laid out side by side.\<close>

definition in_ranges :: "int \<Rightarrow> int \<Rightarrow> int \<Rightarrow> bool" where
  "in_ranges ms seq tail \<longleftrightarrow> 0 \<le> ms \<and> ms < 2 ^ 48 \<and> 0 \<le> seq \<and> seq < 2 ^ 12 \<and> 0 \<le> tail \<and> tail < 2 ^ 62"

lemma uuid_value_sum:
  assumes "in_ranges ms seq tail"
  shows "uuid_value ms seq tail = ms * 2 ^ 80 + 7 * 2 ^ 76 + seq * 2 ^ 64 + 2 * 2 ^ 62 + tail"
proof -
  have r: "0 \<le> seq" "seq < 2 ^ 12" "0 \<le> tail" "tail < 2 ^ 62" using assms by (auto simp: in_ranges_def)
  have t: "push_bit 62 2 OR tail = 2 * 2 ^ 62 + tail" using r by (intro or_add) auto
  have s: "push_bit 64 seq OR (2 * 2 ^ 62 + tail) = seq * 2 ^ 64 + (2 * 2 ^ 62 + tail)"
    using r by (intro or_add) auto
  have v: "push_bit 76 7 OR (seq * 2 ^ 64 + (2 * 2 ^ 62 + tail))
      = 7 * 2 ^ 76 + (seq * 2 ^ 64 + (2 * 2 ^ 62 + tail))"
    using r by (intro or_add) auto
  have "push_bit 80 ms OR (7 * 2 ^ 76 + (seq * 2 ^ 64 + (2 * 2 ^ 62 + tail)))
      = ms * 2 ^ 80 + (7 * 2 ^ 76 + (seq * 2 ^ 64 + (2 * 2 ^ 62 + tail)))"
    using r by (intro or_add) auto
  then show ?thesis
    unfolding uuid_value_def or.assoc t s v by simp
qed

lemma uuid_nibbles:
  assumes "in_ranges ms seq tail"
  shows "uuid_value ms seq tail div 2 ^ 76 mod 16 = 7"
    and "uuid_value ms seq tail div 2 ^ 60 mod 16 = 8 + tail div 2 ^ 60"
    and "0 \<le> tail div 2 ^ 60" "tail div 2 ^ 60 < 4"
    and "0 \<le> uuid_value ms seq tail" "uuid_value ms seq tail < 2 ^ 128"
proof -
  have r: "0 \<le> ms" "ms < 2 ^ 48" "0 \<le> seq" "seq < 2 ^ 12" "0 \<le> tail" "tail < 2 ^ 62"
    using assms by (auto simp: in_ranges_def)
  note v = uuid_value_sum [OF assms]
  have "uuid_value ms seq tail div 2 ^ 76 = ms * 16 + 7"
    by (rule int_div_pos_eq [of _ _ _ "seq * 2 ^ 64 + 2 * 2 ^ 62 + tail"]) (use v r in auto)
  moreover have "(ms * 16 + 7) mod 16 = 7" by presburger
  ultimately show "uuid_value ms seq tail div 2 ^ 76 mod 16 = 7" by simp
  show q: "0 \<le> tail div 2 ^ 60" "tail div 2 ^ 60 < 4" using r by auto
  have "uuid_value ms seq tail div 2 ^ 60 = (ms * 2 ^ 16 + 7 * 2 ^ 12 + seq) * 16 + (8 + tail div 2 ^ 60)"
  proof (rule int_div_pos_eq [of _ _ _ "tail mod 2 ^ 60"])
    have "tail = 2 ^ 60 * (tail div 2 ^ 60) + tail mod 2 ^ 60" by (rule mult_div_mod_eq [symmetric])
    then show "uuid_value ms seq tail
        = 2 ^ 60 * ((ms * 2 ^ 16 + 7 * 2 ^ 12 + seq) * 16 + (8 + tail div 2 ^ 60)) + tail mod 2 ^ 60"
      unfolding v by (simp add: algebra_simps)
  qed auto
  moreover have "((ms * 2 ^ 16 + 7 * 2 ^ 12 + seq) * 16 + (8 + tail div 2 ^ 60)) mod 16 = 8 + tail div 2 ^ 60"
    using q by (intro int_mod_pos_eq [of _ _ "ms * 2 ^ 16 + 7 * 2 ^ 12 + seq"]) auto
  ultimately show "uuid_value ms seq tail div 2 ^ 60 mod 16 = 8 + tail div 2 ^ 60" by simp
  show "0 \<le> uuid_value ms seq tail" "uuid_value ms seq tail < 2 ^ 128" using v r by auto
qed

section \<open>The text is a lowercase UUIDv7\<close>

lemma groups_nth:
  assumes "length h = 32" "i < 36"
  shows "uuid_groups h ! i = (if i \<in> {8, 13, 18, 23} then 45
     else if i < 8 then h ! i else if i < 13 then h ! (i - 1) else if i < 18 then h ! (i - 2)
     else if i < 23 then h ! (i - 3) else h ! (i - 4))"
  using assms by (auto simp: uuid_groups_def nth_append nth_Cons' min_def)

lemma hex_fixed_lower: "i < k \<Longrightarrow> lower_hex (hex_fixed k n ! i)"
  by (simp add: hex_fixed_nth lower_hex_digit)

lemma format_in_range:
  assumes "0 \<le> v" "v < 2 ^ 128"
  shows "format_032x v = hex_fixed 32 (nat v)"
proof -
  have "nat v < 16 ^ 32" using assms by (simp add: nat_less_iff)
  then show ?thesis using hex_text_fixed [of "nat v" 32] assms(1) by (simp add: format_032x_def)
qed

lemma format_nth:
  assumes "0 \<le> v" "v < 2 ^ 128" "i < 32"
  shows "format_032x v ! i = hex_digit (nat (v div 16 ^ (31 - i) mod 16))"
proof -
  have "int (nat v div 16 ^ (31 - i) mod 16) = v div 16 ^ (31 - i) mod 16"
    using assms(1) by (simp add: zdiv_int zmod_int)
  then have "nat v div 16 ^ (31 - i) mod 16 = nat (v div 16 ^ (31 - i) mod 16)" by linarith
  then show ?thesis using assms by (simp add: format_in_range hex_fixed_nth)
qed

lemma uuid_text_valid:
  assumes "in_ranges ms seq tail"
  shows "is_uuid7_text (uuid_groups (format_032x (uuid_value ms seq tail)))"
proof -
  let ?v = "uuid_value ms seq tail" and ?h = "format_032x (uuid_value ms seq tail)"
  note n = uuid_nibbles [OF assms]
  have len: "length ?h = 32" using n by (simp add: format_in_range)
  have low: "lower_hex (?h ! i)" if "i < 32" for i
    using n that by (simp add: format_in_range hex_fixed_lower)
  have h12: "?h ! 12 = 55"
    using n by (simp add: format_nth hex_digit_def)
  have "8 + tail div 2 ^ 60 \<in> {8, 9, 10, 11}" using n(3,4) by auto
  then have h16: "?h ! 16 \<in> {56, 57, 97, 98}"
    using n(2,5,6) by (auto simp: format_nth hex_digit_def)
  have "length (uuid_groups ?h) = 36" by (simp add: uuid_groups_def len)
  moreover have "if i \<in> {8, 13, 18, 23} then uuid_groups ?h ! i = 45
            else if i = 14 then uuid_groups ?h ! i = 55
            else if i = 19 then uuid_groups ?h ! i \<in> {56, 57, 97, 98}
            else lower_hex (uuid_groups ?h ! i)" if "i < 36" for i
    using groups_nth [OF len that] h12 h16 low that by auto
  ultimately show ?thesis unfolding is_uuid7_text_def by blast
qed

section \<open>Order of the values\<close>

lemma uuid_value_less:
  assumes "in_ranges ms seq tail" "in_ranges ms' seq' tail'"
    and "ms < ms' \<or> ms = ms' \<and> seq < seq'"
  shows "uuid_value ms seq tail < uuid_value ms' seq' tail'"
proof -
  have "seq < 2 ^ 12" "tail < 2 ^ 62" "0 \<le> seq'" "0 \<le> tail'"
    using assms(1,2) by (auto simp: in_ranges_def)
  moreover have "ms + 1 \<le> ms' \<or> ms = ms' \<and> seq + 1 \<le> seq'" using assms(3) by auto
  ultimately show ?thesis
    unfolding uuid_value_sum [OF assms(1)] uuid_value_sum [OF assms(2)] by auto
qed

lemma and_4095: "(x :: int) AND 0x0FFF = x mod 4096"
  using take_bit_eq_mask [of 12 x] by (simp add: take_bit_eq_mod mask_eq_exp_minus_1)

text \<open>The invariant of the factory's state, when \<open>randbits\<close> keeps its documented range.\<close>

definition factory_ok :: "uuid_factory \<Rightarrow> bool" where
  "factory_ok s \<longleftrightarrow> 0 \<le> sequence s \<and> sequence s < 2 ^ 12"

lemma factory_step_ok:
  "factory_ok s \<Longrightarrow> 0 \<le> seq \<Longrightarrow> seq < 2 ^ 12 \<Longrightarrow> factory_ok (uuid_step ms seq s) \<and> last_ms (uuid_step ms seq s) = ms"
  by (auto simp: factory_ok_def uuid_step_def and_4095)

lemma initial_factory_ok: "factory_ok initial_factory"
  by (simp add: factory_ok_def initial_factory_def)

end
