(* ===== verification/Authority_Facts.thy ===== *)
theory Authority_Facts
  imports Skill_Commands Ids Policy
begin

text \<open>
  Facts about the trust, wire and lifecycle decisions that the authority properties rest on.
\<close>

section \<open>First acceptance\<close>

text \<open>The key of a first acceptance, with its uniqueness, and its revocation.\<close>

lemma first_acceptance_key:
  assumes "first_acceptance (PDict p) dmn now issued expires T = Inr a"
  obtains k alg where "dget p ''issuer'' = PStr (tk_issuer k)" "dget p ''key_id'' = PStr (tk_key_id k)"
    "filter (\<lambda>k'. tk_issuer k' = tk_issuer k \<and> tk_key_id k' = tk_key_id k) (tc_trusted_keys T) = [k]"
    "tk_issuer k \<in> set (tc_expected_issuers T)" "(dmn, tk_issuer k) \<in> set (tc_allowed_domain_issuers T)"
    "dget p ''algorithm'' = PStr alg" "alg \<in> set (tc_allowed_algorithms T)" "alg \<in> set (tk_algorithms k)"
    "key_window_ok now issued expires (tc_clock_skew T) k = Inr ()"
proof -
  have "\<exists>k. trusted_key_of (PDict p) T = Inr k \<and> (\<exists>alg. dget p ''algorithm'' = PStr alg \<and>
      alg \<in> set (tc_allowed_algorithms T) \<and> alg \<in> set (tk_algorithms k)) \<and>
      (\<exists>iss. dget p ''issuer'' = PStr iss \<and> iss \<in> set (tc_expected_issuers T) \<and>
         (dmn, iss) \<in> set (tc_allowed_domain_issuers T)) \<and>
      key_window_ok now issued expires (tc_clock_skew T) k = Inr ()"
    using assms unfolding first_acceptance_def clock_skew_microseconds_def by (auto simp: res_simps dget_Some)
  then obtain k where k: "trusted_key_of (PDict p) T = Inr k" "\<exists>alg. dget p ''algorithm'' = PStr alg \<and>
      alg \<in> set (tc_allowed_algorithms T) \<and> alg \<in> set (tk_algorithms k)"
      "\<exists>iss. dget p ''issuer'' = PStr iss \<and> iss \<in> set (tc_expected_issuers T) \<and>
         (dmn, iss) \<in> set (tc_allowed_domain_issuers T)"
      "key_window_ok now issued expires (tc_clock_skew T) k = Inr ()" by blast
  then show thesis using trusted_key_inv [OF k(1)] that by auto
qed

lemma key_window_revocation:
  assumes "key_window_ok now issued expires skew k = Inr ()"
  shows "tk_revoked_at k = None \<or> (\<exists>r. tk_revoked_at k = Some (Aware r) \<and> now < r)"
proof -
  obtain rv where "tk_revoked_at k = map_option Aware rv" "\<not> (case rv of None \<Rightarrow> False | Some r \<Rightarrow> r \<le> now)"
    using assms unfolding key_window_ok_def by (auto simp: res_simps)
  then show ?thesis by (cases rv) auto
qed

text \<open>The record was issued between the two ends of the key's validity, up to the clock skew.\<close>

lemma key_window_validity:
  assumes "key_window_ok now issued expires skew k = Inr ()"
  shows "\<exists>start. tk_valid_from k = Aware start \<and> start - skew \<le> issued \<and>
    (tk_valid_until k = None \<or>
     (\<exists>stop. tk_valid_until k = Some (Aware stop) \<and> start \<le> stop \<and> issued \<le> stop + skew))"
proof -
  obtain start vu where t: "tk_valid_from k = Aware start" "tk_valid_until k = map_option Aware vu"
      "\<not> (case vu of None \<Rightarrow> False | Some u \<Rightarrow> u < start)" "\<not> issued < start - skew"
      "\<not> above (map_option (\<lambda>u. u + skew) vu) issued"
    using assms unfolding key_window_ok_def by (auto simp: res_simps)
  then show ?thesis by (cases vu) (auto simp: above_def)
qed

section \<open>Approvals a grant references\<close>

lemma supply_approvals_from:
  "supply_approvals vs acc = Inr supl \<Longrightarrow> (i, a) \<in> set supl \<Longrightarrow>
   (i, a) \<in> set acc \<or> PDict a \<in> set vs \<and> dget a ''approval_id'' = i"
proof (induction vs arbitrary: acc)
  case (Cons v vs)
  then obtain b j where b: "v = PDict b" "map_of b (S ''approval_id'') = Some j"
      "supply_approvals vs (acc @ [(j, b)]) = Inr supl"
    by (auto simp: res_simps as_record_Inr split: if_splits)
  from Cons.IH [OF b(3) Cons.prems(2)] show ?case using b(1,2) by (auto simp: dget_Some)
qed simp

lemma supplied_approval:
  assumes "supply_approvals vs [] = Inr supl" "find_approval supl i = Inr (Some a)"
  shows "PDict a \<in> set vs" "py_eq (dget a ''approval_id'') i"
proof -
  obtain b where b: "find (\<lambda>s. py_eq (fst s) i) supl = Some b" "a = snd b"
    using assms(2) by (auto simp: find_approval_def split: if_splits)
  then have "(fst b, a) \<in> set supl" "py_eq (fst b) i" by (auto simp: find_Some_iff)
  then show "PDict a \<in> set vs" "py_eq (dget a ''approval_id'') i"
    using supply_approvals_from [OF assms(1)] by force+
qed

lemma approval_ref_constraints:
  assumes "check_approval_ref E V T R g r p gcs rf a = Inr u"
  shows "\<exists>acs. constraint_bindings a = Inr acs \<and> (\<forall>b\<in>set acs. py_eq (bindings_get gcs (fst b)) (snd b))"
  using assms unfolding check_approval_ref_def seqE_Inr_iff covers_bindings_def
  by (auto simp: bindE_Inr_iff deny_Inr_iff forE_Inr_iff neq_def)

lemma approval_ref_duties:
  assumes "check_approval_ref E V T R g r p gcs rf a = Inr u"
  shows "\<exists>duties required. get_or (PDict a) ''separation_of_duties'' (PDict []) = Inr duties \<and>
    get duties ''required'' = Inr required \<and>
    (truthy required \<longrightarrow> (\<exists>satisfied. get duties ''satisfied'' = Inr satisfied \<and> truthy satisfied))"
proof -
  have "bindE (get_or (PDict a) ''separation_of_duties'' (PDict [])) (\<lambda>duties.
     bindE (get duties ''required'') (\<lambda>required. if \<not> truthy required then Inr () else
     bindE (get duties ''satisfied'') (\<lambda>satisfied.
       deny (\<not> truthy satisfied) SemanticError
         ''grant references an approval that failed separation of duties''))) = Inr ()"
    using assms unfolding check_approval_ref_def seqE_Inr_iff by simp
  then show ?thesis by (auto simp: bindE_Inr_iff deny_Inr_iff split: if_splits)
qed

text \<open>
  What the approval behind the reference \<open>rf\<close> of the grant \<open>g\<close> must satisfy: the reference
  names it by identifier and digest, it approves this decision on this request, the grant
  lies inside its window, the grant carries its constraints and it is signed.
\<close>

definition approves ::
  "env \<Rightarrow> verifier \<Rightarrow> trust_context \<Rightarrow> dict \<Rightarrow> dict \<Rightarrow> dict \<Rightarrow> bindings \<Rightarrow> pyval \<Rightarrow> dict \<Rightarrow> bool" where
  "approves E V T g r p gcs rf a \<longleftrightarrow>
     (\<exists>i rd. item rf ''record_id'' = Inr i \<and> py_eq (dget a ''approval_id'') i \<and>
        item rf ''record_digest'' = Inr rd \<and> py_eq (dget a ''approval_digest'') rd) \<and>
     dget a ''disposition'' = PS ''approved'' \<and>
     (\<forall>f\<in>{''tenant_id'', ''request_id'', ''request_digest''}. py_eq (dget a f) (dget r f)) \<and>
     py_eq (dget a ''policy_decision_id'') (dget p ''decision_id'') \<and>
     py_eq (dget a ''policy_decision_digest'') (dget p ''decision_digest'') \<and>
     (\<exists>ai gi ge ae. time_item a ''issued_at'' = Inr ai \<and> time_item g ''issued_at'' = Inr gi \<and>
        time_item g ''expires_at'' = Inr ge \<and> time_item a ''expires_at'' = Inr ae \<and>
        ai \<le> gi \<and> gi \<le> ae \<and> ge \<le> ae) \<and>
     (\<exists>acs. constraint_bindings a = Inr acs \<and> (\<forall>b\<in>set acs. py_eq (bindings_get gcs (fst b)) (snd b))) \<and>
     (\<exists>duties required. get_or (PDict a) ''separation_of_duties'' (PDict []) = Inr duties \<and>
        get duties ''required'' = Inr required \<and>
        (truthy required \<longrightarrow> (\<exists>satisfied. get duties ''satisfied'' = Inr satisfied \<and> truthy satisfied))) \<and>
     (\<exists>h. verify_signed_record E V T (dget g ''tenant_id'') False (PDict a) = Inr h)"

lemma approval_ref_approves:
  assumes "check_approval_ref E V T R g r p gcs rf a = Inr u" "item rf ''record_id'' = Inr i"
    and "py_eq (dget a ''approval_id'') i"
  shows "approves E V T g r p gcs rf a"
proof -
  note ref = approval_ref_inv [OF assms(1)]
  note bind = approval_binding_inv [OF ref(1)]
  show ?thesis
    unfolding approves_def
  proof (intro conjI)
    show "\<exists>i rd. item rf ''record_id'' = Inr i \<and> py_eq (dget a ''approval_id'') i \<and>
        item rf ''record_digest'' = Inr rd \<and> py_eq (dget a ''approval_digest'') rd"
      using ref(3) assms(2,3) by blast
    show "\<forall>f\<in>{''tenant_id'', ''request_id'', ''request_digest''}. py_eq (dget a f) (dget r f)"
      using bind(1) by blast
  qed (use ref(2,4,5) bind(2,3) approval_ref_constraints [OF assms(1)] approval_ref_duties [OF assms(1)] in blast)+
qed

lemma grant_times_ordered:
  assumes "grant_checks R g r p = Inr u"
  shows "\<exists>rq pd gi. time_item r ''requested_at'' = Inr rq \<and> time_item p ''decided_at'' = Inr pd \<and>
    time_item g ''issued_at'' = Inr gi \<and> rq \<le> pd \<and> pd \<le> gi"
  using assms unfolding grant_checks_def seqE_Inr_iff
  by (auto simp: bindE_Inr_iff deny_Inr_iff)

section \<open>Policy\<close>

lemma first_match_none: "first_match rs request = Inr None \<Longrightarrow> \<forall>q\<in>set rs. rule_matches q request = Inr False"
  by (induction rs) (auto simp: bindE_Inr_iff split: if_splits)

lemma merge_records_elems:
  "merge_records rs m = Inr m' \<Longrightarrow> r \<in> set rs \<Longrightarrow> \<exists>cs. get_elems r ''constraints'' = Inr cs"
  by (induction rs arbitrary: m) (auto simp: bindE_Inr_iff)

section \<open>Skill commands\<close>

lemma skill_command_inv:
  assumes "validate_skill_lifecycle_command E C (PDict actor) wire = Inr dg"
  obtains operation where "skill_frame E actor wire = Inr (operation, dg)"
    "validate_record E PNone (PDict actor) = Inr ()"
    "operation \<noteq> S ''install'' \<longrightarrow> positive_int (dget wire ''expected_revision'')"
proof -
  obtain operation expected where f: "validate_record E PNone (PDict actor) = Inr ()"
      "skill_frame E actor wire = Inr (operation, expected)"
    using assms by (auto simp: validate_skill_lifecycle_command_def bindE_Inr_iff)
  show thesis
  proof (cases "operation = S ''rebuild''")
    case True
    then have "skill_rebuild wire = Inr ()" "dg = expected"
      using assms f by (auto simp: validate_skill_lifecycle_command_def bindE_Inr_iff)
    then show thesis using that [of operation] f by (auto simp: skill_rebuild_def seqE_Inr_iff deny_Inr_iff)
  next
    case False
    then have "dg = expected \<and> skill_revision operation wire = Inr ()"
      using assms f unfolding validate_skill_lifecycle_command_def Let_def
      by (auto simp: bindE_Inr_iff seqE_Inr_iff)
    then show thesis
      using that [of operation] f by (auto simp: skill_revision_def deny_Inr_iff split: if_splits)
  qed
qed

end
