(* ===== verification/Authority_Properties.thy ===== *)
theory Authority_Properties
  imports Example_Effect Example_Grant Authority_Facts
begin

text \<open>
  What the trust, scope, policy and idempotency decisions of \<open>contracts/validation.py\<close> and
  \<open>kernel/core.py\<close> promise to the code that calls them.
\<close>

section \<open>Concrete scopes\<close>

definition demo_scope_under :: "string \<Rightarrow> dict \<Rightarrow> string \<Rightarrow> dict" where
  "demo_scope_under kind parent until =
    [(S ''schema_version'', PS ''1.0''), (S ''record_type'', PS ''memory_scope''),
     (S ''tenant_id'', PS demo_tenant), (S ''actor_id'', PS ''a1''),
     (S ''parent_record_type'', PS kind), (S ''parent_digest'', digest_of parent),
     (S ''derived_at'', PS ''2026-01-01T00:10:00.000Z''), (S ''valid_until'', PS until),
     (S ''selection'', PDict [(S ''level'', PS ''actor'')])]"

definition demo_scope :: dict where
  "demo_scope = demo_scope_under ''actor_context'' run_actor ''2026-01-01T00:50:00.000Z''"

definition demo_subscope :: dict where
  "demo_subscope = demo_scope_under ''memory_scope'' demo_scope ''2026-01-01T00:40:00.000Z''"

lemma demo_narrowing:
  "validate_scope_narrowing demo_env (PDict demo_scope) (PDict run_actor) = Inr ()"
  "validate_scope_narrowing demo_env (PDict demo_subscope) (PDict demo_scope) = Inr ()"
  "rt_of run_actor = PS ''actor_context''" "rt_of demo_scope = PS ''memory_scope''"
  by code_simp+

lemma demo_chain: "derives demo_env demo_subscope run_actor"
  by (rule derives.step [OF demo_narrowing(2,4) derives.direct [OF demo_narrowing(1,3)]])

definition demo_constraint :: pyval where
  "demo_constraint = PDict [(S ''constraint_id'', PS ''c1''), (S ''constraint_version'', PS ''1''),
     (S ''parameters'', PDict []), (S ''parameters_digest'', PS ''d'')]"

definition demo_rebuild_body :: dict where
  "demo_rebuild_body = [(S ''operation'', PS ''rebuild''), (S ''skill_id'', PS ''skill-1''),
     (S ''operation_id'', PS ''op-1''), (S ''expected_revision'', PInt 1)]"

definition demo_rebuild :: dict where
  "demo_rebuild = demo_rebuild_body @ [(S ''operation_digest'', digest_of demo_rebuild_body)]"

definition demo_no_proofs :: command_proofs where
  "demo_no_proofs = \<lparr> cp_now = None, cp_approval_verifier = None, cp_approval_trust = None,
     cp_receipt_verifier = None, cp_receipt_trust = None \<rparr>"

section \<open>Signed records and grants\<close>

text \<open>
  C10: a signed record is accepted on first sight only when the record itself is valid, its
  proof names the domain of its type, a key of the trust context that is unique, allowed for
  the issuer, the domain and the algorithm, and the verifier returned \<open>True\<close> for the
  canonical bytes of the record without its proof. Up to the clock skew the record was issued
  after the key became valid and before its validity ended, if it ends, and is neither expired
  nor from the future; the key is not revoked.
\<close>

theorem signed_record_sound:
  assumes "verify_signed_record E V T tenant False r = Inr h"
  shows "\<exists>d p dmn now issued expires k c. r = PDict d \<and> tc_now T = Aware now \<and>
     validate_record E tenant (PDict d) = Inr () \<and> dget d ''proof'' = PDict p \<and>
     proof_domain_for (rt_of d) = Some dmn \<and> dget p ''proof_domain'' = PStr dmn \<and>
     time_item d ''issued_at'' = Inr issued \<and> time_item d ''expires_at'' = Inr expires \<and>
     issued \<le> now + tc_clock_skew T \<and> now \<le> expires + tc_clock_skew T \<and>
     filter (\<lambda>k'. tk_issuer k' = tk_issuer k \<and> tk_key_id k' = tk_key_id k) (tc_trusted_keys T) = [k] \<and>
     dget p ''issuer'' = PStr (tk_issuer k) \<and> dget p ''key_id'' = PStr (tk_key_id k) \<and>
     tk_issuer k \<in> set (tc_expected_issuers T) \<and> (dmn, tk_issuer k) \<in> set (tc_allowed_domain_issuers T) \<and>
     (\<exists>alg\<in>set (tk_algorithms k). dget p ''algorithm'' = PStr alg \<and> alg \<in> set (tc_allowed_algorithms T)) \<and>
     (\<exists>start. tk_valid_from k = Aware start \<and> start - tc_clock_skew T \<le> issued \<and>
        (tk_valid_until k = None \<or>
         (\<exists>stop. tk_valid_until k = Some (Aware stop) \<and> start \<le> stop \<and> issued \<le> stop + tc_clock_skew T))) \<and>
     (tk_revoked_at k = None \<or> (\<exists>rv. tk_revoked_at k = Some (Aware rv) \<and> now < rv)) \<and>
     V c = Inr (PBool True) \<and> canonical_bytes (PDict (unsigned_body d)) = Inr (pc_unsigned_bytes c) \<and>
     pc_issuer c = PStr (tk_issuer k) \<and> pc_key_id c = PStr (tk_key_id k) \<and>
     pc_detached_proof c = dget p ''detached_proof''"
proof -
  obtain d p now dmn issued expires a where d: "r = PDict d" "tc_now T = Aware now"
      "validate_record E tenant (PDict d) = Inr ()" "map_of d (S ''proof'') = Some (PDict p)"
      "proof_domain_for (rt_of d) = Some dmn" "dget p ''proof_domain'' = PStr dmn"
      "time_item d ''issued_at'' = Inr issued" "time_item d ''expires_at'' = Inr expires"
      "call_verifier V d (PDict p) = Inr ()" "first_acceptance (PDict p) dmn now issued expires T = Inr a"
    using verify_inv [OF assms [unfolded verify_signed_record_def]] by (metis (no_types, lifting))
  obtain k alg where k: "dget p ''issuer'' = PStr (tk_issuer k)" "dget p ''key_id'' = PStr (tk_key_id k)"
      "filter (\<lambda>k'. tk_issuer k' = tk_issuer k \<and> tk_key_id k' = tk_key_id k) (tc_trusted_keys T) = [k]"
      "tk_issuer k \<in> set (tc_expected_issuers T)" "(dmn, tk_issuer k) \<in> set (tc_allowed_domain_issuers T)"
      "dget p ''algorithm'' = PStr alg" "alg \<in> set (tc_allowed_algorithms T)" "alg \<in> set (tk_algorithms k)"
      "key_window_ok now issued expires (tc_clock_skew T) k = Inr ()"
    by (rule first_acceptance_key [OF d(10)])
  note window = key_window_inv(1,2) [OF k(9)] key_window_validity [OF k(9)] key_window_revocation [OF k(9)]
  obtain c where c: "V c = Inr (PBool True)" "canonical_bytes (PDict (unsigned_body d)) = Inr (pc_unsigned_bytes c)"
      "pc_issuer c = dget p ''issuer''" "pc_key_id c = dget p ''key_id''" "pc_detached_proof c = dget p ''detached_proof''"
    using call_verifier_inv [OF d(9)] by auto
  show ?thesis
    by (rule exI [of _ d], rule exI [of _ p], rule exI [of _ dmn], rule exI [of _ now],
        rule exI [of _ issued], rule exI [of _ expires], rule exI [of _ k], rule exI [of _ c])
      (use d k c window in \<open>auto simp: dget_Some\<close>)
qed

lemma signed_record_sound_witness:
  "\<exists>d p dmn now issued expires c. PDict run_grant = PDict d \<and>
     tc_now (demo_trust (demo_time 12)) = Aware now \<and>
     validate_record demo_env (PS demo_tenant) (PDict d) = Inr () \<and> dget d ''proof'' = PDict p \<and>
     proof_domain_for (rt_of d) = Some dmn \<and> demo_accept c = Inr (PBool True) \<and>
     time_item d ''issued_at'' = Inr issued \<and> time_item d ''expires_at'' = Inr expires \<and>
     pc_detached_proof c = dget p ''detached_proof''"
proof -
  obtain h where "verify_signed_record demo_env demo_accept (demo_trust (demo_time 12)) (PS demo_tenant) False
      (PDict run_grant) = Inr h"
    using run_signed [OF run_accepted(1)]
    by (cases "verify_signed_record demo_env demo_accept (demo_trust (demo_time 12)) (PS demo_tenant) False
      (PDict run_grant)") auto
  from signed_record_sound [OF this] show ?thesis
    by (elim exE conjE) (intro exI conjI, assumption+)
qed

text \<open>
  C9: a grant that validates is bound to its request and to an authorizing policy decision
  made between the request and the grant, has the isolation profile of the decision, which
  permits effects, carries every constraint of the policy, and is signed. Each of its approval
  references leads to a supplied approval with the identifier and the digest the reference
  names: it approves this very decision on this request, its separation of duties is satisfied
  when it is required, it is signed, the grant was issued after it and before it expired,
  expires no later than it does, and carries every constraint of it.
\<close>

theorem grant_sound:
  assumes "validate_grant_binding E V T R (PDict g) (PDict r) (PDict p) approvals = Inr u"
  shows "(\<forall>f\<in>set grant_request_fields. py_eq (dget g f) (dget r f)) \<and>
     py_eq (dget g ''policy_decision_id'') (dget p ''decision_id'') \<and>
     py_eq (dget g ''policy_decision_digest'') (dget p ''decision_digest'') \<and>
     (dget p ''decision'' = PS ''authorize'' \<or>
        dget p ''decision'' = PS ''require_approval'' \<and> truthy (dget g ''approval_refs'')) \<and>
     py_eq (dget g ''isolation_profile'') (dget p ''isolation_profile'') \<and>
     dget p ''isolation_profile'' \<noteq> PS ''no_effect'' \<and>
     (\<exists>rq pd gi. time_item r ''requested_at'' = Inr rq \<and> time_item p ''decided_at'' = Inr pd \<and>
        time_item g ''issued_at'' = Inr gi \<and> rq \<le> pd \<and> pd \<le> gi) \<and>
     (\<exists>h. verify_signed_record E V T (dget g ''tenant_id'') False (PDict g) = Inr h) \<and>
     (\<exists>gcs pcs refs. constraint_bindings g = Inr gcs \<and> constraint_bindings p = Inr pcs \<and>
        (\<forall>b\<in>set pcs. py_eq (bindings_get gcs (fst b)) (snd b)) \<and> get_elems g ''approval_refs'' = Inr refs \<and>
        (\<forall>rf\<in>set refs. \<exists>a. PDict a \<in> set approvals \<and> approves E V T g r p gcs rf a))"
proof -
  note g = grant_inv [OF assms] and c = grant_checks_inv [OF grant_inv(1) [OF assms]]
  obtain gcs pcs supl refs where m: "constraint_bindings g = Inr gcs" "constraint_bindings p = Inr pcs"
      "\<forall>b\<in>set pcs. py_eq (bindings_get gcs (fst b)) (snd b)" "supply_approvals approvals [] = Inr supl"
      "get_elems g ''approval_refs'' = Inr refs"
    and refs: "\<forall>rf\<in>set refs. \<exists>i a. item rf ''record_id'' = Inr i \<and> find_approval supl i = Inr (Some a) \<and>
         check_approval_ref E V T R g r p gcs rf a = Inr ()"
    using g(4) by blast
  have "\<forall>rf\<in>set refs. \<exists>a. PDict a \<in> set approvals \<and> approves E V T g r p gcs rf a"
    using refs supplied_approval [OF m(4)] approval_ref_approves by blast
  moreover have "dget p ''decision'' = PS ''authorize'' \<or>
      dget p ''decision'' = PS ''require_approval'' \<and> truthy (dget g ''approval_refs'')"
    using c(5) g(3) by blast
  ultimately show ?thesis
    using m(1,2,3,5) c(1,3,4,6,7) g(2) grant_times_ordered [OF g(1)]
    by (intro conjI exI [of _ gcs] exI [of _ pcs] exI [of _ refs]) simp_all
qed

lemma grant_sound_witness:
  "dget ask_decision ''decision'' = PS ''require_approval'' \<and>
   py_eq (dget ask_grant ''policy_decision_digest'') (dget ask_decision ''decision_digest'') \<and>
   (\<exists>gcs. approves demo_env demo_accept ask_trust ask_grant run_request ask_decision gcs ask_ref ask_approval)"
proof -
  have held: "dget ask_decision ''decision'' = PS ''require_approval''" by (simp add: ask_decision_def dget_def)
  note sound = grant_sound [OF ask_grant_bound]
  from sound obtain gcs refs where refs: "get_elems ask_grant ''approval_refs'' = Inr refs"
    "\<forall>rf\<in>set refs. \<exists>a. PDict a \<in> set [PDict ask_approval] \<and>
       approves demo_env demo_accept ask_trust ask_grant run_request ask_decision gcs rf a"
    by (elim conjE exE)
  have "refs = [ask_ref]" using refs(1) ask_grant_checks(7) by simp
  then have "approves demo_env demo_accept ask_trust ask_grant run_request ask_decision gcs ask_ref ask_approval"
    using refs(2) by simp
  then show ?thesis using held sound by blast
qed

section \<open>Scopes\<close>

text \<open>
  C14: along a chain of accepted memory scopes authority only shrinks: the last scope has the
  tenant and the actor of the actor context, a validity window inside the context's own, and
  a selection the context allows.
\<close>

theorem scopes_shrink:
  assumes "derives E c a"
  shows "py_eq (dget c ''tenant_id'') (dget a ''tenant_id'') \<and> py_eq (dget c ''actor_id'') (dget a ''actor_id'') \<and>
     (\<exists>d u p q. authority_window c = Inr (d, u) \<and> authority_window a = Inr (p, q) \<and> p \<le> d \<and> d \<le> u \<and> u \<le> q) \<and>
     (\<exists>sel. check_selection sel a = Inr () \<and> (py_eq (dget c ''selection'') sel \<or> dget c ''selection'' = sel))"
  using derives_within [OF assms] derives_selection [OF assms] unfolding within_authority_def by blast

lemma scopes_shrink_witness:
  "py_eq (dget demo_subscope ''tenant_id'') (dget run_actor ''tenant_id'') \<and>
   (\<exists>d u p q. authority_window demo_subscope = Inr (d, u) \<and> authority_window run_actor = Inr (p, q) \<and>
      p \<le> d \<and> d \<le> u \<and> u \<le> q)"
  using scopes_shrink [OF demo_chain] by (elim conjE) (intro conjI, assumption+)

section \<open>Policy\<close>

text \<open>
  C13: policy evaluation is first match with a mandatory deny: a result is either the first
  rule of the set that matches, every earlier rule having been tried and refused, or, when no
  rule matches, a synthetic rule that denies, isolates with \<open>no_effect\<close> and is named after
  the version of the set.
\<close>

theorem policy_first_match:
  assumes "evaluate P request = Inr r"
  shows "(\<exists>us vs. policy_rules P = us @ r # vs \<and> rule_matches r request = Inr True \<and>
            (\<forall>u\<in>set us. rule_matches u request = Inr False)) \<or>
         (\<forall>q\<in>set (policy_rules P). rule_matches q request = Inr False) \<and>
           rule_decision r = S ''deny'' \<and> rule_isolation_profile r = S ''no_effect'' \<and>
           rule_constraints r = [] \<and> rule_id r = policy_version P @ S ''.default_deny''"
proof -
  obtain m where m: "first_match (policy_rules P) request = Inr m"
    using assms by (auto simp: evaluate_def bindE_Inr_iff)
  show ?thesis
  proof (cases m)
    case None
    then show ?thesis
      using assms m first_match_none [of "policy_rules P" request]
      by (auto simp: evaluate_def bindE_Inr_iff default_deny_def Let_def)
  next
    case (Some q)
    then have "q = r" using assms m by (simp add: evaluate_def)
    then show ?thesis using first_match_split [of "policy_rules P" request q] m Some by blast
  qed
qed

lemma policy_first_match_witness:
  "(\<exists>us vs. policy_rules demo_policy = us @ hd (policy_rules demo_policy) # vs \<and>
     rule_matches (hd (policy_rules demo_policy)) run_request = Inr True) \<or>
   rule_decision (hd (policy_rules demo_policy)) = S ''deny''"
proof -
  have "evaluate demo_policy run_request = Inr (hd (policy_rules demo_policy))" by code_simp
  from policy_first_match [OF this] show ?thesis by blast
qed

text \<open>
  C16: merging the constraints of several records neither drops nor invents one: every
  constraint of every record has an equal one in the result, and every constraint of the
  result comes from one of the records. (Constraint identifiers and versions are strings, as
  the schemas require.)
\<close>

theorem constraints_merged:
  assumes "merge_constraints rs = Inr out"
    and "\<forall>r\<in>set rs. \<forall>cs. get_elems r ''constraints'' = Inr cs \<longrightarrow> (\<forall>c\<in>set cs. str_constraint c)"
  shows "(\<forall>r\<in>set rs. \<exists>cs. get_elems r ''constraints'' = Inr cs \<and> (\<forall>c\<in>set cs. \<exists>k\<in>set out. same_binding c k)) \<and>
     (\<forall>k\<in>set out. \<exists>r\<in>set rs. \<exists>cs. get_elems r ''constraints'' = Inr cs \<and> k \<in> set cs)"
proof -
  obtain m where m: "merge_records rs [] = Inr m" "out = map snd m"
    using assms(1) by (auto simp: merge_constraints_def bindE_Inr_iff)
  have "\<exists>cs. get_elems r ''constraints'' = Inr cs \<and> (\<forall>c\<in>set cs. \<exists>k\<in>set out. same_binding c k)"
    if r: "r \<in> set rs" for r
  proof -
    obtain cs where cs: "get_elems r ''constraints'' = Inr cs"
      using merge_records_elems [OF m(1) r] by blast
    have "\<exists>k\<in>set out. same_binding c k" if c: "c \<in> set cs" for c
    proof -
      have "str_constraint c" using assms(2) r cs c by blast
      then obtain k where "constraint_key c = Inr k" unfolding str_constraint_def by blast
      then have "same_binding c (bindings_get m k)" "bindings_get m k \<noteq> PNone"
        using merge_records_covers [OF m(1) assms(2) r cs c] by auto
      moreover have "bindings_get m k \<in> set out"
        using bindings_get_set [OF calculation(2)] m(2) by simp
      ultimately show ?thesis by blast
    qed
    then show ?thesis using cs by blast
  qed
  then show ?thesis using merge_records_set [OF m(1)] m(2) by auto
qed

lemma constraints_merged_witness:
  "\<exists>k\<in>set [demo_constraint]. same_binding demo_constraint k"
proof -
  have "get_elems [(S ''constraints'', PList [demo_constraint])] ''constraints'' = Inr [demo_constraint]"
    by code_simp
  moreover have "str_constraint demo_constraint"
    unfolding str_constraint_def str_key_def demo_constraint_def
    by (simp add: constraint_key_def ditem_def)
  moreover have "merge_constraints [[(S ''constraints'', PList [demo_constraint])],
      [(S ''constraints'', PList [demo_constraint])]] = Inr [demo_constraint]" by code_simp
  ultimately show ?thesis
    using constraints_merged [of "[[(S ''constraints'', PList [demo_constraint])],
      [(S ''constraints'', PList [demo_constraint])]]" "[demo_constraint]"] by auto
qed

section \<open>Idempotency\<close>

text \<open>
  C17: comparing a stored binding with a valid incoming one is exactly three-valued: another
  tenant or key is new, the same operation is a replay, another operation under the same key
  is a conflict. The code's last guard, for bindings that differ elsewhere, never fires.
\<close>

theorem idempotency_trichotomy:
  assumes "validate_idempotency_binding stored = Inr u" "validate_idempotency_binding incoming = Inr v"
    and "distinct (map fst stored)" "distinct (map fst incoming)"
  shows "compare_idempotency_bindings (Some stored) incoming =
     (if dget stored ''tenant_id'' \<noteq> dget incoming ''tenant_id'' \<or>
         dget stored ''idempotency_key'' \<noteq> dget incoming ''idempotency_key'' then Inr NEW
      else if dget stored ''operation_digest'' = dget incoming ''operation_digest'' then Inr REPLAY
      else Inl (Exc IdempotencyConflictError ''idempotency key is already bound to another operation''))"
proof -
  note s = idempotency_binding_inv(2-4) [OF assms(1)] and i = idempotency_binding_inv(2-4) [OF assms(2)]
  have "neq (dget stored f) (dget incoming f) \<longleftrightarrow> dget stored f \<noteq> dget incoming f"
    if "f \<in> {''tenant_id'', ''idempotency_key'', ''operation_digest''}" for f
    using that s i by (auto simp: neq_def)
  then show ?thesis
    using assms(1,2) valid_bindings_equal [OF assms(1-4)]
    by (auto simp: compare_idempotency_bindings_def reject_if_def neq_def)
qed

lemma idempotency_trichotomy_witness:
  "compare_idempotency_bindings (Some run_binding) run_binding = Inr REPLAY"
proof -
  have "validate_idempotency_binding run_binding = Inr ()" "distinct (map fst run_binding)" by code_simp+
  from idempotency_trichotomy [OF this(1,1,2,2)] show ?thesis by simp
qed

section \<open>Identifiers\<close>

text \<open>
  C27: the factory only returns lowercase UUIDv7 texts and keeps its sequence in twelve bits,
  for every millisecond of 48 bits and whatever random bits it draws; a clock without a time
  zone is refused before the state changes.
\<close>

theorem uuid7_wellformed:
  assumes "factory_ok s" "in_ranges ms seq tail" "uuid7_call now ms seq tail s = (result, s')"
  shows "(\<exists>t uid. now = Aware t \<and> result = Inr uid \<and> is_uuid7_text uid \<and> factory_ok s' \<and> last_ms s' = ms) \<or>
     (\<exists>t msg. now = Naive t \<and> result = Inl (Exc ValueError msg) \<and> s' = s)"
proof (cases now)
  case (Aware t)
  have r: "0 \<le> seq" "seq < 2 ^ 12" using assms(2) by (auto simp: in_ranges_def)
  note ok = factory_step_ok [OF assms(1) r, of ms]
  then have "in_ranges ms (sequence (uuid_step ms seq s)) tail"
    using assms(2) by (auto simp: in_ranges_def factory_ok_def)
  then show ?thesis
    using assms(3) Aware ok uuid_text_valid by (auto simp: uuid7_call_def Let_def)
next
  case (Naive t)
  then show ?thesis using assms(3) by (auto simp: uuid7_call_def)
qed

lemma uuid7_wellformed_witness:
  "\<exists>uid. uuid7_call (Aware 0) 1767225600000 5 7 initial_factory =
     (Inr uid, \<lparr> last_ms = 1767225600000, sequence = 5 \<rparr>) \<and> is_uuid7_text uid"
proof -
  have "in_ranges 1767225600000 5 7" by (simp add: in_ranges_def)
  moreover obtain uid where
    "uuid7_call (Aware 0) 1767225600000 5 7 initial_factory = (Inr uid, \<lparr> last_ms = 1767225600000, sequence = 5 \<rparr>)"
    by (simp add: uuid7_call_def uuid_step_def initial_factory_def Let_def)
  ultimately show ?thesis using uuid7_wellformed [OF initial_factory_ok] by blast
qed

text \<open>
  C28: the value of the next identifier exceeds the last one exactly when the clock advanced,
  or stood still while the sequence of the millisecond was not exhausted. The 4097th
  identifier of a millisecond, and any after the clock steps back, is smaller than the one
  before it: the generator is not monotonic there.
\<close>

theorem uuid7_order:
  assumes "in_ranges (last_ms s) (sequence s) tail" "in_ranges ms seq tail'"
    and "s' = uuid_step ms seq s"
  shows "uuid_value (last_ms s) (sequence s) tail < uuid_value ms (sequence s') tail' \<longleftrightarrow>
     last_ms s < ms \<or> last_ms s = ms \<and> sequence s < 4095"
proof -
  have q: "0 \<le> sequence s" "sequence s < 4096" "0 \<le> seq" "seq < 4096"
    using assms(1,2) by (auto simp: in_ranges_def)
  then have r: "in_ranges ms (sequence s') tail'"
    using assms(2) by (auto simp: in_ranges_def assms(3) uuid_step_def and_4095)
  consider (later) "last_ms s < ms" | (earlier) "ms < last_ms s" | (same) "ms = last_ms s" by linarith
  then show ?thesis
  proof cases
    case later
    then show ?thesis using uuid_value_less [OF assms(1) r] by simp
  next
    case earlier
    then show ?thesis using uuid_value_less [OF r assms(1)] by simp
  next
    case same
    then have seq: "sequence s' = (sequence s + 1) mod 4096" by (simp add: assms(3) uuid_step_def and_4095)
    show ?thesis
    proof (cases "sequence s < 4095")
      case True
      then show ?thesis using uuid_value_less [OF assms(1) r] same seq q by simp
    next
      case False
      then have "sequence s = 4095" using q by simp
      then show ?thesis using uuid_value_less [OF r assms(1)] same seq by simp
    qed
  qed
qed

lemma uuid7_order_witness:
  "\<not> uuid_value 9 4095 1 < uuid_value 9 (sequence (uuid_step 9 3 \<lparr> last_ms = 9, sequence = 4095 \<rparr>)) 1"
  using uuid7_order [of "\<lparr> last_ms = 9, sequence = 4095 \<rparr>" 1 9 3 1] by (simp add: in_ranges_def)

section \<open>Skill lifecycle commands\<close>

text \<open>
  C15: an accepted skill lifecycle command is one of the five operations, has exactly the keys
  of the wire contract, and the digest returned is its own \<open>operation_digest\<close>, the digest of
  everything else in it.
\<close>

theorem skill_command_bound:
  assumes "validate_skill_lifecycle_command E C (PDict actor) wire = Inr bound"
  shows "\<exists>operation\<in>set SKILL_LIFECYCLE_OPERATIONS. dget wire ''operation'' = PStr operation \<and>
     dkeys wire = set (map S (if operation = S ''rebuild'' then ''skill_id'' # common_keys else lifecycle_keys)) \<and>
     dget wire ''operation_digest'' = bound \<and>
     sha256_digest (hash E) (PDict (dpop wire ''operation_digest'')) = Inr bound \<and>
     validate_record E PNone (PDict actor) = Inr () \<and>
     (operation \<noteq> S ''install'' \<longrightarrow> positive_int (dget wire ''expected_revision''))"
proof -
  obtain operation where f: "skill_frame E actor wire = Inr (operation, bound)"
      and v: "validate_record E PNone (PDict actor) = Inr ()"
      and rev: "operation \<noteq> S ''install'' \<longrightarrow> positive_int (dget wire ''expected_revision'')"
    by (rule skill_command_inv [OF assms])
  show ?thesis using skill_frame_inv [OF f] v rev by blast
qed

lemma skill_command_bound_witness:
  "dget demo_rebuild ''operation_digest'' = digest_of demo_rebuild_body \<and>
   dkeys demo_rebuild = set (map S (''skill_id'' # common_keys))"
proof -
  have "validate_skill_lifecycle_command demo_env demo_no_proofs (PDict run_actor) demo_rebuild
      = Inr (digest_of demo_rebuild_body)" by code_simp
  from skill_command_bound [OF this] show ?thesis
    by (auto simp: demo_rebuild_def demo_rebuild_body_def dget_def)
qed

end
