(* ===== verification/Store_Checks.thy ===== *)
theory Store_Checks
  imports Broker
begin

text \<open>
  The checks of \<open>persistence/store.py\<close> that read no database: times, the parsing of the five
  authority inputs, the bindings of a lifecycle, of a stored execution, of its intent and
  outcome evidence, and of a memory transition. Each function of the module is one
  definition; a chain of \<open>or\<close> is \<open>orE\<close>, so a missing key raises where Python does.
\<close>

abbreviation store_fail :: "bool res \<Rightarrow> string \<Rightarrow> unit res" where
  "store_fail c msg \<equiv> denyE c DurableStoreError msg"

section \<open>Comparing entries\<close>

text \<open>\<open>a[k] != b[l]\<close>, \<open>a[k] != v\<close> and \<open>a.get(k) != v\<close>.\<close>

definition differ :: "dict \<Rightarrow> string \<Rightarrow> dict \<Rightarrow> string \<Rightarrow> bool res" where
  "differ a k b l = bindE (ditem a k) (\<lambda>x. bindE (ditem b l) (\<lambda>y. Inr (neq x y)))"

definition item_differs :: "dict \<Rightarrow> string \<Rightarrow> pyval \<Rightarrow> bool res" where
  "item_differs a k v = bindE (ditem a k) (\<lambda>x. Inr (neq x v))"

definition get_differs :: "dict \<Rightarrow> string \<Rightarrow> dict \<Rightarrow> string \<Rightarrow> bool res" where
  "get_differs a k b l = bindE (ditem b l) (\<lambda>y. Inr (neq (dget a k) y))"

lemma differ_False [res_simps]:
  "differ a k b l = Inr False \<longleftrightarrow>
     (\<exists>x y. map_of a (S k) = Some x \<and> map_of b (S l) = Some y \<and> py_eq x y)"
  by (auto simp: differ_def res_simps neq_def)

lemma item_differs_False [res_simps]:
  "item_differs a k v = Inr False \<longleftrightarrow> (\<exists>x. map_of a (S k) = Some x \<and> py_eq x v)"
  by (auto simp: item_differs_def res_simps neq_def)

lemma get_differs_False [res_simps]:
  "get_differs a k b l = Inr False \<longleftrightarrow> (\<exists>y. map_of b (S l) = Some y \<and> py_eq (dget a k) y)"
  by (auto simp: get_differs_def res_simps neq_def)

text \<open>\<open>dict(v)\<close>: only a mapping, or something empty, becomes a dictionary.\<close>

fun py_dict :: "pyval \<Rightarrow> dict res" where
  "py_dict (PDict d) = Inr d"
| "py_dict (PList []) = Inr []"
| "py_dict (PTuple []) = Inr []"
| "py_dict (PStr []) = Inr []"
| "py_dict _ = Inl (Exc TypeError ''dict()'')"

abbreviation model :: "env \<Rightarrow> string \<Rightarrow> pyval \<Rightarrow> dict \<Rightarrow> dict res" where
  "model E rt tenant d \<equiv> contract_model E (store E) (S rt) tenant True d"

definition parse_model_value :: "env \<Rightarrow> string \<Rightarrow> pyval \<Rightarrow> pyval \<Rightarrow> dict res" where
  "parse_model_value E rt tenant v = bindE (py_dict v) (model E rt tenant)"

definition digest_of_dict :: "env \<Rightarrow> dict \<Rightarrow> pyval res" where
  "digest_of_dict E d = sha256_digest (hash E) (PDict d)"

section \<open>Times\<close>

text \<open>
  \<open>_parse_time\<close>: \<open>fromiso\<close> is \<open>datetime.fromisoformat\<close>, which raises \<open>ValueError\<close> where it has no
  value. \<open>value.replace\<close> on anything but a string is an uncaught \<open>AttributeError\<close>.
\<close>

fun replace_Z :: "pystr \<Rightarrow> pystr" where
  "replace_Z [] = []"
| "replace_Z (c # cs) = (if c = 90 then S ''+00:00'' else [c]) @ replace_Z cs"

definition store_aware :: "pytime \<Rightarrow> string \<Rightarrow> instant res" where
  "store_aware t msg = (case t of
     Naive n \<Rightarrow> Inl (Exc DurableStoreError msg)
   | Aware i \<Rightarrow> if representable i then Inr i else Inl (Exc OverflowError ''date value out of range''))"

definition parse_iso :: "(pystr \<Rightarrow> pytime option) \<Rightarrow> pyval \<Rightarrow> instant res" where
  "parse_iso fromiso v = (case v of
     PStr s \<Rightarrow> (case fromiso (replace_Z s) of
        None \<Rightarrow> Inl (Exc DurableStoreError ''authority timestamp is malformed'')
      | Some t \<Rightarrow> store_aware t ''authority timestamp must be timezone-aware'')
   | _ \<Rightarrow> Inl (Exc AttributeError ''replace''))"

definition iso_item :: "(pystr \<Rightarrow> pytime option) \<Rightarrow> dict \<Rightarrow> string \<Rightarrow> instant res" where
  "iso_item fromiso d k = bindE (ditem d k) (parse_iso fromiso)"

text \<open>\<open>parse(a[k]) < parse(b[l])\<close> and the comparison of two times of one record.\<close>

definition iso_before :: "(pystr \<Rightarrow> pytime option) \<Rightarrow> dict \<Rightarrow> string \<Rightarrow> dict \<Rightarrow> string \<Rightarrow> bool res" where
  "iso_before fromiso a k b l = bindE (iso_item fromiso a k) (\<lambda>x. bindE (iso_item fromiso b l) (\<lambda>y. Inr (x < y)))"

definition iso_not_after :: "(pystr \<Rightarrow> pytime option) \<Rightarrow> dict \<Rightarrow> string \<Rightarrow> dict \<Rightarrow> string \<Rightarrow> bool res" where
  "iso_not_after fromiso a k b l = bindE (iso_item fromiso a k) (\<lambda>x. bindE (iso_item fromiso b l) (\<lambda>y. Inr (x \<le> y)))"

lemma iso_before_False [res_simps]:
  "iso_before fromiso a k b l = Inr False \<longleftrightarrow>
     (\<exists>x y. iso_item fromiso a k = Inr x \<and> iso_item fromiso b l = Inr y \<and> y \<le> x)"
  by (auto simp: iso_before_def bindE_Inr_iff)

lemma iso_not_after_False [res_simps]:
  "iso_not_after fromiso a k b l = Inr False \<longleftrightarrow>
     (\<exists>x y. iso_item fromiso a k = Inr x \<and> iso_item fromiso b l = Inr y \<and> y < x)"
  by (auto simp: iso_not_after_def bindE_Inr_iff)

text \<open>\<open>not start <= now < end\<close>, where the end is only read when the start has passed.\<close>

definition outside_window ::
  "(pystr \<Rightarrow> pytime option) \<Rightarrow> dict \<Rightarrow> string \<Rightarrow> string \<Rightarrow> instant \<Rightarrow> bool res" where
  "outside_window fromiso d start stop now =
     bindE (iso_item fromiso d start) (\<lambda>a.
       if \<not> a \<le> now then Inr True else bindE (iso_item fromiso d stop) (\<lambda>b. Inr (\<not> now < b)))"

lemma outside_window_False [res_simps]:
  "outside_window fromiso d start stop now = Inr False \<longleftrightarrow>
     (\<exists>a b. iso_item fromiso d start = Inr a \<and> iso_item fromiso d stop = Inr b \<and> a \<le> now \<and> now < b)"
  by (auto simp: outside_window_def bindE_Inr_iff split: if_splits)

section \<open>Parsing the authority inputs\<close>

definition parse_inputs ::
  "env \<Rightarrow> pyval \<Rightarrow> pyval \<Rightarrow> pyval \<Rightarrow> pyval list \<Rightarrow> pyval \<Rightarrow> (dict \<times> dict \<times> dict \<times> dict list \<times> dict) res" where
  "parse_inputs E actor_context request policy approvals grant =
     bindE (parse_model_value E ''actor_context'' PNone actor_context) (\<lambda>actor.
     bindE (ditem actor ''tenant_id'') (\<lambda>tenant.
     bindE (parse_model_value E ''tool_request'' tenant request) (\<lambda>r.
     bindE (parse_model_value E ''policy_decision'' tenant policy) (\<lambda>p.
     bindE (mapE (parse_model_value E ''approval_record'' tenant) approvals) (\<lambda>as.
     bindE (parse_model_value E ''authorization_grant'' tenant grant) (\<lambda>g.
       Inr (actor, r, p, as, g)))))))"

section \<open>The lifecycle\<close>

definition policy_reference :: "dict \<Rightarrow> dict res" where
  "policy_reference policy = effect_ref ''policy_decision'' policy ''decision_id'' ''decision_digest''"

definition approval_reference :: "dict \<Rightarrow> dict res" where
  "approval_reference a = effect_ref ''approval_record'' a ''approval_id'' ''approval_digest''"

definition lifecycle_approval_unbound ::
  "(pystr \<Rightarrow> pytime option) \<Rightarrow> dict \<Rightarrow> dict \<Rightarrow> dict \<Rightarrow> bool res" where
  "lifecycle_approval_unbound fromiso request policy approval = orE
    [item_differs policy ''decision'' (PS ''require_approval''),
     differ approval ''request_id'' request ''request_id'',
     differ approval ''request_digest'' request ''request_digest'',
     differ approval ''policy_decision_id'' policy ''decision_id'',
     differ approval ''policy_decision_digest'' policy ''decision_digest'',
     item_differs approval ''disposition'' (PS ''approved''),
     bindE (mapping_item approval ''separation_of_duties'') (\<lambda>d. bindE (ditem d ''satisfied'') (\<lambda>v. Inr (\<not> truthy v))),
     differ approval ''constraints'' policy ''constraints'',
     iso_before fromiso approval ''issued_at'' policy ''decided_at'',
     iso_not_after fromiso approval ''expires_at'' approval ''issued_at'']"

definition lifecycle_grant_unbound ::
  "(pystr \<Rightarrow> pytime option) \<Rightarrow> dict \<Rightarrow> dict \<Rightarrow> dict \<Rightarrow> dict list \<Rightarrow> instant \<Rightarrow> dict \<Rightarrow> bool res" where
  "lifecycle_grant_unbound fromiso actor request policy refs authority_time grant = orE
    [differ grant ''tenant_id'' actor ''tenant_id'',
     differ grant ''actor_id'' actor ''actor_id'',
     differ grant ''run_id'' request ''run_id'',
     differ grant ''request_id'' request ''request_id'',
     differ grant ''request_digest'' request ''request_digest'',
     differ grant ''policy_decision_id'' policy ''decision_id'',
     differ grant ''policy_decision_digest'' policy ''decision_digest'',
     item_differs grant ''approval_refs'' (PList (map PDict refs)),
     differ grant ''constraints'' policy ''constraints'',
     differ grant ''isolation_profile'' policy ''isolation_profile'',
     differ grant ''idempotency'' request ''idempotency'',
     differ grant ''tool_id'' request ''tool_id'',
     differ grant ''tool_version'' request ''tool_version'',
     bindE (iso_item fromiso grant ''issued_at'') (\<lambda>t. Inr (t < authority_time)),
     iso_not_after fromiso grant ''expires_at'' grant ''issued_at'']"

definition validate_lifecycle_authority ::
  "env \<Rightarrow> (pystr \<Rightarrow> pytime option) \<Rightarrow> dict \<Rightarrow> dict \<Rightarrow> dict \<Rightarrow> dict option \<Rightarrow> dict option \<Rightarrow> unit res" where
  "validate_lifecycle_authority E fromiso actor request policy approval grant = seqE
    [store_fail (orE
       [bindE (ditem request ''actor_context_digest'') (\<lambda>x. bindE (digest_of_dict E actor) (\<lambda>y. Inr (neq x y))),
        differ request ''tenant_id'' actor ''tenant_id'',
        differ request ''actor_id'' actor ''actor_id'',
        differ policy ''tenant_id'' actor ''tenant_id'',
        differ policy ''request_id'' request ''request_id'',
        differ policy ''request_digest'' request ''request_digest''])
       ''lifecycle identity, request, or policy binding is invalid'',
     (case approval of None \<Rightarrow> Inr ()
      | Some a \<Rightarrow> store_fail (lifecycle_approval_unbound fromiso request policy a)
          ''lifecycle approval binding or chronology is invalid''),
     (case grant of None \<Rightarrow> Inr ()
      | Some g \<Rightarrow>
          bindE (case approval of None \<Rightarrow> Inr [] | Some a \<Rightarrow> bindE (approval_reference a) (\<lambda>r. Inr [r])) (\<lambda>refs.
          bindE (case approval of None \<Rightarrow> iso_item fromiso policy ''decided_at''
                 | Some a \<Rightarrow> iso_item fromiso a ''issued_at'') (\<lambda>authority_time.
          store_fail (lifecycle_grant_unbound fromiso actor request policy refs authority_time g)
            ''lifecycle grant binding or chronology is invalid'')))]"

definition require_policy_ref :: "dict \<Rightarrow> dict \<Rightarrow> unit res" where
  "require_policy_ref policy_ref policy = bindE (policy_reference policy) (\<lambda>expected.
     deny (neq (PDict policy_ref) (PDict expected)) DurableStoreError
       ''evidence policy reference is not exactly bound'')"

end
