(* ===== verification/Store_Effects.thy ===== *)
theory Store_Effects
  imports Store_Checks
begin

text \<open>
  Stored effect executions of \<open>persistence/store.py\<close>: a row of the effects table is only
  believed after its authority records validate, bind each other, match the binding digest
  of the row, carry a fence, and, when the execution ended, carry an outcome and outcome
  evidence that bind to them. \<open>effect_of_row\<close> is \<open>_row\<close> of the store.
\<close>

section \<open>Replay of a binding\<close>

definition require_exact :: "env \<Rightarrow> stored_effect \<Rightarrow> pyval \<Rightarrow> dict \<Rightarrow> dict \<Rightarrow> unit res" where
  "require_exact E st binding_digest request grant = seqE
    [deny (neq (se_binding_digest st) binding_digest) IdempotencyConflictError
       ''durable execution binding conflicts with stored authority'',
     denyE (differ (se_request st) ''idempotency'' request ''idempotency'') IdempotencyConflictError
       ''durable idempotency binding conflicts with stored request'',
     denyE (differ (se_request st) ''request_digest'' request ''request_digest'') IdempotencyConflictError
       ''durable replay request digest conflicts'',
     denyE (orE [differ (se_grant st) ''grant_id'' grant ''grant_id'',
              bindE (digest_of_dict E (se_grant st)) (\<lambda>x. bindE (digest_of_dict E grant) (\<lambda>y. Inr (neq x y)))])
       IdempotencyConflictError ''durable replay grant authority conflicts'']"

section \<open>Stored authority\<close>

definition stored_approval_unbound :: "dict \<Rightarrow> dict \<Rightarrow> dict \<Rightarrow> bool res" where
  "stored_approval_unbound request policy approval = orE
    [differ approval ''request_id'' request ''request_id'',
     differ approval ''request_digest'' request ''request_digest'',
     differ approval ''policy_decision_id'' policy ''decision_id'',
     differ approval ''policy_decision_digest'' policy ''decision_digest'',
     item_differs approval ''disposition'' (PS ''approved''),
     bindE (mapping_item approval ''separation_of_duties'') (\<lambda>d. bindE (ditem d ''satisfied'') (\<lambda>v. Inr (\<not> truthy v))),
     differ approval ''constraints'' policy ''constraints'']"

definition validate_stored_inputs ::
  "env \<Rightarrow> (pystr \<Rightarrow> pytime option) \<Rightarrow> dict \<Rightarrow> dict \<Rightarrow> dict \<Rightarrow> dict list \<Rightarrow> dict \<Rightarrow> unit res" where
  "validate_stored_inputs E fromiso actor request policy approvals grant =
     bindE (seqE
      [store_fail (bindE (ditem request ''actor_context_digest'') (\<lambda>x. bindE (digest_of_dict E actor) (\<lambda>y. Inr (neq x y))))
         ''stored request does not bind actor context'',
       store_fail (orE
         [differ request ''actor_id'' actor ''actor_id'',
          differ request ''tenant_id'' actor ''tenant_id'',
          differ policy ''request_id'' request ''request_id'',
          differ policy ''request_digest'' request ''request_digest''])
         ''stored request and policy bindings are invalid'',
       store_fail (orE
         [item_differs policy ''decision'' (PS ''require_approval''),
          differ policy ''constraints'' grant ''constraints'',
          differ policy ''isolation_profile'' grant ''isolation_profile'',
          differ grant ''tool_id'' request ''tool_id'',
          differ grant ''tool_version'' request ''tool_version'',
          differ grant ''tenant_id'' actor ''tenant_id''])
         ''stored policy, grant, and request constraints are invalid'']) (\<lambda>_.
     bindE (mapE (\<lambda>a. bindE (store_fail (stored_approval_unbound request policy a)
              ''stored approval binding is invalid'') (\<lambda>_. approval_reference a)) approvals) (\<lambda>refs. seqE
      [store_fail (orE
         [differ grant ''request_id'' request ''request_id'',
          differ grant ''request_digest'' request ''request_digest'',
          differ grant ''policy_decision_id'' policy ''decision_id'',
          differ grant ''policy_decision_digest'' policy ''decision_digest'',
          item_differs grant ''approval_refs'' (PList (map PDict refs)),
          differ grant ''idempotency'' request ''idempotency'',
          differ grant ''actor_id'' actor ''actor_id'',
          differ grant ''run_id'' request ''run_id''])
         ''stored authorization grant binding is invalid'',
       bindE (iso_item fromiso policy ''decided_at'') (\<lambda>decided.
       bindE (mapE (\<lambda>a. iso_item fromiso a ''issued_at'') approvals) (\<lambda>approved.
       bindE (iso_item fromiso grant ''issued_at'') (\<lambda>issued.
       store_fail (orE
         [Inr (\<not> sorted (decided # approved @ [issued])),
          anyE (\<lambda>v. bindE (iso_item fromiso v ''expires_at'') (\<lambda>e. Inr (e < issued))) (grant # approvals)])
         ''stored authority chronology or expiry is invalid'')))]))"

section \<open>Intent and outcome\<close>

definition stored_intent_payload :: "env \<Rightarrow> stored_effect \<Rightarrow> dict res" where
  "stored_intent_payload E st =
     bindE (ditem (se_actor st) ''actor_id'') (\<lambda>actor_id.
     bindE (ditem (se_request st) ''request_digest'') (\<lambda>request_dg.
     bindE (ditem (se_policy st) ''decision_digest'') (\<lambda>policy_dg.
     bindE (digest_of_dict E (se_grant st)) (\<lambda>grant_dg.
     bindE (ditem (se_request st) ''effect_classes'') (\<lambda>effects.
     bindE (ditem (se_grant st) ''isolation_profile'') (\<lambda>isolation.
       Inr [(S ''actor_id'', actor_id), (S ''request_digest'', request_dg),
            (S ''policy_decision_digest'', policy_dg), (S ''authorization_grant_digest'', grant_dg),
            (S ''effect_classes'', effects), (S ''isolation_profile'', isolation)]))))))"

definition validate_intent_evidence :: "env \<Rightarrow> stored_effect \<Rightarrow> unit res" where
  "validate_intent_evidence E st =
     bindE (get_or (PDict (se_intent_evidence st)) ''draft'' (PDict [])) (\<lambda>draft.
     bindE (get_or draft ''inline_payload'' (PDict [])) (\<lambda>payload.
     bindE (stored_intent_payload E st) (\<lambda>expected.
       store_fail (orE
         [bindE (get_or draft ''event_kind'' PNone) (\<lambda>k. Inr (neq k (PS ''kernel.effect_execution_intent''))),
          bindE (get_or draft ''run_id'' PNone) (\<lambda>r. bindE (ditem (se_request st) ''run_id'') (\<lambda>x. Inr (neq r x))),
          Inr (neq payload (PDict expected))])
         ''durable intent evidence binding is invalid'')))"

definition expected_provenance :: "env \<Rightarrow> stored_effect \<Rightarrow> dict \<Rightarrow> pyval res" where
  "expected_provenance E st outcome =
     bindE (digest_of_dict E (se_grant st)) (\<lambda>grant_dg.
     bindE (ditem (se_intent_evidence st) ''event_digest'') (\<lambda>intent_dg.
     bindE (ditem outcome ''result_payload'') (\<lambda>result.
       digest_of_dict E [(S ''authorization_grant_digest'', grant_dg),
         (S ''intent_evidence_digest'', intent_dg), (S ''result_payload'', result)])))"

definition validate_outcome_binding :: "env \<Rightarrow> stored_effect \<Rightarrow> dict \<Rightarrow> unit res" where
  "validate_outcome_binding E st outcome =
     bindE (effect_ref ''tool_request'' (se_request st) ''request_id'' ''request_digest'') (\<lambda>request_ref.
     bindE (policy_reference (se_policy st)) (\<lambda>policy_ref.
     bindE (store_fail (item_differs outcome ''request_ref'' (PDict request_ref))
              ''outcome request authority binding is invalid'') (\<lambda>_.
     bindE (store_fail (item_differs outcome ''policy_refs'' (PList [PDict policy_ref]))
              ''outcome policy authority binding is invalid'') (\<lambda>_.
     bindE (effect_ref ''evidence_envelope'' (se_intent_evidence st) ''envelope_id'' ''event_digest'') (\<lambda>intent_ref.
     bindE (store_fail (item_differs outcome ''evidence_refs'' (PList [PDict intent_ref]))
              ''outcome intent evidence binding is invalid'') (\<lambda>_.
     bindE (mapE approval_reference (se_approvals st)) (\<lambda>reviewers.
     bindE (store_fail (item_differs outcome ''reviewer_refs'' (PList (map PDict reviewers)))
              ''outcome approval binding is invalid'') (\<lambda>_.
     bindE (mapping_item outcome ''target_scope'') (\<lambda>scope.
     bindE (store_fail (orE
              [differ scope ''tenant_id'' (se_actor st) ''tenant_id'',
               differ scope ''actor_id'' (se_actor st) ''actor_id'',
               bindE (ditem scope ''parent_digest'') (\<lambda>x. bindE (digest_of_dict E (se_actor st)) (\<lambda>y. Inr (neq x y)))])
              ''outcome isolation scope binding is invalid'') (\<lambda>_.
     bindE (expected_provenance E st outcome) (\<lambda>provenance. seqE
      [store_fail (item_differs outcome ''provenance_digest'' provenance)
         ''outcome provenance binding is invalid'',
       denyE (differ outcome ''idempotency'' (se_request st) ''idempotency'') IdempotencyConflictError
         ''outcome idempotency binding is invalid'',
       store_fail (differ outcome ''run_id'' (se_request st) ''run_id'')
         ''outcome run binding is invalid''])))))))))))"

definition stored_outcome_payload :: "env \<Rightarrow> stored_effect \<Rightarrow> dict \<Rightarrow> pyval \<Rightarrow> dict res" where
  "stored_outcome_payload E st outcome actual =
     bindE (ditem (se_actor st) ''actor_id'') (\<lambda>actor_id.
     bindE (ditem (se_request st) ''request_digest'') (\<lambda>request_dg.
     bindE (digest_of_dict E (se_grant st)) (\<lambda>grant_dg.
     bindE (ditem outcome ''outcome_digest'') (\<lambda>outcome_dg.
     bindE (ditem outcome ''status'') (\<lambda>status.
       Inr ([(S ''actor_id'', actor_id), (S ''request_digest'', request_dg),
             (S ''authorization_grant_digest'', grant_dg), (S ''outcome_digest'', outcome_dg),
             (S ''status'', status)] @
            (case actual of
               PDict a \<Rightarrow> if dhas a ''recovery'' then [(S ''recovery'', PS ''lease_expired'')] else []
             | _ \<Rightarrow> [])))))))"

definition validate_outcome_evidence :: "env \<Rightarrow> stored_effect \<Rightarrow> dict \<Rightarrow> dict \<Rightarrow> unit res" where
  "validate_outcome_evidence E st outcome evidence =
     bindE (get_or (PDict evidence) ''draft'' (PDict [])) (\<lambda>draft.
     bindE (get draft ''inline_payload'') (\<lambda>actual.
     bindE (stored_outcome_payload E st outcome actual) (\<lambda>expected.
       store_fail (orE
         [bindE (get draft ''event_kind'') (\<lambda>k. Inr (neq k (PS ''kernel.effect_execution_outcome''))),
          bindE (get draft ''run_id'') (\<lambda>r. bindE (ditem (se_request st) ''run_id'') (\<lambda>x. Inr (neq r x))),
          Inr (neq actual (PDict expected)),
          item_differs outcome ''status''
            (if se_state st = S ''completed'' then PS ''succeeded'' else PS ''indeterminate'')])
         ''durable outcome evidence binding is invalid'')))"

section \<open>Rows\<close>

text \<open>
  The fifteen columns \<open>_effect_row\<close> selects. The columns of the table have the declared SQL
  types; a value of another type, which the database cannot return, is a \<open>TypeError\<close> here.
\<close>

record effect_columns =
  ec_actor :: pyval
  ec_request :: pyval
  ec_policy :: pyval
  ec_approvals :: pyval
  ec_grant :: pyval
  ec_binding_digest :: pyval
  ec_state :: pystr
  ec_version :: int
  ec_intent :: pyval
  ec_outcome :: "dict option"
  ec_outcome_evidence :: "dict option"
  ec_attempt :: "pystr option"
  ec_generation :: "int option"
  ec_lease :: instant
  ec_renewed :: instant

fun as_text :: "pyval \<Rightarrow> pystr res" where
  "as_text (PStr s) = Inr s"
| "as_text _ = Inl (Exc TypeError ''text column'')"

fun as_int :: "pyval \<Rightarrow> int res" where
  "as_int (PInt i) = Inr i"
| "as_int _ = Inl (Exc TypeError ''integer column'')"

fun as_optional :: "(pyval \<Rightarrow> 'a res) \<Rightarrow> pyval \<Rightarrow> 'a option res" where
  "as_optional f PNone = Inr None"
| "as_optional f v = bindE (f v) (\<lambda>x. Inr (Some x))"

definition effect_row :: "(pystr \<Rightarrow> pytime option) \<Rightarrow> dict \<Rightarrow> effect_columns res" where
  "effect_row fromiso v =
     bindE (mapE (ditem v) [''actor_context_json'', ''request_json'', ''policy_json'', ''approvals_json'',
              ''grant_json'', ''binding_digest'']) (\<lambda>cs.
     bindE (bindE (ditem v ''state'') as_text) (\<lambda>state.
     bindE (bindE (ditem v ''version'') as_int) (\<lambda>version.
     bindE (ditem v ''intent_envelope_json'') (\<lambda>intent.
     bindE (as_optional py_dict (dget v ''outcome_json'')) (\<lambda>outcome.
     bindE (as_optional py_dict (dget v ''outcome_envelope_json'')) (\<lambda>evidence.
     bindE (bindE (ditem v ''execution_attempt_id'') (as_optional as_text)) (\<lambda>attempt.
     bindE (bindE (ditem v ''owner_generation'') (as_optional as_int)) (\<lambda>generation.
     bindE (iso_item fromiso v ''lease_expires_at'') (\<lambda>lease.
     bindE (iso_item fromiso v ''last_renewed_at'') (\<lambda>renewed.
       Inr \<lparr> ec_actor = cs ! 0, ec_request = cs ! 1, ec_policy = cs ! 2, ec_approvals = cs ! 3,
             ec_grant = cs ! 4, ec_binding_digest = cs ! 5, ec_state = state, ec_version = version,
             ec_intent = intent, ec_outcome = outcome, ec_outcome_evidence = evidence,
             ec_attempt = attempt, ec_generation = generation, ec_lease = lease, ec_renewed = renewed \<rparr>))))))))))"

definition live_states :: "pystr list" where
  "live_states = map S [''prepared'', ''executing'']"

definition ended_states :: "pystr list" where
  "ended_states = map S [''completed'', ''failed'', ''indeterminate'']"

definition fence_malformed :: "stored_effect \<Rightarrow> bool" where
  "fence_malformed st \<longleftrightarrow>
     (case se_attempt st of None \<Rightarrow> True | Some a \<Rightarrow> a = []) \<or>
     (case se_generation st of None \<Rightarrow> True | Some g \<Rightarrow> g = 0 \<or> g < 1) \<or>
     se_lease_expires_at st = None \<or> se_last_renewed_at st = None"

text \<open>The checks on the assembled execution, and the outcome of one that ended.\<close>

definition stored_effect_checks :: "env \<Rightarrow> stored_effect \<Rightarrow> unit res" where
  "stored_effect_checks E st = seqE
    [validate_intent_evidence E st,
     store_fail (orE [Inr (se_version st < 1),
       bindE (execution_binding_digest E (se_actor st) (se_request st) (se_policy st) (se_approvals st) (se_grant st))
         (\<lambda>x. Inr (neq (se_binding_digest st) x))])
       ''durable execution binding digest is invalid'',
     deny (fence_malformed st) DurableStoreError ''durable execution fence metadata is invalid'',
     deny (se_state st \<in> set live_states \<and> (se_outcome st \<noteq> None \<or> se_outcome_evidence st \<noteq> None))
       DurableStoreError ''live execution contains terminal evidence'']"

definition ended_effect :: "env \<Rightarrow> pyval \<Rightarrow> stored_effect \<Rightarrow> stored_effect res" where
  "ended_effect E tenant st =
     (if se_state st \<notin> set ended_states then Inr st
      else case (se_outcome st, se_outcome_evidence st) of
         (Some outcome, Some evidence) \<Rightarrow>
           bindE (model E ''action_outcome'' tenant outcome) (\<lambda>parsed.
           bindE (model E ''evidence_envelope'' tenant evidence) (\<lambda>parsed_evidence.
           bindE (validate_outcome_binding E st parsed) (\<lambda>_.
           bindE (validate_outcome_evidence E st parsed parsed_evidence) (\<lambda>_.
             Inr (st\<lparr> se_outcome := Some parsed, se_outcome_evidence := Some parsed_evidence \<rparr>)))))
       | _ \<Rightarrow> Inl (Exc DurableStoreError ''terminal execution is missing outcome evidence''))"

definition effect_of_row :: "env \<Rightarrow> (pystr \<Rightarrow> pytime option) \<Rightarrow> effect_columns \<Rightarrow> stored_effect res" where
  "effect_of_row E fromiso c =
     bindE (elems (ec_approvals c)) (\<lambda>approval_values.
     bindE (parse_inputs E (ec_actor c) (ec_request c) (ec_policy c) approval_values (ec_grant c))
       (\<lambda>(actor, request, policy, approvals, grant).
     bindE (validate_stored_inputs E fromiso actor request policy approvals grant) (\<lambda>_.
     bindE (ditem actor ''tenant_id'') (\<lambda>tenant.
     bindE (parse_model_value E ''evidence_envelope'' tenant (ec_intent c)) (\<lambda>intent.
     let st = \<lparr> se_actor = actor, se_request = request, se_policy = policy, se_approvals = approvals,
                se_grant = grant, se_binding_digest = ec_binding_digest c, se_state = ec_state c,
                se_version = ec_version c, se_intent_evidence = intent, se_outcome = ec_outcome c,
                se_outcome_evidence = ec_outcome_evidence c, se_attempt = ec_attempt c,
                se_generation = ec_generation c, se_lease_expires_at = Some (Aware (ec_lease c)),
                se_last_renewed_at = Some (Aware (ec_renewed c)), se_created = False \<rparr>
     in bindE (stored_effect_checks E st) (\<lambda>_. ended_effect E tenant st))))))"

end
