(* ===== verification/Store_Lifecycle.thy ===== *)
theory Store_Lifecycle
  imports Store_Effects
begin

text \<open>
  The evidence and lifecycle half of \<open>PostgresDurableEffectStore\<close>. The database is a
  parameter: the SQL functions \<open>gah_runtime_read\<close> and the writers it grants are callables on
  a state of their own type, called with the operation, the actor and a JSON payload. The
  connections are a parameter too: \<open>transaction\<close> models the \<open>with connect() as connection\<close>
  blocks of the store, which open one of the two injected connections and leave it through its
  exit, with the exception if there is one. What opening and leaving do to the database, and
  whether leaving raises (a commit that fails, or whose acknowledgement is lost), is up to the
  ports: nothing here assumes that an exception rolls anything back. The clock and the ids are
  the injected callables of the store.
\<close>

section \<open>Ports and transactions\<close>

text \<open>\<open>self._runtime_connect\<close> and \<open>self._connect\<close>, the privileged connection.\<close>

datatype connection = Runtime | Privileged

record 'b store_ports = ports +
  sp_fromiso :: "pystr \<Rightarrow> pytime option"
  sp_lease :: int
  sp_registry :: constraint_registry
  sp_verifier :: "(nat \<Rightarrow> verifier) option"
  sp_trust :: "(nat \<Rightarrow> instant \<Rightarrow> trust_context res) option"
  sp_connect :: "connection \<Rightarrow> ('b, unit) handler"
  sp_exit :: "exc option \<Rightarrow> ('b, unit) handler"
  sp_read :: "dict \<Rightarrow> string \<Rightarrow> dict \<Rightarrow> ('b, pyval) handler"
  sp_call :: "string \<Rightarrow> dict \<Rightarrow> dict \<Rightarrow> ('b, pyval) handler"
  sp_retrieve :: "dict \<Rightarrow> dict \<Rightarrow> ('b, pyval option) handler"
  sp_lock :: "int \<Rightarrow> ('b, unit) handler"
  sp_text_lock :: "pystr \<Rightarrow> ('b, unit) handler"

record 'b store_state = world +
  rows :: 'b

definition sql :: "('b, 'a) handler \<Rightarrow> ('b store_state, 'a) handler" where
  "sql m = (\<lambda>s. case m (rows s) of (r, b) \<Rightarrow> (r, s\<lparr> rows := b \<rparr>))"

text \<open>\<open>__exit__\<close> returns \<open>None\<close>, so it never swallows an exception; its own replaces it.\<close>

definition transaction ::
  "'b store_ports \<Rightarrow> connection \<Rightarrow> ('b store_state, 'a) handler \<Rightarrow> ('b store_state, 'a) handler" where
  "transaction P C body =
     bindH (sql (sp_connect P C)) (\<lambda>_.
     bindH (attemptH body) (\<lambda>r. case r of
       Inl e \<Rightarrow> bindH (sql (sp_exit P (Some e))) (\<lambda>_. liftH (Inl e))
     | Inr x \<Rightarrow> bindH (sql (sp_exit P None)) (\<lambda>_. returnH x)))"

definition runtime_read ::
  "'b store_ports \<Rightarrow> dict \<Rightarrow> string \<Rightarrow> dict \<Rightarrow> ('b store_state, pyval) handler" where
  "runtime_read P actor operation payload = sql (sp_read P actor operation payload)"

definition write_functions :: "(string \<times> string) list" where
  "write_functions =
    [(''lock_run'', ''gah_lock_run''), (''commit_evidence'', ''gah_commit_evidence''),
     (''insert_lifecycle'', ''gah_submit_lifecycle''), (''approve_lifecycle'', ''gah_accept_approval''),
     (''grant_lifecycle'', ''gah_issue_grant''), (''rebuild_lifecycle'', ''gah_rebuild_lifecycle''),
     (''insert_effect'', ''gah_prepare_effect''), (''renew_effect'', ''gah_renew_effect''),
     (''complete_effect'', ''gah_complete_effect''), (''recover_effect'', ''gah_recover_effect'')]"

definition runtime_write ::
  "'b store_ports \<Rightarrow> dict \<Rightarrow> string \<Rightarrow> dict \<Rightarrow> ('b store_state, pyval) handler" where
  "runtime_write P actor operation payload = (case map_of write_functions operation of
     None \<Rightarrow> raiseH DurableStoreError ''authority write operation is not supported''
   | Some f \<Rightarrow> sql (sp_call P f actor payload))"

text \<open>\<open>if changed["changed"] != 1: raise OptimisticConcurrencyError\<close>\<close>

definition require_changed :: "exc_class \<Rightarrow> string \<Rightarrow> pyval \<Rightarrow> ('b store_state, unit) handler" where
  "require_changed cls msg changed =
     liftH (bindE (item changed ''changed'') (\<lambda>n. deny (neq n (PInt 1)) cls msg))"

definition store_clock :: "'b store_ports \<Rightarrow> ('b store_state, instant) handler" where
  "store_clock P = bindH (ext (p_clock P)) (\<lambda>t.
     liftH (store_aware t ''durable store clock must be timezone-aware''))"

section \<open>Evidence\<close>

definition store_draft :: "pyval \<Rightarrow> pyval \<Rightarrow> pystr \<Rightarrow> string \<Rightarrow> pystr \<Rightarrow> int \<Rightarrow> pyval \<Rightarrow> dict \<Rightarrow> dict" where
  "store_draft tenant event_id run kind now seq opdg payload =
    [(S ''schema_version'', PS ''1.0''),
     (S ''record_type'', PS ''evidence_draft''),
     (S ''tenant_id'', tenant),
     (S ''event_id'', event_id),
     (S ''run_id'', PStr run),
     (S ''event_kind'', PS kind),
     (S ''occurred_at'', PStr now),
     (S ''idempotency'', PDict
       [(S ''tenant_id'', tenant),
        (S ''idempotency_key'', PStr (S ''kernel.'' @ S kind @ S ''.'' @ run @ S ''.'' @ int_text seq)),
        (S ''operation_digest'', opdg)]),
     (S ''classification'', PS ''internal''),
     (S ''redaction_status'', PS ''redacted''),
     (S ''inline_payload'', PDict payload)]"

definition store_envelope ::
  "pyval \<Rightarrow> pyval \<Rightarrow> dict \<Rightarrow> pyval \<Rightarrow> pystr \<Rightarrow> int \<Rightarrow> pyval \<Rightarrow> pyval \<Rightarrow> dict \<Rightarrow> dict" where
  "store_envelope tenant envelope_id draft draft_dg now seq payload_dg prior policy_ref =
    [(S ''schema_version'', PS ''1.0''),
     (S ''record_type'', PS ''evidence_envelope''),
     (S ''tenant_id'', tenant),
     (S ''envelope_id'', envelope_id),
     (S ''draft'', PDict draft),
     (S ''draft_digest'', draft_dg),
     (S ''recorded_at'', PStr now),
     (S ''sequence_number'', PInt seq),
     (S ''payload_digest'', payload_dg),
     (S ''prior_event_digest'', prior),
     (S ''policy_refs'', PList [PDict policy_ref]),
     (S ''storage_writer_id'', PS ''kernel.postgresql.v1'')]"

text \<open>The head of a run: its next sequence number, last digest, last time and version.\<close>

definition read_head ::
  "(pystr \<Rightarrow> pytime option) \<Rightarrow> dict \<Rightarrow> (int \<times> pyval \<times> instant option \<times> pyval) res" where
  "read_head fromiso head =
     bindE (bindE (ditem head ''next_sequence'') as_int) (\<lambda>seq.
     bindE (ditem head ''last_event_digest'') (\<lambda>prior.
     bindE (bindE (ditem head ''last_recorded_at'') (as_optional (parse_iso fromiso))) (\<lambda>prior_time.
     bindE (ditem head ''version'') (\<lambda>version. Inr (seq, prior, prior_time, version)))))"

definition build_evidence_from_head ::
  "'b store_ports \<Rightarrow> dict \<Rightarrow> pystr \<Rightarrow> string \<Rightarrow> dict \<Rightarrow> dict \<Rightarrow> dict \<Rightarrow> ('b store_state, dict \<times> pyval) handler" where
  "build_evidence_from_head P actor run kind policy_ref payload head =
     bindH (liftH (read_head (sp_fromiso P) head)) (\<lambda>(seq, prior, prior_time, version).
     bindH (store_clock P) (\<lambda>now_dt.
     rejectH (case prior_time of None \<Rightarrow> False | Some t \<Rightarrow> now_dt < t) DurableStoreError
       ''evidence chronology regressed within a run''
    (let now = utc_millis_text now_dt in
     bindH (liftH (ditem actor ''tenant_id'')) (\<lambda>tenant.
     bindH (new_id P) (\<lambda>event_id.
     bindH (liftH (digest_of_dict (p_env P) payload)) (\<lambda>opdg.
     let draft = store_draft tenant event_id run kind now seq opdg payload in
     bindH (new_id P) (\<lambda>envelope_id.
     bindH (liftH (digest_of_dict (p_env P) draft)) (\<lambda>draft_dg.
     bindH (liftH (digest_of_dict (p_env P) payload)) (\<lambda>payload_dg.
     liftH (bindE (apply_object_digest (p_env P)
              (store_envelope tenant envelope_id draft draft_dg now seq payload_dg prior policy_ref)) (\<lambda>envelope.
            bindE (model (p_env P) ''evidence_envelope'' tenant envelope) (\<lambda>parsed.
              Inr (parsed, version)))))))))))))"

definition build_evidence ::
  "'b store_ports \<Rightarrow> dict \<Rightarrow> pystr \<Rightarrow> string \<Rightarrow> dict \<Rightarrow> dict \<Rightarrow> ('b store_state, dict \<times> pyval) handler" where
  "build_evidence P actor run kind policy_ref payload =
     bindH (runtime_write P actor ''lock_run'' [(S ''run_id'', PStr run)]) (\<lambda>head.
     rejectH (head = PNone) DurableStoreError ''run scope conflicts with an existing actor''
    (bindH (liftH (case head of PDict h \<Rightarrow> Inr h | _ \<Rightarrow> Inl (Exc TypeError ''run head''))) (\<lambda>h.
       build_evidence_from_head P actor run kind policy_ref payload h)))"

definition append_evidence ::
  "'b store_ports \<Rightarrow> dict \<Rightarrow> pystr \<Rightarrow> string \<Rightarrow> dict \<Rightarrow> dict \<Rightarrow> ('b store_state, dict) handler" where
  "append_evidence P actor run kind policy_ref payload =
     bindH (build_evidence P actor run kind policy_ref payload) (\<lambda>(parsed, version).
     bindH (runtime_write P actor ''commit_evidence''
        [(S ''run_id'', PStr run), (S ''expected_version'', version), (S ''envelope'', PDict parsed)]) (\<lambda>changed.
     bindH (require_changed OptimisticConcurrencyError ''run evidence sequence lost its race'' changed) (\<lambda>_.
       returnH parsed)))"

definition prepare_evidence ::
  "'b store_ports \<Rightarrow> dict \<Rightarrow> pystr \<Rightarrow> string \<Rightarrow> dict \<Rightarrow> dict \<Rightarrow> ('b store_state, dict) handler" where
  "prepare_evidence P actor run kind policy_ref payload =
     bindH (build_evidence P actor run kind policy_ref payload) (\<lambda>(parsed, version). returnH parsed)"

text \<open>The public \<open>append\<close> of kernel transition evidence.\<close>

definition append_checks :: "string \<Rightarrow> dict \<Rightarrow> dict \<Rightarrow> pystr res" where
  "append_checks kind policy_ref payload = (case dget payload ''actor_id'' of
     PStr actor_id \<Rightarrow>
       bindE (seqE
        [deny (neq (dget policy_ref ''record_type'') (PS ''policy_decision'') \<or>
               (case dget policy_ref ''record_id'' of PStr s \<Rightarrow> False | _ \<Rightarrow> True) \<or>
               (case dget policy_ref ''record_digest'' of PStr s \<Rightarrow> False | _ \<Rightarrow> True)) DurableStoreError
           ''evidence policy reference is malformed'',
         deny (kind \<noteq> ''kernel.policy_decided'' \<and>
               neq (dget payload ''policy_decision_digest'') (dget policy_ref ''record_digest'')) DurableStoreError
           ''evidence policy reference does not match payload'']) (\<lambda>_. Inr actor_id)
   | _ \<Rightarrow> Inl (Exc DurableStoreError ''evidence payload must carry the verified actor scope''))"

definition store_append ::
  "'b store_ports \<Rightarrow> pyval \<Rightarrow> pystr \<Rightarrow> string \<Rightarrow> dict \<Rightarrow> dict \<Rightarrow> ('b store_state, dict) handler" where
  "store_append P tenant run kind policy_ref payload =
     bindH (liftH (append_checks kind policy_ref payload)) (\<lambda>actor_id.
     transaction P Privileged (append_evidence P [(S ''tenant_id'', tenant), (S ''actor_id'', PStr actor_id)]
       run kind policy_ref payload))"

section \<open>Replaying a lifecycle from its evidence\<close>

fun filterE :: "('a \<Rightarrow> bool res) \<Rightarrow> 'a list \<Rightarrow> 'a list res" where
  "filterE f [] = Inr []"
| "filterE f (x # xs) = bindE (f x) (\<lambda>b. bindE (filterE f xs) (\<lambda>ys. Inr (if b then x # ys else ys)))"

definition parse_events :: "env \<Rightarrow> pyval \<Rightarrow> pyval \<Rightarrow> dict list res" where
  "parse_events E tenant listed = bindE (elems listed) (mapE (parse_model_value E ''evidence_envelope'' tenant))"

definition event_draft_item :: "dict \<Rightarrow> string \<Rightarrow> pyval res" where
  "event_draft_item e k = bindE (mapping_item e ''draft'') (\<lambda>d. ditem d k)"

text \<open>The single run of the events: a set of run ids must have one element.\<close>

definition single_run :: "dict list \<Rightarrow> string \<Rightarrow> pyval res" where
  "single_run es msg = bindE (mapE (\<lambda>e. event_draft_item e ''run_id'') es) (\<lambda>runs.
     if \<not> list_all hashable runs then Inl (Exc TypeError ''unhashable type'')
     else (case runs of
        [] \<Rightarrow> Inl (Exc DurableStoreError msg)
      | r # rs \<Rightarrow> reject_if (\<not> list_all (py_eq r) rs) DurableStoreError msg (Inr r)))"

fun run_chain ::
  "(pystr \<Rightarrow> pytime option) \<Rightarrow> int \<Rightarrow> pyval \<Rightarrow> instant option \<Rightarrow> dict list \<Rightarrow> unit res" where
  "run_chain fromiso n prior prior_time [] = Inr ()"
| "run_chain fromiso n prior prior_time (e # es) =
     bindE (iso_item fromiso e ''recorded_at'') (\<lambda>t.
     bindE (store_fail (orE
        [item_differs e ''sequence_number'' (PInt n),
         item_differs e ''prior_event_digest'' prior,
         Inr (case prior_time of None \<Rightarrow> False | Some p \<Rightarrow> t < p)])
        ''authoritative evidence run chain is invalid'') (\<lambda>_.
     bindE (ditem e ''event_digest'') (\<lambda>dg. run_chain fromiso (n + 1) dg (Some t) es)))"

definition lifecycle_kinds :: "pystr list" where
  "lifecycle_kinds = map S [''kernel.policy_decided'', ''kernel.approval_accepted'',
     ''kernel.authorization_grant_issued'']"

definition is_lifecycle_event :: "pyval \<Rightarrow> dict \<Rightarrow> bool res" where
  "is_lifecycle_event request_id e =
     bindE (event_draft_item e ''inline_payload'') (\<lambda>payload.
     bindE (get payload ''request_id'') (\<lambda>rid.
     bindE (if \<not> neq rid request_id then Inr True
            else bindE (get_or payload ''request'' (PDict [])) (\<lambda>r.
                 bindE (get r ''request_id'') (\<lambda>rid2. Inr (\<not> neq rid2 request_id)))) (\<lambda>mine.
     if \<not> mine then Inr False
     else bindE (event_draft_item e ''event_kind'') (\<lambda>k. in_names k lifecycle_kinds))))"

definition submission_states :: "(pystr \<times> pystr) list" where
  "submission_states = [(S ''deny'', S ''denied''), (S ''require_approval'', S ''approval_required''),
     (S ''allow'', S ''policy_authorized'')]"

text \<open>\<open>{...}.get(decision)\<close>; \<open>None\<close> for a decision the table does not name.\<close>

definition expected_state :: "pyval \<Rightarrow> pyval res" where
  "expected_state decision =
     (if \<not> hashable decision then Inl (Exc TypeError ''unhashable type'')
      else Inr (case decision of
         PStr d \<Rightarrow> (case map_of submission_states d of None \<Rightarrow> PNone | Some st \<Rightarrow> PStr st) | _ \<Rightarrow> PNone))"

type_synonym replayed = "dict option \<times> dict option \<times> pystr"

definition replay_approval ::
  "env \<Rightarrow> dict \<Rightarrow> dict \<Rightarrow> dict \<Rightarrow> pyval \<Rightarrow> dict \<Rightarrow> replayed \<Rightarrow> replayed res" where
  "replay_approval E actor request policy request_id payload = (\<lambda>(approval, grant, state).
     reject_if (approval \<noteq> None \<or> grant \<noteq> None) DurableStoreError ''lifecycle approval chronology is invalid''
    (bindE (ditem actor ''tenant_id'') (\<lambda>tenant.
     bindE (bindE (ditem payload ''approval'') (parse_model_value E ''approval_record'' tenant)) (\<lambda>a.
     bindE (store_fail (orE
        [get_differs payload ''actor_id'' actor ''actor_id'',
         Inr (neq (dget payload ''request_id'') request_id),
         get_differs payload ''request_digest'' request ''request_digest'',
         get_differs payload ''policy_decision_digest'' policy ''decision_digest'',
         get_differs payload ''approval_digest'' a ''approval_digest'',
         Inr (dget payload ''next_state'' \<noteq> PS ''approved'')])
        ''approval evidence binding is invalid'') (\<lambda>_. Inr (Some a, grant, state))))))"

definition replay_grant ::
  "env \<Rightarrow> dict \<Rightarrow> dict \<Rightarrow> dict \<Rightarrow> pyval \<Rightarrow> dict \<Rightarrow> replayed \<Rightarrow> replayed res" where
  "replay_grant E actor request policy request_id payload = (\<lambda>(approval, grant, state).
     reject_if (grant \<noteq> None) DurableStoreError ''lifecycle grant evidence is duplicated''
    (bindE (ditem actor ''tenant_id'') (\<lambda>tenant.
     bindE (bindE (ditem payload ''grant'') (parse_model_value E ''authorization_grant'' tenant)) (\<lambda>g.
     bindE (store_fail (orE
        [get_differs payload ''actor_id'' actor ''actor_id'',
         Inr (neq (dget payload ''request_id'') request_id),
         get_differs payload ''request_digest'' request ''request_digest'',
         get_differs payload ''policy_decision_digest'' policy ''decision_digest'',
         bindE (digest_of_dict E g) (\<lambda>x. Inr (neq (dget payload ''authorization_grant_digest'') x)),
         Inr (dget payload ''next_state'' \<noteq> PS ''grant_issued'')])
        ''grant evidence binding is invalid'') (\<lambda>_. Inr (approval, Some g, state))))))"

text \<open>
  One event after the first: its own check, the policy reference, the next state. A next state
  that is not a string, which the text column of the projection cannot hold, is a
  \<open>TypeError\<close> here.
\<close>

definition replay_event ::
  "env \<Rightarrow> dict \<Rightarrow> dict \<Rightarrow> dict \<Rightarrow> pyval \<Rightarrow> dict \<Rightarrow> dict \<Rightarrow> replayed \<Rightarrow> replayed res" where
  "replay_event E actor request policy request_id policy_ref e r =
     bindE (bindE (event_draft_item e ''inline_payload'') py_dict) (\<lambda>payload.
     bindE (event_draft_item e ''event_kind'') (\<lambda>kind.
     bindE (if kind = PS ''kernel.approval_accepted''
            then replay_approval E actor request policy request_id payload r
            else if kind = PS ''kernel.authorization_grant_issued''
            then replay_grant E actor request policy request_id payload r
            else Inr r) (\<lambda>(approval, grant, state).
     bindE (store_fail (item_differs e ''policy_refs'' (PList [PDict policy_ref]))
              ''lifecycle evidence policy reference is invalid'') (\<lambda>_.
     bindE (bindE (ditem payload ''next_state'') as_text) (\<lambda>state'. Inr (approval, grant, state'))))))"

fun replay_events ::
  "env \<Rightarrow> dict \<Rightarrow> dict \<Rightarrow> dict \<Rightarrow> pyval \<Rightarrow> dict \<Rightarrow> dict list \<Rightarrow> replayed \<Rightarrow> replayed res" where
  "replay_events E actor request policy request_id policy_ref [] r = Inr r"
| "replay_events E actor request policy request_id policy_ref (e # es) r =
     bindE (replay_event E actor request policy request_id policy_ref e r)
       (replay_events E actor request policy request_id policy_ref es)"

text \<open>The first event carries the actor, the request, the policy decision and the first state.\<close>

definition replay_first ::
  "env \<Rightarrow> dict \<Rightarrow> pyval \<Rightarrow> dict \<Rightarrow> (dict \<times> dict \<times> dict \<times> pystr) res" where
  "replay_first E actor request_id e =
     bindE (bindE (event_draft_item e ''inline_payload'') py_dict) (\<lambda>payload.
     bindE (bindE (ditem payload ''actor_context'') (parse_model_value E ''actor_context'' PNone)) (\<lambda>stored_actor.
     reject_if (neq (PDict stored_actor) (PDict actor)) DurableStoreError
       ''lifecycle evidence actor context does not exactly match''
    (bindE (ditem actor ''tenant_id'') (\<lambda>tenant.
     bindE (bindE (ditem payload ''request'') (parse_model_value E ''tool_request'' tenant)) (\<lambda>request.
     bindE (bindE (ditem payload ''policy'') (parse_model_value E ''policy_decision'' tenant)) (\<lambda>policy.
     bindE (store_fail (item_differs request ''request_id'' request_id)
              ''lifecycle evidence request binding is invalid'') (\<lambda>_.
     bindE (policy_reference policy) (\<lambda>policy_ref.
     bindE (bindE (ditem policy ''decision'') expected_state) (\<lambda>initial.
     bindE (store_fail (orE
        [get_differs payload ''actor_id'' actor ''actor_id'',
         get_differs payload ''request_digest'' request ''request_digest'',
         get_differs payload ''policy_decision_digest'' policy ''decision_digest'',
         Inr (neq (dget payload ''next_state'') initial),
         item_differs e ''policy_refs'' (PList [PDict policy_ref])])
        ''policy evidence bindings or state are invalid'') (\<lambda>_.
     bindE (bindE (ditem payload ''next_state'') as_text) (\<lambda>state.
       Inr (request, policy, policy_ref, state))))))))))))"

text \<open>The pure part of \<open>_replay_lifecycle\<close>, from the parsed events of the run.\<close>

definition replay_run ::
  "env \<Rightarrow> (pystr \<Rightarrow> pytime option) \<Rightarrow> dict \<Rightarrow> pyval \<Rightarrow> dict list \<Rightarrow> stored_lifecycle res" where
  "replay_run E fromiso actor request_id events =
     bindE (run_chain fromiso 0 PNone None events) (\<lambda>_.
     bindE (filterE (is_lifecycle_event request_id) events) (\<lambda>mine. case mine of
       [] \<Rightarrow> Inl (Exc DurableStoreError ''canonical lifecycle authority evidence is missing'')
     | first # others \<Rightarrow>
       bindE (store_fail (bindE (event_draft_item first ''event_kind'')
                (\<lambda>k. Inr (neq k (PS ''kernel.policy_decided''))))
                ''canonical lifecycle authority evidence is missing'') (\<lambda>_.
       bindE (replay_first E actor request_id first) (\<lambda>(request, policy, policy_ref, state).
       bindE (replay_events E actor request policy request_id policy_ref others (None, None, state))
         (\<lambda>(approval, grant, final).
       bindE (validate_lifecycle_authority E fromiso actor request policy approval grant) (\<lambda>_.
         Inr \<lparr> sl_actor = actor, sl_request = request, sl_policy = policy, sl_state = final,
               sl_version = int (length mine), sl_evidence = mine, sl_approval = approval,
               sl_grant = grant \<rparr>))))))"

definition replay_lifecycle ::
  "'b store_ports \<Rightarrow> dict \<Rightarrow> pyval \<Rightarrow> ('b store_state, stored_lifecycle) handler" where
  "replay_lifecycle P actor request_id =
     bindH (runtime_read P actor ''lifecycle_events'' [(S ''request_id'', request_id)]) (\<lambda>candidate_rows.
     bindH (liftH (ditem actor ''tenant_id'')) (\<lambda>tenant.
     bindH (liftH (parse_events (p_env P) tenant candidate_rows)) (\<lambda>candidates.
     rejectH (candidates = []) DurableStoreError ''canonical lifecycle authority evidence is missing''
    (bindH (liftH (single_run candidates ''lifecycle evidence spans multiple runs'')) (\<lambda>run.
     bindH (runtime_read P actor ''events'' [(S ''run_id'', run)]) (\<lambda>all_rows.
     bindH (liftH (parse_events (p_env P) tenant all_rows)) (\<lambda>events.
       liftH (replay_run (p_env P) (sp_fromiso P) actor request_id events))))))))"

end
