(* ===== verification/Store.thy ===== *)
theory Store
  imports Store_Lifecycle
begin

text \<open>
  The operations of \<open>PostgresDurableEffectStore\<close> that the kernel and the broker call, in the
  order of the class: lookup, submission, approval, grant, load and rebuild of a lifecycle;
  prepare, complete, lease renewal and recovery of an effect. \<open>postgres_store\<close> packs them as
  the durable port, so a kernel can be run on this store.
\<close>

section \<open>Loading a lifecycle\<close>

definition option_dict :: "dict option \<Rightarrow> pyval" where
  "option_dict x = (case x of None \<Rightarrow> PNone | Some d \<Rightarrow> PDict d)"

text \<open>The projection's row and what the replayed evidence says it must be.\<close>

definition projection_row :: "dict \<Rightarrow> pyval list res" where
  "projection_row v =
     bindE (bindE (ditem v ''approvals_json'') elems) (\<lambda>approvals.
     bindE (mapE (ditem v) [''actor_context_json'', ''request_json'', ''policy_json'']) (\<lambda>heads.
     bindE (mapE (ditem v) [''state'', ''version'', ''last_evidence_sequence'', ''last_evidence_digest'']) (\<lambda>ends.
       Inr (heads @ [if approvals = [] then PNone else hd approvals, dget v ''grant_json''] @ ends))))"

definition rebuilt_row :: "stored_lifecycle \<Rightarrow> pyval list res" where
  "rebuilt_row l =
     bindE (if sl_evidence l = [] then Inl (Exc KeyError ''index'') else Inr (last (sl_evidence l))) (\<lambda>e.
     bindE (ditem e ''sequence_number'') (\<lambda>seq.
     bindE (ditem e ''event_digest'') (\<lambda>dg.
       Inr [PDict (sl_actor l), PDict (sl_request l), PDict (sl_policy l), option_dict (sl_approval l),
            option_dict (sl_grant l), PStr (sl_state l), PInt (sl_version l), seq, dg])))"

definition load_with_cursor ::
  "'b store_ports \<Rightarrow> dict \<Rightarrow> pyval \<Rightarrow> bool \<Rightarrow> ('b store_state, stored_lifecycle option) handler" where
  "load_with_cursor P actor request_id missing_ok =
     bindH (runtime_read P actor ''lifecycle_by_id'' [(S ''request_id'', request_id)]) (\<lambda>value.
     if value = PNone then
       (if missing_ok then returnH None else raiseH DurableStoreError ''durable lifecycle was not found'')
     else
       bindH (liftH (case value of PDict v \<Rightarrow> projection_row v | _ \<Rightarrow> Inl (Exc TypeError ''row''))) (\<lambda>row.
       bindH (replay_lifecycle P actor request_id) (\<lambda>rebuilt.
       bindH (liftH (rebuilt_row rebuilt)) (\<lambda>expected.
       rejectH (neq (PTuple row) (PTuple expected)) DurableStoreError
         ''lifecycle projection diverged from authoritative evidence; rebuild required''
         (returnH (Some rebuilt))))))"

text \<open>The same when a missing row has already raised.\<close>

definition load_existing ::
  "'b store_ports \<Rightarrow> dict \<Rightarrow> pyval \<Rightarrow> ('b store_state, stored_lifecycle) handler" where
  "load_existing P actor request_id = bindH (load_with_cursor P actor request_id False) (\<lambda>found.
     case found of Some l \<Rightarrow> returnH l
     | None \<Rightarrow> raiseH DurableStoreError ''durable lifecycle was not found'')"

definition store_actor :: "'b store_ports \<Rightarrow> dict \<Rightarrow> (dict \<times> pyval) res" where
  "store_actor P actor_context =
     bindE (model (p_env P) ''actor_context'' PNone actor_context) (\<lambda>actor.
     bindE (ditem actor ''tenant_id'') (\<lambda>tenant. Inr (actor, tenant)))"

definition load_lifecycle ::
  "'b store_ports \<Rightarrow> dict \<Rightarrow> pyval \<Rightarrow> ('b store_state, stored_lifecycle option) handler" where
  "load_lifecycle P actor_context request_id =
     bindH (liftH (model (p_env P) ''actor_context'' PNone actor_context)) (\<lambda>actor.
       transaction P Runtime (load_with_cursor P actor request_id True))"

section \<open>Submission\<close>

definition store_submission_payload :: "dict \<Rightarrow> dict \<Rightarrow> dict \<Rightarrow> pystr \<Rightarrow> dict res" where
  "store_submission_payload actor request policy state =
     bindE (ditem actor ''actor_id'') (\<lambda>actor_id.
     bindE (ditem request ''request_digest'') (\<lambda>rd.
     bindE (ditem policy ''decision_digest'') (\<lambda>pd.
       Inr [(S ''actor_id'', actor_id), (S ''actor_context'', PDict actor), (S ''request'', PDict request),
            (S ''policy'', PDict policy), (S ''request_digest'', rd), (S ''policy_decision_digest'', pd),
            (S ''next_state'', PStr state)])))"

definition idempotency_item :: "dict \<Rightarrow> string \<Rightarrow> pyval res" where
  "idempotency_item request k = bindE (mapping_item request ''idempotency'') (\<lambda>b. ditem b k)"

definition run_of :: "dict \<Rightarrow> pystr res" where
  "run_of request = bindE (ditem request ''run_id'') as_text"

definition last_event_fields :: "dict \<Rightarrow> dict res" where
  "last_event_fields e = bindE (ditem e ''sequence_number'') (\<lambda>seq. bindE (ditem e ''event_digest'') (\<lambda>dg.
     Inr [(S ''last_evidence_sequence'', seq), (S ''last_evidence_digest'', dg)]))"

definition lifecycle_insert :: "dict \<Rightarrow> dict \<Rightarrow> pystr \<Rightarrow> dict \<Rightarrow> dict res" where
  "lifecycle_insert request policy state evidence =
     bindE (mapE (ditem request) [''run_id'', ''request_id'', ''request_digest'']) (\<lambda>rs.
     bindE (idempotency_item request ''idempotency_key'') (\<lambda>key.
     bindE (idempotency_item request ''operation_digest'') (\<lambda>op_dg.
     bindE (ditem policy ''decision_digest'') (\<lambda>pd.
     bindE (last_event_fields evidence) (\<lambda>ends.
       Inr ([(S ''run_id'', rs ! 0), (S ''request_id'', rs ! 1), (S ''request_digest'', rs ! 2),
             (S ''idempotency_key'', key), (S ''operation_digest'', op_dg), (S ''policy_decision_digest'', pd),
             (S ''request'', PDict request), (S ''policy'', PDict policy), (S ''state'', PStr state)] @ ends))))))"

text \<open>A stored lifecycle under the same idempotency key: the same request, or a conflict.\<close>

definition submission_replay :: "dict \<Rightarrow> pyval \<Rightarrow> pyval res" where
  "submission_replay request replay =
     bindE (item replay ''request_id'') (\<lambda>rid.
     bindE (ditem request ''request_id'') (\<lambda>mine.
     bindE (if neq rid mine then Inr False
            else bindE (item replay ''request_json'') (\<lambda>j. bindE (item j ''request_digest'') (\<lambda>x.
                 bindE (ditem request ''request_digest'') (\<lambda>y. Inr (\<not> neq x y))))) (\<lambda>same.
     reject_if (\<not> same) IdempotencyConflictError ''durable lifecycle idempotency binding conflicts''
       (Inr rid))))"

definition submission_checks ::
  "'b store_ports \<Rightarrow> dict \<Rightarrow> dict \<Rightarrow> dict \<Rightarrow> pystr \<Rightarrow> dict \<Rightarrow> unit res" where
  "submission_checks P actor request policy state policy_ref = seqE
    [validate_lifecycle_authority (p_env P) (sp_fromiso P) actor request policy None None,
     bindE (bindE (ditem policy ''decision'') expected_state) (\<lambda>expected.
       deny (neq (PStr state) expected) DurableStoreError ''lifecycle state does not match the policy decision''),
     require_policy_ref policy_ref policy]"

definition persist_submission ::
  "'b store_ports \<Rightarrow> dict \<Rightarrow> dict \<Rightarrow> dict \<Rightarrow> pystr \<Rightarrow> dict \<Rightarrow> ('b store_state, stored_lifecycle) handler" where
  "persist_submission P actor_context request_value policy_value state policy_ref =
     bindH (liftH (bindE (store_actor P actor_context) (\<lambda>(actor, tenant).
        bindE (model (p_env P) ''tool_request'' tenant request_value) (\<lambda>request.
        bindE (model (p_env P) ''policy_decision'' tenant policy_value) (\<lambda>policy.
        bindE (submission_checks P actor request policy state policy_ref) (\<lambda>_.
        bindE (store_submission_payload actor request policy state) (\<lambda>payload.
          Inr (actor, request, policy, payload)))))))) (\<lambda>(actor, request, policy, payload).
     transaction P Privileged (
       bindH (liftH (idempotency_item request ''idempotency_key'')) (\<lambda>key.
       bindH (runtime_read P actor ''lifecycle_by_idempotency'' [(S ''idempotency_key'', key)]) (\<lambda>replay.
       if replay \<noteq> PNone then
         bindH (liftH (submission_replay request replay)) (\<lambda>rid. load_existing P actor rid)
       else
         bindH (liftH (run_of request)) (\<lambda>run.
         bindH (append_evidence P actor run ''kernel.policy_decided'' policy_ref payload) (\<lambda>evidence.
         bindH (liftH (lifecycle_insert request policy state evidence)) (\<lambda>row.
         bindH (runtime_write P actor ''insert_lifecycle'' row) (\<lambda>_.
           returnH \<lparr> sl_actor = actor, sl_request = request, sl_policy = policy, sl_state = state,
                     sl_version = 1, sl_evidence = [evidence], sl_approval = None, sl_grant = None \<rparr>))))))))"

section \<open>Approval and grant\<close>

definition transition_payload :: "dict \<Rightarrow> dict \<Rightarrow> dict \<Rightarrow> dict res" where
  "transition_payload actor request policy =
     bindE (ditem actor ''actor_id'') (\<lambda>actor_id.
     bindE (ditem request ''request_id'') (\<lambda>rid.
     bindE (ditem request ''request_digest'') (\<lambda>rd.
     bindE (ditem policy ''decision_digest'') (\<lambda>pd.
       Inr [(S ''actor_id'', actor_id), (S ''request_id'', rid), (S ''request_digest'', rd),
            (S ''policy_decision_digest'', pd)]))))"

definition approval_step ::
  "'b store_ports \<Rightarrow> dict \<Rightarrow> stored_lifecycle \<Rightarrow> dict \<Rightarrow> dict \<Rightarrow> (pystr \<times> dict) res" where
  "approval_step P actor current parsed policy_ref =
     bindE (validate_lifecycle_authority (p_env P) (sp_fromiso P) actor (sl_request current)
              (sl_policy current) (Some parsed) None) (\<lambda>_.
     bindE (require_policy_ref policy_ref (sl_policy current)) (\<lambda>_.
     bindE (transition_payload actor (sl_request current) (sl_policy current)) (\<lambda>common.
     bindE (ditem parsed ''approval_digest'') (\<lambda>dg.
     bindE (run_of (sl_request current)) (\<lambda>run.
       Inr (run, common @ [(S ''approval'', PDict parsed), (S ''approval_digest'', dg),
                           (S ''next_state'', PS ''approved'')]))))))"

definition persist_approval ::
  "'b store_ports \<Rightarrow> dict \<Rightarrow> pyval \<Rightarrow> int option \<Rightarrow> dict \<Rightarrow> dict \<Rightarrow> ('b store_state, stored_lifecycle) handler" where
  "persist_approval P actor_context request_id expected_version approval policy_ref =
     bindH (liftH (bindE (store_actor P actor_context) (\<lambda>(actor, tenant).
        bindE (model (p_env P) ''approval_record'' tenant approval) (\<lambda>parsed. Inr (actor, parsed))))) (\<lambda>(actor, parsed).
     transaction P Privileged (
       bindH (load_existing P actor request_id) (\<lambda>current.
       if sl_state current = S ''approved'' then
         (if \<not> neq (option_dict (sl_approval current)) (PDict parsed) then returnH current
          else raiseH IdempotencyConflictError ''durable approval replay conflicts'')
       else rejectH (sl_state current \<noteq> S ''approval_required'' \<or> Some (sl_version current) \<noteq> expected_version)
              OptimisticConcurrencyError ''durable approval transition is stale''
        (bindH (liftH (approval_step P actor current parsed policy_ref)) (\<lambda>(run, payload).
         bindH (append_evidence P actor run ''kernel.approval_accepted'' policy_ref payload) (\<lambda>evidence.
         bindH (liftH (last_event_fields evidence)) (\<lambda>ends.
         bindH (runtime_write P actor ''approve_lifecycle''
            ([(S ''request_id'', request_id), (S ''expected_version'', PInt (sl_version current)),
              (S ''approval'', PDict parsed)] @ ends)) (\<lambda>changed.
         bindH (require_changed OptimisticConcurrencyError ''durable approval transition lost its race'' changed) (\<lambda>_.
           returnH (current\<lparr> sl_actor := actor, sl_state := S ''approved'', sl_version := sl_version current + 1,
             sl_evidence := sl_evidence current @ [evidence], sl_approval := Some parsed,
             sl_grant := None \<rparr>)))))))))) "

definition grant_step ::
  "'b store_ports \<Rightarrow> dict \<Rightarrow> stored_lifecycle \<Rightarrow> dict \<Rightarrow> dict \<Rightarrow> (pystr \<times> dict) res" where
  "grant_step P actor current parsed policy_ref =
     bindE (validate_lifecycle_authority (p_env P) (sp_fromiso P) actor (sl_request current)
              (sl_policy current) (sl_approval current) (Some parsed)) (\<lambda>_.
     bindE (require_policy_ref policy_ref (sl_policy current)) (\<lambda>_.
     bindE (transition_payload actor (sl_request current) (sl_policy current)) (\<lambda>common.
     bindE (digest_of_dict (p_env P) parsed) (\<lambda>dg.
     bindE (run_of (sl_request current)) (\<lambda>run.
       Inr (run, common @ [(S ''grant'', PDict parsed), (S ''authorization_grant_digest'', dg),
                           (S ''next_state'', PS ''grant_issued'')]))))))"

definition persist_grant ::
  "'b store_ports \<Rightarrow> dict \<Rightarrow> pyval \<Rightarrow> int option \<Rightarrow> dict \<Rightarrow> dict \<Rightarrow> ('b store_state, stored_lifecycle) handler" where
  "persist_grant P actor_context request_id expected_version grant policy_ref =
     bindH (liftH (bindE (store_actor P actor_context) (\<lambda>(actor, tenant).
        bindE (model (p_env P) ''authorization_grant'' tenant grant) (\<lambda>parsed. Inr (actor, parsed))))) (\<lambda>(actor, parsed).
     transaction P Privileged (
       bindH (load_existing P actor request_id) (\<lambda>current.
       if sl_state current = S ''grant_issued'' then
         (if \<not> neq (option_dict (sl_grant current)) (PDict parsed) then returnH current
          else raiseH IdempotencyConflictError ''durable grant replay conflicts'')
       else rejectH (sl_state current \<noteq> S ''policy_authorized'' \<and> sl_state current \<noteq> S ''approved'')
              OptimisticConcurrencyError ''durable grant state is not issuable''
        (rejectH (Some (sl_version current) \<noteq> expected_version)
              OptimisticConcurrencyError ''durable grant transition is stale''
        (bindH (liftH (grant_step P actor current parsed policy_ref)) (\<lambda>(run, payload).
         bindH (append_evidence P actor run ''kernel.authorization_grant_issued'' policy_ref payload) (\<lambda>evidence.
         bindH (liftH (last_event_fields evidence)) (\<lambda>ends.
         bindH (runtime_write P actor ''grant_lifecycle''
            ([(S ''request_id'', request_id), (S ''expected_version'', PInt (sl_version current)),
              (S ''grant'', PDict parsed)] @ ends)) (\<lambda>changed.
         bindH (require_changed OptimisticConcurrencyError ''durable grant transition lost its race'' changed) (\<lambda>_.
           returnH (current\<lparr> sl_actor := actor, sl_state := S ''grant_issued'',
             sl_version := sl_version current + 1,
             sl_evidence := sl_evidence current @ [evidence], sl_grant := Some parsed \<rparr>))))))))))) "

end
