(* ===== verification/Store_Execution.thy ===== *)
theory Store_Execution
  imports Store
begin

text \<open>
  The effect half of \<open>PostgresDurableEffectStore\<close>: the transactional preparation that
  consumes a grant once, the fenced completion, lease renewal and the recovery of an expired
  owner, the reads, and the whole store as an instance of the durable port.
\<close>

section \<open>Rebuilding a projection\<close>

definition rebuild_row :: "stored_lifecycle \<Rightarrow> dict res" where
  "rebuild_row l =
     bindE (mapE (ditem (sl_request l)) [''request_id'', ''run_id'', ''request_digest'']) (\<lambda>rs.
     bindE (idempotency_item (sl_request l) ''idempotency_key'') (\<lambda>key.
     bindE (idempotency_item (sl_request l) ''operation_digest'') (\<lambda>op_dg.
     bindE (ditem (sl_policy l) ''decision_digest'') (\<lambda>pd.
     bindE (if sl_evidence l = [] then Inl (Exc KeyError ''index'') else last_event_fields (last (sl_evidence l))) (\<lambda>ends.
       Inr ([(S ''run_id'', rs ! 1), (S ''request_digest'', rs ! 2), (S ''idempotency_key'', key),
             (S ''operation_digest'', op_dg), (S ''policy_decision_digest'', pd),
             (S ''request'', PDict (sl_request l)), (S ''policy'', PDict (sl_policy l)),
             (S ''approvals'', PList (case sl_approval l of None \<Rightarrow> [] | Some a \<Rightarrow> [PDict a])),
             (S ''grant'', option_dict (sl_grant l)), (S ''state'', PStr (sl_state l)),
             (S ''version'', PInt (sl_version l))] @ ends))))))"

definition rebuild_lifecycle ::
  "'b store_ports \<Rightarrow> dict \<Rightarrow> pyval \<Rightarrow> ('b store_state, stored_lifecycle) handler" where
  "rebuild_lifecycle P actor_context request_id =
     bindH (liftH (store_actor P actor_context)) (\<lambda>(actor, tenant).
     transaction P Privileged (
       bindH (runtime_read P actor ''lifecycle_events'' [(S ''request_id'', request_id)]) (\<lambda>candidate_rows.
       bindH (liftH (parse_events (p_env P) tenant candidate_rows)) (\<lambda>candidates.
       bindH (liftH (single_run candidates ''canonical lifecycle run authority is missing'')) (\<lambda>run.
       bindH (runtime_write P actor ''lock_run'' [(S ''run_id'', run)]) (\<lambda>_.
       bindH (replay_lifecycle P actor request_id) (\<lambda>rebuilt.
       bindH (liftH (rebuild_row rebuilt)) (\<lambda>row.
       bindH (runtime_write P actor ''rebuild_lifecycle'' ((S ''request_id'', request_id) # row)) (\<lambda>changed.
       bindH (require_changed DurableStoreError ''lifecycle projection rebuild lost its actor scope'' changed) (\<lambda>_.
         returnH rebuilt))))))))))"

section \<open>Preparation\<close>

text \<open>\<open>_lock_key\<close>: the first eight bytes of the hash as a signed 64-bit integer.\<close>

definition encode_utf8 :: "pystr \<Rightarrow> nat list res" where
  "encode_utf8 v = reject_if (\<exists>c\<in>set v. 0xD800 \<le> c \<and> c \<le> 0xDFFF) ValueError ''surrogates not allowed''
     (Inr (utf8_bytes v))"

definition lock_key :: "env \<Rightarrow> pystr \<Rightarrow> int res" where
  "lock_key E v = bindE (encode_utf8 v) (\<lambda>bytes.
     let unsigned = foldl (\<lambda>n b. n * 256 + int b) 0 (take 8 (hash E bytes))
     in Inr (if unsigned < 2 ^ 63 then unsigned else unsigned - 2 ^ 64))"

definition prepare_locks :: "env \<Rightarrow> dict \<Rightarrow> dict \<Rightarrow> dict \<Rightarrow> int list res" where
  "prepare_locks E actor request grant =
     bindE (bindE (ditem actor ''tenant_id'') as_text) (\<lambda>tenant.
     bindE (bindE (idempotency_item request ''idempotency_key'') as_text) (\<lambda>key.
     bindE (bindE (ditem grant ''grant_id'') as_text) (\<lambda>gid.
     bindE (lock_key E (S ''idem:'' @ tenant @ S '':'' @ key)) (\<lambda>a.
     bindE (lock_key E (S ''grant:'' @ tenant @ S '':'' @ gid)) (\<lambda>b. Inr (sort [a, b]))))))"

fun lock_all :: "'b store_ports \<Rightarrow> int list \<Rightarrow> ('b store_state, unit) handler" where
  "lock_all P [] = returnH ()"
| "lock_all P (v # vs) = bindH (sql (sp_lock P v)) (\<lambda>_. lock_all P vs)"

definition expected_intent :: "env \<Rightarrow> dict \<Rightarrow> dict \<Rightarrow> dict \<Rightarrow> dict \<Rightarrow> dict res" where
  "expected_intent E actor request policy grant =
     bindE (ditem actor ''actor_id'') (\<lambda>actor_id.
     bindE (ditem request ''request_digest'') (\<lambda>rd.
     bindE (ditem policy ''decision_digest'') (\<lambda>pd.
     bindE (digest_of_dict E grant) (\<lambda>gd.
     bindE (ditem request ''effect_classes'') (\<lambda>effects.
     bindE (ditem grant ''isolation_profile'') (\<lambda>isolation.
       Inr [(S ''actor_id'', actor_id), (S ''request_digest'', rd), (S ''policy_decision_digest'', pd),
            (S ''authorization_grant_digest'', gd), (S ''effect_classes'', effects),
            (S ''isolation_profile'', isolation)]))))))"

definition select_for_binding ::
  "'b store_ports \<Rightarrow> dict \<Rightarrow> dict \<Rightarrow> dict \<Rightarrow> ('b store_state, stored_effect option) handler" where
  "select_for_binding P actor request grant =
     bindH (liftH (bindE (idempotency_item request ''idempotency_key'') (\<lambda>key.
        bindE (ditem grant ''grant_id'') (\<lambda>gid. bindE (ditem request ''request_id'') (\<lambda>rid.
          Inr [(S ''idempotency_key'', key), (S ''grant_id'', gid), (S ''request_id'', rid)]))))) (\<lambda>payload.
     bindH (runtime_read P actor ''effect_by_binding'' payload) (\<lambda>found.
     if \<not> truthy found then returnH None
     else bindH (liftH (elems found)) (\<lambda>listed. case listed of
          [PDict v] \<Rightarrow> liftH (bindE (effect_row (sp_fromiso P) v) (\<lambda>c.
             bindE (effect_of_row (p_env P) (sp_fromiso P) c) (\<lambda>st. Inr (Some st))))
        | [_] \<Rightarrow> raiseH TypeError ''row''
        | _ \<Rightarrow> raiseH IdempotencyConflictError ''durable authority bindings reference different rows'')))"

definition lease_seconds :: "'b store_ports \<Rightarrow> pyval" where
  "lease_seconds P = PFloat (of_int (sp_lease P) / 1000000)"

definition effect_insert ::
  "'b store_ports \<Rightarrow> dict \<Rightarrow> dict \<Rightarrow> dict list \<Rightarrow> dict \<Rightarrow> pyval \<Rightarrow> dict \<Rightarrow> instant \<Rightarrow> pystr \<Rightarrow> dict res" where
  "effect_insert P request policy approvals grant binding intent now attempt =
     bindE (mapE (ditem request) [''run_id'', ''request_id'']) (\<lambda>rs.
     bindE (idempotency_item request ''idempotency_key'') (\<lambda>key.
     bindE (idempotency_item request ''operation_digest'') (\<lambda>op_dg.
     bindE (ditem grant ''grant_id'') (\<lambda>gid.
     bindE (digest_of_dict (p_env P) grant) (\<lambda>gd.
       Inr [(S ''run_id'', rs ! 0), (S ''request_id'', rs ! 1), (S ''idempotency_key'', key),
            (S ''operation_digest'', op_dg), (S ''binding_digest'', binding), (S ''grant_id'', gid),
            (S ''grant_digest'', gd), (S ''request'', PDict request), (S ''policy'', PDict policy),
            (S ''approvals'', PList (map PDict approvals)), (S ''grant'', PDict grant),
            (S ''intent'', PDict intent), (S ''prepared_at'', PStr (utc_millis_text now)),
            (S ''attempt_id'', PStr attempt), (S ''lease_seconds'', lease_seconds P)])))))"

definition inserted_lease :: "'b store_ports \<Rightarrow> pyval \<Rightarrow> (instant \<times> instant) res" where
  "inserted_lease P inserted =
     bindE (bindE (item inserted ''lease_expires_at'') (parse_iso (sp_fromiso P))) (\<lambda>lease.
     bindE (bindE (item inserted ''last_renewed_at'') (parse_iso (sp_fromiso P))) (\<lambda>renewed.
       Inr (lease, renewed)))"

definition store_prepare ::
  "'b store_ports \<Rightarrow> dict \<Rightarrow> dict \<Rightarrow> dict \<Rightarrow> dict list \<Rightarrow> dict \<Rightarrow> dict \<Rightarrow> dict
     \<Rightarrow> ('b store_state, stored_effect) handler" where
  "store_prepare P actor_context request_value policy_value approval_values grant_value policy_ref payload =
     bindH (liftH (bindE (parse_inputs (p_env P) (PDict actor_context) (PDict request_value)
          (PDict policy_value) (map PDict approval_values) (PDict grant_value))
        (\<lambda>(actor, request, policy, approvals, grant).
        bindE (execution_binding_digest (p_env P) actor request policy approvals grant) (\<lambda>binding.
        bindE (expected_intent (p_env P) actor request policy grant) (\<lambda>expected.
        reject_if (neq (PDict payload) (PDict expected)) DurableStoreError
          ''durable intent payload is not exactly bound to authority''
       (bindE (prepare_locks (p_env P) actor request grant) (\<lambda>locks.
          Inr (actor, request, policy, approvals, grant, binding, locks))))))))
     (\<lambda>(actor, request, policy, approvals, grant, binding, locks).
     transaction P Privileged (
       bindH (lock_all P locks) (\<lambda>_.
       bindH (select_for_binding P actor request grant) (\<lambda>existing. case existing of
         Some st \<Rightarrow> bindH (liftH (require_exact (p_env P) st binding request grant)) (\<lambda>_.
             returnH (effect_snapshot st (Some False)))
       | None \<Rightarrow>
         bindH (liftH (run_of request)) (\<lambda>run.
         bindH (append_evidence P actor run ''kernel.effect_execution_intent'' policy_ref payload) (\<lambda>intent.
         bindH (store_clock P) (\<lambda>now.
         bindH (ext (p_ids P)) (\<lambda>attempt.
         bindH (liftH (effect_insert P request policy approvals grant binding intent now attempt)) (\<lambda>row.
         bindH (runtime_write P actor ''insert_effect'' row) (\<lambda>inserted.
         bindH (liftH (inserted_lease P inserted)) (\<lambda>(lease, renewed).
           returnH \<lparr> se_actor = actor, se_request = request, se_policy = policy, se_approvals = approvals,
             se_grant = grant, se_binding_digest = binding, se_state = S ''prepared'', se_version = 1,
             se_intent_evidence = intent, se_outcome = None, se_outcome_evidence = None,
             se_attempt = Some attempt, se_generation = Some 1, se_lease_expires_at = Some (Aware lease),
             se_last_renewed_at = Some (Aware renewed), se_created = True \<rparr>)))))))))))"

section \<open>Completion, lease and recovery\<close>

definition decode_effect :: "'b store_ports \<Rightarrow> pyval \<Rightarrow> (dict \<times> stored_effect) option res" where
  "decode_effect P row = (case row of
       PNone \<Rightarrow> Inr None
     | PDict v \<Rightarrow> bindE (effect_row (sp_fromiso P) v) (\<lambda>c.
         bindE (effect_of_row (p_env P) (sp_fromiso P) c) (\<lambda>st. Inr (Some (v, st))))
     | _ \<Rightarrow> Inl (Exc TypeError ''row''))"

definition read_effect ::
  "'b store_ports \<Rightarrow> dict \<Rightarrow> pyval \<Rightarrow> ('b store_state, (dict \<times> stored_effect) option) handler" where
  "read_effect P actor request_id =
     bindH (runtime_read P actor ''effect_by_request'' [(S ''request_id'', request_id)]) (\<lambda>row.
       liftH (decode_effect P row))"

definition store_lookup ::
  "'b store_ports \<Rightarrow> dict \<Rightarrow> pyval \<Rightarrow> ('b store_state, stored_effect option) handler" where
  "store_lookup P actor_context request_id =
     bindH (liftH (model (p_env P) ''actor_context'' PNone actor_context)) (\<lambda>actor.
     bindH (transaction P Runtime (runtime_read P actor ''effect_by_request'' [(S ''request_id'', request_id)])) (\<lambda>row.
       liftH (bindE (decode_effect P row) (\<lambda>found. Inr (map_option snd found)))))"

text \<open>The payload of the outcome evidence binds request, grant, outcome and status.\<close>

definition outcome_payload_bound :: "env \<Rightarrow> stored_effect \<Rightarrow> dict \<Rightarrow> dict \<Rightarrow> bool \<Rightarrow> string \<Rightarrow> unit res" where
  "outcome_payload_bound E st outcome payload recovering msg = store_fail (orE
    [get_differs payload ''request_digest'' (se_request st) ''request_digest'',
     bindE (digest_of_dict E (se_grant st)) (\<lambda>x. Inr (neq (dget payload ''authorization_grant_digest'') x)),
     get_differs payload ''outcome_digest'' outcome ''outcome_digest'',
     (if recovering then Inr (dget payload ''status'' \<noteq> PS ''indeterminate'')
      else get_differs payload ''status'' outcome ''status'')]) msg"

definition outcome_checks ::
  "env \<Rightarrow> stored_effect \<Rightarrow> dict \<Rightarrow> dict \<Rightarrow> dict \<Rightarrow> bool \<Rightarrow> pystr res" where
  "outcome_checks E st outcome policy_ref payload recovering =
     bindE (policy_reference (se_policy st)) (\<lambda>expected.
     bindE (deny (neq (PDict policy_ref) (PDict expected)) DurableStoreError
              ''outcome evidence policy reference is invalid'') (\<lambda>_.
     bindE (outcome_payload_bound E st outcome payload recovering
              ''outcome evidence payload is not bound to the outcome'') (\<lambda>_.
     bindE (validate_outcome_binding E st outcome) (\<lambda>_. run_of (se_request st)))))"

definition fence_holds :: "stored_effect \<Rightarrow> int \<Rightarrow> pystr option \<Rightarrow> int option \<Rightarrow> bool" where
  "fence_holds st expected attempt generation \<longleftrightarrow>
     se_state st \<in> set live_states \<and> se_version st = expected \<and>
     se_attempt st = attempt \<and> se_generation st = generation"

definition already_completed :: "stored_effect \<Rightarrow> pystr \<Rightarrow> int \<Rightarrow> dict \<Rightarrow> bool" where
  "already_completed st state expected outcome \<longleftrightarrow>
     se_state st = state \<and> se_version st = expected + 1 \<and>
     \<not> neq (option_dict (se_outcome st)) (PDict outcome) \<and> se_outcome_evidence st \<noteq> None"

text \<open>\<open>PInt\<close> or \<open>None\<close>, \<open>str\<close> or \<open>None\<close>, as a JSON payload carries them.\<close>

definition option_int :: "int option \<Rightarrow> pyval" where
  "option_int x = (case x of None \<Rightarrow> PNone | Some i \<Rightarrow> PInt i)"

definition option_text :: "pystr option \<Rightarrow> pyval" where
  "option_text x = (case x of None \<Rightarrow> PNone | Some t \<Rightarrow> PStr t)"

definition terminal_outcome ::
  "'b store_ports \<Rightarrow> dict \<Rightarrow> pystr \<Rightarrow> dict \<Rightarrow> (dict \<times> dict) res" where
  "terminal_outcome P actor_context state outcome =
     bindE (store_actor P actor_context) (\<lambda>(actor, tenant).
     reject_if (state \<noteq> S ''completed'' \<and> state \<noteq> S ''indeterminate'') DurableStoreError
       ''durable terminal state is unsupported''
    (bindE (model (p_env P) ''action_outcome'' tenant outcome) (\<lambda>parsed.
     bindE (store_fail (item_differs parsed ''status''
              (if state = S ''completed'' then PS ''succeeded'' else PS ''indeterminate''))
              ''outcome status does not match the durable terminal state'') (\<lambda>_. Inr (actor, parsed)))))"

definition store_complete ::
  "'b store_ports \<Rightarrow> dict \<Rightarrow> pyval \<Rightarrow> int \<Rightarrow> dict \<Rightarrow> dict \<Rightarrow> dict \<Rightarrow> pystr \<Rightarrow> pystr option \<Rightarrow> int option
     \<Rightarrow> ('b store_state, stored_effect) handler" where
  "store_complete P actor_context request_id expected outcome policy_ref payload state attempt generation =
     bindH (liftH (terminal_outcome P actor_context state outcome)) (\<lambda>(actor, parsed).
     transaction P Privileged (
       bindH (read_effect P actor request_id) (\<lambda>found. case found of
         None \<Rightarrow> raiseH DurableStoreError ''durable execution was not found''
       | Some (v, st) \<Rightarrow>
         if \<not> fence_holds st expected attempt generation then
           (if already_completed st state expected parsed then returnH st
            else raiseH OptimisticConcurrencyError ''durable execution version or state changed'')
         else
           bindH (liftH (outcome_checks (p_env P) st parsed policy_ref payload False)) (\<lambda>run.
           bindH (append_evidence P actor run ''kernel.effect_execution_outcome'' policy_ref payload) (\<lambda>evidence.
           bindH (store_clock P) (\<lambda>now.
           bindH (runtime_write P actor ''complete_effect''
              [(S ''request_id'', request_id), (S ''state'', PStr state), (S ''expected_version'', PInt expected),
               (S ''attempt_id'', option_text attempt), (S ''owner_generation'', option_int generation),
               (S ''outcome'', PDict parsed), (S ''evidence'', PDict evidence),
               (S ''completed_at'', PStr (utc_millis_text now))]) (\<lambda>changed.
           bindH (require_changed OptimisticConcurrencyError ''durable execution transition lost its race'' changed) (\<lambda>_.
             returnH (st\<lparr> se_state := state, se_version := expected + 1, se_outcome := Some parsed,
               se_outcome_evidence := Some evidence, se_created := False \<rparr>)))))))))"

definition store_renew_lease ::
  "'b store_ports \<Rightarrow> dict \<Rightarrow> pyval \<Rightarrow> pystr option \<Rightarrow> int option \<Rightarrow> ('b store_state, stored_effect) handler" where
  "store_renew_lease P actor_context request_id attempt generation =
     bindH (liftH (model (p_env P) ''actor_context'' PNone actor_context)) (\<lambda>actor.
     bindH (transaction P Privileged (
       bindH (runtime_write P actor ''renew_effect''
          [(S ''request_id'', request_id), (S ''attempt_id'', option_text attempt),
           (S ''owner_generation'', option_int generation), (S ''lease_seconds'', lease_seconds P)]) (\<lambda>row.
       rejectH (row = PNone) OptimisticConcurrencyError ''execution lease is expired or fenced'' (returnH row)))) (\<lambda>row.
     case row of
       PDict v \<Rightarrow> liftH (bindE (effect_row (sp_fromiso P) v) (effect_of_row (p_env P) (sp_fromiso P)))
     | _ \<Rightarrow> raiseH TypeError ''row''))"

definition recovery_outcome :: "'b store_ports \<Rightarrow> dict \<Rightarrow> dict \<Rightarrow> (dict \<times> dict) res" where
  "recovery_outcome P actor_context outcome =
     bindE (store_actor P actor_context) (\<lambda>(actor, tenant).
     bindE (model (p_env P) ''action_outcome'' tenant outcome) (\<lambda>parsed.
     bindE (store_fail (item_differs parsed ''status'' (PS ''indeterminate''))
              ''expired recovery requires an indeterminate outcome'') (\<lambda>_. Inr (actor, parsed))))"

definition store_recover_expired ::
  "'b store_ports \<Rightarrow> dict \<Rightarrow> pyval \<Rightarrow> dict \<Rightarrow> dict \<Rightarrow> dict \<Rightarrow> ('b store_state, stored_effect) handler" where
  "store_recover_expired P actor_context request_id outcome policy_ref payload =
     bindH (liftH (recovery_outcome P actor_context outcome)) (\<lambda>(actor, parsed).
     transaction P Privileged (
       bindH (read_effect P actor request_id) (\<lambda>found. case found of
         None \<Rightarrow> raiseH DurableStoreError ''durable execution was not found''
       | Some (v, st) \<Rightarrow>
         if se_state st \<in> set ended_states then returnH st
         else
           bindH (liftH (ditem v ''_lease_expired'')) (\<lambda>expired.
           rejectH (\<not> truthy expired) PreparedExecutionError ''execution lease has not expired''
          (bindH (liftH (outcome_checks (p_env P) st parsed policy_ref payload True)) (\<lambda>run.
           bindH (append_evidence P actor run ''kernel.effect_execution_outcome'' policy_ref payload) (\<lambda>evidence.
           bindH (runtime_write P actor ''recover_effect''
              [(S ''request_id'', request_id), (S ''attempt_id'', option_text (se_attempt st)),
               (S ''owner_generation'', option_int (se_generation st)),
               (S ''outcome'', PDict parsed), (S ''evidence'', PDict evidence)]) (\<lambda>changed.
           bindH (require_changed OptimisticConcurrencyError ''expired recovery lost its fence race'' changed) (\<lambda>_.
             returnH (st\<lparr> se_state := S ''indeterminate'', se_version := se_version st + 1,
               se_outcome := Some parsed, se_outcome_evidence := Some evidence,
               se_generation := Some ((case se_generation st of None \<Rightarrow> 0 | Some g \<Rightarrow> g) + 1),
               se_created := False \<rparr>)))))))))) "

definition store_events ::
  "'b store_ports \<Rightarrow> dict \<Rightarrow> pyval option \<Rightarrow> ('b store_state, dict list) handler" where
  "store_events P actor_context run =
     bindH (liftH (model (p_env P) ''actor_context'' PNone actor_context)) (\<lambda>actor.
     transaction P Runtime (
       bindH (runtime_read P actor ''events'' [(S ''run_id'', case run of None \<Rightarrow> PNone | Some r \<Rightarrow> r)]) (\<lambda>listed.
       liftH (bindE (elems listed) (mapE (\<lambda>v. case v of PDict d \<Rightarrow> Inr d | _ \<Rightarrow> Inl (Exc TypeError ''row''))))))) "

section \<open>The store behind the port\<close>

definition postgres_store :: "'b store_ports \<Rightarrow> 'b store_state durable_store" where
  "postgres_store P = \<lparr> ds_lookup = store_lookup P, ds_prepare = store_prepare P,
     ds_complete = store_complete P, ds_renew_lease = store_renew_lease P,
     ds_recover_expired = store_recover_expired P, ds_load_lifecycle = load_lifecycle P,
     ds_persist_submission = persist_submission P, ds_persist_approval = persist_approval P,
     ds_persist_grant = persist_grant P, ds_events = store_events P \<rparr>"

end
