(* ===== verification/Store_Memory.thy ===== *)
theory Store_Memory
  imports Store_Execution
begin

text \<open>
  Governed memory in \<open>persistence/store.py\<close>: the authority a transition needs, the record it
  commits, the digest that binds both, the two-step commit that appends the evidence and
  writes the projection in one transaction, the rebuild of a projection, and the read-only,
  actor-scoped retrieval. \<open>persistence/memory.py\<close> only passes its arguments on.
\<close>

section \<open>Data\<close>

record retrieved_memory =
  rm_record :: dict
  rm_score :: int

record stored_memory_transition =
  mt_proposal :: pyval
  mt_memory_decision :: pyval
  mt_policy_decision :: pyval
  mt_approvals :: "pyval list"
  mt_record :: dict
  mt_evidence :: dict
  mt_binding_digest :: pyval
  mt_operation :: pyval
  mt_expected_revision :: pyval
  mt_replayed :: bool

definition actor_level :: pyval where
  "actor_level = PDict [(S ''level'', PS ''actor'')]"

text \<open>\<open>try: m except SemanticError: raise DurableStoreError(msg)\<close>\<close>

definition as_store_error :: "unit res \<Rightarrow> string \<Rightarrow> unit res" where
  "as_store_error m msg = catchE SemanticError m (Inl (Exc DurableStoreError msg))"

section \<open>The binding of a transition\<close>

definition memory_transition_binding_digest ::
  "env \<Rightarrow> dict \<Rightarrow> dict \<Rightarrow> dict \<Rightarrow> dict \<Rightarrow> dict list \<Rightarrow> dict \<Rightarrow> int option \<Rightarrow> pyval res" where
  "memory_transition_binding_digest E actor proposal decision policy approvals committed expected =
     bindE (mapE (ditem actor) [''tenant_id'', ''actor_id'']) (\<lambda>ids.
     bindE (digest_of_dict E actor) (\<lambda>actor_dg.
     bindE (bindE (ditem proposal ''target_scope'') (sha256_digest (hash E))) (\<lambda>scope_dg.
     bindE (mapE (ditem proposal) [''proposal_id'', ''proposal_digest'', ''change_kind'']) (\<lambda>ps.
     bindE (ditem committed ''memory_id'') (\<lambda>mid.
     bindE (ditem proposal ''evidence_spans'') (\<lambda>spans.
     bindE (ditem decision ''decision_digest'') (\<lambda>ddg.
     bindE (ditem policy ''decision_digest'') (\<lambda>pdg.
     bindE (mapE (\<lambda>a. ditem a ''approval_digest'') approvals) (\<lambda>adgs.
     bindE (mapE (ditem committed) [''retention'', ''effective_from'']) (\<lambda>cs.
     bindE (ditem committed ''record_digest'') (\<lambda>rdg.
       digest_of_dict E
        [(S ''tenant_id'', ids ! 0), (S ''actor_id'', ids ! 1),
         (S ''actor_context_digest'', actor_dg), (S ''scope_digest'', scope_dg),
         (S ''proposal_id'', ps ! 0), (S ''proposal_digest'', ps ! 1), (S ''operation'', ps ! 2),
         (S ''memory_id'', mid), (S ''expected_revision'', option_int expected),
         (S ''evidence_spans'', spans), (S ''memory_decision_digest'', ddg),
         (S ''policy_decision_digest'', pdg), (S ''approval_digests'', PList adgs),
         (S ''retention'', cs ! 0), (S ''effective_from'', cs ! 1),
         (S ''effective_until'', dget committed ''effective_until''),
         (S ''expires_at'', dget committed ''expires_at''),
         (S ''committed_record_digest'', rdg)])))))))))))"

section \<open>The authority of a transition\<close>

text \<open>\<open>any("json_pointer" in span or "span_digest" in span for span in spans)\<close>\<close>

definition partial_span :: "pyval \<Rightarrow> bool res" where
  "partial_span s = bindE (py_in (PS ''json_pointer'') s) (\<lambda>a.
     if a then Inr True else py_in (PS ''span_digest'') s)"

definition proposal_checks ::
  "env \<Rightarrow> (pystr \<Rightarrow> pytime option) \<Rightarrow> dict \<Rightarrow> dict \<Rightarrow> instant \<Rightarrow> unit res" where
  "proposal_checks E fromiso actor proposal now = seqE
    [store_fail (outside_window fromiso actor ''issued_at'' ''expires_at'' now)
       ''actor authority is not currently valid'',
     bindE (ditem proposal ''target_scope'') (\<lambda>scope. as_store_error
       (validate_scope_narrowing E scope (PDict actor)) ''proposal scope is not derived from actor authority''),
     bindE (mapping_item proposal ''target_scope'') (\<lambda>scope. seqE
      [store_fail (item_differs scope ''selection'' actor_level) ''memory promotion currently requires actor scope'',
       store_fail (outside_window fromiso scope ''derived_at'' ''valid_until'' now)
         ''proposal scope is not currently valid'']),
     store_fail (item_differs proposal ''lifecycle_state'' (PS ''pending'')) ''memory proposal is not pending'',
     store_fail (bindE (iso_item fromiso proposal ''expires_at'') (\<lambda>e. Inr (now \<ge> e))) ''memory proposal is expired'',
     store_fail (bindE (ditem proposal ''change_kind'') (\<lambda>k. Inr (k = PS ''dispute'')))
       ''memory dispute transitions are outside Phase 4.3'',
     store_fail (bindE (bindE (ditem proposal ''evidence_spans'') elems) (anyE partial_span))
       ''partial evidence spans are not implemented for promotion'']"

definition expired_if_set :: "(pystr \<Rightarrow> pytime option) \<Rightarrow> dict \<Rightarrow> string \<Rightarrow> instant \<Rightarrow> bool res" where
  "expired_if_set fromiso d k now = (if dget d k = PNone then Inr False
     else bindE (parse_iso fromiso (dget d k)) (\<lambda>t. Inr (now \<ge> t)))"

definition candidate_checks ::
  "(pystr \<Rightarrow> pytime option) \<Rightarrow> dict \<Rightarrow> dict \<Rightarrow> instant \<Rightarrow> unit res" where
  "candidate_checks fromiso proposal candidate now = seqE
    [store_fail (differ candidate ''provenance'' proposal ''evidence_spans'')
       ''proposed record provenance must exactly match proposal evidence'',
     store_fail (differ candidate ''truth_confidence'' proposal ''truth_confidence'')
       ''proposed record confidence must exactly match proposal confidence'',
     store_fail (bindE (bindE (mapping_item proposal ''truth_confidence'') (\<lambda>c. ditem c ''evidence_ids'')) (\<lambda>ids.
        bindE (bindE (ditem proposal ''evidence_spans'') elems) (\<lambda>spans.
        bindE (mapE (\<lambda>s. item s ''evidence_id'') spans) (\<lambda>xs. Inr (neq ids (PList xs))))))
       ''truth confidence must bind every exact proposal evidence span'',
     bindE (mapping_item candidate ''retention'') (\<lambda>retention. seqE
      [store_fail (item_differs retention ''deletion_mode'' (PS ''retain_non_sensitive_tombstone''))
         ''physical and cryptographic memory erasure are not implemented'',
       store_fail (bindE (iso_item fromiso retention ''expires_at'') (\<lambda>e. Inr (now \<ge> e)))
         ''memory retention authority is expired'']),
     store_fail (expired_if_set fromiso candidate ''expires_at'' now) ''proposed memory is already expired'',
     store_fail (expired_if_set fromiso candidate ''effective_until'' now)
       ''proposed memory validity is already expired'']"

definition decision_checks ::
  "(pystr \<Rightarrow> pytime option) \<Rightarrow> constraint_registry \<Rightarrow> dict \<Rightarrow> dict \<Rightarrow> instant \<Rightarrow> unit res" where
  "decision_checks fromiso R policy decision now = seqE
    [store_fail (bindE (iso_item fromiso policy ''decided_at'') (\<lambda>p. Inr (p > now)))
       ''policy decision is from the future'',
     store_fail (bindE (iso_item fromiso policy ''decided_at'') (\<lambda>p.
        bindE (iso_item fromiso decision ''decided_at'') (\<lambda>d. Inr (\<not> (p \<le> d \<and> d \<le> now)))))
       ''memory decision chronology is invalid'',
     validate_constraint_support policy R,
     validate_constraint_support decision R]"

text \<open>The approvals, one after the other; each verification calls the trust resolver.\<close>

definition memory_approval_checks ::
  "(pystr \<Rightarrow> pytime option) \<Rightarrow> constraint_registry \<Rightarrow> dict \<Rightarrow> instant \<Rightarrow> dict \<Rightarrow> unit res" where
  "memory_approval_checks fromiso R policy now a = seqE
    [store_fail (outside_window fromiso a ''issued_at'' ''expires_at'' now)
       ''memory approval is not currently valid'',
     store_fail (iso_before fromiso a ''issued_at'' policy ''decided_at'')
       ''memory approval predates its policy decision'',
     validate_constraint_support a R]"

fun verify_memory_approvals ::
  "'b store_ports \<Rightarrow> dict \<Rightarrow> pyval \<Rightarrow> instant \<Rightarrow> (nat \<Rightarrow> verifier) \<Rightarrow> (nat \<Rightarrow> instant \<Rightarrow> trust_context res)
     \<Rightarrow> pyval list \<Rightarrow> dict list \<Rightarrow> ('b store_state, unit) handler" where
  "verify_memory_approvals P policy tenant now V resolve seen [] = returnH ()"
| "verify_memory_approvals P policy tenant now V resolve seen (a # as) =
     bindH (liftH (ditem a ''approval_id'')) (\<lambda>i.
     rejectH (\<not> hashable i) TypeError ''unhashable type''
    (rejectH (list_ex (py_eq i) seen) DurableStoreError ''duplicate memory approval''
    (bindH (liftH (memory_approval_checks (sp_fromiso P) (sp_registry P) policy now a)) (\<lambda>_.
     bindH (ext (\<lambda>n. resolve n now)) (\<lambda>T.
     bindH (ext (\<lambda>n. verify_signed_record (p_env P) (V n) T tenant False (PDict a))) (\<lambda>_.
       verify_memory_approvals P policy tenant now V resolve (i # seen) as))))))"

definition memory_approvals ::
  "'b store_ports \<Rightarrow> dict \<Rightarrow> pyval \<Rightarrow> instant \<Rightarrow> dict list \<Rightarrow> ('b store_state, unit) handler" where
  "memory_approvals P policy tenant now approvals =
     (if approvals = [] then returnH ()
      else case (sp_verifier P, sp_trust P) of
        (Some V, Some resolve) \<Rightarrow> verify_memory_approvals P policy tenant now V resolve [] approvals
      | _ \<Rightarrow> raiseH DurableStoreError ''approval verification is not configured'')"

text \<open>Revisions: a create starts at one, any other operation follows the expected revision.\<close>

definition revision_checks :: "dict \<Rightarrow> dict \<Rightarrow> int option \<Rightarrow> unit res" where
  "revision_checks proposal candidate expected =
     bindE (ditem proposal ''change_kind'') (\<lambda>operation.
     bindE (ditem candidate ''revision'') (\<lambda>revision.
       if operation = PS ''create'' then
         deny (expected \<noteq> None \<or> neq revision (PInt 1) \<or> dhas candidate ''supersedes_revision'')
           DurableStoreError ''create requires revision one and no predecessor''
       else (case expected of
           None \<Rightarrow> Inl (Exc DurableStoreError ''memory transition requires a positive expected revision'')
         | Some n \<Rightarrow> seqE
            [deny (n < 1) DurableStoreError ''memory transition requires a positive expected revision'',
             deny (neq revision (PInt (n + 1))) DurableStoreError
               ''proposed revision does not follow expected revision'',
             deny (neq (dget candidate ''supersedes_revision'') (PInt n)) DurableStoreError
               ''memory transition does not bind its predecessor''])))"

definition committed_record :: "env \<Rightarrow> pyval \<Rightarrow> dict \<Rightarrow> dict \<Rightarrow> dict res" where
  "committed_record E tenant proposal candidate =
     bindE (ditem proposal ''change_kind'') (\<lambda>operation.
     bindE (apply_object_digest E (dset candidate (S ''lifecycle_state'')
              (PS (if operation = PS ''delete'' then ''deleted'' else ''active'')))) (\<lambda>stamped.
       model E ''memory_record'' tenant stamped))"

definition memory_transition_authority ::
  "'b store_ports \<Rightarrow> dict \<Rightarrow> dict \<Rightarrow> dict \<Rightarrow> dict \<Rightarrow> dict list \<Rightarrow> int option \<Rightarrow> instant
     \<Rightarrow> ('b store_state, dict) handler" where
  "memory_transition_authority P actor proposal decision policy approvals expected now =
     bindH (liftH (bindE (validate_memory_promotion_bindings (p_env P) (PDict actor) (PDict proposal)
          (PDict decision) (PDict policy) (map PDict approvals)) (\<lambda>_.
        bindE (proposal_checks (p_env P) (sp_fromiso P) actor proposal now) (\<lambda>_.
        bindE (mapping_item proposal ''proposed_record'') (\<lambda>candidate.
        bindE (candidate_checks (sp_fromiso P) proposal candidate now) (\<lambda>_.
        bindE (decision_checks (sp_fromiso P) (sp_registry P) policy decision now) (\<lambda>_.
        bindE (ditem actor ''tenant_id'') (\<lambda>tenant. Inr (candidate, tenant))))))))) (\<lambda>(candidate, tenant).
     bindH (memory_approvals P policy tenant now approvals) (\<lambda>_.
     liftH (bindE (revision_checks proposal candidate expected) (\<lambda>_.
       committed_record (p_env P) tenant proposal candidate))))"

section \<open>Commit\<close>

definition stored_transition :: "env \<Rightarrow> dict \<Rightarrow> pyval option \<Rightarrow> bool \<Rightarrow> stored_memory_transition res" where
  "stored_transition E value expected replayed =
     bindE (mapping_item value ''transition'') (\<lambda>tr.
     bindE (ditem tr ''binding_digest'') (\<lambda>binding.
     reject_if (case expected of None \<Rightarrow> False | Some x \<Rightarrow> neq binding x) IdempotencyConflictError
       ''memory proposal replay conflicts with original bindings''
    (bindE (bindE (ditem value ''evidence'') (parse_model_value E ''evidence_envelope'' PNone)) (\<lambda>evidence.
     bindE (bindE (ditem tr ''committed_record'') (parse_model_value E ''memory_record'' PNone)) (\<lambda>rec.
     bindE (mapE (ditem tr) [''proposal'', ''memory_decision'', ''policy_decision'']) (\<lambda>rs.
     bindE (bindE (ditem tr ''approvals'') elems) (\<lambda>approvals.
     bindE (ditem tr ''operation'') (\<lambda>operation.
       Inr \<lparr> mt_proposal = rs ! 0, mt_memory_decision = rs ! 1, mt_policy_decision = rs ! 2,
             mt_approvals = approvals, mt_record = rec, mt_evidence = evidence,
             mt_binding_digest = binding, mt_operation = operation,
             mt_expected_revision = dget tr ''expected_revision'', mt_replayed = replayed \<rparr>))))))))"

text \<open>The SQL function of the commit; a result that is not an object is refused.\<close>

definition authority_call ::
  "'b store_ports \<Rightarrow> string \<Rightarrow> string \<Rightarrow> dict \<Rightarrow> dict \<Rightarrow> ('b store_state, dict) handler" where
  "authority_call P f msg actor payload = bindH (sql (sp_call P f actor payload)) (\<lambda>row. case row of
     PDict v \<Rightarrow> returnH v | _ \<Rightarrow> raiseH DurableStoreError msg)"

definition commit_memory_transition ::
  "'b store_ports \<Rightarrow> dict \<Rightarrow> dict \<Rightarrow> ('b store_state, dict) handler" where
  "commit_memory_transition P actor payload = authority_call P ''gah_commit_memory_transition''
     ''memory transition returned a malformed result'' actor payload"

definition transition_body ::
  "env \<Rightarrow> dict \<Rightarrow> dict \<Rightarrow> dict \<Rightarrow> dict \<Rightarrow> dict list \<Rightarrow> dict \<Rightarrow> int option \<Rightarrow> pyval \<Rightarrow> dict res" where
  "transition_body E actor proposal decision policy approvals committed expected binding =
     bindE (ditem actor ''actor_id'') (\<lambda>actor_id.
     bindE (digest_of_dict E actor) (\<lambda>actor_dg.
     bindE (ditem proposal ''change_kind'') (\<lambda>operation.
     bindE (ditem policy ''decision_digest'') (\<lambda>pdg.
       Inr [(S ''actor_id'', actor_id), (S ''actor_context'', PDict actor),
            (S ''actor_context_digest'', actor_dg), (S ''proposal'', PDict proposal),
            (S ''memory_decision'', PDict decision), (S ''policy_decision'', PDict policy),
            (S ''approvals'', PList (map PDict approvals)), (S ''committed_record'', PDict committed),
            (S ''operation'', operation), (S ''expected_revision'', option_int expected),
            (S ''binding_digest'', binding), (S ''policy_decision_digest'', pdg)]))))"

definition memory_locks :: "dict \<Rightarrow> dict \<Rightarrow> dict \<Rightarrow> pystr list res" where
  "memory_locks actor proposal committed =
     bindE (bindE (ditem actor ''tenant_id'') as_text) (\<lambda>tenant.
     bindE (bindE (ditem committed ''memory_id'') as_text) (\<lambda>mid.
     bindE (bindE (ditem proposal ''proposal_id'') as_text) (\<lambda>pid.
       Inr (sort [S ''memory:'' @ tenant @ S '':'' @ mid, S ''proposal:'' @ tenant @ S '':'' @ pid]))))"

fun text_lock_all :: "'b store_ports \<Rightarrow> pystr list \<Rightarrow> ('b store_state, unit) handler" where
  "text_lock_all P [] = returnH ()"
| "text_lock_all P (v # vs) = bindH (sql (sp_text_lock P v)) (\<lambda>_. text_lock_all P vs)"

definition parse_memory_inputs ::
  "env \<Rightarrow> dict \<Rightarrow> dict \<Rightarrow> dict \<Rightarrow> dict \<Rightarrow> dict list \<Rightarrow> (dict \<times> dict \<times> dict \<times> dict \<times> dict list) res" where
  "parse_memory_inputs E actor_context proposal decision policy approvals =
     bindE (model E ''actor_context'' PNone actor_context) (\<lambda>actor.
     bindE (ditem actor ''tenant_id'') (\<lambda>tenant.
     bindE (model E ''memory_proposal'' tenant proposal) (\<lambda>pr.
     bindE (model E ''memory_decision'' tenant decision) (\<lambda>d.
     bindE (model E ''policy_decision'' tenant policy) (\<lambda>p.
     bindE (mapE (model E ''approval_record'' tenant) approvals) (\<lambda>as.
       Inr (actor, pr, d, p, as)))))))"

definition promote_memory ::
  "'b store_ports \<Rightarrow> dict \<Rightarrow> dict \<Rightarrow> dict \<Rightarrow> dict \<Rightarrow> dict list \<Rightarrow> int option
     \<Rightarrow> ('b store_state, stored_memory_transition) handler" where
  "promote_memory P actor_context proposal_value decision_value policy_value approval_values expected =
     (let E = p_env P in
      bindH (store_clock P) (\<lambda>now.
      bindH (liftH (parse_memory_inputs E actor_context proposal_value decision_value policy_value approval_values))
        (\<lambda>(actor, proposal, decision, policy, approvals).
      bindH (memory_transition_authority P actor proposal decision policy approvals expected now) (\<lambda>committed.
      bindH (liftH (bindE (memory_transition_binding_digest E actor proposal decision policy approvals committed
           expected) (\<lambda>binding.
         bindE (policy_reference policy) (\<lambda>policy_ref.
         bindE (transition_body E actor proposal decision policy approvals committed expected binding) (\<lambda>body.
         bindE (memory_locks actor proposal committed) (\<lambda>locks.
         bindE (ditem proposal ''proposal_id'') (\<lambda>pid.
         bindE (bindE (mapping_item proposal ''producer'') (\<lambda>p. ditem p ''run_id'')) (\<lambda>run.
           Inr (binding, policy_ref, body, locks, pid, run))))))))) (\<lambda>(binding, policy_ref, body, locks, pid, run).
      bindH (transaction P Privileged (
        bindH (text_lock_all P locks) (\<lambda>_.
        bindH (commit_memory_transition P actor
           [(S ''proposal_id'', pid), (S ''binding_digest'', binding), (S ''transition'', PDict body)]) (\<lambda>existing.
        if truthy (dget existing ''replayed'') then
          bindH (liftH (stored_transition E existing (Some binding) True)) (\<lambda>t. returnH (Inl t))
        else
          bindH (liftH (as_text run)) (\<lambda>r.
          bindH (prepare_evidence P actor r ''memory.promoted'' policy_ref body) (\<lambda>evidence.
          bindH (commit_memory_transition P actor
             [(S ''proposal_id'', pid), (S ''binding_digest'', binding),
              (S ''expected_revision'', option_int expected), (S ''evidence'', PDict evidence),
              (S ''transition'', PDict body)]) (\<lambda>stored. returnH (Inr stored)))))))) (\<lambda>res. case res of
        Inl t \<Rightarrow> returnH t
      | Inr stored \<Rightarrow> liftH (stored_transition E stored (Some binding) False)))))))"

definition rebuild_memory_projection ::
  "'b store_ports \<Rightarrow> dict \<Rightarrow> pyval \<Rightarrow> ('b store_state, stored_memory_transition) handler" where
  "rebuild_memory_projection P actor_context memory_id =
     bindH (store_clock P) (\<lambda>now.
     bindH (liftH (bindE (model (p_env P) ''actor_context'' PNone actor_context) (\<lambda>actor.
        bindE (store_fail (outside_window (sp_fromiso P) actor ''issued_at'' ''expires_at'' now)
          ''actor authority is not currently valid'') (\<lambda>_. Inr actor)))) (\<lambda>actor.
     bindH (transaction P Privileged (authority_call P ''gah_rebuild_memory_projection''
        ''memory projection rebuild returned a malformed result'' actor [(S ''memory_id'', memory_id)])) (\<lambda>stored.
       liftH (stored_transition (p_env P) stored None False))))"

section \<open>Retrieval\<close>

definition retrieval_query :: "'b store_ports \<Rightarrow> dict \<Rightarrow> dict \<Rightarrow> (dict \<times> pyval \<times> dict \<times> dict) res" where
  "retrieval_query P actor_context query =
     bindE (store_actor P actor_context) (\<lambda>(actor, tenant).
     bindE (model (p_env P) ''memory_query'' tenant query) (\<lambda>q.
     bindE (ditem q ''scope'') (\<lambda>scope_value.
     bindE (as_store_error (validate_scope_narrowing (p_env P) scope_value (PDict actor))
              ''memory query scope is not derived from actor authority'') (\<lambda>_.
     bindE (mapping_item q ''scope'') (\<lambda>scope.
     bindE (store_fail (item_differs scope ''selection'' actor_level)
              ''read-only retrieval currently requires actor scope'') (\<lambda>_.
       Inr (actor, tenant, q, scope)))))))"

text \<open>\<open>isinstance(v, int)\<close> holds of a Boolean.\<close>

definition int_score :: "pyval \<Rightarrow> int option" where
  "int_score v = (case v of PInt i \<Rightarrow> Some i | PBool b \<Rightarrow> Some (if b then 1 else 0) | _ \<Rightarrow> None)"

definition retrieved_row ::
  "'b store_ports \<Rightarrow> dict \<Rightarrow> pyval \<Rightarrow> dict \<Rightarrow> pyval \<Rightarrow> retrieved_memory res" where
  "retrieved_row P actor tenant query_scope row = (case row of
     PDict d \<Rightarrow> (case int_score (dget d ''_relevance_score'') of
       Some score \<Rightarrow>
         reject_if (score < 1) DurableStoreError ''memory retrieval returned an invalid relevance score''
        (bindE (model (p_env P) ''memory_record'' tenant (dpop d ''_relevance_score'')) (\<lambda>rec.
         bindE (ditem rec ''scope'') (\<lambda>scope_value.
         bindE (as_store_error (validate_scope_narrowing (p_env P) scope_value (PDict actor))
                  ''memory record scope is not derived from actor authority'') (\<lambda>_.
         bindE (mapping_item rec ''scope'') (\<lambda>scope.
         bindE (store_fail (orE
            [differ scope ''selection'' query_scope ''selection'',
             item_differs rec ''visibility'' (PS ''actor''),
             item_differs rec ''lifecycle_state'' (PS ''active'')])
            ''memory retrieval returned an out-of-scope record'') (\<lambda>_.
           Inr \<lparr> rm_record = rec, rm_score = score \<rparr>))))))
     | None \<Rightarrow> Inl (Exc DurableStoreError ''memory retrieval returned an invalid relevance score''))
   | _ \<Rightarrow> Inl (Exc DurableStoreError ''memory retrieval returned malformed rows''))"

definition retrieve_memory ::
  "'b store_ports \<Rightarrow> dict \<Rightarrow> dict \<Rightarrow> ('b store_state, retrieved_memory list) handler" where
  "retrieve_memory P actor_context memory_query =
     bindH (liftH (retrieval_query P actor_context memory_query)) (\<lambda>(actor, tenant, query, scope).
     bindH (liftH (iso_item (sp_fromiso P) scope ''valid_until'')) (\<lambda>until.
     bindH (store_clock P) (\<lambda>now.
     rejectH (until < now) DurableStoreError ''memory query scope is expired''
    (bindH (transaction P Runtime (
        bindH (sql (sp_retrieve P actor query)) (\<lambda>found.
        liftH (case found of
            None \<Rightarrow> Inr []
          | Some (PList vs) \<Rightarrow> reject_if (\<not> list_all (\<lambda>v. case v of PDict _ \<Rightarrow> True | _ \<Rightarrow> False) vs)
              DurableStoreError ''memory retrieval returned malformed rows'' (Inr vs)
          | _ \<Rightarrow> Inl (Exc DurableStoreError ''memory retrieval returned malformed rows''))))) (\<lambda>found.
     liftH (mapE (retrieved_row P actor tenant scope) found))))))"

end
