(* ===== verification/Store_Facts.thy ===== *)
theory Store_Facts
  imports Store_Memory Broker_Facts
begin

text \<open>
  Facts about the transactions of the durable store that its properties rest on: what a
  transaction that returns did, what building evidence from a head fixes, what the replay of
  a run yields, and which stored execution a fenced operation acts on.
\<close>

section \<open>Transactions\<close>

text \<open>The connection was opened, from one database state to the next; it was left without an exception.\<close>

definition connects :: "'b store_ports \<Rightarrow> connection \<Rightarrow> 'b store_state \<Rightarrow> 'b store_state \<Rightarrow> bool" where
  "connects P C s s0 \<longleftrightarrow> (\<exists>b. sp_connect P C (rows s) = (Inr (), b) \<and> s0 = s\<lparr> rows := b \<rparr>)"

definition released :: "'b store_ports \<Rightarrow> 'b store_state \<Rightarrow> 'b store_state \<Rightarrow> bool" where
  "released P u t \<longleftrightarrow> (\<exists>b. sp_exit P None (rows u) = (Inr (), b) \<and> t = u\<lparr> rows := b \<rparr>)"

lemma sql_Inr [res_simps]: "sql m s = (Inr x, t) \<longleftrightarrow> (\<exists>b. m (rows s) = (Inr x, b) \<and> t = s\<lparr> rows := b \<rparr>)"
  by (auto simp: sql_def split: prod.splits)

text \<open>A block that returns ran its body to the end and left the connection normally.\<close>

lemma transaction_Inr [res_simps]:
  "transaction P C m s = (Inr x, t) \<longleftrightarrow> (\<exists>s0 u. connects P C s s0 \<and> m s0 = (Inr x, u) \<and> released P u t)"
proof -
  have "(case r of Inl e \<Rightarrow> bindH (sql (sp_exit P (Some e))) (\<lambda>_. liftH (Inl e))
      | Inr x \<Rightarrow> bindH (sql (sp_exit P None)) (\<lambda>_. returnH x)) u = (Inr x, t) \<longleftrightarrow> r = Inr x \<and> released P u t"
    for r and u :: "'b store_state"
    by (cases r) (auto simp: bindH_Inr_iff liftH_iff returnH_iff sql_Inr released_def)
  then show ?thesis
    by (auto simp: transaction_def bindH_Inr_iff attemptH_iff sql_Inr connects_def)
qed

text \<open>An operation whose parsing and checks raise has not opened a connection.\<close>

lemma lifted_error: "\<not> (\<exists>x. r = Inr x) \<Longrightarrow> \<exists>e t. bindH (liftH r) f s = (Inl e, t) \<and> rows t = rows s"
  by (cases r) (auto simp: bindH_def liftH_def)

section \<open>Decisions the store cannot keep\<close>

lemma submission_state_known:
  assumes "submission_checks P actor request policy state policy_ref = Inr ()"
  shows "ditem policy ''decision'' \<noteq> Inr (PS ''authorize'')"
proof
  assume "ditem policy ''decision'' = Inr (PS ''authorize'')"
  then have "neq (PStr state) PNone = False"
    using assms by (auto simp: submission_checks_def res_simps expected_state_def submission_states_def S_def)
  then show False by (simp add: neq_def)
qed

section \<open>The chain of a run\<close>

text \<open>
  \<open>run_chain\<close> with the values it carries as its result: the next sequence number, the digest
  and the time of the last event. \<open>run_head\<close> says that stored events form such a chain.
\<close>

fun chain_from ::
  "(pystr \<Rightarrow> pytime option) \<Rightarrow> int \<times> pyval \<times> instant option \<Rightarrow> dict list
     \<Rightarrow> (int \<times> pyval \<times> instant option) res" where
  "chain_from fromiso h [] = Inr h"
| "chain_from fromiso (n, prior, prior_time) (e # es) =
     bindE (iso_item fromiso e ''recorded_at'') (\<lambda>t.
     bindE (store_fail (orE
        [item_differs e ''sequence_number'' (PInt n),
         item_differs e ''prior_event_digest'' prior,
         Inr (case prior_time of None \<Rightarrow> False | Some p \<Rightarrow> t < p)])
        ''authoritative evidence run chain is invalid'') (\<lambda>_.
     bindE (ditem e ''event_digest'') (\<lambda>d. chain_from fromiso (n + 1, d, Some t) es)))"

lemma run_chain_from:
  "run_chain fromiso n prior pt es = bindE (chain_from fromiso (n, prior, pt) es) (\<lambda>h. Inr ())"
proof (induction es arbitrary: n prior pt)
  case (Cons e es)
  then show ?case by (auto simp: bindE_def split: sum.splits)
qed simp

lemma chain_from_snoc:
  "chain_from fromiso h (es @ [e]) = bindE (chain_from fromiso h es) (\<lambda>h'. chain_from fromiso h' [e])"
proof (induction es arbitrary: h)
  case (Cons x es)
  then show ?case by (cases h) (auto simp: bindE_def split: sum.splits)
qed (cases h, simp)

definition on_millis :: "instant option \<Rightarrow> bool" where
  "on_millis t = (case t of None \<Rightarrow> True | Some i \<Rightarrow> i mod 1000 = 0)"

definition run_head ::
  "(pystr \<Rightarrow> pytime option) \<Rightarrow> dict list \<Rightarrow> int \<times> pyval \<times> instant option \<Rightarrow> bool" where
  "run_head fromiso es h \<longleftrightarrow> chain_from fromiso (0, PNone, None) es = Inr h \<and>
     (fst (snd h) = PNone \<or> (\<exists>d. fst (snd h) = PStr d)) \<and> on_millis (snd (snd h))"

text \<open>What \<open>datetime.fromisoformat\<close> documents for the text \<open>isoformat\<close> writes.\<close>

definition reads_written_times :: "(pystr \<Rightarrow> pytime option) \<Rightarrow> bool" where
  "reads_written_times fromiso \<longleftrightarrow>
     (\<forall>i. representable i \<longrightarrow> fromiso (replace_Z (utc_millis_text i)) = Some (Aware (i - i mod 1000)))"

lemma parse_written:
  assumes "reads_written_times fromiso" "representable i"
  shows "parse_iso fromiso (PStr (utc_millis_text i)) = Inr (i - i mod 1000)"
proof -
  have "0 \<le> i - i mod 1000" using assms(2) zmod_le_nonneg_dividend [of i 1000] by (auto simp: representable_def)
  moreover have "i - i mod 1000 < 3652059 * 86400000000"
    using assms(2) pos_mod_sign [of 1000 i] unfolding representable_def by linarith
  ultimately have "representable (i - i mod 1000)" by (simp add: representable_def)
  then show ?thesis using assms by (simp add: parse_iso_def reads_written_times_def store_aware_def)
qed

text \<open>What an envelope built from a head says.\<close>

lemma stamped_envelope:
  assumes "apply_object_digest E (store_envelope tenant envelope_id draft draft_dg now seq payload_dg prior policy_ref) = Inr e"
  obtains d where "e = dset (store_envelope tenant envelope_id draft draft_dg now seq payload_dg prior policy_ref)
      (S ''event_digest'') (PStr d)"
proof -
  let ?v = "store_envelope tenant envelope_id draft draft_dg now seq payload_dg prior policy_ref"
  have rt: "digest_field (dget ?v ''record_type'') = Some ''event_digest''" and pr: "dget ?v ''proof'' = PNone"
    by (simp_all add: store_envelope_def dget_def envelope_digest_field)
  obtain x where "expected_object_digest E ?v = Inr x" "e = dset ?v (S ''event_digest'') x"
    using assms rt pr by (auto simp: apply_object_digest_eq res_simps Let_def)
  then show thesis using that by (auto simp: expected_object_digest_def dest: sha256_digest_str)
qed

lemma ditem_store_envelope:
  "ditem (dset (store_envelope tenant envelope_id draft draft_dg now seq payload_dg prior policy_ref) (S ''event_digest'') x) k =
     (if k = ''event_digest'' then Inr x
      else ditem (store_envelope tenant envelope_id draft draft_dg now seq payload_dg prior policy_ref) k)"
  by (simp add: ditem_def)

lemma store_clock_Inr:
  assumes "store_clock P s = (Inr i, t)"
  shows "p_clock P (tick s) = Inr (Aware i)" "representable i" "rows t = rows s"
proof -
  obtain x s1 where x: "p_clock P (tick s) = Inr x" "s1 = s\<lparr> tick := Suc (tick s) \<rparr>"
      "store_aware x ''durable store clock must be timezone-aware'' = Inr i" "t = s1"
    using assms by (auto simp: store_clock_def bindH_Inr_iff ext_Inr liftH_iff)
  then show "p_clock P (tick s) = Inr (Aware i)" "representable i" "rows t = rows s"
    by (cases x; simp add: store_aware_def split: if_splits)+
qed

lemma new_id_Inr: "new_id P s = (Inr i, t) \<Longrightarrow> rows t = rows s" for s :: "'b store_state"
  by (auto simp: new_id_def res_simps ext_Inr)

lemma built_from_head:
  assumes "build_evidence_from_head P actor run kind policy_ref payload head s = (Inr (e, v), t)"
    and "read_head (sp_fromiso P) head = Inr (seq, prior, prior_time, v')"
  obtains i d where "representable i" "case prior_time of None \<Rightarrow> True | Some p \<Rightarrow> p \<le> i" "v = v'"
    "ditem e ''recorded_at'' = Inr (PStr (utc_millis_text i))" "ditem e ''sequence_number'' = Inr (PInt seq)"
    "ditem e ''prior_event_digest'' = Inr prior" "ditem e ''event_digest'' = Inr (PStr d)"
    "rows t = rows s"
proof -
  from assms obtain i event_id tenant opdg envelope_id draft_dg payload_dg env0 s1 s2 s3 where
      clock: "store_clock P s = (Inr i, s1)"
      and late: "\<not> (case prior_time of None \<Rightarrow> False | Some t \<Rightarrow> i < t)"
      and ids: "new_id P s1 = (Inr event_id, s2)" "new_id P s2 = (Inr envelope_id, s3)"
      and st: "apply_object_digest (p_env P) (store_envelope tenant envelope_id
          (store_draft tenant event_id run kind (utc_millis_text i) seq opdg payload)
          draft_dg (utc_millis_text i) seq payload_dg prior policy_ref) = Inr env0"
      and m: "model (p_env P) ''evidence_envelope'' tenant env0 = Inr e" and v: "v = v'" "t = s3"
    unfolding build_evidence_from_head_def Let_def
    by (auto simp: bindH_Inr_iff liftH_iff rejectH_Inr_iff bindE_Inr_iff split_beta)
  have e: "e = env0" using contract_model_same [OF m] .
  obtain d where d: "env0 = dset (store_envelope tenant envelope_id
          (store_draft tenant event_id run kind (utc_millis_text i) seq opdg payload)
          draft_dg (utc_millis_text i) seq payload_dg prior policy_ref) (S ''event_digest'') (PStr d)"
    using st by (rule stamped_envelope)
  note clk = store_clock_Inr [OF clock]
  show thesis
  proof (rule that)
    show "representable i" by (rule clk(2))
    show "case prior_time of None \<Rightarrow> True | Some p \<Rightarrow> p \<le> i" using late by (auto split: option.splits)
    show "rows t = rows s" using v(2) ids clk(3) by (auto dest!: new_id_Inr)
  qed (use v in \<open>simp_all add: e d ditem_store_envelope\<close>,
       simp_all add: store_envelope_def ditem_def)
qed

section \<open>Replaying a run\<close>

lemma filterE_subset: "filterE f xs = Inr ys \<Longrightarrow> set ys \<subseteq> set xs"
  by (induction xs arbitrary: ys) (auto simp: res_simps split: if_splits)

lemma filterE_holds: "filterE f xs = Inr ys \<Longrightarrow> y \<in> set ys \<Longrightarrow> f y = Inr True"
  by (induction xs arbitrary: ys) (auto simp: res_simps split: if_splits)

text \<open>The kind of an event and its payload.\<close>

definition of_kind :: "string \<Rightarrow> dict \<Rightarrow> bool" where
  "of_kind kind e \<longleftrightarrow> event_draft_item e ''event_kind'' = Inr (PS kind)"

definition carries :: "dict \<Rightarrow> dict \<Rightarrow> bool" where
  "carries e payload \<longleftrightarrow> event_draft_item e ''inline_payload'' = Inr (PDict payload)"

text \<open>
  An approval or grant of a replayed lifecycle comes from the payload of the one event of its
  kind, and without such an event there is none.
\<close>

definition carried_by ::
  "env \<Rightarrow> string \<Rightarrow> string \<Rightarrow> string \<Rightarrow> pyval \<Rightarrow> dict list \<Rightarrow> dict option \<Rightarrow> bool" where
  "carried_by E kind rt key tenant es x = (case x of None \<Rightarrow> filter (of_kind kind) es = []
     | Some d \<Rightarrow> (\<exists>e payload v. filter (of_kind kind) es = [e] \<and> carries e payload \<and>
         ditem payload key = Inr v \<and> parse_model_value E rt tenant v = Inr d))"

abbreviation approval_in where
  "approval_in E \<equiv> carried_by E ''kernel.approval_accepted'' ''approval_record'' ''approval''"

abbreviation grant_in where
  "grant_in E \<equiv> carried_by E ''kernel.authorization_grant_issued'' ''authorization_grant'' ''grant''"

lemma carried_by_other: "\<not> of_kind kind e \<Longrightarrow> carried_by E kind rt key tenant (es @ [e]) x = carried_by E kind rt key tenant es x"
  by (cases x) (simp_all add: carried_by_def)

lemma carried_by_new:
  assumes "carried_by E kind rt key tenant es None" "of_kind kind e" "carries e payload"
    and "bindE (ditem payload key) (parse_model_value E rt tenant) = Inr d"
  shows "carried_by E kind rt key tenant (es @ [e]) (Some d)"
  using assms by (auto simp: carried_by_def bindE_Inr_iff)

lemma as_text_Inr: "as_text v = Inr t \<longleftrightarrow> v = PStr t"
  by (cases v) auto

lemma py_dict_of_item: "py_dict v = Inr d \<Longrightarrow> ditem d k = Inr x \<Longrightarrow> v = PDict d"
  by (cases "v" rule: py_dict.cases) (auto simp: ditem_def)

text \<open>The state an event leads to, and the policy its envelope refers to.\<close>

definition leads_to :: "dict \<Rightarrow> pystr \<Rightarrow> bool" where
  "leads_to e st \<longleftrightarrow> (\<exists>payload. carries e payload \<and> ditem payload ''next_state'' = Inr (PStr st))"

definition refers_to :: "dict \<Rightarrow> dict \<Rightarrow> bool" where
  "refers_to ref e \<longleftrightarrow> (\<exists>x. ditem e ''policy_refs'' = Inr x \<and> py_eq x (PList [PDict ref]))"

lemma refers_to_iff: "item_differs e ''policy_refs'' (PList [PDict ref]) = Inr False \<longleftrightarrow> refers_to ref e"
  unfolding item_differs_def refers_to_def by (simp add: bindE_Inr_iff neq_def del: py_eq.simps)

lemma replay_event_inv:
  assumes "replay_event E actor request policy rid ref e (approval, grant, state) = Inr (approval', grant', state')"
  obtains payload kind state0 where "carries e payload" "event_draft_item e ''event_kind'' = Inr kind"
    "leads_to e state'" "refers_to ref e"
    "(if kind = PS ''kernel.approval_accepted''
      then replay_approval E actor request policy rid payload (approval, grant, state)
      else if kind = PS ''kernel.authorization_grant_issued''
      then replay_grant E actor request policy rid payload (approval, grant, state)
      else Inr (approval, grant, state)) = Inr (approval', grant', state0)"
proof -
  obtain v payload kind state0 where v: "event_draft_item e ''inline_payload'' = Inr v" "py_dict v = Inr payload"
      "event_draft_item e ''event_kind'' = Inr kind"
      and r: "(if kind = PS ''kernel.approval_accepted''
      then replay_approval E actor request policy rid payload (approval, grant, state)
      else if kind = PS ''kernel.authorization_grant_issued''
      then replay_grant E actor request policy rid payload (approval, grant, state)
      else Inr (approval, grant, state)) = Inr (approval', grant', state0)"
      and refs: "item_differs e ''policy_refs'' (PList [PDict ref]) = Inr False"
      and nxt: "ditem payload ''next_state'' = Inr (PStr state')"
    using assms unfolding replay_event_def
    by (auto simp: bindE_Inr_iff denyE_Inr_iff as_text_Inr simp del: py_eq.simps)
  have p: "carries e payload" using v(1) py_dict_of_item [OF v(2) nxt] by (simp add: carries_def)
  show thesis
    by (rule that [OF p v(3) _ _ r]) (use p nxt refs in \<open>auto simp: leads_to_def refers_to_iff [symmetric]\<close>)
qed

lemma replay_event_carried:
  assumes "replay_event E actor request policy rid ref e (approval, grant, state) = Inr (approval', grant', state')"
    and "ditem actor ''tenant_id'' = Inr tenant"
    and "approval_in E tenant es approval" "grant_in E tenant es grant"
  shows "approval_in E tenant (es @ [e]) approval' \<and> grant_in E tenant (es @ [e]) grant' \<and>
     leads_to e state' \<and> refers_to ref e"
proof -
  from assms(1) obtain payload kind state0 where e: "carries e payload" "event_draft_item e ''event_kind'' = Inr kind"
    "leads_to e state'" "refers_to ref e"
    and r: "(if kind = PS ''kernel.approval_accepted''
      then replay_approval E actor request policy rid payload (approval, grant, state)
      else if kind = PS ''kernel.authorization_grant_issued''
      then replay_grant E actor request policy rid payload (approval, grant, state)
      else Inr (approval, grant, state)) = Inr (approval', grant', state0)"
    by (rule replay_event_inv)
  have k: "of_kind c e \<longleftrightarrow> kind = PS c" for c using e(2) by (auto simp: of_kind_def)
  consider (approval) "kind = PS ''kernel.approval_accepted''" | (grant) "kind = PS ''kernel.authorization_grant_issued''"
    | (other) "kind \<noteq> PS ''kernel.approval_accepted''" "kind \<noteq> PS ''kernel.authorization_grant_issued''" by blast
  then have "approval_in E tenant (es @ [e]) approval' \<and> grant_in E tenant (es @ [e]) grant'"
  proof cases
    case approval
    then have "approval = None" "grant' = grant" "\<not> of_kind ''kernel.authorization_grant_issued'' e"
        "\<exists>d. approval' = Some d \<and> bindE (ditem payload ''approval'') (parse_model_value E ''approval_record'' tenant) = Inr d"
      using r assms(2) k by (auto simp: replay_approval_def bindE_Inr_iff reject_if_Inr_iff S_def)
    then show ?thesis using assms(3,4) e(1) k approval by (auto simp: carried_by_other intro: carried_by_new)
  next
    case grant
    then have "kind \<noteq> PS ''kernel.approval_accepted''" by (simp add: S_def)
    with grant r assms(2) have "grant = None" "approval' = approval"
        "\<exists>d. grant' = Some d \<and> bindE (ditem payload ''grant'') (parse_model_value E ''authorization_grant'' tenant) = Inr d"
      by (auto simp: replay_grant_def bindE_Inr_iff reject_if_Inr_iff)
    then show ?thesis using assms(3,4) e(1) k grant \<open>kind \<noteq> _\<close> by (auto simp: carried_by_other intro: carried_by_new)
  next
    case other
    then show ?thesis using r assms(3,4) k by (simp add: carried_by_other)
  qed
  then show ?thesis using e(3,4) by blast
qed

lemma replay_events_carried:
  assumes "replay_events E actor request policy rid ref es' (approval, grant, state) = Inr (approval', grant', state')"
    and "ditem actor ''tenant_id'' = Inr tenant"
    and "approval_in E tenant es approval" "grant_in E tenant es grant"
    and "es \<noteq> []" "leads_to (last es) state" "\<forall>e\<in>set es. refers_to ref e"
  shows "approval_in E tenant (es @ es') approval' \<and> grant_in E tenant (es @ es') grant' \<and>
     leads_to (last (es @ es')) state' \<and> (\<forall>e\<in>set (es @ es'). refers_to ref e)"
  using assms
proof (induction es' arbitrary: approval grant state es)
  case (Cons e es')
  obtain a1 g1 s1 where one: "replay_event E actor request policy rid ref e (approval, grant, state) = Inr (a1, g1, s1)"
    "replay_events E actor request policy rid ref es' (a1, g1, s1) = Inr (approval', grant', state')"
    using Cons.prems(1) by (auto simp: bindE_Inr_iff)
  note step = replay_event_carried [OF one(1) Cons.prems(2-4)]
  have "approval_in E tenant ((es @ [e]) @ es') approval' \<and> grant_in E tenant ((es @ [e]) @ es') grant' \<and>
     leads_to (last ((es @ [e]) @ es')) state' \<and> (\<forall>x\<in>set ((es @ [e]) @ es'). refers_to ref x)"
    by (rule Cons.IH [OF one(2) Cons.prems(2)]) (use step Cons.prems(7) in auto)
  then show ?case by simp
qed simp

text \<open>
  The first event of a lifecycle: the policy decision that was evaluated, with the actor, the
  request and the policy it names in its payload.
\<close>

definition opened_by ::
  "env \<Rightarrow> dict \<Rightarrow> pyval \<Rightarrow> pyval \<Rightarrow> dict \<Rightarrow> dict \<Rightarrow> dict \<Rightarrow> dict \<Rightarrow> bool" where
  "opened_by E actor rid tenant e request policy ref \<longleftrightarrow> of_kind ''kernel.policy_decided'' e \<and>
     (\<exists>payload stored_actor initial. carries e payload \<and>
        bindE (ditem payload ''actor_context'') (parse_model_value E ''actor_context'' PNone) = Inr stored_actor \<and>
        py_eq (PDict stored_actor) (PDict actor) \<and>
        bindE (ditem payload ''request'') (parse_model_value E ''tool_request'' tenant) = Inr request \<and>
        bindE (ditem payload ''policy'') (parse_model_value E ''policy_decision'' tenant) = Inr policy \<and>
        (\<exists>x. ditem request ''request_id'' = Inr x \<and> py_eq x rid) \<and>
        policy_reference policy = Inr ref \<and>
        bindE (ditem policy ''decision'') expected_state = Inr initial \<and>
        py_eq (dget payload ''next_state'') initial)"

lemma replay_first_inv:
  assumes "replay_first E actor rid e = Inr (request, policy, ref, state)" "of_kind ''kernel.policy_decided'' e"
  obtains tenant where "ditem actor ''tenant_id'' = Inr tenant" "opened_by E actor rid tenant e request policy ref"
    "leads_to e state" "refers_to ref e"
proof -
  obtain v payload sa tenant initial where
      v: "event_draft_item e ''inline_payload'' = Inr v" "py_dict v = Inr payload"
      and sa: "bindE (ditem payload ''actor_context'') (parse_model_value E ''actor_context'' PNone) = Inr sa"
        "\<not> neq (PDict sa) (PDict actor)"
      and tn: "ditem actor ''tenant_id'' = Inr tenant"
      and r: "bindE (ditem payload ''request'') (parse_model_value E ''tool_request'' tenant) = Inr request"
        "bindE (ditem payload ''policy'') (parse_model_value E ''policy_decision'' tenant) = Inr policy"
        "item_differs request ''request_id'' rid = Inr False" "policy_reference policy = Inr ref"
      and i: "bindE (ditem policy ''decision'') expected_state = Inr initial"
        "\<not> neq (dget payload ''next_state'') initial" "item_differs e ''policy_refs'' (PList [PDict ref]) = Inr False"
      and nxt: "ditem payload ''next_state'' = Inr (PStr state)"
    using assms(1) unfolding replay_first_def
    by (auto simp only: bindE_Inr_iff reject_if_Inr_iff denyE_Inr_iff orE_False_iff list.set ball_simps
        as_text_Inr prod.inject sum.inject simp_thms)
  have p: "carries e payload" using v(1) py_dict_of_item [OF v(2) nxt] by (simp add: carries_def)
  show thesis
  proof (rule that [OF tn])
    show "opened_by E actor rid tenant e request policy ref"
      unfolding opened_by_def using p sa r i assms(2)
      by (auto simp: neq_def item_differs_False ditem_Inr_iff simp del: py_eq.simps)
  qed (use p nxt i(3) in \<open>auto simp: leads_to_def refers_to_iff [symmetric]\<close>)
qed

text \<open>What replaying the events of a run yields.\<close>

definition replayed_from ::
  "env \<Rightarrow> (pystr \<Rightarrow> pytime option) \<Rightarrow> dict \<Rightarrow> pyval \<Rightarrow> dict list \<Rightarrow> stored_lifecycle \<Rightarrow> bool" where
  "replayed_from E fromiso actor rid events l \<longleftrightarrow>
     run_chain fromiso 0 PNone None events = Inr () \<and>
     filterE (is_lifecycle_event rid) events = Inr (sl_evidence l) \<and> sl_evidence l \<noteq> [] \<and>
     sl_version l = int (length (sl_evidence l)) \<and> sl_actor l = actor \<and>
     (\<exists>tenant ref. ditem actor ''tenant_id'' = Inr tenant \<and>
        opened_by E actor rid tenant (hd (sl_evidence l)) (sl_request l) (sl_policy l) ref \<and>
        (\<forall>e\<in>set (sl_evidence l). refers_to ref e) \<and>
        leads_to (last (sl_evidence l)) (sl_state l) \<and>
        approval_in E tenant (sl_evidence l) (sl_approval l) \<and>
        grant_in E tenant (sl_evidence l) (sl_grant l)) \<and>
     validate_lifecycle_authority E fromiso actor (sl_request l) (sl_policy l) (sl_approval l) (sl_grant l) = Inr ()"

lemma replay_run_inv:
  assumes "replay_run E fromiso actor rid events = Inr l"
  shows "replayed_from E fromiso actor rid events l"
proof -
  have chain: "run_chain fromiso 0 PNone None events = Inr ()"
    using assms by (auto simp: replay_run_def bindE_Inr_iff)
  obtain mine where mine: "filterE (is_lifecycle_event rid) events = Inr mine"
    using assms by (auto simp: replay_run_def bindE_Inr_iff)
  obtain e es where es: "mine = e # es"
    using assms mine by (cases mine) (auto simp: replay_run_def chain)
  obtain request policy ref state approval grant final where
      kind: "of_kind ''kernel.policy_decided'' e"
      and first: "replay_first E actor rid e = Inr (request, policy, ref, state)"
      and more: "replay_events E actor request policy rid ref es (None, None, state) = Inr (approval, grant, final)"
      and valid: "validate_lifecycle_authority E fromiso actor request policy approval grant = Inr ()"
      and l: "l = \<lparr> sl_actor = actor, sl_request = request, sl_policy = policy, sl_state = final,
               sl_version = int (length mine), sl_evidence = mine, sl_approval = approval, sl_grant = grant \<rparr>"
    using assms mine es by (auto simp: replay_run_def chain bindE_Inr_iff denyE_Inr_iff neq_def of_kind_def)
  from first kind obtain tenant where tn: "ditem actor ''tenant_id'' = Inr tenant"
      and o: "opened_by E actor rid tenant e request policy ref" and e: "leads_to e state" "refers_to ref e"
    by (rule replay_first_inv)
  have none: "approval_in E tenant [e] None" "grant_in E tenant [e] None"
    using kind by (auto simp: carried_by_def of_kind_def S_def)
  have "approval_in E tenant ([e] @ es) approval \<and> grant_in E tenant ([e] @ es) grant \<and>
     leads_to (last ([e] @ es)) final \<and> (\<forall>x\<in>set ([e] @ es). refers_to ref x)"
    by (rule replay_events_carried [OF more tn none]) (use e in simp_all)
  then show ?thesis using chain mine valid tn o l es by (auto simp: replayed_from_def)
qed

text \<open>The three reads of a load, each from the database the one before it left.\<close>

definition reads_run :: "'b store_ports \<Rightarrow> dict \<Rightarrow> pyval \<Rightarrow> 'b \<Rightarrow> dict list \<Rightarrow> 'b \<Rightarrow> bool" where
  "reads_run P actor rid b events b' \<longleftrightarrow> (\<exists>listed b1 tenant candidates run found.
     sp_read P actor ''lifecycle_events'' [(S ''request_id'', rid)] b = (Inr listed, b1) \<and>
     ditem actor ''tenant_id'' = Inr tenant \<and> parse_events (p_env P) tenant listed = Inr candidates \<and>
     candidates \<noteq> [] \<and> (\<forall>e\<in>set candidates. \<exists>x. event_draft_item e ''run_id'' = Inr x \<and> (x = run \<or> py_eq run x)) \<and>
     sp_read P actor ''events'' [(S ''run_id'', run)] b1 = (Inr found, b') \<and>
     parse_events (p_env P) tenant found = Inr events)"

lemma single_run_inv:
  assumes "single_run es msg = Inr run"
  shows "\<forall>e\<in>set es. \<exists>x. event_draft_item e ''run_id'' = Inr x \<and> (x = run \<or> py_eq run x)"
proof -
  obtain runs where runs: "list_all2 (\<lambda>e x. event_draft_item e ''run_id'' = Inr x) es runs"
      "\<forall>x\<in>set runs. x = run \<or> py_eq run x"
    using assms unfolding single_run_def
    by (auto simp: bindE_Inr_iff mapE_Inr_iff reject_if_Inr_iff list_all_iff simp del: py_eq.simps
        split: if_splits list.splits)
  show ?thesis
  proof
    fix e assume "e \<in> set es"
    then obtain x where "x \<in> set runs" "event_draft_item e ''run_id'' = Inr x"
      using runs(1) by (auto simp: list_all2_conv_all_nth in_set_conv_nth) blast
    then show "\<exists>x. event_draft_item e ''run_id'' = Inr x \<and> (x = run \<or> py_eq run x)" using runs(2) by blast
  qed
qed

lemma replay_lifecycle_inv:
  assumes "replay_lifecycle P actor rid s = (Inr l, t)"
  shows "\<exists>events. reads_run P actor rid (rows s) events (rows t) \<and>
    replayed_from (p_env P) (sp_fromiso P) actor rid events l"
proof -
  obtain listed b1 tenant candidates run found b2 events where
      "sp_read P actor ''lifecycle_events'' [(S ''request_id'', rid)] (rows s) = (Inr listed, b1)"
      "ditem actor ''tenant_id'' = Inr tenant" "parse_events (p_env P) tenant listed = Inr candidates"
      "candidates \<noteq> []" "single_run candidates ''lifecycle evidence spans multiple runs'' = Inr run"
      "sp_read P actor ''events'' [(S ''run_id'', run)] b1 = (Inr found, b2)" "rows t = b2"
      "parse_events (p_env P) tenant found = Inr events"
      and r: "replay_run (p_env P) (sp_fromiso P) actor rid events = Inr l"
    using assms unfolding replay_lifecycle_def runtime_read_def
    by (auto simp: bindH_Inr_iff liftH_iff rejectH_Inr_iff sql_Inr)
  then have "reads_run P actor rid (rows s) events (rows t)"
    unfolding reads_run_def using single_run_inv by blast
  then show ?thesis using replay_run_inv [OF r] by blast
qed

text \<open>The columns of the projection agree with the lifecycle.\<close>

definition projects :: "dict \<Rightarrow> stored_lifecycle \<Rightarrow> bool" where
  "projects v l \<longleftrightarrow>
     py_eq (dget v ''actor_context_json'') (PDict (sl_actor l)) \<and>
     py_eq (dget v ''request_json'') (PDict (sl_request l)) \<and>
     py_eq (dget v ''policy_json'') (PDict (sl_policy l)) \<and>
     (\<exists>approvals. bindE (ditem v ''approvals_json'') elems = Inr approvals \<and>
        py_eq (if approvals = [] then PNone else hd approvals) (option_dict (sl_approval l))) \<and>
     py_eq (dget v ''grant_json'') (option_dict (sl_grant l)) \<and>
     py_eq (dget v ''state'') (PStr (sl_state l)) \<and> py_eq (dget v ''version'') (PInt (sl_version l)) \<and>
     (\<exists>n d. ditem (last (sl_evidence l)) ''sequence_number'' = Inr n \<and> py_eq (dget v ''last_evidence_sequence'') n \<and>
        ditem (last (sl_evidence l)) ''event_digest'' = Inr d \<and> py_eq (dget v ''last_evidence_digest'') d)"

lemma py_eq_tuples: "py_eq (PTuple xs) (PTuple ys) \<longleftrightarrow> list_all2 py_eq xs ys"
  by (auto simp: list_all2_iff)

lemma projection_agrees:
  assumes "projection_row v = Inr row" "rebuilt_row l = Inr expected" "\<not> neq (PTuple row) (PTuple expected)"
  shows "projects v l"
proof -
  obtain approvals where row: "bindE (ditem v ''approvals_json'') elems = Inr approvals"
      "row = [dget v ''actor_context_json'', dget v ''request_json'', dget v ''policy_json'',
        if approvals = [] then PNone else hd approvals, dget v ''grant_json'', dget v ''state'', dget v ''version'',
        dget v ''last_evidence_sequence'', dget v ''last_evidence_digest'']"
    using assms(1) unfolding projection_row_def
    by (auto simp: bindE_Inr_iff ditem_Inr_iff dget_Some simp del: py_eq.simps)
  obtain n d where expected: "ditem (last (sl_evidence l)) ''sequence_number'' = Inr n"
      "ditem (last (sl_evidence l)) ''event_digest'' = Inr d"
      "expected = [PDict (sl_actor l), PDict (sl_request l), PDict (sl_policy l), option_dict (sl_approval l),
            option_dict (sl_grant l), PStr (sl_state l), PInt (sl_version l), n, d]"
    using assms(2) unfolding rebuilt_row_def by (auto simp: bindE_Inr_iff split: if_splits)
  have "list_all2 py_eq row expected" using assms(3) by (simp add: neq_def py_eq_tuples del: py_eq.simps)
  then show ?thesis unfolding projects_def row(2) expected(3) using row(1) expected(1,2)
    by (simp del: py_eq.simps)
qed

text \<open>A load: the row of the request, its events and those of the run, and what they agree on.\<close>

definition loads :: "'b store_ports \<Rightarrow> dict \<Rightarrow> pyval \<Rightarrow> 'b \<Rightarrow> stored_lifecycle \<Rightarrow> 'b \<Rightarrow> bool" where
  "loads P actor rid b l b' \<longleftrightarrow> (\<exists>v b1 events.
     sp_read P actor ''lifecycle_by_id'' [(S ''request_id'', rid)] b = (Inr (PDict v), b1) \<and>
     reads_run P actor rid b1 events b' \<and> replayed_from (p_env P) (sp_fromiso P) actor rid events l \<and>
     projects v l)"

lemma load_inv:
  assumes "load_with_cursor P actor rid m s = (Inr (Some l), t)"
  shows "loads P actor rid (rows s) l (rows t)"
proof -
  obtain v b1 row s1 expected where v: "sp_read P actor ''lifecycle_by_id'' [(S ''request_id'', rid)] (rows s) = (Inr (PDict v), b1)"
      "projection_row v = Inr row" "replay_lifecycle P actor rid (s\<lparr> rows := b1 \<rparr>) = (Inr l, s1)"
      "rebuilt_row l = Inr expected" "\<not> neq (PTuple row) (PTuple expected)" "t = s1"
    using assms unfolding load_with_cursor_def runtime_read_def
    by (auto simp: bindH_Inr_iff returnH_iff raiseH_iff rejectH_Inr_iff liftH_iff sql_Inr simp del: py_eq.simps
        split: if_splits pyval.splits)
  from replay_lifecycle_inv [OF v(3)] show ?thesis
    unfolding loads_def using v(1,6) projection_agrees [OF v(2,4,5)] by auto
qed

lemma load_existing_inv:
  assumes "load_existing P actor rid s = (Inr l, t)"
  shows "loads P actor rid (rows s) l (rows t)"
  using assms unfolding load_existing_def
  by (auto simp: bindH_Inr_iff returnH_iff raiseH_iff dest: load_inv split: option.splits)

end
