(* ===== verification/Store_Machine.thy ===== *)
theory Store_Machine
  imports Store_Facts
begin

text \<open>
  The abstract lifecycle behind the durable store: what one submission, approval or grant may
  do to the stored lifecycle of a request. A step carries the call it answers, so that it says
  which request, approval or grant it was made for, and when a repeated call may be answered
  with what is stored. The transactions of the store are shown to be such steps, and the
  lifecycles that steps reach satisfy an invariant relating state, policy decision and
  attached authority.
\<close>

section \<open>Steps\<close>

definition entry_state :: "dict \<Rightarrow> pystr \<Rightarrow> bool" where
  "entry_state policy st \<longleftrightarrow>
     (ditem policy ''decision'' = Inr (PS ''deny'') \<and> st = S ''denied'') \<or>
     (ditem policy ''decision'' = Inr (PS ''require_approval'') \<and> st = S ''approval_required'') \<or>
     (ditem policy ''decision'' = Inr (PS ''allow'') \<and> st = S ''policy_authorized'')"

text \<open>The calls, with the actor, the expected version and the record they carry.\<close>

datatype store_call =
    Submit dict dict dict pystr
  | Approve dict "int option" dict
  | Issue dict "int option" dict

inductive stored_step ::
  "env \<Rightarrow> (pystr \<Rightarrow> pytime option) \<Rightarrow> store_call \<Rightarrow> stored_lifecycle option \<Rightarrow> stored_lifecycle \<Rightarrow> bool"
  for E fromiso where
  submitted: "stored_step E fromiso (Submit actor r p st) None
     \<lparr> sl_actor = actor, sl_request = r, sl_policy = p, sl_state = st, sl_version = 1,
       sl_evidence = [e], sl_approval = None, sl_grant = None \<rparr>"
  if "entry_state p st" "validate_lifecycle_authority E fromiso actor r p None None = Inr ()"
| approved: "stored_step E fromiso (Approve actor v a) (Some l)
     (l\<lparr> sl_actor := actor, sl_state := S ''approved'', sl_version := sl_version l + 1,
        sl_evidence := sl_evidence l @ [e], sl_approval := Some a, sl_grant := None \<rparr>)"
  if "sl_state l = S ''approval_required''" "v = Some (sl_version l)"
    "validate_lifecycle_authority E fromiso actor (sl_request l) (sl_policy l) (Some a) None = Inr ()"
| approved_before: "stored_step E fromiso (Approve actor v a) (Some l) l"
  if "sl_state l = S ''approved''" "sl_approval l = Some a'" "py_eq (PDict a') (PDict a)"
| granted: "stored_step E fromiso (Issue actor v g) (Some l)
     (l\<lparr> sl_actor := actor, sl_state := S ''grant_issued'', sl_version := sl_version l + 1,
        sl_evidence := sl_evidence l @ [e], sl_grant := Some g \<rparr>)"
  if "sl_state l = S ''policy_authorized'' \<or> sl_state l = S ''approved''" "v = Some (sl_version l)"
    "validate_lifecycle_authority E fromiso actor (sl_request l) (sl_policy l) (sl_approval l) (Some g) = Inr ()"
| granted_before: "stored_step E fromiso (Issue actor v g) (Some l) l"
  if "sl_state l = S ''grant_issued''" "sl_grant l = Some g'" "py_eq (PDict g') (PDict g)"

inductive_cases submit_step: "stored_step E fromiso (Submit actor r p st) None l"
inductive_cases approve_step: "stored_step E fromiso (Approve actor v a) (Some l) l'"
inductive_cases issue_step: "stored_step E fromiso (Issue actor v g) (Some l) l'"

text \<open>The lifecycles that a submission and later calls reach.\<close>

inductive stored_reachable :: "env \<Rightarrow> (pystr \<Rightarrow> pytime option) \<Rightarrow> stored_lifecycle \<Rightarrow> bool"
  for E fromiso where
  opened: "stored_reachable E fromiso l" if "stored_step E fromiso c None l"
| moved: "stored_reachable E fromiso l'" if "stored_reachable E fromiso l" "stored_step E fromiso c (Some l) l'"

text \<open>
  The invariant: the version counts the evidence, and each state goes with a policy decision
  and exactly the authority that leads to it.
\<close>

definition policy_says :: "stored_lifecycle \<Rightarrow> string \<Rightarrow> bool" where
  "policy_says l d \<longleftrightarrow> ditem (sl_policy l) ''decision'' = Inr (PS d)"

definition stored_governed :: "stored_lifecycle \<Rightarrow> bool" where
  "stored_governed l \<longleftrightarrow> sl_version l = int (length (sl_evidence l)) \<and>
    (sl_state l = S ''denied'' \<and> policy_says l ''deny'' \<and> sl_approval l = None \<and> sl_grant l = None \<or>
     sl_state l = S ''approval_required'' \<and> policy_says l ''require_approval'' \<and> sl_approval l = None \<and> sl_grant l = None \<or>
     sl_state l = S ''policy_authorized'' \<and> policy_says l ''allow'' \<and> sl_approval l = None \<and> sl_grant l = None \<or>
     sl_state l = S ''approved'' \<and> policy_says l ''require_approval'' \<and> (\<exists>a. sl_approval l = Some a) \<and> sl_grant l = None \<or>
     sl_state l = S ''grant_issued'' \<and> (\<exists>g. sl_grant l = Some g) \<and>
       (policy_says l ''allow'' \<and> sl_approval l = None \<or>
        policy_says l ''require_approval'' \<and> (\<exists>a. sl_approval l = Some a)))"

definition stored_valid :: "env \<Rightarrow> (pystr \<Rightarrow> pytime option) \<Rightarrow> stored_lifecycle \<Rightarrow> bool" where
  "stored_valid E fromiso l \<longleftrightarrow> validate_lifecycle_authority E fromiso (sl_actor l) (sl_request l)
     (sl_policy l) (sl_approval l) (sl_grant l) = Inr ()"

lemma step_governed:
  assumes "stored_step E fromiso c o' l'" "\<And>l. o' = Some l \<Longrightarrow> stored_governed l \<and> stored_valid E fromiso l"
  shows "stored_governed l' \<and> stored_valid E fromiso l'"
  using assms
proof (cases rule: stored_step.cases)
  case (granted l v actor g e)
  have l: "stored_governed l" using assms(2) granted(2) by blast
  have "policy_says l ''allow'' \<and> sl_approval l = None \<or>
      policy_says l ''require_approval'' \<and> (\<exists>a. sl_approval l = Some a)"
    using l granted(4) unfolding stored_governed_def by (elim disjE conjE) simp_all
  moreover have "sl_version l = int (length (sl_evidence l))" using l by (simp add: stored_governed_def)
  ultimately show ?thesis unfolding granted(3) using granted(6)
    by (simp add: stored_governed_def stored_valid_def policy_says_def)
next
  case (approved l v actor a e)
  have l: "stored_governed l" using assms(2) approved(2) by blast
  have "policy_says l ''require_approval''"
    using l approved(4) unfolding stored_governed_def by (elim disjE conjE) simp_all
  moreover have "sl_version l = int (length (sl_evidence l))" using l by (simp add: stored_governed_def)
  ultimately show ?thesis unfolding approved(3) using approved(6)
    by (simp add: stored_governed_def stored_valid_def policy_says_def)
qed (auto simp: stored_governed_def stored_valid_def entry_state_def policy_says_def)

lemma reachable_governed: "stored_reachable E fromiso l \<Longrightarrow> stored_governed l \<and> stored_valid E fromiso l"
proof (induction rule: stored_reachable.induct)
  case (opened c l)
  then show ?case by (rule step_governed) simp
next
  case (moved l c l')
  from moved(2) show ?case by (rule step_governed) (use moved.IH in simp)
qed

section \<open>The transactions are steps\<close>

lemma expected_state_inv:
  assumes "expected_state v = Inr w" "\<not> neq (PStr st) w"
  obtains "v = PS ''deny''" "st = S ''denied''"
  | "v = PS ''require_approval''" "st = S ''approval_required''"
  | "v = PS ''allow''" "st = S ''policy_authorized''"
  using assms
  by (auto simp: expected_state_def submission_states_def split: pyval.splits option.splits if_splits)

lemma submission_checks_inv:
  assumes "submission_checks P actor request policy st ref = Inr ()"
  shows "entry_state policy st"
    and "validate_lifecycle_authority (p_env P) (sp_fromiso P) actor request policy None None = Inr ()"
proof -
  from assms show "validate_lifecycle_authority (p_env P) (sp_fromiso P) actor request policy None None = Inr ()"
    by (simp add: submission_checks_def seqE_Inr_iff)
  from assms obtain v w where "ditem policy ''decision'' = Inr v" "expected_state v = Inr w" "\<not> neq (PStr st) w"
    unfolding submission_checks_def seqE_Inr_iff by (auto simp: bindE_Inr_iff deny_Inr_iff)
  then show "entry_state policy st" by (auto simp: entry_state_def elim: expected_state_inv)
qed

lemma store_actor_same: "store_actor P ac = Inr (actor, tenant) \<Longrightarrow> actor = ac"
  by (auto simp: store_actor_def bindE_Inr_iff dest: contract_model_same)

lemmas transaction_steps = bindH_Inr_iff liftH_iff returnH_iff raiseH_iff rejectH_Inr_iff transaction_Inr
  bindE_Inr_iff

text \<open>A stored submission under the same key that is this very request.\<close>

definition same_submission :: "dict \<Rightarrow> pyval \<Rightarrow> pyval \<Rightarrow> bool" where
  "same_submission r v rid \<longleftrightarrow> (\<exists>mine j x y. item v ''request_id'' = Inr rid \<and>
     ditem r ''request_id'' = Inr mine \<and> py_eq rid mine \<and> item v ''request_json'' = Inr j \<and>
     item j ''request_digest'' = Inr x \<and> ditem r ''request_digest'' = Inr y \<and> py_eq x y)"

lemma submission_replay_inv: "submission_replay r v = Inr rid \<Longrightarrow> same_submission r v rid"
  unfolding submission_replay_def same_submission_def
  by (auto simp: bindE_Inr_iff reject_if_Inr_iff neq_def simp del: py_eq.simps split: if_splits)

lemma runtime_read_Inr: "runtime_read P actor k d s = (Inr v, t) \<longleftrightarrow>
    (\<exists>b. sp_read P actor k d (rows s) = (Inr v, b) \<and> t = s\<lparr> rows := b \<rparr>)"
  by (simp add: runtime_read_def sql_Inr)

text \<open>
  The last thing before the connection was left: a call of an SQL function, and one that
  answered with one changed row.
\<close>

definition called_last :: "'b store_ports \<Rightarrow> string \<Rightarrow> dict \<Rightarrow> dict \<Rightarrow> pyval \<Rightarrow> 'b store_state \<Rightarrow> bool" where
  "called_last P f actor payload v t \<longleftrightarrow> (\<exists>b u. sp_call P f actor payload b = (Inr v, rows u) \<and> released P u t)"

definition wrote_last :: "'b store_ports \<Rightarrow> string \<Rightarrow> dict \<Rightarrow> dict \<Rightarrow> 'b store_state \<Rightarrow> bool" where
  "wrote_last P f actor payload t \<longleftrightarrow>
     (\<exists>v n. called_last P f actor payload v t \<and> item v ''changed'' = Inr n \<and> py_eq n (PInt 1))"

lemma require_changed_Inr:
  "require_changed c m v s = (Inr u, t) \<longleftrightarrow> t = s \<and> (\<exists>n. item v ''changed'' = Inr n \<and> py_eq n (PInt 1))"
  by (auto simp: require_changed_def liftH_iff bindE_Inr_iff deny_Inr_iff neq_def)

lemma runtime_write_Inr:
  assumes "map_of write_functions k = Some f"
  shows "runtime_write P actor k d s = (Inr v, t) \<longleftrightarrow>
    (\<exists>b. sp_call P f actor d (rows s) = (Inr v, b) \<and> t = s\<lparr> rows := b \<rparr>)"
  using assms by (simp add: runtime_write_def sql_Inr)

lemma lifecycle_writers:
  "map_of write_functions ''insert_lifecycle'' = Some ''gah_submit_lifecycle''"
  "map_of write_functions ''approve_lifecycle'' = Some ''gah_accept_approval''"
  "map_of write_functions ''grant_lifecycle'' = Some ''gah_issue_grant''"
  by (simp_all add: write_functions_def)

text \<open>A write of one row at the end of a block.\<close>

lemma written_row:
  assumes "bindH (runtime_write P actor k d) (\<lambda>v. bindH (require_changed c msg v) (\<lambda>_. returnH x)) s = (Inr y, u)"
    and "map_of write_functions k = Some f" "released P u t"
  shows "y = x \<and> wrote_last P f actor d t"
proof -
  obtain v n b where w: "sp_call P f actor d (rows s) = (Inr v, b)" "item v ''changed'' = Inr n" "py_eq n (PInt 1)"
      "y = x" "rows u = b"
    using assms(1)
    by (auto simp: bindH_Inr_iff returnH_iff runtime_write_Inr [OF assms(2)] require_changed_Inr simp del: py_eq.simps)
  have "called_last P f actor d v t" unfolding called_last_def using w(1,5) assms(3) by blast
  then show ?thesis unfolding wrote_last_def using w(2-4) by blast
qed

text \<open>Parsing, then a block on a connection.\<close>

lemma parsed_block:
  assumes "bindH (liftH r) (\<lambda>(x, y). transaction P C (m x y)) s = (Inr z, t)"
  obtains x y s0 u where "r = Inr (x, y)" "connects P C s s0" "m x y s0 = (Inr z, u)" "released P u t"
  using assms by (auto simp: bindH_Inr_iff liftH_iff transaction_Inr)

text \<open>
  How a call that changes a lifecycle recorded it: one event appended to the run, with the
  payload the records determine, and one write of the lifecycle with this event as its last.
\<close>

definition records_submission ::
  "'b store_ports \<Rightarrow> dict \<Rightarrow> dict \<Rightarrow> dict \<Rightarrow> pystr \<Rightarrow> dict \<Rightarrow> stored_lifecycle \<Rightarrow> 'b store_state \<Rightarrow> bool" where
  "records_submission P actor r p st ref l t \<longleftrightarrow> (\<exists>run payload e s1 s2 row v.
     run_of r = Inr run \<and> store_submission_payload actor r p st = Inr payload \<and>
     append_evidence P actor run ''kernel.policy_decided'' ref payload s1 = (Inr e, s2) \<and>
     sl_evidence l = [e] \<and> lifecycle_insert r p st e = Inr row \<and>
     called_last P ''gah_submit_lifecycle'' actor row v t)"

definition records_approval ::
  "'b store_ports \<Rightarrow> dict \<Rightarrow> pyval \<Rightarrow> dict \<Rightarrow> dict \<Rightarrow> stored_lifecycle \<Rightarrow> stored_lifecycle \<Rightarrow> 'b store_state \<Rightarrow> bool" where
  "records_approval P actor rid a ref cur l t \<longleftrightarrow> (\<exists>run payload e s1 s2 ends.
     approval_step P actor cur a ref = Inr (run, payload) \<and>
     append_evidence P actor run ''kernel.approval_accepted'' ref payload s1 = (Inr e, s2) \<and>
     sl_evidence l = sl_evidence cur @ [e] \<and> last_event_fields e = Inr ends \<and>
     wrote_last P ''gah_accept_approval'' actor
       ([(S ''request_id'', rid), (S ''expected_version'', PInt (sl_version cur)), (S ''approval'', PDict a)] @ ends) t)"

definition records_grant ::
  "'b store_ports \<Rightarrow> dict \<Rightarrow> pyval \<Rightarrow> dict \<Rightarrow> dict \<Rightarrow> stored_lifecycle \<Rightarrow> stored_lifecycle \<Rightarrow> 'b store_state \<Rightarrow> bool" where
  "records_grant P actor rid g ref cur l t \<longleftrightarrow> (\<exists>run payload e s1 s2 ends.
     grant_step P actor cur g ref = Inr (run, payload) \<and>
     append_evidence P actor run ''kernel.authorization_grant_issued'' ref payload s1 = (Inr e, s2) \<and>
     sl_evidence l = sl_evidence cur @ [e] \<and> last_event_fields e = Inr ends \<and>
     wrote_last P ''gah_issue_grant'' actor
       ([(S ''request_id'', rid), (S ''expected_version'', PInt (sl_version cur)), (S ''grant'', PDict g)] @ ends) t)"

lemma persist_submission_step:
  assumes "persist_submission P ac r p st ref s = (Inr l, t)"
  shows "\<exists>s0 key v b. connects P Privileged s s0 \<and> idempotency_item r ''idempotency_key'' = Inr key \<and>
    sp_read P ac ''lifecycle_by_idempotency'' [(S ''idempotency_key'', key)] (rows s0) = (Inr v, b) \<and>
    (v = PNone \<and> stored_step (p_env P) (sp_fromiso P) (Submit ac r p st) None l \<and>
       records_submission P ac r p st ref l t \<or>
     v \<noteq> PNone \<and> (\<exists>rid u. same_submission r v rid \<and> loads P ac rid b l (rows u) \<and> released P u t))"
proof -
  obtain payload s0 u where checks: "submission_checks P ac r p st ref = Inr ()"
        "store_submission_payload ac r p st = Inr payload"
      and c: "connects P Privileged s s0" "released P u t"
      and m: "bindH (liftH (idempotency_item r ''idempotency_key'')) (\<lambda>key.
       bindH (runtime_read P ac ''lifecycle_by_idempotency'' [(S ''idempotency_key'', key)]) (\<lambda>replay.
       if replay \<noteq> PNone then
         bindH (liftH (submission_replay r replay)) (\<lambda>rid. load_existing P ac rid)
       else
         bindH (liftH (run_of r)) (\<lambda>run.
         bindH (append_evidence P ac run ''kernel.policy_decided'' ref payload) (\<lambda>evidence.
         bindH (liftH (lifecycle_insert r p st evidence)) (\<lambda>row.
         bindH (runtime_write P ac ''insert_lifecycle'' row) (\<lambda>_.
           returnH \<lparr> sl_actor = ac, sl_request = r, sl_policy = p, sl_state = st,
                     sl_version = 1, sl_evidence = [evidence], sl_approval = None, sl_grant = None \<rparr>)))))) s0 = (Inr l, u)"
    using assms unfolding persist_submission_def
    by (auto simp: bindH_Inr_iff [of "liftH _"] liftH_iff transaction_Inr bindE_Inr_iff
        dest!: store_actor_same contract_model_same)
  obtain key v b where k: "idempotency_item r ''idempotency_key'' = Inr key"
      "sp_read P ac ''lifecycle_by_idempotency'' [(S ''idempotency_key'', key)] (rows s0) = (Inr v, b)"
      "(if v \<noteq> PNone then
         bindH (liftH (submission_replay r v)) (\<lambda>rid. load_existing P ac rid)
       else
         bindH (liftH (run_of r)) (\<lambda>run.
         bindH (append_evidence P ac run ''kernel.policy_decided'' ref payload) (\<lambda>evidence.
         bindH (liftH (lifecycle_insert r p st evidence)) (\<lambda>row.
         bindH (runtime_write P ac ''insert_lifecycle'' row) (\<lambda>_.
           returnH \<lparr> sl_actor = ac, sl_request = r, sl_policy = p, sl_state = st,
                     sl_version = 1, sl_evidence = [evidence], sl_approval = None, sl_grant = None \<rparr>))))) (s0\<lparr> rows := b \<rparr>) = (Inr l, u)"
    using m by (auto simp: bindH_Inr_iff [of "liftH _"] bindH_Inr_iff [of "runtime_read _ _ _ _"] liftH_iff runtime_read_Inr)
  have "v = PNone \<and> stored_step (p_env P) (sp_fromiso P) (Submit ac r p st) None l \<and>
       records_submission P ac r p st ref l t \<or>
     v \<noteq> PNone \<and> (\<exists>rid. same_submission r v rid \<and> loads P ac rid b l (rows u))"
  proof (cases "v = PNone")
    case True
    then obtain run e s1 s2 row w b' where e: "run_of r = Inr run"
        "append_evidence P ac run ''kernel.policy_decided'' ref payload s1 = (Inr e, s2)"
        "lifecycle_insert r p st e = Inr row" "sp_call P ''gah_submit_lifecycle'' ac row (rows s2) = (Inr w, b')"
        "rows u = b'" "l = \<lparr> sl_actor = ac, sl_request = r, sl_policy = p, sl_state = st,
        sl_version = 1, sl_evidence = [e], sl_approval = None, sl_grant = None \<rparr>"
      using k(3) by (auto simp: transaction_steps runtime_write_Inr [OF lifecycle_writers(1)])
    have "called_last P ''gah_submit_lifecycle'' ac row w t"
      unfolding called_last_def using e(4,5) c(2) by blast
    then have "records_submission P ac r p st ref l t"
      unfolding records_submission_def using e(1-3,6) checks(2)
      by (intro exI [of _ run] exI [of _ payload] exI [of _ e] exI [of _ s1] exI [of _ s2] exI [of _ row] exI [of _ w])
        simp
    then show ?thesis using True submission_checks_inv [OF checks(1)] e(6) by (simp add: stored_step.submitted)
  next
    case False
    then obtain rid where "submission_replay r v = Inr rid" "load_existing P ac rid (s0\<lparr> rows := b \<rparr>) = (Inr l, u)"
      using k(3) by (auto simp: transaction_steps)
    then show ?thesis using False submission_replay_inv load_existing_inv by fastforce
  qed
  then show ?thesis using c k(1,2) by blast
qed

lemma persist_approval_step:
  assumes "persist_approval P ac rid v a ref s = (Inr l, t)"
  shows "\<exists>s0 cur b. connects P Privileged s s0 \<and> loads P ac rid (rows s0) cur b \<and>
    stored_step (p_env P) (sp_fromiso P) (Approve ac v a) (Some cur) l \<and>
    (records_approval P ac rid a ref cur l t \<or> l = cur \<and> (\<exists>u. rows u = b \<and> released P u t))"
  using assms [unfolded persist_approval_def]
proof (cases rule: parsed_block)
  case (1 actor parsed s0 u)
  have same: "actor = ac" "parsed = a"
    using 1(1) by (auto simp: bindE_Inr_iff split_beta dest!: store_actor_same contract_model_same)
  from 1(3) obtain cur s1 where cur: "load_existing P ac rid s0 = (Inr cur, s1)"
    and m: "(if sl_state cur = S ''approved'' then
         (if \<not> neq (option_dict (sl_approval cur)) (PDict a) then returnH cur
          else raiseH IdempotencyConflictError ''durable approval replay conflicts'')
       else rejectH (sl_state cur \<noteq> S ''approval_required'' \<or> Some (sl_version cur) \<noteq> v)
              OptimisticConcurrencyError ''durable approval transition is stale''
        (bindH (liftH (approval_step P ac cur a ref)) (\<lambda>(run, payload).
         bindH (append_evidence P ac run ''kernel.approval_accepted'' ref payload) (\<lambda>evidence.
         bindH (liftH (last_event_fields evidence)) (\<lambda>ends.
         bindH (runtime_write P ac ''approve_lifecycle''
            ([(S ''request_id'', rid), (S ''expected_version'', PInt (sl_version cur)),
              (S ''approval'', PDict a)] @ ends)) (\<lambda>changed.
         bindH (require_changed OptimisticConcurrencyError ''durable approval transition lost its race'' changed) (\<lambda>_.
           returnH (cur\<lparr> sl_actor := ac, sl_state := S ''approved'', sl_version := sl_version cur + 1,
             sl_evidence := sl_evidence cur @ [evidence], sl_approval := Some a,
             sl_grant := None \<rparr>)))))))) s1 = (Inr l, u)"
    unfolding same bindH_Inr_iff [of "load_existing _ _ _"] by blast
  have "stored_step (p_env P) (sp_fromiso P) (Approve ac v a) (Some cur) l \<and>
      (records_approval P ac rid a ref cur l t \<or> l = cur \<and> rows u = rows s1)"
  proof (cases "sl_state cur = S ''approved''")
    case True
    then have "\<not> neq (option_dict (sl_approval cur)) (PDict a)" "l = cur" "u = s1"
      using m by (auto simp: returnH_iff raiseH_iff split: if_splits)
    then show ?thesis using True
      by (cases "sl_approval cur")
        (auto simp: option_dict_def neq_def simp del: py_eq.simps(5) intro: stored_step.approved_before)
  next
    case False
    then obtain run payload e s2 s3 ends where w: "sl_state cur = S ''approval_required''" "v = Some (sl_version cur)"
        "approval_step P ac cur a ref = Inr (run, payload)"
        "append_evidence P ac run ''kernel.approval_accepted'' ref payload s2 = (Inr e, s3)" "last_event_fields e = Inr ends"
        "bindH (runtime_write P ac ''approve_lifecycle''
            ([(S ''request_id'', rid), (S ''expected_version'', PInt (sl_version cur)),
              (S ''approval'', PDict a)] @ ends)) (\<lambda>changed.
         bindH (require_changed OptimisticConcurrencyError ''durable approval transition lost its race'' changed) (\<lambda>_.
           returnH (cur\<lparr> sl_actor := ac, sl_state := S ''approved'', sl_version := sl_version cur + 1,
             sl_evidence := sl_evidence cur @ [e], sl_approval := Some a, sl_grant := None \<rparr>))) s3 = (Inr l, u)"
      using m by (auto simp: rejectH_Inr_iff liftH_iff bindH_Inr_iff [of "liftH _"] bindH_Inr_iff [of "append_evidence _ _ _ _ _ _"])
    note wr = written_row [OF w(6) lifecycle_writers(2) 1(4)]
    have "records_approval P ac rid a ref cur l t"
      unfolding records_approval_def using w(3-5) wr
      by (intro exI [of _ run] exI [of _ payload] exI [of _ e] exI [of _ s2] exI [of _ s3] exI [of _ ends]) simp
    moreover have "validate_lifecycle_authority (p_env P) (sp_fromiso P) ac (sl_request cur) (sl_policy cur) (Some a) None = Inr ()"
      using w(3) by (auto simp: approval_step_def bindE_Inr_iff)
    ultimately show ?thesis using w(1,2) wr by (auto intro: stored_step.approved)
  qed
  then show ?thesis using 1(2,4) load_existing_inv [OF cur] by blast
qed

lemma persist_grant_step:
  assumes "persist_grant P ac rid v g ref s = (Inr l, t)"
  shows "\<exists>s0 cur b. connects P Privileged s s0 \<and> loads P ac rid (rows s0) cur b \<and>
    stored_step (p_env P) (sp_fromiso P) (Issue ac v g) (Some cur) l \<and>
    (records_grant P ac rid g ref cur l t \<or> l = cur \<and> (\<exists>u. rows u = b \<and> released P u t))"
  using assms [unfolded persist_grant_def]
proof (cases rule: parsed_block)
  case (1 actor parsed s0 u)
  have same: "actor = ac" "parsed = g"
    using 1(1) by (auto simp: bindE_Inr_iff split_beta dest!: store_actor_same contract_model_same)
  from 1(3) obtain cur s1 where cur: "load_existing P ac rid s0 = (Inr cur, s1)"
    and m: "(if sl_state cur = S ''grant_issued'' then
         (if \<not> neq (option_dict (sl_grant cur)) (PDict g) then returnH cur
          else raiseH IdempotencyConflictError ''durable grant replay conflicts'')
       else rejectH (sl_state cur \<noteq> S ''policy_authorized'' \<and> sl_state cur \<noteq> S ''approved'')
              OptimisticConcurrencyError ''durable grant state is not issuable''
        (rejectH (Some (sl_version cur) \<noteq> v)
              OptimisticConcurrencyError ''durable grant transition is stale''
        (bindH (liftH (grant_step P ac cur g ref)) (\<lambda>(run, payload).
         bindH (append_evidence P ac run ''kernel.authorization_grant_issued'' ref payload) (\<lambda>evidence.
         bindH (liftH (last_event_fields evidence)) (\<lambda>ends.
         bindH (runtime_write P ac ''grant_lifecycle''
            ([(S ''request_id'', rid), (S ''expected_version'', PInt (sl_version cur)),
              (S ''grant'', PDict g)] @ ends)) (\<lambda>changed.
         bindH (require_changed OptimisticConcurrencyError ''durable grant transition lost its race'' changed) (\<lambda>_.
           returnH (cur\<lparr> sl_actor := ac, sl_state := S ''grant_issued'', sl_version := sl_version cur + 1,
             sl_evidence := sl_evidence cur @ [evidence], sl_grant := Some g \<rparr>))))))))) s1 = (Inr l, u)"
    unfolding same bindH_Inr_iff [of "load_existing _ _ _"] by blast
  have "stored_step (p_env P) (sp_fromiso P) (Issue ac v g) (Some cur) l \<and>
      (records_grant P ac rid g ref cur l t \<or> l = cur \<and> rows u = rows s1)"
  proof (cases "sl_state cur = S ''grant_issued''")
    case True
    then have "\<not> neq (option_dict (sl_grant cur)) (PDict g)" "l = cur" "u = s1"
      using m by (auto simp: returnH_iff raiseH_iff split: if_splits)
    then show ?thesis using True
      by (cases "sl_grant cur")
        (auto simp: option_dict_def neq_def simp del: py_eq.simps(5) intro: stored_step.granted_before)
  next
    case False
    then obtain run payload e s2 s3 ends where w: "sl_state cur = S ''policy_authorized'' \<or> sl_state cur = S ''approved''"
        "v = Some (sl_version cur)" "grant_step P ac cur g ref = Inr (run, payload)"
        "append_evidence P ac run ''kernel.authorization_grant_issued'' ref payload s2 = (Inr e, s3)"
        "last_event_fields e = Inr ends"
        "bindH (runtime_write P ac ''grant_lifecycle''
            ([(S ''request_id'', rid), (S ''expected_version'', PInt (sl_version cur)),
              (S ''grant'', PDict g)] @ ends)) (\<lambda>changed.
         bindH (require_changed OptimisticConcurrencyError ''durable grant transition lost its race'' changed) (\<lambda>_.
           returnH (cur\<lparr> sl_actor := ac, sl_state := S ''grant_issued'', sl_version := sl_version cur + 1,
             sl_evidence := sl_evidence cur @ [e], sl_grant := Some g \<rparr>))) s3 = (Inr l, u)"
      using m by (auto simp: rejectH_Inr_iff liftH_iff bindH_Inr_iff [of "liftH _"] bindH_Inr_iff [of "append_evidence _ _ _ _ _ _"])
    note wr = written_row [OF w(6) lifecycle_writers(3) 1(4)]
    have "records_grant P ac rid g ref cur l t"
      unfolding records_grant_def using w(3-5) wr
      by (intro exI [of _ run] exI [of _ payload] exI [of _ e] exI [of _ s2] exI [of _ s3] exI [of _ ends]) simp
    moreover have "validate_lifecycle_authority (p_env P) (sp_fromiso P) ac (sl_request cur) (sl_policy cur)
        (sl_approval cur) (Some g) = Inr ()"
      using w(3) by (auto simp: grant_step_def bindE_Inr_iff)
    ultimately show ?thesis using w(1,2) wr by (auto intro: stored_step.granted)
  qed
  then show ?thesis using 1(2,4) load_existing_inv [OF cur] by blast
qed

end
