(* ===== verification/Store_Effect_Facts.thy ===== *)
theory Store_Effect_Facts
  imports Store_Machine
begin

text \<open>
  What the effect transactions of the durable store guarantee: a row is believed only when its
  authority, its binding digest, its fence, its intent evidence and its outcome agree; a
  preparation is bound to every authority input; an execution ends once, by its fenced owner or
  after its lease.
\<close>

section \<open>Believed rows\<close>

definition same_entry :: "dict \<Rightarrow> string \<Rightarrow> dict \<Rightarrow> string \<Rightarrow> bool" where
  "same_entry a k b l \<longleftrightarrow> (\<exists>x y. ditem a k = Inr x \<and> ditem b l = Inr y \<and> py_eq x y)"

text \<open>The authority records of a stored execution bind each other, in order and in time.\<close>

definition effect_authority ::
  "env \<Rightarrow> (pystr \<Rightarrow> pytime option) \<Rightarrow> dict \<Rightarrow> dict \<Rightarrow> dict \<Rightarrow> dict list \<Rightarrow> dict \<Rightarrow> bool" where
  "effect_authority E fromiso actor request policy approvals grant \<longleftrightarrow>
     (\<exists>x y. ditem request ''actor_context_digest'' = Inr x \<and> digest_of_dict E actor = Inr y \<and> py_eq x y) \<and>
     same_entry request ''actor_id'' actor ''actor_id'' \<and> same_entry request ''tenant_id'' actor ''tenant_id'' \<and>
     same_entry policy ''request_id'' request ''request_id'' \<and>
     same_entry policy ''request_digest'' request ''request_digest'' \<and>
     ditem policy ''decision'' = Inr (PS ''require_approval'') \<and>
     same_entry policy ''constraints'' grant ''constraints'' \<and>
     same_entry policy ''isolation_profile'' grant ''isolation_profile'' \<and>
     (\<forall>k\<in>{''request_id'', ''request_digest'', ''run_id'', ''tool_id'', ''tool_version'', ''idempotency''}.
        same_entry grant k request k) \<and>
     same_entry grant ''tenant_id'' actor ''tenant_id'' \<and> same_entry grant ''actor_id'' actor ''actor_id'' \<and>
     same_entry grant ''policy_decision_id'' policy ''decision_id'' \<and>
     same_entry grant ''policy_decision_digest'' policy ''decision_digest'' \<and>
     (\<forall>a\<in>set approvals. same_entry a ''request_id'' request ''request_id'' \<and>
        same_entry a ''request_digest'' request ''request_digest'' \<and>
        same_entry a ''policy_decision_id'' policy ''decision_id'' \<and>
        same_entry a ''policy_decision_digest'' policy ''decision_digest'' \<and>
        ditem a ''disposition'' = Inr (PS ''approved'') \<and>
        same_entry a ''constraints'' policy ''constraints'') \<and>
     (\<exists>refs x. mapE approval_reference approvals = Inr refs \<and> ditem grant ''approval_refs'' = Inr x \<and>
        py_eq x (PList (map PDict refs))) \<and>
     (\<exists>decided issued. iso_item fromiso policy ''decided_at'' = Inr decided \<and>
        iso_item fromiso grant ''issued_at'' = Inr issued \<and> decided \<le> issued \<and>
        (\<exists>e. iso_item fromiso grant ''expires_at'' = Inr e \<and> issued \<le> e) \<and>
        (\<forall>a\<in>set approvals. \<exists>t e. iso_item fromiso a ''issued_at'' = Inr t \<and> decided \<le> t \<and> t \<le> issued \<and>
           iso_item fromiso a ''expires_at'' = Inr e \<and> issued \<le> e))"

lemma differ_same_entry: "differ a k b l = Inr False \<longleftrightarrow> same_entry a k b l"
  by (simp add: differ_def same_entry_def bindE_Inr_iff neq_def)

lemma item_differs_text: "item_differs a k (PS t) = Inr False \<longleftrightarrow> ditem a k = Inr (PS t)"
  by (simp add: item_differs_def bindE_Inr_iff neq_def)

lemma anyE_False: "anyE f xs = Inr False \<longleftrightarrow> (\<forall>x\<in>set xs. f x = Inr False)"
  by (induction xs) (auto simp: bindE_Inr_iff split: if_splits)

lemma mapE_in: "mapE f xs = Inr ys \<Longrightarrow> x \<in> set xs \<Longrightarrow> \<exists>y\<in>set ys. f x = Inr y"
  by (induction xs arbitrary: ys) (auto simp: bindE_Inr_iff)

lemma mapE_guarded:
  "mapE (\<lambda>a. bindE (g a) (\<lambda>_. f a)) xs = Inr ys \<Longrightarrow> mapE f xs = Inr ys \<and> (\<forall>x\<in>set xs. \<exists>u. g x = Inr u)"
  by (induction xs arbitrary: ys) (auto simp: bindE_Inr_iff)

lemma stored_approval_bound:
  assumes "stored_approval_unbound r p a = Inr False"
  shows "same_entry a ''request_id'' r ''request_id'' \<and> same_entry a ''request_digest'' r ''request_digest'' \<and>
    same_entry a ''policy_decision_id'' p ''decision_id'' \<and>
    same_entry a ''policy_decision_digest'' p ''decision_digest'' \<and>
    ditem a ''disposition'' = Inr (PS ''approved'') \<and> same_entry a ''constraints'' p ''constraints''"
  using assms unfolding stored_approval_unbound_def orE_False_iff
  by (simp add: differ_same_entry item_differs_text)

lemma validate_stored_inputs_bound:
  assumes "validate_stored_inputs E fromiso actor r p as g = Inr ()"
  shows "effect_authority E fromiso actor r p as g"
proof -
  obtain refs decided approved issued where
      head: "\<exists>x y. ditem r ''actor_context_digest'' = Inr x \<and> digest_of_dict E actor = Inr y \<and> py_eq x y"
        "\<forall>m\<in>{differ r ''actor_id'' actor ''actor_id'', differ r ''tenant_id'' actor ''tenant_id'',
          differ p ''request_id'' r ''request_id'', differ p ''request_digest'' r ''request_digest'',
          item_differs p ''decision'' (PS ''require_approval''), differ p ''constraints'' g ''constraints'',
          differ p ''isolation_profile'' g ''isolation_profile'', differ g ''tool_id'' r ''tool_id'',
          differ g ''tool_version'' r ''tool_version'', differ g ''tenant_id'' actor ''tenant_id''}. m = Inr False"
      and refs: "mapE (\<lambda>a. bindE (store_fail (stored_approval_unbound r p a)
              ''stored approval binding is invalid'') (\<lambda>_. approval_reference a)) as = Inr refs"
      and grant: "\<forall>m\<in>{differ g ''request_id'' r ''request_id'', differ g ''request_digest'' r ''request_digest'',
          differ g ''policy_decision_id'' p ''decision_id'', differ g ''policy_decision_digest'' p ''decision_digest'',
          item_differs g ''approval_refs'' (PList (map PDict refs)), differ g ''idempotency'' r ''idempotency'',
          differ g ''actor_id'' actor ''actor_id'', differ g ''run_id'' r ''run_id''}. m = Inr False"
      and times: "iso_item fromiso p ''decided_at'' = Inr decided" "mapE (\<lambda>a. iso_item fromiso a ''issued_at'') as = Inr approved"
        "iso_item fromiso g ''issued_at'' = Inr issued" "sorted (decided # approved @ [issued])"
        "anyE (\<lambda>v. bindE (iso_item fromiso v ''expires_at'') (\<lambda>e. Inr (e < issued))) (g # as) = Inr False"
    using assms unfolding validate_stored_inputs_def
    by (auto simp: bindE_Inr_iff seqE_Inr_iff denyE_Inr_iff orE_False_iff neq_def
        simp del: orE.simps anyE.simps py_eq.simps)
  have expires: "\<exists>e. iso_item fromiso v ''expires_at'' = Inr e \<and> issued \<le> e" if "v \<in> set (g # as)" for v
    using times(5) that unfolding anyE_False by (fastforce simp: bindE_Inr_iff)
  have approval: "stored_approval_unbound r p a = Inr False" if "a \<in> set as" for a
    using mapE_guarded [OF refs] that by (auto simp: denyE_Inr_iff)
  have stamp: "\<exists>t. iso_item fromiso a ''issued_at'' = Inr t \<and> decided \<le> t \<and> t \<le> issued" if "a \<in> set as" for a
    using mapE_in [OF times(2) that] times(4) by (auto simp: sorted_append)
  have "decided \<le> issued" using times(4) by simp
  moreover have "\<exists>x. ditem g ''approval_refs'' = Inr x \<and> py_eq x (PList (map PDict refs))"
    using grant by (simp add: item_differs_def bindE_Inr_iff neq_def del: py_eq.simps)
  ultimately show ?thesis
    unfolding effect_authority_def
    using head grant mapE_guarded [OF refs] times(1,3) expires approval stored_approval_bound stamp
    by (simp add: differ_same_entry item_differs_text del: py_eq.simps) blast
qed

text \<open>
  The intent evidence of a stored execution is an intent event of its run with the payload its
  authority determines.
\<close>

definition intent_bound :: "env \<Rightarrow> stored_effect \<Rightarrow> bool" where
  "intent_bound E st \<longleftrightarrow> (\<exists>draft payload run expected.
     get_or (PDict (se_intent_evidence st)) ''draft'' (PDict []) = Inr draft \<and>
     get_or draft ''event_kind'' PNone = Inr (PS ''kernel.effect_execution_intent'') \<and>
     get_or draft ''run_id'' PNone = Inr run \<and>
     (\<exists>x. ditem (se_request st) ''run_id'' = Inr x \<and> py_eq run x) \<and>
     get_or draft ''inline_payload'' (PDict []) = Inr payload \<and>
     stored_intent_payload E st = Inr expected \<and> py_eq payload (PDict expected))"

lemma validate_intent_bound: "validate_intent_evidence E st = Inr () \<Longrightarrow> intent_bound E st"
  unfolding validate_intent_evidence_def intent_bound_def
  by (auto simp: bindE_Inr_iff denyE_Inr_iff orE_False_iff neq_def simp del: orE.simps py_eq.simps)

definition effect_bound :: "env \<Rightarrow> (pystr \<Rightarrow> pytime option) \<Rightarrow> stored_effect \<Rightarrow> bool" where
  "effect_bound E fromiso st \<longleftrightarrow>
     validate_stored_inputs E fromiso (se_actor st) (se_request st) (se_policy st) (se_approvals st) (se_grant st) = Inr () \<and>
     effect_authority E fromiso (se_actor st) (se_request st) (se_policy st) (se_approvals st) (se_grant st) \<and>
     validate_intent_evidence E st = Inr () \<and> intent_bound E st \<and>
     (\<exists>b. execution_binding_digest E (se_actor st) (se_request st) (se_policy st) (se_approvals st) (se_grant st) = Inr b \<and>
        \<not> neq (se_binding_digest st) b) \<and>
     1 \<le> se_version st \<and> \<not> fence_malformed st \<and>
     (if se_state st \<in> set live_states then se_outcome st = None \<and> se_outcome_evidence st = None
      else if se_state st \<in> set ended_states then
        (\<exists>outcome evidence. se_outcome st = Some outcome \<and> se_outcome_evidence st = Some evidence \<and>
           validate_outcome_binding E st outcome = Inr () \<and> validate_outcome_evidence E st outcome evidence = Inr ())
      else True)"

text \<open>The outcome checks do not read the outcome fields of the execution they are given.\<close>

lemma outcome_checks_frame:
  "validate_outcome_binding E (st\<lparr> se_outcome := x, se_outcome_evidence := y \<rparr>) o' = validate_outcome_binding E st o'"
  "validate_outcome_evidence E (st\<lparr> se_outcome := x, se_outcome_evidence := y \<rparr>) o' v = validate_outcome_evidence E st o' v"
  "validate_intent_evidence E (st\<lparr> se_outcome := x, se_outcome_evidence := y \<rparr>) = validate_intent_evidence E st"
  by (simp_all add: validate_intent_evidence_def stored_intent_payload_def validate_outcome_binding_def validate_outcome_evidence_def expected_provenance_def
      stored_outcome_payload_def)

lemma ended_not_live: "x \<in> set ended_states \<Longrightarrow> x \<notin> set live_states"
  by (auto simp: ended_states_def live_states_def S_def)

lemma stored_effect_checks_inv:
  assumes "stored_effect_checks E st = Inr ()"
  shows "\<exists>b. execution_binding_digest E (se_actor st) (se_request st) (se_policy st) (se_approvals st) (se_grant st) = Inr b \<and>
      \<not> neq (se_binding_digest st) b"
    and "1 \<le> se_version st" "\<not> fence_malformed st" "validate_intent_evidence E st = Inr ()"
    and "se_state st \<in> set live_states \<longrightarrow> se_outcome st = None \<and> se_outcome_evidence st = None"
  using assms unfolding stored_effect_checks_def
  by (auto simp: seqE_Inr_iff denyE_Inr_iff deny_Inr_iff orE_False_iff bindE_Inr_iff simp del: orE.simps)

lemma ended_effect_inv:
  assumes "ended_effect E tenant st = Inr st'"
  obtains (running) "se_state st \<notin> set ended_states" "st' = st"
  | (over) outcome evidence where "se_state st \<in> set ended_states"
      "st' = st\<lparr> se_outcome := Some outcome, se_outcome_evidence := Some evidence \<rparr>"
      "validate_outcome_binding E st outcome = Inr ()" "validate_outcome_evidence E st outcome evidence = Inr ()"
  using assms unfolding ended_effect_def by (auto simp: bindE_Inr_iff split: if_splits option.splits)

lemma effect_of_row_bound:
  assumes "effect_of_row E fromiso c = Inr st"
  shows "effect_bound E fromiso st"
proof -
  obtain st0 tenant where v: "validate_stored_inputs E fromiso (se_actor st0) (se_request st0) (se_policy st0)
        (se_approvals st0) (se_grant st0) = Inr ()"
      and checks: "stored_effect_checks E st0 = Inr ()" and over: "ended_effect E tenant st0 = Inr st"
    using assms unfolding effect_of_row_def Let_def by (force simp: bindE_Inr_iff)
  note c = stored_effect_checks_inv [OF checks]
  from over show ?thesis
  proof (cases rule: ended_effect_inv)
    case running
    then show ?thesis using v c validate_stored_inputs_bound [OF v] validate_intent_bound [OF c(4)]
      by (auto simp: effect_bound_def)
  next
    case (over outcome evidence)
    then have "validate_intent_evidence E st = Inr ()" using c(4) by (simp add: outcome_checks_frame)
    with over show ?thesis
      using v c validate_stored_inputs_bound [OF v] validate_intent_bound ended_not_live [OF over(1)]
      by (auto simp: effect_bound_def outcome_checks_frame fence_malformed_def)
  qed
qed

lemma decode_effect_bound: "decode_effect P row = Inr (Some (v, st)) \<Longrightarrow> effect_bound (p_env P) (sp_fromiso P) st"
  by (auto simp: decode_effect_def bindE_Inr_iff dest: effect_of_row_bound split: pyval.splits)

text \<open>The rows of a binding: exactly one, which is an object.\<close>

lemma single_row:
  assumes "(case listed of [PDict v] \<Rightarrow> f v | [_] \<Rightarrow> raiseH c m | _ \<Rightarrow> raiseH c' m') s = (Inr x, t)"
  shows "\<exists>v. listed = [PDict v] \<and> f v s = (Inr x, t)"
proof (cases listed)
  case (Cons r rs)
  then show ?thesis using assms by (cases r; cases rs) (auto simp: raiseH_iff)
qed (use assms in \<open>simp add: raiseH_iff\<close>)

lemma select_for_binding_bound:
  assumes "select_for_binding P actor request grant s = (Inr (Some st), t)"
  shows "effect_bound (p_env P) (sp_fromiso P) st"
proof -
  obtain listed f s' where "(case listed of [PDict v] \<Rightarrow> f v | [_] \<Rightarrow> raiseH TypeError ''row''
        | _ \<Rightarrow> raiseH IdempotencyConflictError ''durable authority bindings reference different rows'') s' = (Inr (Some st), t)"
      and f: "f = (\<lambda>v. liftH (bindE (effect_row (sp_fromiso P) v) (\<lambda>c.
             bindE (effect_of_row (p_env P) (sp_fromiso P) c) (\<lambda>st. Inr (Some st)))))"
    using assms unfolding select_for_binding_def
    by (auto simp: bindH_Inr_iff liftH_iff returnH_iff split: if_splits)
  from single_row [OF this(1)] show ?thesis unfolding f
    by (auto simp: liftH_iff bindE_Inr_iff dest: effect_of_row_bound)
qed

section \<open>Preparation\<close>

text \<open>The result of a preparation: a stored execution with the same authority, or a new one.\<close>

definition fresh_effect :: "'b store_ports \<Rightarrow> dict \<Rightarrow> dict \<Rightarrow> dict \<Rightarrow> dict list \<Rightarrow> dict \<Rightarrow> stored_effect \<Rightarrow> bool" where
  "fresh_effect P actor request policy approvals grant st \<longleftrightarrow>
     se_actor st = actor \<and> se_request st = request \<and> se_policy st = policy \<and> se_approvals st = approvals \<and>
     se_grant st = grant \<and> se_state st = S ''prepared'' \<and> se_version st = 1 \<and> se_generation st = Some 1 \<and>
     se_outcome st = None \<and> se_outcome_evidence st = None"

definition same_authority :: "env \<Rightarrow> dict \<Rightarrow> dict \<Rightarrow> stored_effect \<Rightarrow> bool" where
  "same_authority E request grant st \<longleftrightarrow>
     differ (se_request st) ''idempotency'' request ''idempotency'' = Inr False \<and>
     differ (se_request st) ''request_digest'' request ''request_digest'' = Inr False \<and>
     differ (se_grant st) ''grant_id'' grant ''grant_id'' = Inr False \<and>
     (\<exists>x y. digest_of_dict E (se_grant st) = Inr x \<and> digest_of_dict E grant = Inr y \<and> \<not> neq x y)"

lemma require_exact_inv:
  assumes "require_exact E st b request grant = Inr ()"
  shows "\<not> neq (se_binding_digest st) b \<and> same_authority E request grant st"
  using assms by (auto simp: require_exact_def same_authority_def seqE_Inr_iff deny_Inr_iff denyE_Inr_iff
      orE_False_iff bindE_Inr_iff simp del: orE.simps)

lemma mapE_model_same: "mapE (parse_model_value E rt tenant) (map PDict ds) = Inr ds' \<Longrightarrow> ds' = ds"
  by (induction ds arbitrary: ds') (auto simp: bindE_Inr_iff parse_model_value_def dest: contract_model_same)

lemma parse_inputs_same:
  assumes "parse_inputs E (PDict a) (PDict r) (PDict p) (map PDict as) (PDict g) = Inr v"
  shows "v = (a, r, p, as, g)"
  using assms unfolding parse_inputs_def
  by (auto simp: bindE_Inr_iff parse_model_value_def dest!: contract_model_same mapE_model_same)

lemma binding_is_text: "execution_binding_digest E a r p as g = Inr b \<Longrightarrow> \<exists>z. b = PStr z"
  unfolding execution_binding_digest_def by (auto simp: bindE_Inr_iff dest: sha256_digest_str)

lemma neq_text_refl: "execution_binding_digest E a r p as g = Inr b \<Longrightarrow> \<not> neq b b"
  by (auto dest: binding_is_text)

lemma store_prepare_inv:
  assumes "store_prepare P a r p as g ref payload s = (Inr st, t)"
  shows "\<exists>b x. execution_binding_digest (p_env P) a r p as g = Inr b \<and> \<not> neq (se_binding_digest st) b \<and>
    expected_intent (p_env P) a r p g = Inr x \<and> \<not> neq (PDict payload) (PDict x) \<and>
    (if se_created st then fresh_effect P a r p as g st else same_authority (p_env P) r g st)"
proof -
  obtain b x where b: "execution_binding_digest (p_env P) a r p as g = Inr b"
      and x: "expected_intent (p_env P) a r p g = Inr x" "\<not> neq (PDict payload) (PDict x)"
    using assms unfolding store_prepare_def
    by (auto simp: bindH_Inr_iff liftH_iff bindE_Inr_iff reject_if_Inr_iff dest!: parse_inputs_same)
  have "\<not> neq (se_binding_digest st) b \<and>
      (if se_created st then fresh_effect P a r p as g st else same_authority (p_env P) r g st)"
    using assms unfolding store_prepare_def
    by (auto simp: transaction_steps reject_if_Inr_iff b neq_text_refl [OF b] effect_snapshot_def fresh_effect_def
        same_authority_def dest!: parse_inputs_same require_exact_inv split: option.splits)
  then show ?thesis using b x by blast
qed

section \<open>Completion and recovery\<close>

text \<open>
  The execution a row of the request holds: what \<open>read_effect\<close> decodes. A completion is the
  transition of the live execution under the fence it names, or an exact replay of the ended
  one; a recovery returns an ended execution or ends one whose lease the database reports
  as expired, under a new owner generation.
\<close>

definition ends_with_outcome :: "env \<Rightarrow> dict \<Rightarrow> pystr \<Rightarrow> stored_effect \<Rightarrow> stored_effect \<Rightarrow> bool" where
  "ends_with_outcome E outcome state st st' \<longleftrightarrow>
     validate_outcome_binding E st outcome = Inr () \<and> se_state st' = state \<and>
     se_version st' = se_version st + 1 \<and> se_outcome st' = Some outcome \<and> se_outcome_evidence st' \<noteq> None \<and>
     se_actor st' = se_actor st \<and> se_policy st' = se_policy st \<and> se_approvals st' = se_approvals st \<and>
     se_grant st' = se_grant st \<and> se_request st' = se_request st \<and> se_attempt st' = se_attempt st \<and>
     se_binding_digest st' = se_binding_digest st \<and> se_intent_evidence st' = se_intent_evidence st"

lemma ending_writers:
  "map_of write_functions ''complete_effect'' = Some ''gah_complete_effect''"
  "map_of write_functions ''recover_effect'' = Some ''gah_recover_effect''"
  by (simp_all add: write_functions_def)

text \<open>
  What is checked before the outcome is recorded: the outcome is bound to the execution, the
  reference is to its policy, and the payload of the evidence names its request, its grant, the
  outcome and the status. The evidence is the event appended with this payload.
\<close>

definition outcome_authorised :: "env \<Rightarrow> stored_effect \<Rightarrow> dict \<Rightarrow> dict \<Rightarrow> dict \<Rightarrow> pyval \<Rightarrow> bool" where
  "outcome_authorised E st outcome ref payload status \<longleftrightarrow>
     validate_outcome_binding E st outcome = Inr () \<and>
     (\<exists>x. policy_reference (se_policy st) = Inr x \<and> py_eq (PDict ref) (PDict x)) \<and>
     (\<exists>x. ditem (se_request st) ''request_digest'' = Inr x \<and> py_eq (dget payload ''request_digest'') x) \<and>
     (\<exists>x. digest_of_dict E (se_grant st) = Inr x \<and> py_eq (dget payload ''authorization_grant_digest'') x) \<and>
     (\<exists>x. ditem outcome ''outcome_digest'' = Inr x \<and> py_eq (dget payload ''outcome_digest'') x) \<and>
     py_eq (dget payload ''status'') status"

definition outcome_recorded :: "'b store_ports \<Rightarrow> dict \<Rightarrow> stored_effect \<Rightarrow> dict \<Rightarrow> dict \<Rightarrow> dict \<Rightarrow> bool" where
  "outcome_recorded P actor st ref payload evidence \<longleftrightarrow> (\<exists>run s1 s2. run_of (se_request st) = Inr run \<and>
     append_evidence P actor run ''kernel.effect_execution_outcome'' ref payload s1 = (Inr evidence, s2))"

lemma outcome_checks_inv:
  assumes "outcome_checks E st outcome ref payload b = Inr run" "ditem outcome ''status'' = Inr status"
    and "b \<Longrightarrow> status = PS ''indeterminate''"
  shows "outcome_authorised E st outcome ref payload status" "run_of (se_request st) = Inr run"
  using assms unfolding outcome_checks_def outcome_payload_bound_def outcome_authorised_def get_differs_def
  by (auto simp: bindE_Inr_iff deny_Inr_iff denyE_Inr_iff orE_False_iff neq_def
      simp del: orE.simps py_eq.simps split: if_splits)

text \<open>The terminal state a completion asks for goes with the status of its outcome.\<close>

definition terminal :: "pystr \<Rightarrow> dict \<Rightarrow> bool" where
  "terminal state outcome \<longleftrightarrow>
     state = S ''completed'' \<and> ditem outcome ''status'' = Inr (PS ''succeeded'') \<or>
     state = S ''indeterminate'' \<and> ditem outcome ''status'' = Inr (PS ''indeterminate'')"

lemma terminal_outcome_inv:
  assumes "terminal_outcome P ac state outcome = Inr (actor, parsed)"
  shows "actor = ac \<and> parsed = outcome \<and> terminal state outcome"
  using assms unfolding terminal_outcome_def terminal_def
  by (auto simp: bindE_Inr_iff reject_if_Inr_iff denyE_Inr_iff item_differs_text dest!: contract_model_same store_actor_same
      split: if_splits)

lemma terminal_ended: "terminal state outcome \<Longrightarrow> state \<in> set ended_states"
  by (auto simp: terminal_def ended_states_def)

lemma recovery_outcome_inv:
  assumes "recovery_outcome P ac outcome = Inr (actor, parsed)"
  shows "actor = ac \<and> parsed = outcome \<and> ditem outcome ''status'' = Inr (PS ''indeterminate'')"
  using assms unfolding recovery_outcome_def
  by (auto simp: bindE_Inr_iff denyE_Inr_iff item_differs_text dest!: contract_model_same store_actor_same)

lemma read_effect_bound:
  "read_effect P actor rid s = (Inr (Some (v, st)), t) \<Longrightarrow> effect_bound (p_env P) (sp_fromiso P) st"
  by (auto simp: read_effect_def bindH_Inr_iff liftH_iff dest: decode_effect_bound)

text \<open>What a completion that returned did with the execution \<open>st\<close> it read.\<close>

definition completes ::
  "'b store_ports \<Rightarrow> dict \<Rightarrow> pyval \<Rightarrow> int \<Rightarrow> dict \<Rightarrow> dict \<Rightarrow> dict \<Rightarrow> pystr \<Rightarrow> pystr option \<Rightarrow> int option \<Rightarrow> stored_effect
    \<Rightarrow> stored_effect \<Rightarrow> 'b store_state \<Rightarrow> bool" where
  "completes P actor rid expected outcome ref payload state attempt generation st st' t \<longleftrightarrow>
     fence_holds st expected attempt generation \<and>
     (\<exists>status. ditem outcome ''status'' = Inr status \<and> outcome_authorised (p_env P) st outcome ref payload status) \<and>
     ends_with_outcome (p_env P) outcome state st st' \<and>
     se_generation st' = se_generation st \<and>
     (\<exists>evidence now. se_outcome_evidence st' = Some evidence \<and> outcome_recorded P actor st ref payload evidence \<and>
        wrote_last P ''gah_complete_effect'' actor
          [(S ''request_id'', rid), (S ''state'', PStr state), (S ''expected_version'', PInt expected),
           (S ''attempt_id'', option_text attempt), (S ''owner_generation'', option_int generation),
           (S ''outcome'', PDict outcome), (S ''evidence'', PDict evidence),
           (S ''completed_at'', PStr (utc_millis_text now))] t)"

text \<open>Reading the row of a request, then the rest.\<close>

lemma row_read:
  assumes "bindH (read_effect P ac rid) (\<lambda>found. case found of None \<Rightarrow> raiseH c msg | Some (v, st) \<Rightarrow> k v st) s = (Inr z, u)"
  obtains v st s1 where "read_effect P ac rid s = (Inr (Some (v, st)), s1)" "k v st s1 = (Inr z, u)"
  using assms by (auto simp: bindH_Inr_iff raiseH_iff split: option.splits)

lemma store_complete_inv:
  assumes "store_complete P ac rid expected outcome ref payload state attempt generation s = (Inr st', t)"
  shows "terminal state outcome \<and> (\<exists>s0 v st s1. connects P Privileged s s0 \<and>
     read_effect P ac rid s0 = (Inr (Some (v, st)), s1) \<and>
     (completes P ac rid expected outcome ref payload state attempt generation st st' t \<or>
      st' = st \<and> released P s1 t \<and> already_completed st state expected outcome))"
proof -
  obtain s0 u v st s1 where ends: "terminal state outcome" and c: "connects P Privileged s s0" "released P u t"
      and read: "read_effect P ac rid s0 = (Inr (Some (v, st)), s1)"
      and m: "(if \<not> fence_holds st expected attempt generation then
           (if already_completed st state expected outcome then returnH st
            else raiseH OptimisticConcurrencyError ''durable execution version or state changed'')
         else
           bindH (liftH (outcome_checks (p_env P) st outcome ref payload False)) (\<lambda>run.
           bindH (append_evidence P ac run ''kernel.effect_execution_outcome'' ref payload) (\<lambda>evidence.
           bindH (store_clock P) (\<lambda>now.
           bindH (runtime_write P ac ''complete_effect''
              [(S ''request_id'', rid), (S ''state'', PStr state), (S ''expected_version'', PInt expected),
               (S ''attempt_id'', option_text attempt), (S ''owner_generation'', option_int generation),
               (S ''outcome'', PDict outcome), (S ''evidence'', PDict evidence),
               (S ''completed_at'', PStr (utc_millis_text now))]) (\<lambda>changed.
           bindH (require_changed OptimisticConcurrencyError ''durable execution transition lost its race'' changed) (\<lambda>_.
             returnH (st\<lparr> se_state := state, se_version := expected + 1, se_outcome := Some outcome,
               se_outcome_evidence := Some evidence, se_created := False \<rparr>))))))) s1 = (Inr st', u)"
    using assms [unfolded store_complete_def]
  proof (cases rule: parsed_block)
    case (1 actor parsed s0 u)
    note same = terminal_outcome_inv [OF 1(1)]
    from 1(3) show thesis
    proof (cases rule: row_read)
      case row: (1 v st s1)
      show thesis by (rule that [OF _ 1(2) 1(4)]) (use same row in auto)
    qed
  qed
  have "completes P ac rid expected outcome ref payload state attempt generation st st' t \<or>
      st' = st \<and> u = s1 \<and> already_completed st state expected outcome"
  proof (cases "fence_holds st expected attempt generation")
    case True
    let ?row = "\<lambda>e now. [(S ''request_id'', rid), (S ''state'', PStr state), (S ''expected_version'', PInt expected),
           (S ''attempt_id'', option_text attempt), (S ''owner_generation'', option_int generation),
           (S ''outcome'', PDict outcome), (S ''evidence'', PDict e), (S ''completed_at'', PStr (utc_millis_text now))]"
    obtain run e now s2 s3 s4 where w: "outcome_checks (p_env P) st outcome ref payload False = Inr run"
        "append_evidence P ac run ''kernel.effect_execution_outcome'' ref payload s2 = (Inr e, s3)"
        "bindH (runtime_write P ac ''complete_effect'' (?row e now)) (\<lambda>changed.
         bindH (require_changed OptimisticConcurrencyError ''durable execution transition lost its race'' changed) (\<lambda>_.
           returnH (st\<lparr> se_state := state, se_version := expected + 1, se_outcome := Some outcome,
               se_outcome_evidence := Some e, se_created := False \<rparr>))) s4 = (Inr st', u)"
      using m True by (auto simp: liftH_iff bindH_Inr_iff [of "liftH _"] bindH_Inr_iff [of "append_evidence _ _ _ _ _ _"]
          bindH_Inr_iff [of "store_clock _"])
    note wr = written_row [OF w(3) ending_writers(1) c(2)]
    obtain status where status: "ditem outcome ''status'' = Inr status" using ends by (auto simp: terminal_def)
    note checks = outcome_checks_inv [OF w(1) status]
    have "outcome_recorded P ac st ref payload e" unfolding outcome_recorded_def using w(2) checks(2) by blast
    moreover have "ends_with_outcome (p_env P) outcome state st st'"
      using True wr checks(1) by (simp add: ends_with_outcome_def fence_holds_def outcome_authorised_def)
    ultimately show ?thesis using True wr status checks(1) unfolding completes_def by auto
  next
    case False
    then show ?thesis using m read by (auto simp: transaction_steps split: if_splits)
  qed
  then show ?thesis using ends c read by blast
qed

text \<open>What a recovery that returned did with the live execution \<open>st\<close> it read.\<close>

definition recovers ::
  "'b store_ports \<Rightarrow> dict \<Rightarrow> pyval \<Rightarrow> dict \<Rightarrow> dict \<Rightarrow> dict \<Rightarrow> dict \<Rightarrow> stored_effect \<Rightarrow> stored_effect \<Rightarrow> 'b store_state \<Rightarrow> bool" where
  "recovers P actor rid outcome ref payload v st st' t \<longleftrightarrow> se_state st \<notin> set ended_states \<and>
     (\<exists>x. ditem v ''_lease_expired'' = Inr x \<and> truthy x) \<and>
     ditem outcome ''status'' = Inr (PS ''indeterminate'') \<and>
     outcome_authorised (p_env P) st outcome ref payload (PS ''indeterminate'') \<and>
     ends_with_outcome (p_env P) outcome (S ''indeterminate'') st st' \<and>
     se_generation st' = Some ((case se_generation st of None \<Rightarrow> 0 | Some g \<Rightarrow> g) + 1) \<and>
     (\<exists>evidence. se_outcome_evidence st' = Some evidence \<and> outcome_recorded P actor st ref payload evidence \<and>
        wrote_last P ''gah_recover_effect'' actor
          [(S ''request_id'', rid), (S ''attempt_id'', option_text (se_attempt st)),
           (S ''owner_generation'', option_int (se_generation st)),
           (S ''outcome'', PDict outcome), (S ''evidence'', PDict evidence)] t)"

lemma store_recover_inv:
  assumes "store_recover_expired P ac rid outcome ref payload s = (Inr st', t)"
  shows "\<exists>s0 v st s1. connects P Privileged s s0 \<and> read_effect P ac rid s0 = (Inr (Some (v, st)), s1) \<and>
     (recovers P ac rid outcome ref payload v st st' t \<or>
      se_state st \<in> set ended_states \<and> st' = st \<and> released P s1 t)"
proof -
  obtain s0 u v st s1 where status: "ditem outcome ''status'' = Inr (PS ''indeterminate'')"
      and c: "connects P Privileged s s0" "released P u t"
      and read: "read_effect P ac rid s0 = (Inr (Some (v, st)), s1)"
      and m: "(if se_state st \<in> set ended_states then returnH st
         else
           bindH (liftH (ditem v ''_lease_expired'')) (\<lambda>expired.
           rejectH (\<not> truthy expired) PreparedExecutionError ''execution lease has not expired''
          (bindH (liftH (outcome_checks (p_env P) st outcome ref payload True)) (\<lambda>run.
           bindH (append_evidence P ac run ''kernel.effect_execution_outcome'' ref payload) (\<lambda>evidence.
           bindH (runtime_write P ac ''recover_effect''
              [(S ''request_id'', rid), (S ''attempt_id'', option_text (se_attempt st)),
               (S ''owner_generation'', option_int (se_generation st)),
               (S ''outcome'', PDict outcome), (S ''evidence'', PDict evidence)]) (\<lambda>changed.
           bindH (require_changed OptimisticConcurrencyError ''expired recovery lost its fence race'' changed) (\<lambda>_.
             returnH (st\<lparr> se_state := S ''indeterminate'', se_version := se_version st + 1,
               se_outcome := Some outcome, se_outcome_evidence := Some evidence,
               se_generation := Some ((case se_generation st of None \<Rightarrow> 0 | Some g \<Rightarrow> g) + 1),
               se_created := False \<rparr>)))))))) s1 = (Inr st', u)"
    using assms [unfolded store_recover_expired_def]
  proof (cases rule: parsed_block)
    case (1 actor parsed s0 u)
    note same = recovery_outcome_inv [OF 1(1)]
    from 1(3) show thesis
    proof (cases rule: row_read)
      case row: (1 v st s1)
      show thesis by (rule that [OF _ 1(2) 1(4)]) (use same row in auto)
    qed
  qed
  have "recovers P ac rid outcome ref payload v st st' t \<or> se_state st \<in> set ended_states \<and> st' = st \<and> u = s1"
  proof (cases "se_state st \<in> set ended_states")
    case False
    let ?row = "\<lambda>e. [(S ''request_id'', rid), (S ''attempt_id'', option_text (se_attempt st)),
           (S ''owner_generation'', option_int (se_generation st)),
           (S ''outcome'', PDict outcome), (S ''evidence'', PDict e)]"
    let ?g = "case se_generation st of None \<Rightarrow> 0 | Some g \<Rightarrow> g"
    obtain run e expired s2 s3 where w: "outcome_checks (p_env P) st outcome ref payload True = Inr run"
        "append_evidence P ac run ''kernel.effect_execution_outcome'' ref payload s2 = (Inr e, s3)"
        "bindH (runtime_write P ac ''recover_effect'' (?row e)) (\<lambda>changed.
         bindH (require_changed OptimisticConcurrencyError ''expired recovery lost its fence race'' changed) (\<lambda>_.
           returnH (st\<lparr> se_state := S ''indeterminate'', se_version := se_version st + 1,
               se_outcome := Some outcome, se_outcome_evidence := Some e,
               se_generation := Some (?g + 1), se_created := False \<rparr>))) s3 = (Inr st', u)"
        "ditem v ''_lease_expired'' = Inr expired" "truthy expired"
      using m False by (auto simp: liftH_iff rejectH_Inr_iff bindH_Inr_iff [of "liftH _"]
          bindH_Inr_iff [of "append_evidence _ _ _ _ _ _"])
    note wr = written_row [OF w(3) ending_writers(2) c(2)]
    note checks = outcome_checks_inv [OF w(1) status refl]
    have "outcome_recorded P ac st ref payload e" unfolding outcome_recorded_def using w(2) checks(2) by blast
    moreover have "ends_with_outcome (p_env P) outcome (S ''indeterminate'') st st'"
      using wr checks(1) by (simp add: ends_with_outcome_def outcome_authorised_def)
    ultimately show ?thesis using False w(4,5) wr status checks(1) unfolding recovers_def by auto
  qed (use m read in \<open>auto simp: transaction_steps\<close>)
  then show ?thesis using c read by blast
qed

text \<open>After an execution ended no completion of any owner passes the fence.\<close>

lemma ended_fences:
  assumes "se_state st \<in> set ended_states"
  shows "\<not> fence_holds st expected attempt generation"
  using ended_not_live [OF assms] by (simp add: fence_holds_def)

end
