(* ===== verification/Store_Memory_Facts.thy ===== *)
theory Store_Memory_Facts
  imports Store_Machine
begin

text \<open>
  What a governed memory promotion guarantees: its authority was checked, the committed record
  follows the expected revision, and the stored transition carries the digest over all inputs.
\<close>

text \<open>The revision a transition commits: one for a create, the successor otherwise.\<close>

definition follows_revision :: "dict \<Rightarrow> dict \<Rightarrow> int option \<Rightarrow> bool" where
  "follows_revision proposal candidate expected \<longleftrightarrow>
     (if ditem proposal ''change_kind'' = Inr (PS ''create'')
      then expected = None \<and> \<not> dhas candidate ''supersedes_revision'' \<and>
        (\<exists>r. ditem candidate ''revision'' = Inr r \<and> py_eq r (PInt 1))
      else \<exists>n r. expected = Some n \<and> 1 \<le> n \<and> ditem candidate ''revision'' = Inr r \<and> py_eq r (PInt (n + 1)) \<and>
        py_eq (dget candidate ''supersedes_revision'') (PInt n))"

lemma revision_checks_inv:
  assumes "revision_checks proposal candidate expected = Inr ()"
  shows "follows_revision proposal candidate expected"
  using assms unfolding revision_checks_def follows_revision_def
  by (auto simp: bindE_Inr_iff deny_Inr_iff seqE_Inr_iff neq_def split: option.splits if_splits)

text \<open>The record that is committed: the proposed one with its lifecycle state and a new stamp.\<close>

definition commits_record :: "env \<Rightarrow> dict \<Rightarrow> dict \<Rightarrow> dict \<Rightarrow> bool" where
  "commits_record E proposal candidate rec \<longleftrightarrow>
     apply_object_digest E (dset candidate (S ''lifecycle_state'')
       (PS (if ditem proposal ''change_kind'' = Inr (PS ''delete'') then ''deleted'' else ''active''))) = Inr rec"

definition promotion_authorised ::
  "'b store_ports \<Rightarrow> dict \<Rightarrow> dict \<Rightarrow> dict \<Rightarrow> dict \<Rightarrow> dict list \<Rightarrow> int option \<Rightarrow> instant \<Rightarrow> dict \<Rightarrow> bool" where
  "promotion_authorised P actor proposal decision policy approvals expected now rec \<longleftrightarrow>
     validate_memory_promotion_bindings (p_env P) (PDict actor) (PDict proposal) (PDict decision) (PDict policy)
       (map PDict approvals) = Inr () \<and>
     proposal_checks (p_env P) (sp_fromiso P) actor proposal now = Inr () \<and>
     decision_checks (sp_fromiso P) (sp_registry P) policy decision now = Inr () \<and>
     (\<exists>candidate. mapping_item proposal ''proposed_record'' = Inr candidate \<and>
        candidate_checks (sp_fromiso P) proposal candidate now = Inr () \<and>
        follows_revision proposal candidate expected \<and> commits_record (p_env P) proposal candidate rec)"

lemma memory_transition_authority_inv:
  assumes "memory_transition_authority P actor proposal decision policy approvals expected now s = (Inr rec, t)"
  shows "promotion_authorised P actor proposal decision policy approvals expected now rec"
  using assms unfolding memory_transition_authority_def promotion_authorised_def
  by (auto simp: transaction_steps committed_record_def commits_record_def
      dest!: revision_checks_inv contract_model_same)

text \<open>Every approval was verified by the configured verifier, under the trust of that moment.\<close>

lemma verify_memory_approvals_inv:
  assumes "verify_memory_approvals P policy tenant now V resolve seen as s = (Inr (), t)" "a \<in> set as"
  shows "memory_approval_checks (sp_fromiso P) (sp_registry P) policy now a = Inr () \<and>
    (\<exists>n m T. resolve m now = Inr T \<and> (\<exists>h. verify_signed_record (p_env P) (V n) T tenant False (PDict a) = Inr h))"
  using assms
proof (induction as arbitrary: seen s)
  case (Cons b bs)
  then show ?case by (fastforce simp: transaction_steps ext_Inr)
qed simp

definition approvals_verified :: "'b store_ports \<Rightarrow> dict \<Rightarrow> pyval \<Rightarrow> instant \<Rightarrow> dict list \<Rightarrow> bool" where
  "approvals_verified P policy tenant now approvals \<longleftrightarrow>
     (\<forall>a\<in>set approvals. memory_approval_checks (sp_fromiso P) (sp_registry P) policy now a = Inr () \<and>
       (\<exists>V resolve n m T. sp_verifier P = Some V \<and> sp_trust P = Some resolve \<and> resolve m now = Inr T \<and>
          (\<exists>h. verify_signed_record (p_env P) (V n) T tenant False (PDict a) = Inr h)))"

lemma memory_approvals_inv:
  assumes "memory_approvals P policy tenant now approvals s = (Inr (), t)"
  shows "approvals_verified P policy tenant now approvals"
  using assms verify_memory_approvals_inv
  unfolding memory_approvals_def approvals_verified_def
  by (fastforce simp: returnH_iff raiseH_iff split: if_splits option.splits)

lemma promotion_approvals:
  assumes "memory_transition_authority P actor proposal decision policy approvals expected now s = (Inr rec, t)"
  shows "\<exists>tenant. ditem actor ''tenant_id'' = Inr tenant \<and> approvals_verified P policy tenant now approvals"
  using assms unfolding memory_transition_authority_def
  by (auto simp: transaction_steps dest!: memory_approvals_inv)

lemma stored_transition_binding:
  "stored_transition E v (Some b) r = Inr mt \<Longrightarrow> \<not> neq (mt_binding_digest mt) b \<and> mt_replayed mt = r"
  by (auto simp: stored_transition_def bindE_Inr_iff reject_if_Inr_iff)

lemma parse_memory_inputs_same:
  "parse_memory_inputs E a pr d p as = Inr v \<Longrightarrow> v = (a, pr, d, p, as)"
proof -
  have "ys = xs" if "mapE (model E rt t) xs = Inr ys" for rt t xs ys
    using that by (induction xs arbitrary: ys) (auto simp: bindE_Inr_iff dest: contract_model_same)
  then show "parse_memory_inputs E a pr d p as = Inr v \<Longrightarrow> v = (a, pr, d, p, as)"
    unfolding parse_memory_inputs_def by (auto simp: bindE_Inr_iff dest: contract_model_same)
qed

lemma either_result:
  "(case x of Inl a \<Rightarrow> returnH a | Inr b \<Rightarrow> liftH (g b)) s = (Inr y, t) \<longleftrightarrow>
     t = s \<and> (x = Inl y \<or> (\<exists>b. x = Inr b \<and> g b = Inr y))"
  by (cases x) (auto simp: returnH_iff liftH_iff)

lemma promote_memory_inv:
  assumes "promote_memory P actor proposal decision policy approvals expected s = (Inr mt, t)"
  shows "\<exists>now rec binding tenant.
    promotion_authorised P actor proposal decision policy approvals expected now rec \<and>
    ditem actor ''tenant_id'' = Inr tenant \<and> approvals_verified P policy tenant now approvals \<and>
    memory_transition_binding_digest (p_env P) actor proposal decision policy approvals rec expected = Inr binding \<and>
    \<not> neq (mt_binding_digest mt) binding"
proof -
  have "\<exists>now s1 rec s2 binding. memory_transition_authority P actor proposal decision policy approvals
        expected now s1 = (Inr rec, s2) \<and>
      memory_transition_binding_digest (p_env P) actor proposal decision policy approvals rec expected = Inr binding \<and>
      \<not> neq (mt_binding_digest mt) binding"
    using assms unfolding promote_memory_def Let_def
    by (auto simp: transaction_steps either_result dest!: parse_memory_inputs_same stored_transition_binding
        split: if_split_asm)
  then obtain now s1 rec s2 binding where auth: "memory_transition_authority P actor proposal decision policy approvals
        expected now s1 = (Inr rec, s2)"
      and b: "memory_transition_binding_digest (p_env P) actor proposal decision policy approvals rec expected = Inr binding"
        "\<not> neq (mt_binding_digest mt) binding" by blast
  then show ?thesis using memory_transition_authority_inv [OF auth] promotion_approvals [OF auth] by blast
qed

end
