(* ===== verification/Example_Store.thy ===== *)
theory Example_Store
  imports Store_Machine Example_Run
begin

text \<open>
  A store in the demonstration environment. The database is a list of canned answers: a read
  returns the answer of its operation, the writers report one changed row.
\<close>

type_synonym answers = "(string \<times> pyval) list"

definition answer :: "answers \<Rightarrow> string \<Rightarrow> pyval" where
  "answer b k = (case map_of b k of None \<Rightarrow> PNone | Some v \<Rightarrow> v)"

definition demo_read :: "dict \<Rightarrow> string \<Rightarrow> dict \<Rightarrow> (answers, pyval) handler" where
  "demo_read actor operation payload = (\<lambda>b. (Inr (answer b operation), b))"

definition demo_call :: "string \<Rightarrow> dict \<Rightarrow> dict \<Rightarrow> (answers, pyval) handler" where
  "demo_call f actor payload = (\<lambda>b. (Inr (answer b f), b))"

definition demo_retrieve :: "dict \<Rightarrow> dict \<Rightarrow> (answers, pyval option) handler" where
  "demo_retrieve actor query = (\<lambda>b. (Inr (Some (answer b ''memories'')), b))"

definition demo_lock :: "'a \<Rightarrow> (answers, unit) handler" where
  "demo_lock k = (\<lambda>b. (Inr (), b))"

text \<open>\<open>datetime.fromisoformat\<close> on the one format the store writes.\<close>

definition demo_fromiso :: "pystr \<Rightarrow> pytime option" where
  "demo_fromiso t = map_option Aware (strptime (take (length t - 6) t @ [90]))"

definition demo_ports :: "answers store_ports" where
  "demo_ports = \<lparr> p_env = demo_env, p_clock = demo_clock, p_ids = demo_ids,
     sp_fromiso = demo_fromiso, sp_lease = 30000000, sp_registry = \<lparr> supported = [] \<rparr>,
     sp_verifier = None, sp_trust = None, sp_connect = demo_lock, sp_exit = demo_lock, sp_read = demo_read, sp_call = demo_call,
     sp_retrieve = demo_retrieve, sp_lock = demo_lock, sp_text_lock = demo_lock \<rparr>"

definition demo_head :: pyval where
  "demo_head = PDict [(S ''next_sequence'', PInt 0), (S ''last_event_digest'', PNone),
     (S ''last_recorded_at'', PNone), (S ''version'', PInt 0)]"

definition changed_one :: pyval where
  "changed_one = PDict [(S ''changed'', PInt 1)]"

definition writers :: answers where
  "writers = [(''gah_lock_run'', demo_head), (''gah_commit_evidence'', changed_one),
     (''gah_submit_lifecycle'', changed_one), (''gah_accept_approval'', changed_one),
     (''gah_issue_grant'', changed_one), (''gah_rebuild_lifecycle'', changed_one),
     (''gah_complete_effect'', changed_one), (''gah_recover_effect'', changed_one)]"

definition held_decision :: dict where
  "held_decision = stamped
    [(S ''schema_version'', PS ''1.0''), (S ''record_type'', PS ''policy_decision''),
     (S ''tenant_id'', PS demo_tenant), (S ''decision_id'', PS ''d1''),
     (S ''request_id'', PS ''q1''), (S ''request_digest'', dget run_request ''request_digest''),
     (S ''decision'', PS ''require_approval''), (S ''rule_refs'', PList [PS ''rule.hold'']),
     (S ''constraints'', PList []), (S ''isolation_profile'', PS ''process''),
     (S ''decided_at'', PS ''2026-01-01T00:15:00.002Z'')]"

definition held_ref :: dict where
  "held_ref = (case policy_reference held_decision of Inr d \<Rightarrow> d | Inl e \<Rightarrow> [])"

definition demo_state :: "answers \<Rightarrow> answers store_state" where
  "demo_state b = \<lparr> tick = 0, rows = b \<rparr>"

section \<open>The decision and its evidence\<close>

lemma held_decision_text [code]: "held_decision = [
  (S ''schema_version'', PS ''1.0''), (S ''record_type'', PS ''policy_decision''),
  (S ''tenant_id'', PS ''01890000-0000-7000-8000-000000000001''), (S ''decision_id'', PS ''d1''),
  (S ''request_id'', PS ''q1''),
  (S ''request_digest'', PS ''sha256:0707070707070707070707070707070707070707070707070707070707070726''),
  (S ''decision'', PS ''require_approval''), (S ''rule_refs'', PList [PS ''rule.hold'']),
  (S ''constraints'', PList []), (S ''isolation_profile'', PS ''process''),
  (S ''decided_at'', PS ''2026-01-01T00:15:00.002Z''),
  (S ''decision_digest'', PS ''sha256:070707070707070707070707070707070707070707070707070707070707077a'')]"
  by code_simp

lemma held_ref_text [code]: "held_ref =
  [(S ''record_type'', PS ''policy_decision''), (S ''record_id'', PS ''d1''),
   (S ''record_digest'', PS ''sha256:070707070707070707070707070707070707070707070707070707070707077a'')]"
  by code_simp

lemma held_checks:
  "submission_checks demo_ports run_actor run_request held_decision (S ''approval_required'') held_ref = Inr ()"
  by code_simp

section \<open>A lifecycle that waits for approval\<close>

definition held_lifecycle :: stored_lifecycle where
  "held_lifecycle = \<lparr> sl_actor = run_actor, sl_request = run_request, sl_policy = held_decision,
     sl_state = S ''approval_required'', sl_version = 1, sl_evidence = [submission_event],
     sl_approval = None, sl_grant = None \<rparr>"

lemma held_lifecycle_fields:
  "sl_actor held_lifecycle = run_actor" "sl_request held_lifecycle = run_request"
  "sl_policy held_lifecycle = held_decision" "sl_approval held_lifecycle = None" "sl_grant held_lifecycle = None"
  by (simp_all add: held_lifecycle_def)

lemma held_reachable: "stored_reachable demo_env demo_fromiso held_lifecycle"
proof (rule stored_reachable.opened)
  have "p_env demo_ports = demo_env" "sp_fromiso demo_ports = demo_fromiso" by (simp_all add: demo_ports_def)
  then show "stored_step demo_env demo_fromiso (Submit run_actor run_request held_decision (S ''approval_required''))
      None held_lifecycle"
    unfolding held_lifecycle_def
    using submission_checks_inv [OF held_checks] by (intro stored_step.submitted) simp_all
qed

section \<open>One event\<close>

definition note_payload :: dict where
  "note_payload = [(S ''actor_id'', PS ''a1''), (S ''next_state'', PS ''approved'')]"

definition note_now :: pystr where
  "note_now = utc_millis_text (demo_time 0)"

definition note_draft :: dict where
  "note_draft = store_draft (PS demo_tenant) (PStr (S ''id'' @ digits10 (Suc 0))) (S ''r1'') ''kernel.approval_accepted''
     note_now 0 (digest_of note_payload) note_payload"

definition note_envelope :: dict where
  "note_envelope = store_envelope (PS demo_tenant) (PStr (S ''id'' @ digits10 (Suc (Suc 0)))) note_draft (digest_of note_draft)
     note_now 0 (digest_of note_payload) PNone held_ref"

definition note_event :: dict where
  "note_event = stamped note_envelope"

definition note_head :: dict where
  "note_head = [(S ''next_sequence'', PInt 0), (S ''last_event_digest'', PNone),
     (S ''last_recorded_at'', PNone), (S ''version'', PInt 0)]"

lemma note_payload_digest: "digest_of_dict demo_env note_payload = Inr (dg ''29'')"
  by code_simp

lemma note_payload_digest_of: "digest_of note_payload = dg ''29''"
  using note_payload_digest by (simp add: digest_of_def digest_of_dict_def demo_env_def)

lemma note_now_text [code]: "note_now = S ''2026-01-01T00:15:00.000Z''"
  by code_simp

lemma note_draft_text [code]: "note_draft = store_draft (PS demo_tenant) (PS ''id1'') (S ''r1'') ''kernel.approval_accepted''
  note_now 0 (dg ''29'') note_payload"
  unfolding note_draft_def note_payload_digest_of by code_simp

lemma note_draft_digest: "digest_of_dict demo_env note_draft = Inr (dg ''28'')"
  by code_simp

lemma note_draft_digest_of: "digest_of note_draft = dg ''28''"
  using note_draft_digest by (simp add: digest_of_def digest_of_dict_def demo_env_def)

lemma note_envelope_text [code]: "note_envelope = store_envelope (PS demo_tenant) (PS ''id2'') note_draft
  (dg ''28'') note_now 0 (dg ''29'') PNone held_ref"
  unfolding note_envelope_def note_payload_digest_of note_draft_digest_of by code_simp

lemma note_event_text [code]: "note_event = dset note_envelope (S ''event_digest'') (dg ''85'')"
  unfolding note_event_def stamped_def by code_simp

lemma note_event_stamped: "apply_object_digest demo_env note_envelope = Inr note_event"
  by code_simp

lemma note_event_model: "model demo_env ''evidence_envelope'' (PS demo_tenant) note_event = Inr note_event"
  by code_simp

lemma note_head_read: "read_head demo_fromiso note_head = Inr (0, PNone, None, PInt 0)"
  by code_simp

lemma demo_time_representable: "representable (demo_time 0)"
  by code_simp

lemma demo_ports_fields:
  "p_env demo_ports = demo_env" "p_clock demo_ports = demo_clock" "p_ids demo_ports = demo_ids"
  "sp_fromiso demo_ports = demo_fromiso" "sp_read demo_ports = demo_read" "sp_call demo_ports = demo_call"
  by (simp_all add: demo_ports_def)

lemma note_built:
  assumes "tick s = 0"
  shows "build_evidence_from_head demo_ports run_actor (S ''r1'') ''kernel.approval_accepted'' held_ref note_payload note_head s
    = (Inr (note_event, PInt 0), s\<lparr> tick := 3 \<rparr>)"
  using assms demo_time_representable note_payload_digest note_draft_digest note_event_stamped note_event_model
  unfolding note_envelope_def note_draft_def note_now_def note_payload_digest_of [symmetric]
    note_draft_digest_of [symmetric]
  by (simp add: build_evidence_from_head_def demo_ports_fields note_head_read run_simps store_clock_def store_aware_def
      demo_clock_time run_items new_id_def demo_ids_def Let_def)

text \<open>The reader of written times inverts them on every representable instant.\<close>

lemma replace_Z_plain: "90 \<notin> set t \<Longrightarrow> replace_Z (t @ [90]) = t @ S ''+00:00''"
  by (induction t) auto

lemma dec_not_Z [simp]: "dec u n \<noteq> 90"
  using dec_dig [of u n] nodig by metis

lemma utc_text_shape: "\<exists>t. utc_millis_text i = t @ [90] \<and> 90 \<notin> set t"
proof -
  obtain y m d where "ordinal_to_ymd (i div 86400000000 + 1) = (y, m, d)" using prod_cases3 by blast
  then have "\<exists>a b c. utc_millis_text i = (fmt4 y @ 45 # fmt2 m @ 45 # fmt2 d @ 84 # fmt2 a @ 58 # fmt2 b @ 58 # fmt2 c @
      46 # fmt3 (i mod 86400000000 mod 1000000 div 1000)) @ [90]"
    unfolding utc_millis_text_def Let_def by auto
  moreover have "90 \<notin> set (fmt2 n)" "90 \<notin> set (fmt3 n)" "90 \<notin> set (fmt4 n)" for n
    by (auto simp: fmt2_def fmt3_def fmt4_def dest: sym)
  ultimately show ?thesis by fastforce
qed

lemma demo_reads_times: "reads_written_times demo_fromiso"
  unfolding reads_written_times_def
proof (intro allI impI)
  fix i
  assume "representable i"
  then have "strptime (utc_millis_text i) = Some (i - i mod 1000)" by (rule strptime_utc_millis)
  moreover obtain t where "utc_millis_text i = t @ [90]" "90 \<notin> set t" using utc_text_shape by blast
  moreover have "length (S ''+00:00'') = 6" by (simp add: S_def)
  ultimately show "demo_fromiso (replace_Z (utc_millis_text i)) = Some (Aware (i - i mod 1000))"
    by (simp add: demo_fromiso_def replace_Z_plain)
qed

end
