(* ===== verification/Store_Properties.thy ===== *)
theory Store_Properties
  imports Store_Effect_Facts Store_Memory_Facts Example_Store
begin

text \<open>
  The properties of the durable store: a decision it cannot keep, evidence that always extends
  the chain a reader verifies, lifecycles that are only what their evidence replays to and that
  move only by the steps of an abstract machine, effect executions bound to their authority and
  ended once, and governed memory. The database and its connections are ports, so what is stated
  is what the store's own code makes of their answers. Most properties state what a returned
  value guarantees, as a case distinction on the result of the operation.
\<close>

section \<open>Decisions\<close>

text \<open>
  C29: The durable store never keeps a lifecycle whose policy decision is \<open>authorize\<close>, the
  decision the policy evaluation of the kernel and the record schemas use for an allowed request:
  persisting it always raises, before the database is touched, because the table of initial
  states names the decision \<open>allow\<close>.
\<close>

theorem authorize_never_persisted:
  assumes "ditem policy ''decision'' = Inr (PS ''authorize'')"
  shows "\<exists>e t. persist_submission P a r policy st ref s = (Inl e, t) \<and> rows t = rows s"
proof -
  have "\<not> (\<exists>actor request. submission_checks P actor request policy st ref = Inr ())"
    using assms submission_state_known by blast
  then show ?thesis
    using assms unfolding persist_submission_def
    by (intro lifted_error) (auto simp: bindE_Inr_iff dest: contract_model_same)
qed

theorem authorize_never_persisted_witness:
  "\<exists>e t. persist_submission demo_ports run_actor run_request run_decision (S ''policy_authorized'') run_ref
     (demo_state writers) = (Inl e, t) \<and> rows t = rows (demo_state writers)"
  by (rule authorize_never_persisted) code_simp

section \<open>Evidence\<close>

text \<open>
  C30: Evidence the store builds from the head of a run extends the chain that a reader of the
  run verifies: the events so far and the new one form a chain again, with the next sequence
  number and the digest and time of the new event as its head. The reader of timestamps is
  assumed to read what is written, to the millisecond.
\<close>

theorem evidence_extends_run:
  assumes head: "run_head (sp_fromiso P) es (seq, prior, prior_time)"
    and read: "read_head (sp_fromiso P) stored = Inr (seq, prior, prior_time, v)"
    and times: "reads_written_times (sp_fromiso P)"
    and built: "build_evidence_from_head P actor run kind policy_ref payload stored s = (Inr (e, v'), t)"
  shows "\<exists>d i. run_head (sp_fromiso P) (es @ [e]) (seq + 1, PStr d, Some i) \<and> ditem e ''event_digest'' = Inr (PStr d)"
proof -
  obtain i d where i: "representable i" "case prior_time of None \<Rightarrow> True | Some p \<Rightarrow> p \<le> i"
    and e: "ditem e ''recorded_at'' = Inr (PStr (utc_millis_text i))" "ditem e ''sequence_number'' = Inr (PInt seq)"
      "ditem e ''prior_event_digest'' = Inr prior" "ditem e ''event_digest'' = Inr (PStr d)"
    using built read by (rule built_from_head)
  have t: "iso_item (sp_fromiso P) e ''recorded_at'' = Inr (i - i mod 1000)"
    using e(1) parse_written [OF times i(1)] by (simp add: iso_item_def)
  have pr: "py_eq prior prior" using head by (auto simp: run_head_def)
  have mono: "\<not> (case prior_time of None \<Rightarrow> False | Some p \<Rightarrow> i - i mod 1000 < p)"
  proof (cases prior_time)
    case (Some p)
    then have p: "p \<le> i" "p mod 1000 = 0" using i(2) head by (auto simp: run_head_def on_millis_def)
    then have "p div 1000 \<le> i div 1000" by (intro zdiv_mono1) auto
    moreover have "p = 1000 * (p div 1000)" using p(2) mult_div_mod_eq [of 1000 p] by linarith
    moreover have "i - i mod 1000 = 1000 * (i div 1000)" by (simp add: minus_mod_eq_mult_div)
    ultimately have "p \<le> i - i mod 1000" by linarith
    then show ?thesis using Some by simp
  qed simp
  have "chain_from (sp_fromiso P) (seq, prior, prior_time) [e] = Inr (seq + 1, PStr d, Some (i - i mod 1000))"
    using t e pr mono
    by (auto simp: item_differs_def neq_def split: option.splits)
  then have "chain_from (sp_fromiso P) (0, PNone, None) (es @ [e]) = Inr (seq + 1, PStr d, Some (i - i mod 1000))"
    using head by (simp add: run_head_def chain_from_snoc)
  then show ?thesis using e(4) by (auto simp: run_head_def on_millis_def mod_diff_eq [symmetric])
qed

theorem evidence_extends_run_witness:
  "\<exists>d i. run_head demo_fromiso ([] @ [note_event]) (0 + 1, PStr d, Some i) \<and> ditem note_event ''event_digest'' = Inr (PStr d)"
proof -
  have head: "run_head (sp_fromiso demo_ports) [] (0, PNone, None)" by (simp add: run_head_def on_millis_def)
  have read: "read_head (sp_fromiso demo_ports) note_head = Inr (0, PNone, None, PInt 0)"
    by (simp add: demo_ports_fields note_head_read)
  have times: "reads_written_times (sp_fromiso demo_ports)" by (simp add: demo_ports_fields demo_reads_times)
  have "tick (demo_state writers) = 0" by (simp add: demo_state_def)
  from evidence_extends_run [OF head read times note_built [OF this]] show ?thesis by (simp add: demo_ports_fields)
qed

text \<open>
  C31: A lifecycle the store returns is what the rows it just read say. On the connection it
  opened it read a projection row for the request, the events of the lifecycle and the events of
  their run, one after the other. The events of the run form a verified chain; the evidence of
  the lifecycle is its lifecycle events, which the version counts; the first is the policy
  decision, whose payload holds the request and the policy of the lifecycle, for the actor and
  the request asked for; every one refers to that policy; the state is the one the last event
  leads to; approval and grant are the ones in the payload of the only event of their kind, and
  absent exactly when there is no such event; all of it passes the authority checks together.
  And every column of the projection row that was read agrees with it.
\<close>

theorem loaded_lifecycle_replayed:
  "case load_lifecycle P a rid s of
     (Inr (Some l), t) \<Rightarrow> \<exists>s0 v b1 events b2.
       connects P Runtime s s0 \<and>
       sp_read P a ''lifecycle_by_id'' [(S ''request_id'', rid)] (rows s0) = (Inr (PDict v), b1) \<and>
       reads_run P a rid b1 events b2 \<and>
       replayed_from (p_env P) (sp_fromiso P) a rid events l \<and> projects v l
   | _ \<Rightarrow> True"
proof (cases "\<exists>l t. load_lifecycle P a rid s = (Inr (Some l), t)")
  case True
  then obtain l t where run: "load_lifecycle P a rid s = (Inr (Some l), t)" by blast
  then obtain s0 u where load: "connects P Runtime s s0" "load_with_cursor P a rid True s0 = (Inr (Some l), u)"
    unfolding load_lifecycle_def by (auto simp: bindH_Inr_iff liftH_iff transaction_Inr dest: contract_model_same)
  show ?thesis unfolding run using load(1) load_inv [OF load(2)] unfolding loads_def prod.case sum.case option.case
    by blast
qed (auto split: prod.splits sum.splits option.splits)




section \<open>Effect executions\<close>

text \<open>
  C34: An effect execution the store returns from a row is bound: its authority records validate
  and bind each other, its binding digest is the digest of exactly these records, its intent
  evidence is the intent event these records determine, it carries a fence, and it has a bound
  outcome with evidence exactly when it ended.
\<close>

theorem stored_effects_bound:
  "case store_lookup P a rid s of
     (Inr (Some st), t) \<Rightarrow> effect_bound (p_env P) (sp_fromiso P) st
   | _ \<Rightarrow> True"
  unfolding store_lookup_def
  by (auto simp: bindH_Inr_iff liftH_iff bindE_Inr_iff dest!: decode_effect_bound
      split: prod.splits sum.splits option.splits)

text \<open>
  C35: A preparation is bound to every authority input: the execution it returns carries the
  digest over actor, request, decision, approvals and grant, the intent payload is the one these
  determine, a new execution is the first version of a prepared one, and an existing one has
  the same idempotency binding, request digest and grant.
\<close>

theorem preparation_bound:
  "case store_prepare P a r p as g ref payload s of
     (Inr st, t) \<Rightarrow> \<exists>b x. execution_binding_digest (p_env P) a r p as g = Inr b \<and> py_eq (se_binding_digest st) b \<and>
       expected_intent (p_env P) a r p g = Inr x \<and> py_eq (PDict payload) (PDict x) \<and>
       (if se_created st then fresh_effect P a r p as g st else same_authority (p_env P) r g st)
   | _ \<Rightarrow> True"
proof (cases "\<exists>st t. store_prepare P a r p as g ref payload s = (Inr st, t)")
  case True
  then obtain st t where run: "store_prepare P a r p as g ref payload s = (Inr st, t)" by blast
  show ?thesis unfolding run using store_prepare_inv [OF run] by (simp only: neq_def not_not sum.case prod.case)
qed (auto split: prod.splits sum.splits)

text \<open>
  C36: An execution ends once. A completion returns only for the terminal states \<open>completed\<close>,
  with an outcome that succeeded, and \<open>indeterminate\<close>, with an indeterminate one. It read a bound
  execution of the request and either found it live under exactly the version, attempt and
  generation it names, with the outcome, the policy reference and the evidence payload bound to
  it, appended that evidence and as its last act had the database change exactly one row, under
  that fence, to that state and outcome, or found it completed already with the same outcome and
  state. A recovery either found the execution ended,
  or found it live with a lease the database reports as expired and ended it as indeterminate,
  under a new owner generation, by one changed row too. What either of them returns passes no
  fence: no completion can end it again.
\<close>

theorem execution_ends_once:
  "(case store_complete P a rid n outcome ref payload state attempt generation s of
     (Inr st', t) \<Rightarrow>
       (state = S ''completed'' \<and> ditem outcome ''status'' = Inr (PS ''succeeded'') \<or>
        state = S ''indeterminate'' \<and> ditem outcome ''status'' = Inr (PS ''indeterminate'')) \<and>
       (\<exists>s0 v st s1. connects P Privileged s s0 \<and> read_effect P a rid s0 = (Inr (Some (v, st)), s1) \<and>
         effect_bound (p_env P) (sp_fromiso P) st \<and>
         (completes P a rid n outcome ref payload state attempt generation st st' t \<or>
          st' = st \<and> released P s1 t \<and> already_completed st state n outcome)) \<and>
       \<not> fence_holds st' n' attempt' generation'
   | _ \<Rightarrow> True) \<and>
   (case store_recover_expired P a rid outcome ref payload s of
     (Inr st', t) \<Rightarrow>
       (\<exists>s0 v st s1. connects P Privileged s s0 \<and> read_effect P a rid s0 = (Inr (Some (v, st)), s1) \<and>
         effect_bound (p_env P) (sp_fromiso P) st \<and>
         (recovers P a rid outcome ref payload v st st' t \<or>
          se_state st \<in> set ended_states \<and> st' = st \<and> released P s1 t)) \<and>
       \<not> fence_holds st' n' attempt' generation'
   | _ \<Rightarrow> True)"
proof (intro conjI)
  show "case store_complete P a rid n outcome ref payload state attempt generation s of
     (Inr st', t) \<Rightarrow>
       (state = S ''completed'' \<and> ditem outcome ''status'' = Inr (PS ''succeeded'') \<or>
        state = S ''indeterminate'' \<and> ditem outcome ''status'' = Inr (PS ''indeterminate'')) \<and>
       (\<exists>s0 v st s1. connects P Privileged s s0 \<and> read_effect P a rid s0 = (Inr (Some (v, st)), s1) \<and>
         effect_bound (p_env P) (sp_fromiso P) st \<and>
         (completes P a rid n outcome ref payload state attempt generation st st' t \<or>
          st' = st \<and> released P s1 t \<and> already_completed st state n outcome)) \<and>
       \<not> fence_holds st' n' attempt' generation'
   | _ \<Rightarrow> True"
  proof (cases "\<exists>st' t. store_complete P a rid n outcome ref payload state attempt generation s = (Inr st', t)")
    case True
    then obtain st' t where run: "store_complete P a rid n outcome ref payload state attempt generation s = (Inr st', t)"
      by blast
    note inv = store_complete_inv [OF run]
    then have "se_state st' = state"
      by (auto simp: completes_def ends_with_outcome_def already_completed_def)
    then have "\<not> fence_holds st' n' attempt' generation'"
      using inv terminal_ended ended_fences by blast
    then show ?thesis unfolding run prod.case sum.case
      using inv read_effect_bound unfolding terminal_def by blast
  qed (auto split: prod.splits sum.splits)
  show "case store_recover_expired P a rid outcome ref payload s of
     (Inr st', t) \<Rightarrow>
       (\<exists>s0 v st s1. connects P Privileged s s0 \<and> read_effect P a rid s0 = (Inr (Some (v, st)), s1) \<and>
         effect_bound (p_env P) (sp_fromiso P) st \<and>
         (recovers P a rid outcome ref payload v st st' t \<or>
          se_state st \<in> set ended_states \<and> st' = st \<and> released P s1 t)) \<and>
       \<not> fence_holds st' n' attempt' generation'
   | _ \<Rightarrow> True"
  proof (cases "\<exists>st' t. store_recover_expired P a rid outcome ref payload s = (Inr st', t)")
    case True
    then obtain st' t where run: "store_recover_expired P a rid outcome ref payload s = (Inr st', t)" by blast
    note inv = store_recover_inv [OF run]
    then have "se_state st' \<in> set ended_states"
      by (auto simp: recovers_def ends_with_outcome_def ended_states_def)
    then show ?thesis unfolding run prod.case sum.case
      using inv read_effect_bound ended_fences by blast
  qed (auto split: prod.splits sum.splits)
qed

section \<open>Governed memory\<close>

text \<open>
  C37: A promotion that returns was authorised: the bindings of proposal, decision, policy and
  approvals hold, every check of validity, scope, evidence and retention passed, each approval
  was verified by the configured verifier, the committed record follows the expected revision
  (revision one without predecessor for a create), and the stored transition carries the digest
  over all of these inputs.
\<close>

theorem memory_promotion_bound:
  "case promote_memory P actor proposal decision policy approvals expected s of
     (Inr mt, t) \<Rightarrow> \<exists>now rec binding tenant.
       promotion_authorised P actor proposal decision policy approvals expected now rec \<and>
       ditem actor ''tenant_id'' = Inr tenant \<and> approvals_verified P policy tenant now approvals \<and>
       memory_transition_binding_digest (p_env P) actor proposal decision policy approvals rec expected = Inr binding \<and>
       py_eq (mt_binding_digest mt) binding
   | _ \<Rightarrow> True"
proof (cases "\<exists>mt t. promote_memory P actor proposal decision policy approvals expected s = (Inr mt, t)")
  case True
  then obtain mt t where run: "promote_memory P actor proposal decision policy approvals expected s = (Inr mt, t)" by blast
  show ?thesis unfolding run using promote_memory_inv [OF run] by (simp only: neq_def not_not sum.case prod.case)
qed (auto split: prod.splits sum.splits)

end
