(* ===== verification/Migrations.thy ===== *)
theory Migrations
  imports Canonical_Facts Schema
begin

text \<open>
  \<open>persistence/migration.py\<close>: discovery of the packaged migrations and their installation
  in one transaction. The registry table is modelled: its rows, the primary key on the
  version and the check on the checksum. Everything else in the database is a state of its
  own type; the catalog queries and the SQL of a migration are callables on it, which do not
  write its rows (of the packaged migrations only 0002 names it, to change its owner).
\<close>

section \<open>Migrations\<close>

record migration =
  mg_version :: int
  mg_name :: pystr
  mg_checksum :: pystr
  mg_sql :: pystr

type_synonym history = "(int \<times> pystr) list"

abbreviation migration_fail :: "bool \<Rightarrow> string \<Rightarrow> unit res" where
  "migration_fail c msg \<equiv> deny c MigrationError msg"

text \<open>The packaged resources and what reads them: the hash of their bytes and their text.\<close>

record package =
  pk_hash :: "nat list \<Rightarrow> nat list"
  pk_decode :: "nat list \<Rightarrow> pystr option"
  pk_resources :: "(pystr \<times> nat list) list"

text \<open>\<open>^(?P<version>[0-9]{4})_[a-z0-9_]+\.sql$\<close>\<close>

definition sql_suffix :: pystr where
  "sql_suffix = S ''.sql''"

definition name_char :: "nat \<Rightarrow> bool" where
  "name_char c \<longleftrightarrow> (97 \<le> c \<and> c \<le> 122) \<or> is_digit_char c \<or> c = 95"

definition migration_name :: "pystr \<Rightarrow> bool" where
  "migration_name n \<longleftrightarrow> 10 \<le> length n \<and> list_all is_digit_char (take 4 n) \<and> n ! 4 = 95 \<and>
     list_all name_char (take (length n - 9) (drop 5 n)) \<and> drop (length n - 4) n = sql_suffix"

definition name_version :: "pystr \<Rightarrow> int" where
  "name_version n = foldl (\<lambda>v c. v * 10 + (int c - 48)) 0 (take 4 n)"

definition checksum_of :: "(nat list \<Rightarrow> nat list) \<Rightarrow> nat list \<Rightarrow> pystr" where
  "checksum_of h payload = sha256_bytes h payload"

text \<open>The loop over the resources: the migrations found and the malformed names.\<close>

fun collect_resources :: "package \<Rightarrow> (pystr \<times> nat list) list \<Rightarrow> (migration list \<times> pystr list) res" where
  "collect_resources K [] = Inr ([], [])"
| "collect_resources K ((n, payload) # rest) =
     (if \<not> ends_with sql_suffix n then collect_resources K rest
      else if \<not> migration_name n then
        bindE (collect_resources K rest) (\<lambda>(ms, bad). Inr (ms, n # bad))
      else (case pk_decode K payload of
          None \<Rightarrow> Inl (Exc ValueError ''invalid UTF-8'')
        | Some text' \<Rightarrow> bindE (collect_resources K rest) (\<lambda>(ms, bad).
            Inr (\<lparr> mg_version = name_version n, mg_name = n, mg_checksum = checksum_of (pk_hash K) payload,
                   mg_sql = text' \<rparr> # ms, bad))))"

definition discover_migrations :: "package \<Rightarrow> migration list res" where
  "discover_migrations K =
     bindE (collect_resources K (pk_resources K)) (\<lambda>(found, malformed).
     reject_if (malformed \<noteq> []) MigrationError ''packaged SQL migrations have invalid immutable names''
    (let sorted = sort_key mg_version found in
     reject_if (found = [] \<or> map mg_version sorted \<noteq> map int [1..<Suc (length found)]) MigrationError
       ''packaged migration versions must be contiguous from 0001'' (Inr sorted)))"

section \<open>The database\<close>

record 'b migration_db =
  ct_autocommit :: bool
  ct_current_schema :: "('b, pystr option) handler"
  ct_lock :: "int \<Rightarrow> ('b, unit) handler"
  ct_registry_kind :: "pystr \<Rightarrow> ('b, pystr option) handler"
  ct_columns :: "pystr \<Rightarrow> ('b, (pystr \<times> pystr \<times> bool \<times> pystr) list) handler"
  ct_constraints :: "pystr \<Rightarrow> ('b, (pystr \<times> pystr list) list) handler"
  ct_security :: "pystr \<Rightarrow> ('b, (bool list \<times> pystr) option) handler"
  ct_current_user :: "('b, pystr option) handler"
  ct_relations :: "pystr \<Rightarrow> ('b, pystr list) handler"
  ct_set_search_path :: "pystr \<Rightarrow> ('b, unit) handler"
  ct_run :: "pystr \<Rightarrow> ('b, unit) handler"
  ct_schema_exists :: "pystr \<Rightarrow> ('b, bool) handler"
  ct_create_schema :: "pystr \<Rightarrow> ('b, unit) handler"
  ct_drop_schema :: "pystr \<Rightarrow> ('b, unit) handler"
  ct_fingerprint :: "pystr \<Rightarrow> pystr list \<Rightarrow> ('b, pyval list list) handler"

text \<open>The registry: \<open>None\<close> before its table exists.\<close>

record 'b database =
  registry :: "history option"
  others :: 'b

definition catalog_call :: "('b, 'a) handler \<Rightarrow> ('b database, 'a) handler" where
  "catalog_call m = (\<lambda>s. case m (others s) of (r, b) \<Rightarrow> (r, s\<lparr> others := b \<rparr>))"

definition registry_table :: pystr where
  "registry_table = S ''gah_schema_migrations''"

text \<open>\<open>CREATE TABLE\<close> fails on an existing table, \<open>INSERT\<close> on a duplicate version or a
  malformed checksum; \<open>SELECT ... ORDER BY version\<close> sorts.\<close>

definition checksum_format :: "pystr \<Rightarrow> bool" where
  "checksum_format c \<longleftrightarrow> take 7 c = S ''sha256:'' \<and> length c = 71 \<and> list_all lower_hex (drop 7 c)"

definition create_registry :: "('b database, unit) handler" where
  "create_registry = (\<lambda>s. case registry s of
     None \<Rightarrow> (Inr (), s\<lparr> registry := Some [] \<rparr>)
   | Some h \<Rightarrow> (Inl (Exc ExternalError ''relation already exists''), s))"

definition insert_applied :: "migration \<Rightarrow> ('b database, unit) handler" where
  "insert_applied m = (\<lambda>s. case registry s of
     None \<Rightarrow> (Inl (Exc ExternalError ''relation does not exist''), s)
   | Some h \<Rightarrow>
       if mg_version m \<in> fst ` set h \<or> \<not> checksum_format (mg_checksum m)
       then (Inl (Exc ExternalError ''constraint violation''), s)
       else (Inr (), s\<lparr> registry := Some (h @ [(mg_version m, mg_checksum m)]) \<rparr>))"

definition read_applied :: "('b database, history) handler" where
  "read_applied = (\<lambda>s. case registry s of
     None \<Rightarrow> (Inl (Exc ExternalError ''relation does not exist''), s)
   | Some h \<Rightarrow> (Inr (sort_key fst h), s))"

text \<open>The kind of the relation under the registry's name: a table when the registry exists.\<close>

definition registry_kind :: "'b migration_db \<Rightarrow> pystr \<Rightarrow> ('b database, pystr option) handler" where
  "registry_kind C schema = bindH (getH registry) (\<lambda>r. case r of
     Some h \<Rightarrow> returnH (Some (S ''r''))
   | None \<Rightarrow> catalog_call (ct_registry_kind C schema))"

section \<open>Checks\<close>

definition LEGACY_V1_TABLES :: "pystr list" where
  "LEGACY_V1_TABLES = map S [''gah_run_heads'', ''gah_evidence_events'', ''gah_effect_executions'',
     ''gah_grant_consumptions'']"

definition MIGRATION_LOCK_KEY :: int where
  "MIGRATION_LOCK_KEY = 0x4741485F4D494752"

definition verify_applied :: "history \<Rightarrow> migration list \<Rightarrow> unit res" where
  "verify_applied applied ms = seqE
    [migration_fail (map fst applied \<noteq> map int [1..<Suc (length applied)])
       ''applied migration history is non-contiguous'',
     forE applied (\<lambda>(v, c). case find (\<lambda>m. mg_version m = v) ms of
        None \<Rightarrow> Inl (Exc MigrationError ''database contains unknown migration version'')
      | Some m \<Rightarrow> migration_fail (c \<noteq> mg_checksum m) ''migration checksum drift detected'')]"

definition registry_columns :: "(pystr \<times> pystr \<times> bool \<times> pystr) list" where
  "registry_columns =
    [(S ''version'', S ''integer'', True, []), (S ''checksum'', S ''text'', True, []),
     (S ''applied_at'', S ''timestamp with time zone'', True, S ''clock_timestamp()'')]"

definition registry_constraints :: "(pystr \<times> pystr list) list" where
  "registry_constraints = [(S ''c'', [S ''checksum'']), (S ''p'', [S ''version''])]"

definition current_user :: "'b migration_db \<Rightarrow> ('b database, pystr) handler" where
  "current_user C = bindH (catalog_call (ct_current_user C)) (\<lambda>u. case u of
     None \<Rightarrow> raiseH MigrationError ''database current user is unavailable''
   | Some n \<Rightarrow> returnH n)"

definition verify_registry_shape :: "'b migration_db \<Rightarrow> pystr \<Rightarrow> ('b database, unit) handler" where
  "verify_registry_shape C schema =
     bindH (catalog_call (ct_columns C schema)) (\<lambda>columns.
     rejectH (columns \<noteq> registry_columns) MigrationError
       ''migration registry has an incompatible column layout''
    (bindH (catalog_call (ct_constraints C schema)) (\<lambda>constraints.
     rejectH (constraints \<noteq> registry_constraints) MigrationError
       ''migration registry has incompatible constraints''
    (bindH (catalog_call (ct_security C schema)) (\<lambda>security. case security of
       None \<Rightarrow> raiseH MigrationError ''migration registry has unsafe security properties''
     | Some (flags, owner) \<Rightarrow>
       rejectH (flags \<noteq> replicate 5 False) MigrationError
         ''migration registry has unsafe security properties''
      (bindH (current_user C) (\<lambda>user.
       rejectH (owner \<noteq> S ''gah_schema_owner'' \<and> owner \<noteq> user) MigrationError
         ''migration registry has an unexpected owner'' (returnH ()))))))))"

section \<open>Bootstrap\<close>

definition probe_schema :: pystr where
  "probe_schema = S ''gah_migration_integrity_probe''"

text \<open>The \<open>finally\<close> clause runs after success and after an exception.\<close>

definition matches_legacy_v1 :: "'b migration_db \<Rightarrow> pystr \<Rightarrow> migration \<Rightarrow> ('b database, bool) handler" where
  "matches_legacy_v1 C schema m =
     bindH (catalog_call (ct_schema_exists C probe_schema)) (\<lambda>there.
     rejectH there MigrationError ''migration integrity probe schema already exists''
    (bindH (catalog_call (ct_create_schema C probe_schema)) (\<lambda>_.
     bindH (attemptH (
        bindH (catalog_call (ct_set_search_path C probe_schema)) (\<lambda>_.
        bindH (catalog_call (ct_run C (mg_sql m))) (\<lambda>_.
        bindH (catalog_call (ct_fingerprint C probe_schema LEGACY_V1_TABLES)) (\<lambda>expected.
        bindH (catalog_call (ct_fingerprint C schema LEGACY_V1_TABLES)) (\<lambda>actual.
          returnH (actual = expected))))))) (\<lambda>result.
     bindH (catalog_call (ct_drop_schema C probe_schema)) (\<lambda>_.
     bindH (catalog_call (ct_set_search_path C schema)) (\<lambda>_. liftH result))))))"

definition bootstrap :: "'b migration_db \<Rightarrow> pystr \<Rightarrow> migration list \<Rightarrow> ('b database, history) handler" where
  "bootstrap C schema ms =
     bindH (catalog_call (ct_relations C schema)) (\<lambda>relations.
     if relations = [] then bindH create_registry (\<lambda>_. returnH [])
     else rejectH (set relations \<noteq> set LEGACY_V1_TABLES) MigrationError
        ''unsafe bootstrap state: expected an empty schema or the exact Phase 4 table set''
       (case ms of
          [] \<Rightarrow> raiseH KeyError ''index''
        | first # _ \<Rightarrow>
          bindH (if mg_version first \<noteq> 1 then returnH False else matches_legacy_v1 C schema first) (\<lambda>ok.
          rejectH (\<not> ok) MigrationError
            ''unsafe bootstrap state: existing Phase 4 tables do not exactly match migration 0001''
         (bindH create_registry (\<lambda>_.
          bindH (insert_applied first) (\<lambda>_. returnH [(mg_version first, mg_checksum first)]))))))"

definition applied_history :: "'b migration_db \<Rightarrow> pystr \<Rightarrow> migration list \<Rightarrow> ('b database, history) handler" where
  "applied_history C schema ms =
     bindH (registry_kind C schema) (\<lambda>kind. case kind of
       None \<Rightarrow> bootstrap C schema ms
     | Some k \<Rightarrow>
       rejectH (k \<noteq> S ''r'') MigrationError ''migration registry exists but is not an ordinary table''
      (bindH (verify_registry_shape C schema) (\<lambda>_.
       bindH read_applied (\<lambda>applied.
       bindH (catalog_call (ct_relations C schema)) (\<lambda>relations.
       rejectH (applied = [] \<and> removeAll registry_table relations \<noteq> []) MigrationError
         ''unsafe bootstrap state: an empty registry accompanies existing GAH tables''
         (returnH applied))))))"

section \<open>Installation\<close>

text \<open>The loop: a version that is applied is skipped, any other is run and recorded.\<close>

fun apply_pending :: "'b migration_db \<Rightarrow> pystr \<Rightarrow> int list \<Rightarrow> migration list \<Rightarrow> ('b database, unit) handler" where
  "apply_pending C schema done [] = returnH ()"
| "apply_pending C schema done (m # ms) =
     (if mg_version m \<in> set done then apply_pending C schema done ms
      else bindH (catalog_call (ct_set_search_path C schema)) (\<lambda>_.
           bindH (catalog_call (ct_run C (mg_sql m))) (\<lambda>_.
           bindH (insert_applied m) (\<lambda>_. apply_pending C schema (mg_version m # done) ms))))"

definition install_migrations :: "'b migration_db \<Rightarrow> migration list \<Rightarrow> ('b database, unit) handler" where
  "install_migrations C ms =
     rejectH (ct_autocommit C) MigrationError ''migration connection must not use autocommit''
    (bindH (catalog_call (ct_current_schema C)) (\<lambda>current.
     rejectH (current \<noteq> Some (S ''public'')) MigrationError
       ''governed-agent-harness migrations require current_schema() = public''
    (bindH (catalog_call (ct_lock C MIGRATION_LOCK_KEY)) (\<lambda>_.
     bindH (applied_history C (S ''public'') ms) (\<lambda>applied.
     bindH (liftH (verify_applied applied ms)) (\<lambda>_.
       apply_pending C (S ''public'') (map fst applied) ms))))))"

text \<open>The \<open>with\<close> block commits on success and rolls back when an exception leaves it.\<close>

definition apply_migrations :: "package \<Rightarrow> 'b migration_db \<Rightarrow> ('b database, migration list) handler" where
  "apply_migrations K C =
     bindH (liftH (discover_migrations K)) (\<lambda>ms s.
       case install_migrations C ms s of
         (Inl e, t) \<Rightarrow> (Inl e, s)
       | (Inr u, t) \<Rightarrow> (Inr ms, t))"

end
