(* ===== verification/Migration_Facts.thy ===== *)
theory Migration_Facts
  imports Migrations "HOL-Library.Multiset"
begin

text \<open>
  Facts about the installation of migrations: which steps leave the registry alone, what the
  history they read is, and what the loop over the pending migrations adds to it.
\<close>

section \<open>Steps that leave the registry alone\<close>

definition same_registry :: "'b database \<Rightarrow> 'b database \<Rightarrow> bool" where
  "same_registry s t \<longleftrightarrow> registry t = registry s"

lemma same_registry_order: "reflp same_registry" "transp same_registry"
  by (auto simp: same_registry_def reflp_def transp_def)

lemma keeps_catalog_call: "keeps same_registry (catalog_call m)"
  by (auto simp: keeps_def catalog_call_def same_registry_def split: prod.splits)

lemmas registry_frame = keeps_bindH [OF same_registry_order(2)] keeps_pure [OF same_registry_order(1)]
  keeps_rejectH [OF same_registry_order(1)] keeps_attemptH keeps_catalog_call

lemma keeps_current_user: "keeps same_registry (current_user C)"
  unfolding current_user_def by (intro registry_frame) (auto intro: registry_frame split: option.splits)

lemma keeps_shape: "keeps same_registry (verify_registry_shape C schema)"
  unfolding verify_registry_shape_def
  by (intro registry_frame) (auto intro!: registry_frame keeps_current_user split: option.splits prod.splits)

lemma keeps_legacy: "keeps same_registry (matches_legacy_v1 C schema m)"
  unfolding matches_legacy_v1_def by (intro registry_frame)

lemma registry_kept: "keeps same_registry m \<Longrightarrow> m s = (r, t) \<Longrightarrow> registry t = registry s"
  by (auto dest: keepsD simp: same_registry_def)

lemmas registry_catalog_call = registry_kept [OF keeps_catalog_call]
lemmas registry_shape = registry_kept [OF keeps_shape]
lemmas registry_legacy = registry_kept [OF keeps_legacy]

section \<open>The history that is read\<close>

definition key_of :: "migration \<Rightarrow> int \<times> pystr" where
  "key_of m = (mg_version m, mg_checksum m)"

lemma insert_applied_Inr:
  "insert_applied m s = (Inr u, t) \<longleftrightarrow>
     (\<exists>h. registry s = Some h \<and> mg_version m \<notin> fst ` set h \<and> checksum_format (mg_checksum m) \<and>
        t = s\<lparr> registry := Some (h @ [key_of m]) \<rparr>)"
  by (auto simp: insert_applied_def key_of_def split: option.splits if_splits)

lemma create_registry_Inr:
  "create_registry s = (Inr u, t) \<longleftrightarrow> registry s = None \<and> t = s\<lparr> registry := Some [] \<rparr>"
  by (auto simp: create_registry_def split: option.splits)

text \<open>The registry a history was read from; rows that were there are still there, in place.\<close>

definition reads_history :: "'b database \<Rightarrow> history \<Rightarrow> 'b database \<Rightarrow> bool" where
  "reads_history s applied t \<longleftrightarrow> (\<exists>h. registry t = Some h \<and> mset applied = mset h \<and>
     (case registry s of None \<Rightarrow> True | Some h0 \<Rightarrow> h = h0))"

lemma legacy_or_first:
  "(if b then returnH False else matches_legacy_v1 C schema m) s = (r, t) \<Longrightarrow> registry t = registry s"
  by (auto simp: returnH_iff dest: registry_legacy split: if_splits)

lemma bootstrap_inv:
  assumes "bootstrap C schema ms s = (Inr applied, t)"
  shows "registry s = None \<and> reads_history s applied t"
proof -
  obtain relations s1 where rel: "catalog_call (ct_relations C schema) s = (Inr relations, s1)"
    using assms by (auto simp: bootstrap_def bindH_Inr_iff)
  note s1 = registry_catalog_call [OF rel]
  show ?thesis
  proof (cases "relations = []")
    case True
    then show ?thesis using assms rel s1
      by (auto simp: bootstrap_def bindH_Inr_iff returnH_iff create_registry_Inr reads_history_def)
  next
    case False
    then obtain m ms' where ms: "ms = m # ms'" using assms rel
      by (cases ms) (auto simp: bootstrap_def bindH_Inr_iff rejectH_Inr_iff raiseH_iff)
    obtain ok s2 s3 u where ok: "(if mg_version m \<noteq> 1 then returnH False else matches_legacy_v1 C schema m) s1 = (Inr ok, s2)"
        and 1: "create_registry s2 = (Inr u, s3)" and 2: "insert_applied m s3 = (Inr u, t)" and 3: "applied = [key_of m]"
      using assms rel False unfolding ms bootstrap_def key_of_def
      by (auto simp: bindH_Inr_iff rejectH_Inr_iff returnH_iff)
    show ?thesis using 1 2 3 legacy_or_first [OF ok] s1
      by (auto simp: create_registry_Inr insert_applied_Inr reads_history_def)
  qed
qed

text \<open>Reading a registry that exists.\<close>

lemma read_existing:
  assumes "bindH (verify_registry_shape C schema) (\<lambda>_. bindH read_applied (\<lambda>applied.
       bindH (catalog_call (ct_relations C schema)) (\<lambda>relations.
       rejectH (applied = [] \<and> removeAll registry_table relations \<noteq> []) MigrationError
         ''unsafe bootstrap state: an empty registry accompanies existing GAH tables''
         (returnH applied)))) s = (Inr applied, t)"
  shows "registry s \<noteq> None \<and> reads_history s applied t"
proof -
  obtain u s1 s2 relations where 1: "verify_registry_shape C schema s = (Inr u, s1)"
      and 2: "read_applied s1 = (Inr applied, s2)" and 3: "catalog_call (ct_relations C schema) s2 = (Inr relations, t)"
    using assms by (auto simp only: bindH_Inr_iff rejectH_Inr_iff returnH_iff prod.inject sum.inject)
  show ?thesis using 2 registry_shape [OF 1] registry_catalog_call [OF 3]
    by (auto simp: read_applied_def reads_history_def split: option.splits)
qed

lemma applied_history_inv:
  assumes "applied_history C schema ms s = (Inr applied, t)"
  shows "reads_history s applied t"
proof -
  obtain kind s1 where kind: "registry_kind C schema s = (Inr kind, s1)"
      and rest: "(case kind of None \<Rightarrow> bootstrap C schema ms
     | Some k \<Rightarrow>
       rejectH (k \<noteq> S ''r'') MigrationError ''migration registry exists but is not an ordinary table''
      (bindH (verify_registry_shape C schema) (\<lambda>_. bindH read_applied (\<lambda>applied.
       bindH (catalog_call (ct_relations C schema)) (\<lambda>relations.
       rejectH (applied = [] \<and> removeAll registry_table relations \<noteq> []) MigrationError
         ''unsafe bootstrap state: an empty registry accompanies existing GAH tables''
         (returnH applied)))))) s1 = (Inr applied, t)"
    using assms unfolding applied_history_def bindH_Inr_iff [of "registry_kind C schema"] by blast
  have s1: "registry s1 = registry s" using kind
    by (auto simp: registry_kind_def bindH_Inr_iff getH_iff returnH_iff dest: registry_catalog_call split: option.splits)
  have "reads_history s1 applied t" using rest
    by (cases kind) (auto simp: rejectH_Inr_iff dest: bootstrap_inv read_existing)
  then show ?thesis using s1 by (simp add: reads_history_def)
qed

section \<open>The loop\<close>

lemma apply_pending_inv:
  assumes "apply_pending C schema seen ms s = (Inr u, t)" "registry s = Some h" "distinct (map mg_version ms)"
  shows "registry t = Some (h @ map key_of (filter (\<lambda>m. mg_version m \<notin> set seen) ms))"
  using assms
proof (induction ms arbitrary: seen s h)
  case (Cons m ms)
  show ?case
  proof (cases "mg_version m \<in> set seen")
    case True
    then show ?thesis using Cons by simp
  next
    case False
    then obtain u1 s1 u2 s2 u3 s3 where
        1: "catalog_call (ct_set_search_path C schema) s = (Inr u1, s1)"
        and 2: "catalog_call (ct_run C (mg_sql m)) s1 = (Inr u2, s2)" and 3: "insert_applied m s2 = (Inr u3, s3)"
        and 4: "apply_pending C schema (mg_version m # seen) ms s3 = (Inr u, t)"
      using Cons.prems(1) by (auto simp: bindH_Inr_iff)
    have "registry s3 = Some (h @ [key_of m])"
      using 3 registry_catalog_call [OF 1] registry_catalog_call [OF 2] Cons.prems(2) by (auto simp: insert_applied_Inr)
    from Cons.IH [OF 4 this] Cons.prems(3)
    have "registry t = Some ((h @ [key_of m]) @ map key_of (filter (\<lambda>m'. mg_version m' \<notin> set (mg_version m # seen)) ms))"
      by simp
    moreover have "filter (\<lambda>m'. mg_version m' \<notin> set (mg_version m # seen)) ms = filter (\<lambda>m'. mg_version m' \<notin> set seen) ms"
      using Cons.prems(3) by (intro filter_cong) (auto intro: rev_image_eqI)
    ultimately show ?thesis using False by simp
  qed
qed (simp add: returnH_iff)

lemma verify_applied_inv:
  assumes "verify_applied applied ms = Inr ()"
  shows "distinct (map fst applied)" "set applied \<subseteq> key_of ` set ms"
proof -
  have v: "map fst applied = map int [1..<Suc (length applied)]"
    using assms unfolding verify_applied_def seqE_Inr_iff by (simp add: deny_Inr_iff)
  then show "distinct (map fst applied)" by (simp add: distinct_map inj_on_def)
  show "set applied \<subseteq> key_of ` set ms"
  proof
    fix x
    assume x: "x \<in> set applied"
    obtain v c where vc: "x = (v, c)" by (cases x)
    have "(case find (\<lambda>m. mg_version m = v) ms of
        None \<Rightarrow> Inl (Exc MigrationError ''database contains unknown migration version'')
      | Some m \<Rightarrow> migration_fail (c \<noteq> mg_checksum m) ''migration checksum drift detected'') = Inr ()"
      using assms x vc unfolding verify_applied_def seqE_Inr_iff by (auto simp: forE_Inr_iff)
    then obtain m where "find (\<lambda>m. mg_version m = v) ms = Some m" "c = mg_checksum m"
      by (auto simp: deny_Inr_iff split: option.splits)
    then show "x \<in> key_of ` set ms" using vc by (auto simp: key_of_def find_Some_iff intro!: image_eqI [of _ _ m])
  qed
qed

lemma recorded_all:
  assumes "distinct (map fst applied)" "set applied \<subseteq> key_of ` set ms" "distinct (map mg_version ms)"
  shows "mset applied + mset (map key_of (filter (\<lambda>m. mg_version m \<notin> set (map fst applied)) ms)) = mset (map key_of ms)"
proof -
  have key: "m = m'" if "m \<in> set ms" "m' \<in> set ms" "mg_version m = mg_version m'" for m m'
    using assms(3) that by (auto simp: distinct_map inj_on_def)
  have "mset applied = mset (map key_of (filter (\<lambda>m. mg_version m \<in> set (map fst applied)) ms))"
  proof (rule set_eq_iff_mset_eq_distinct [THEN iffD1])
    show "distinct applied" using assms(1) by (rule distinct_map [THEN iffD1, THEN conjunct1])
    show "distinct (map key_of (filter (\<lambda>m. mg_version m \<in> set (map fst applied)) ms))"
      using assms(3) by (auto simp: distinct_map key_of_def inj_on_def)
    show "set applied = set (map key_of (filter (\<lambda>m. mg_version m \<in> set (map fst applied)) ms))"
    proof (intro set_eqI iffI)
      fix x
      assume x: "x \<in> set applied"
      then obtain m where "m \<in> set ms" "x = key_of m" using assms(2) by blast
      then show "x \<in> set (map key_of (filter (\<lambda>m. mg_version m \<in> set (map fst applied)) ms))"
        using x by (force simp: key_of_def)
    next
      fix x
      assume "x \<in> set (map key_of (filter (\<lambda>m. mg_version m \<in> set (map fst applied)) ms))"
      then obtain m y where m: "m \<in> set ms" "x = key_of m" "y \<in> set applied" "fst y = mg_version m" by auto
      then obtain m' where m': "m' \<in> set ms" "y = key_of m'" using assms(2) by blast
      then have "mg_version m = mg_version m'" using m(4) by (simp add: key_of_def)
      then have "m = m'" using m(1) m'(1) by (rule key [rotated -1])
      then show "x \<in> set applied" using m m' by simp
    qed
  qed
  moreover have "mset (map key_of (filter P ms)) + mset (map key_of (filter (\<lambda>m. \<not> P m) ms)) = mset (map key_of ms)" for P
    by (induction ms) simp_all
  ultimately show ?thesis by metis
qed

lemma install_inv:
  assumes "install_migrations C ms s = (Inr u, t)" "distinct (map mg_version ms)"
  shows "\<exists>h. registry t = Some h \<and> mset h = mset (map key_of ms) \<and>
    (case registry s of None \<Rightarrow> True | Some h0 \<Rightarrow> \<exists>new. h = h0 @ new)"
proof -
  obtain current s1 u2 s2 applied s3 where
      1: "catalog_call (ct_current_schema C) s = (Inr current, s1)"
      and 2: "catalog_call (ct_lock C MIGRATION_LOCK_KEY) s1 = (Inr u2, s2)"
      and 3: "applied_history C (S ''public'') ms s2 = (Inr applied, s3)"
      and v: "verify_applied applied ms = Inr ()"
      and 4: "apply_pending C (S ''public'') (map fst applied) ms s3 = (Inr u, t)"
    using assms(1) unfolding install_migrations_def
    by (auto simp: bindH_Inr_iff rejectH_Inr_iff liftH_iff)
  obtain h where h: "registry s3 = Some h" "mset applied = mset h"
      "case registry s of None \<Rightarrow> True | Some h0 \<Rightarrow> h = h0"
    using applied_history_inv [OF 3] registry_catalog_call [OF 1] registry_catalog_call [OF 2]
    by (auto simp: reads_history_def)
  note t = apply_pending_inv [OF 4 h(1) assms(2)]
  have "mset (h @ map key_of (filter (\<lambda>m. mg_version m \<notin> set (map fst applied)) ms)) = mset (map key_of ms)"
    using recorded_all [OF verify_applied_inv [OF v] assms(2)] h(2) by simp
  then show ?thesis using t h(3) by (auto split: option.splits)
qed

lemma discover_inv:
  assumes "discover_migrations K = Inr ms"
  shows "map mg_version ms = map int [1..<Suc (length ms)]" "distinct (map mg_version ms)"
proof -
  obtain found where "ms = sort_key mg_version found"
      "map mg_version (sort_key mg_version found) = map int [1..<Suc (length found)]"
    using assms unfolding discover_migrations_def
    by (auto simp: bindE_Inr_iff reject_if_Inr_iff Let_def)
  then show "map mg_version ms = map int [1..<Suc (length ms)]" by simp
  then show "distinct (map mg_version ms)" by (simp add: distinct_map inj_on_def)
qed

lemma apply_migrations_cases:
  assumes "apply_migrations K C s = (r, t)"
  obtains (refused) e where "r = Inl e" "t = s"
  | (installed) ms u where "r = Inr ms" "discover_migrations K = Inr ms" "install_migrations C ms s = (Inr u, t)"
proof (cases "discover_migrations K")
  case (Inl e)
  then have "(Inl e, s) = (r, t)" using assms by (simp add: apply_migrations_def bindH_def liftH_def)
  then show ?thesis using refused by blast
next
  case found: (Inr ms)
  obtain q t' where run: "install_migrations C ms s = (q, t')" by (cases "install_migrations C ms s")
  have eq: "(case q of Inl e \<Rightarrow> (Inl e, s) | Inr u \<Rightarrow> (Inr ms, t')) = (r, t)"
    using assms found run by (cases q) (simp_all add: apply_migrations_def bindH_def liftH_def)
  show ?thesis
  proof (cases q)
    case (Inl e)
    then have "r = Inl e" "t = s" using eq by auto
    then show ?thesis by (rule refused)
  next
    case (Inr u)
    then have "r = Inr ms" "t' = t" using eq by auto
    then show ?thesis using found run Inr by (intro installed) auto
  qed
qed

end
