(* ===== verification/Migration_Properties.thy ===== *)
theory Migration_Properties
  imports Migration_Facts Examples
begin

text \<open>
  The properties of the installation of migrations, and an installation of one packaged
  migration into an empty database as their witness.
\<close>

section \<open>What an installation records\<close>

text \<open>
  C38: When applying the packaged migrations succeeds, the registry holds exactly the version
  and checksum of every packaged migration, versions are contiguous from one, every row that
  was there before is still in place, and applying the package again to a database with that
  registry leaves it unchanged.
\<close>

theorem migrations_recorded:
  assumes "apply_migrations K C s = (Inr ms, t)"
  shows "\<exists>h. registry t = Some h \<and> mset h = mset (map key_of ms) \<and>
     map mg_version ms = map int [1..<Suc (length ms)] \<and>
     (case registry s of None \<Rightarrow> True | Some h0 \<Rightarrow> \<exists>new. h = h0 @ new) \<and>
     (\<forall>C' u ms' v. registry u = registry t \<longrightarrow> apply_migrations K C' u = (Inr ms', v) \<longrightarrow> registry v = registry u)"
  using assms
proof (cases rule: apply_migrations_cases)
  case (installed ms0 u)
  note d = discover_inv [OF installed(2)]
  obtain h where h: "registry t = Some h" "mset h = mset (map key_of ms0)"
      "case registry s of None \<Rightarrow> True | Some h0 \<Rightarrow> \<exists>new. h = h0 @ new"
    using install_inv [OF installed(3) d(2)] by blast
  have "registry v = registry u'" if again: "registry u' = registry t" "apply_migrations K C' u' = (Inr ms', v)" for C' u' ms' v
    using again(2)
  proof (cases rule: apply_migrations_cases)
    case two: (installed ms1 w)
    have "ms1 = ms0" using two(2) installed(2) by simp
    then obtain h' new where "registry v = Some h'" "mset h' = mset h" "h' = h @ new"
      using install_inv [OF two(3)] d(2) again(1) h by auto
    then show ?thesis using again(1) h(1) by simp
  qed simp
  then have again: "\<forall>C' u ms' v. registry u = registry t \<longrightarrow> apply_migrations K C' u = (Inr ms', v) \<longrightarrow> registry v = registry u"
    by blast
  have "ms = ms0" using installed(1) by simp
  then show ?thesis using h d(1) again by blast
qed simp

text \<open>One packaged migration, and a database whose catalog queries answer as an empty schema does.\<close>

definition demo_package :: package where
  "demo_package = \<lparr> pk_hash = demo_hash, pk_decode = Some,
     pk_resources = [(S ''__init__.py'', []), (S ''0001_durable_effects.sql'', S ''CREATE TABLE gah_run_heads ();'')] \<rparr>"

definition empty_db :: "unit migration_db" where
  "empty_db = \<lparr> ct_autocommit = False, ct_current_schema = returnH (Some (S ''public'')), ct_lock = (\<lambda>_. returnH ()),
     ct_registry_kind = (\<lambda>_. returnH None), ct_columns = (\<lambda>_. returnH registry_columns),
     ct_constraints = (\<lambda>_. returnH registry_constraints),
     ct_security = (\<lambda>_. returnH (Some (replicate 5 False, S ''gah_schema_owner''))),
     ct_current_user = returnH (Some (S ''gah_schema_owner'')), ct_relations = (\<lambda>_. returnH []),
     ct_set_search_path = (\<lambda>_. returnH ()), ct_run = (\<lambda>_. returnH ()), ct_schema_exists = (\<lambda>_. returnH False),
     ct_create_schema = (\<lambda>_. returnH ()), ct_drop_schema = (\<lambda>_. returnH ()), ct_fingerprint = (\<lambda>_ _. returnH []) \<rparr>"

definition demo_migration :: migration where
  "demo_migration = \<lparr> mg_version = 1, mg_name = S ''0001_durable_effects.sql'',
     mg_checksum = S ''sha256:070707070707070707070707070707070707070707070707070707070707071e'',
     mg_sql = S ''CREATE TABLE gah_run_heads ();'' \<rparr>"

lemma demo_discovered: "discover_migrations demo_package = Inr [demo_migration]"
  by code_simp

lemma demo_checksum: "checksum_format (mg_checksum demo_migration)"
  by code_simp

lemma demo_installed:
  "apply_migrations demo_package empty_db \<lparr> registry = None, others = () \<rparr> =
     (Inr [demo_migration], \<lparr> registry = Some [key_of demo_migration], others = () \<rparr>)"
  using demo_checksum
  by (simp add: apply_migrations_def demo_discovered install_migrations_def empty_db_def bindH_def liftH_def returnH_def
      rejectH_def catalog_call_def applied_history_def registry_kind_def getH_def bootstrap_def create_registry_def
      verify_applied_def insert_applied_def key_of_def)

theorem migrations_recorded_witness:
  "\<exists>h. registry \<lparr> registry = Some [key_of demo_migration], others = () \<rparr> = Some h \<and>
     mset h = mset (map key_of [demo_migration])"
  using migrations_recorded [OF demo_installed] by blast

text \<open>
  C39: A database whose registry names a migration that is not in the package with the same
  version and checksum is refused: applying the package raises and leaves the database as it was.
\<close>

theorem drift_refused:
  assumes "discover_migrations K = Inr ms" "registry s = Some h" "x \<in> set h" "x \<notin> key_of ` set ms"
  shows "\<exists>e. apply_migrations K C s = (Inl e, s)"
proof -
  obtain r t where run: "apply_migrations K C s = (r, t)" by (cases "apply_migrations K C s")
  then show ?thesis
  proof (cases rule: apply_migrations_cases)
    case (installed ms0 u)
    then have "ms0 = ms" using assms(1) by simp
    then obtain h' new where "mset h' = mset (map key_of ms)" "h' = h @ new"
      using install_inv [OF installed(3)] discover_inv(2) [OF installed(2)] assms(2) by auto
    then have "set (h @ new) = key_of ` set ms" by (metis set_mset_mset set_map)
    then show ?thesis using assms(3,4) by auto
  qed (use run in auto)
qed

theorem drift_refused_witness:
  "\<exists>e. apply_migrations demo_package empty_db \<lparr> registry = Some [(1, S ''sha256:0'')], others = () \<rparr> =
     (Inl e, \<lparr> registry = Some [(1, S ''sha256:0'')], others = () \<rparr>)"
  by (rule drift_refused [OF demo_discovered, where h = "[(1, S ''sha256:0'')]" and x = "(1, S ''sha256:0'')"])
    (simp_all add: key_of_def demo_migration_def S_def)

end
