(* ===== verification/Spec2Isabelle.thy ===== *)
theory Spec2Isabelle
  imports Contract_Properties Kernel_Properties Authority_Properties Store_Properties Migration_Properties
begin

text \<open>
  A verification development of the governed agent harness, the Python package
  \<open>src/src/governed_agent_harness\<close>. The package decides whether a tool request of an agent may
  have an effect, has the effect carried out at most once, and leaves evidence of both.

  \<^bold>\<open>Parts and how they interact.\<close>
  Records are JSON objects. \<open>contracts/canonical.py\<close> gives every object canonical bytes and a
  digest; \<open>contracts/json_codec.py\<close> decodes wire records strictly; \<open>contracts/schema.py\<close> checks
  them against JSON schemas; \<open>contracts/validation.py\<close> checks digests, tenants, times, bindings
  between records, proofs and grants; \<open>contracts/models.py\<close> wraps records that passed. The kernel
  (\<open>kernel/core.py\<close>) takes a request through submission, approval, grant and execution, appends
  evidence to a ledger at every step, and hands execution to the effect broker
  (\<open>kernel/effects.py\<close>), which calls the injected executor. With a durable store
  (\<open>persistence/store.py\<close>) the same steps are transactions of a PostgreSQL database whose schema
  \<open>persistence/migration.py\<close> installs; the store also keeps governed memory.

  \<^bold>\<open>Theories.\<close>
  \<^item> \<open>Prelude\<close>, \<open>Pyval\<close>: Python text, the exception classes with their hierarchy, results
    (\<open>Inl\<close> the exception, \<open>Inr\<close> the value), dynamic values \<open>pyval\<close> with Python's equality,
    dictionaries in insertion order, and \<open>handler\<close>, the state-passing computations that raise.
  \<^item> \<open>Canonical\<close> (\<open>contracts/canonical.py\<close>), \<open>Schema\<close> (\<open>contracts/schema.py\<close>), \<open>Digests\<close>,
    \<open>Timestamps\<close>, \<open>Validation\<close> (record checks, decoding and models), \<open>Scopes\<close>, \<open>Bindings\<close>,
    \<open>Trust\<close>, \<open>Grants\<close>, \<open>Skill_Commands\<close> (the rest of \<open>contracts/validation.py\<close>).
  \<^item> \<open>Policy\<close>, \<open>Ids\<close>, \<open>Ledger\<close>, \<open>Kernel\<close> (\<open>kernel/core.py\<close>: policy sets, \<open>_Uuid7Factory\<close>, the
    evidence ledger, \<open>GovernanceKernel\<close>) and \<open>Broker\<close> (\<open>kernel/effects.py\<close>).
  \<^item> \<open>Store_Port\<close> (the protocol the kernel sees and its snapshots), \<open>Store_Checks\<close>,
    \<open>Store_Effects\<close>, \<open>Store_Lifecycle\<close>, \<open>Store\<close>, \<open>Store_Execution\<close>, \<open>Store_Memory\<close>
    (\<open>persistence/store.py\<close>, \<open>persistence/memory.py\<close>), \<open>Migrations\<close> (\<open>persistence/migration.py\<close>).
  \<^item> Facts: \<open>Canonical_Facts\<close>, \<open>Record_Facts\<close>, \<open>Authority_Facts\<close>, \<open>Handler_Logic\<close>,
    \<open>Broker_Facts\<close>, \<open>Compensation\<close>, \<open>Transition_Systems\<close>, \<open>Kernel_Machine\<close>, \<open>Kernel_Invariants\<close>,
    \<open>State_Diagram\<close>, \<open>Store_Facts\<close>, \<open>Store_Machine\<close>, \<open>Store_Effect_Facts\<close>,
    \<open>Store_Memory_Facts\<close>, \<open>Migration_Facts\<close>.
  \<^item> Properties: \<open>Contract_Properties\<close>, \<open>Authority_Properties\<close>, \<open>Kernel_Properties\<close>,
    \<open>Store_Properties\<close>, \<open>Migration_Properties\<close>; their witnesses run the concrete kernel, store and
    records of \<open>Evaluation\<close>, \<open>Examples\<close> and the \<open>Example_\<close> theories.

  \<^bold>\<open>State and operations.\<close>
  The kernel's tables, its ledger, its consumed grants and approvals and its trace of executor
  calls are one record, and each public method is a handler on it that keeps the order of the
  code's calls. Every injected callable (clock, ids, issuer, verifier, executor, ...) is a function
  of a call counter, so that it may answer differently each time and may raise. The trace logs
  \<open>Executed\<close> before the executor is called, \<open>Reverted\<close> when its \<open>revert\<close> returned and
  \<open>RevertFailed\<close> when it raised. The store's database is a state of a type of its own: reading,
  calling a SQL function, locking, opening a connection and leaving its with-block (normally or by
  an exception) are ports that may change it in any way and may raise; no theorem assumes a
  rollback, and the calls and reads are logged so that theorems can name them.

  \<^bold>\<open>What the lemmas show.\<close>
  \<^item> Contracts: canonical bytes are injective up to dictionary order; a valid digest binds the
    record; decoding refuses ambiguous input at any depth; schemas close objects and cyclic
    references are refused; one tenant per record; timestamps are read as written.
  \<^item> Authority: what an accepted signature, grant, scope chain, policy result, idempotency
    comparison, merged constraint list, skill command and generated identifier amount to.
  \<^item> Kernel without a durable store: every public call refines moves of \<open>Kernel_Machine\<close> (the
    simulation locale of \<open>Transition_Systems\<close>, interpreted on the kernel's own step function in
    \<open>State_Diagram\<close>); invariants of the moves give authorisation of every executor call, at most
    one call per request and key, the chained ledger and the forward-only records.
  \<^item> Broker: \<open>Compensation\<close> shows, in process and for the durable path, which trace of executor
    calls and reverts every result and every exception can stand for.
  \<^item> Store: a returned lifecycle is what the rows just read replay to; submissions, approvals and
    grants are labelled steps of \<open>Store_Machine\<close>, which fixes when a replay is answered, and
    lifecycles reached by the steps satisfy an invariant; executions are bound to their authority
    and end once; promotions are authorised.
  \<^item> Migrations: the registry holds exactly the packaged history, and drift is refused.

  \<^bold>\<open>Bounds and fuel.\<close>
  The schema validator and the canonical encoder recurse to depth 128 and raise beyond it, as the
  code does, so both are total functions whose measure is the remaining depth; no other recursion
  needs a bound, and no definition has fuel of its own. Identifiers are built from 12, 48 and 62
  bit fields with the code's shifts and masks. Integers of records are Python's unbounded ones,
  checked against the safe range where the code checks it.

  \<^bold>\<open>Parameters.\<close>
  SHA-256 (a function to 32 bytes; theorems that need it name the two texts on which it must not
  collide), the JSON scanner, regular expressions, \<open>urlsplit\<close> and \<open>datetime.fromisoformat\<close>, proof
  verifiers, the SQL functions and the database catalog. Hypotheses about them state documented
  behaviour only and are discharged by concrete functions in the witnesses.

  \<^bold>\<open>Not modelled.\<close>
  \<open>persistence/execution.py\<close> (admission of one built-in tool, which applies the bindings and the
  grant check modelled here to a fixed tool and stores the result through SQL functions of its
  own), \<open>persistence/skills.py\<close> (a client of SQL functions; the command it sends is checked by
  \<open>Skill_Commands\<close>), the SQL of the migrations, the role administration of \<open>install_schema\<close> and
  \<open>provision_principal\<close>, fixtures and the self check, and re-exports. Threads are interleavings of
  methods that hold the lock; a callable that re-enters the kernel is not modelled, and the
  heartbeat thread is a number of lease renewals.
\<close>

end
